(* ===== verification/Prelude.thy ===== *)
theory Prelude
  imports Main "HOL-Library.Char_ord" "HOL-Library.List_Lexorder"
begin

text \<open>
  What every component of the development shares.

  \<^item> Text.  A Rust \<open>str\<close> is a sequence of UTF-8 bytes, and the code measures it with
    \<open>str::len\<close>, so it is a \<open>string\<close> (a list of 8-bit \<open>char\<close>) here and \<open>length\<close> is
    \<open>str::len\<close>.
  \<^item> Unsigned 64-bit arithmetic where the code saturates.
  \<^item> \<open>BTreeMap\<close>: an association list in strictly ascending key order, because the code relies
    on the order in which such a map is walked (which revision is evicted, which support
    opportunity is found first).  The interface is the locale \<open>ordered_map\<close>.
  \<^item> Runs of a state machine: the locales \<open>guarded_system\<close> and \<open>history_system\<close> lift a fact about
    one operation to every sequence of operations.
\<close>

section \<open>Collections of facts\<close>

named_theorems op_defs "definitions of operations, unfolded by the component proofs"
named_theorems keeps "facts of the form: an operation keeps an invariant"

section \<open>Unsigned 64-bit arithmetic\<close>

definition u64_max :: nat where
  "u64_max = 18446744073709551615"

definition sat_add64 :: "nat \<Rightarrow> nat \<Rightarrow> nat" where
  "sat_add64 a b = min (a + b) u64_max"

lemma sat_add64_le: "sat_add64 a b \<le> u64_max"
  by (simp add: sat_add64_def)

lemma sat_add64_exact: "a + b \<le> u64_max \<Longrightarrow> sat_add64 a b = a + b"
  by (simp add: sat_add64_def)

lemma sat_add64_ge: "a \<le> u64_max \<Longrightarrow> a \<le> sat_add64 a b"
  by (simp add: sat_add64_def)

section \<open>Bytes\<close>

definition is_ascii_lowercase :: "char \<Rightarrow> bool" where
  "is_ascii_lowercase c \<longleftrightarrow> 97 \<le> (of_char c :: nat) \<and> (of_char c :: nat) \<le> 122"

definition is_ascii_uppercase :: "char \<Rightarrow> bool" where
  "is_ascii_uppercase c \<longleftrightarrow> 65 \<le> (of_char c :: nat) \<and> (of_char c :: nat) \<le> 90"

definition is_ascii_digit :: "char \<Rightarrow> bool" where
  "is_ascii_digit c \<longleftrightarrow> 48 \<le> (of_char c :: nat) \<and> (of_char c :: nat) \<le> 57"

definition is_ascii_alphanumeric :: "char \<Rightarrow> bool" where
  "is_ascii_alphanumeric c \<longleftrightarrow>
     is_ascii_lowercase c \<or> is_ascii_uppercase c \<or> is_ascii_digit c"

lemmas ascii_defs = is_ascii_lowercase_def is_ascii_uppercase_def is_ascii_digit_def
  is_ascii_alphanumeric_def

definition newline :: string where
  "newline = [CHR 0x0A]"

section \<open>Decimal numbers, as format! prints them\<close>

fun digit_char :: "nat \<Rightarrow> char" where
  "digit_char n = char_of (48 + n)"

fun decimal :: "nat \<Rightarrow> string" where
  "decimal n = (if n < 10 then [digit_char n] else decimal (n div 10) @ [digit_char (n mod 10)])"

declare decimal.simps [simp del]

lemma decimal_nonempty: "decimal n \<noteq> []"
  by (subst decimal.simps) simp

definition read_decimal :: "string \<Rightarrow> nat" where
  "read_decimal ds = foldl (\<lambda>a c. a * 10 + (of_char c - 48)) 0 ds"

lemma read_digit: "n < 10 \<Longrightarrow> (of_char (char_of (48 + n) :: char) :: nat) = 48 + n"
  by simp

lemma read_decimal_decimal: "read_decimal (decimal n) = n"
proof (induction n rule: decimal.induct)
  case (1 n)
  then show ?case
    by (cases "n < 10")
      (simp_all add: decimal.simps [of n] read_decimal_def read_digit del: of_char_of)
qed

lemma decimal_inj: "decimal m = decimal n \<Longrightarrow> m = n"
  by (metis read_decimal_decimal)

section \<open>Finite sets as the code grows them\<close>

lemma card_insert_le_Suc: "card (insert x A) \<le> Suc (card A)"
  by (cases "finite A") (simp_all add: card_insert_if)

section \<open>Searching a list\<close>

lemma find_the_one: "(\<And>x. P x \<longleftrightarrow> x = a) \<Longrightarrow> a \<in> set xs \<Longrightarrow> List.find P xs = Some a"
  by (induction xs) auto

lemma find_SomeD: "List.find P xs = Some x \<Longrightarrow> x \<in> set xs \<and> P x"
  by (auto simp: find_Some_iff)

lemma find_exists: "x \<in> set xs \<Longrightarrow> P x \<Longrightarrow> \<exists>y. List.find P xs = Some y"
  by (induction xs) auto

section \<open>Sorted maps\<close>

type_synonym ('k, 'v) btree = "('k \<times> 'v) list"

fun bt_insert :: "'k::linorder \<Rightarrow> 'v \<Rightarrow> ('k, 'v) btree \<Rightarrow> ('k, 'v) btree" where
  "bt_insert k v [] = [(k, v)]"
| "bt_insert k v (p # m) =
     (if k = fst p then (k, v) # m
      else if k < fst p then (k, v) # p # m
      else p # bt_insert k v m)"

definition bt_remove :: "'k \<Rightarrow> ('k, 'v) btree \<Rightarrow> ('k, 'v) btree" where
  "bt_remove k m = filter (\<lambda>p. fst p \<noteq> k) m"

definition bt_keys :: "('k, 'v) btree \<Rightarrow> 'k list" where
  "bt_keys m = map fst m"

definition bt_values :: "('k, 'v) btree \<Rightarrow> 'v list" where
  "bt_values m = map snd m"

definition bt_ok :: "('k::linorder, 'v) btree \<Rightarrow> bool" where
  "bt_ok m \<longleftrightarrow> sorted_wrt (<) (bt_keys m)"

definition bt_has :: "('k, 'v) btree \<Rightarrow> 'k \<Rightarrow> bool" where
  "bt_has m k \<longleftrightarrow> k \<in> set (bt_keys m)"

lemma bt_keys_simps [simp]:
  "bt_keys [] = []"
  "bt_keys (p # m) = fst p # bt_keys m"
  "length (bt_keys m) = length m"
  by (simp_all add: bt_keys_def)

lemma set_bt_keys_insert [simp]: "set (bt_keys (bt_insert k v m)) = insert k (set (bt_keys m))"
proof (induction m)
  case Nil
  show ?case by simp
next
  case (Cons p m)
  then show ?case by (cases p) auto
qed

lemma bt_ok_insert: "bt_ok m \<Longrightarrow> bt_ok (bt_insert k v m)"
proof (induction m)
  case Nil
  then show ?case by (simp add: bt_ok_def)
next
  case (Cons p m)
  obtain a b where p: "p = (a, b)" by (cases p)
  from Cons.prems have above: "\<forall>x \<in> set (bt_keys m). a < x" and "bt_ok m"
    by (simp_all add: bt_ok_def p)
  from this(2) have "bt_ok (bt_insert k v m)" by (rule Cons.IH)
  with above \<open>bt_ok m\<close> show ?case
    by (auto simp: bt_ok_def p intro: less_trans)
qed

lemma bt_ok_remove: "bt_ok m \<Longrightarrow> bt_ok (bt_remove k m)"
  unfolding bt_ok_def bt_keys_def bt_remove_def
  by (induction m) auto

lemma set_bt_keys_remove [simp]: "set (bt_keys (bt_remove k m)) = set (bt_keys m) - {k}"
  by (auto simp: bt_keys_def bt_remove_def)

lemma map_of_bt_insert: "bt_ok m \<Longrightarrow> map_of (bt_insert k v m) = (map_of m)(k \<mapsto> v)"
proof (induction m)
  case Nil
  then show ?case by simp
next
  case (Cons p m)
  then have "bt_ok m" by (simp add: bt_ok_def)
  with Cons show ?case
    by (cases p) (auto simp: fun_eq_iff)
qed

lemma map_of_bt_remove: "map_of (bt_remove k m) = (map_of m)(k := None)"
  unfolding bt_remove_def by (induction m) (auto simp: fun_eq_iff)

lemma bt_ok_distinct: "bt_ok m \<Longrightarrow> distinct (bt_keys m)"
  by (simp add: bt_ok_def strict_sorted_iff)

lemma length_bt_card: "bt_ok m \<Longrightarrow> length m = card (set (bt_keys m))"
  by (metis bt_keys_simps(3) bt_ok_distinct distinct_card)

lemma bt_has_map_of: "bt_has m k \<longleftrightarrow> (\<exists>v. map_of m k = Some v)"
  by (simp add: bt_has_def bt_keys_def flip: dom_map_of_conv_image_fst) (simp add: dom_def)

lemma bt_has_set: "bt_has m k \<longleftrightarrow> k \<in> set (bt_keys m)"
  by (simp add: bt_has_def)

section \<open>The interface of a sorted map\<close>

text \<open>
  What a client of \<open>BTreeMap\<close> relies on.  The provider's laws are the \<open>assumes\<close>; the client's
  facts (a key is bound only once, a bounded table stays bounded) are proved from them alone.
\<close>

locale ordered_map =
  fixes put :: "'k::linorder \<Rightarrow> 'v \<Rightarrow> 'm \<Rightarrow> 'm"
    and del :: "'k \<Rightarrow> 'm \<Rightarrow> 'm"
    and get :: "'m \<Rightarrow> 'k \<Rightarrow> 'v option"
    and keys :: "'m \<Rightarrow> 'k list"
    and ok :: "'m \<Rightarrow> bool"
  assumes ok_put: "ok m \<Longrightarrow> ok (put k v m)"
    and ok_del: "ok m \<Longrightarrow> ok (del k m)"
    and get_put: "ok m \<Longrightarrow> get (put k v m) = (get m)(k \<mapsto> v)"
    and get_del: "ok m \<Longrightarrow> get (del k m) = (get m)(k := None)"
    and set_keys: "ok m \<Longrightarrow> set (keys m) = dom (get m)"
    and sorted_keys: "ok m \<Longrightarrow> sorted_wrt (<) (keys m)"
begin

lemma distinct_keys: "ok m \<Longrightarrow> distinct (keys m)"
  using sorted_keys by (simp add: strict_sorted_iff)

lemma size_card: "ok m \<Longrightarrow> length (keys m) = card (dom (get m))"
  by (metis distinct_card distinct_keys set_keys)

lemma finite_dom: "ok m \<Longrightarrow> finite (dom (get m))"
  by (metis List.finite_set set_keys)

lemma size_put_new:
  assumes "ok m" and "get m k = None"
  shows "length (keys (put k v m)) = Suc (length (keys m))"
proof -
  have "k \<notin> dom (get m)" using assms(2) by auto
  with assms(1) show ?thesis
    by (simp add: size_card ok_put get_put finite_dom)
qed

lemma size_put_old:
  assumes "ok m" and "get m k \<noteq> None"
  shows "length (keys (put k v m)) = length (keys m)"
proof -
  have "insert k (dom (get m)) = dom (get m)" using assms(2) by auto
  with assms(1) show ?thesis
    by (simp add: size_card ok_put get_put)
qed

lemma size_del_old:
  assumes "ok m" and "get m k \<noteq> None"
  shows "Suc (length (keys (del k m))) = length (keys m)"
proof -
  have k: "k \<in> dom (get m)" using assms(2) by auto
  have fin: "finite (dom (get m))" using assms(1) by (rule finite_dom)
  have "dom (get (del k m)) = dom (get m) - {k}"
    using assms(1) by (auto simp: get_del)
  moreover have "Suc (card (dom (get m) - {k})) = card (dom (get m))"
    using card.remove [OF fin k] by simp
  ultimately show ?thesis using assms(1) by (simp add: size_card ok_del)
qed

lemma size_put_le: "ok m \<Longrightarrow> length (keys (put k v m)) \<le> Suc (length (keys m))"
  by (cases "get m k") (simp_all add: size_put_new size_put_old)

lemma bounded_put:
  assumes "ok m" and "length (keys m) < n"
  shows "length (keys (put k v m)) \<le> n"
  using size_put_le [OF assms(1), of k v] assms(2) by linarith

lemma evict_then_put:
  assumes "ok m" and "get m old \<noteq> None" and "length (keys m) \<le> n"
  shows "length (keys (put k v (del old m))) \<le> n"
  using size_put_le [OF ok_del [OF assms(1)], of k v old] size_del_old [OF assms(1,2)] assms(3)
  by linarith

end

interpretation bt: ordered_map bt_insert bt_remove map_of bt_keys bt_ok
proof unfold_locales
  fix m :: "('k::linorder, 'v) btree" and k v
  assume ok: "bt_ok m"
  show "bt_ok (bt_insert k v m)" using ok by (rule bt_ok_insert)
  show "bt_ok (bt_remove k m)" using ok by (rule bt_ok_remove)
  show "map_of (bt_insert k v m) = (map_of m)(k \<mapsto> v)" using ok by (rule map_of_bt_insert)
  show "map_of (bt_remove k m) = (map_of m)(k := None)" by (rule map_of_bt_remove)
  show "set (bt_keys m) = dom (map_of m)" by (simp add: bt_keys_def dom_map_of_conv_image_fst)
  show "sorted_wrt (<) (bt_keys m)" using ok by (simp add: bt_ok_def)
qed

lemmas bt_length_new = bt.size_put_new [simplified]
  and bt_length_old = bt.size_put_old [simplified]
  and bt_length_del = bt.size_del_old [simplified]

section \<open>Runs of a state machine\<close>

text \<open>
  A component is a step function over a state and an event.  \<open>inv\<close> is its well-formedness,
  \<open>past\<close> relates a state to a later one: what may never be undone (an outcome, a frozen
  revision, a counter that only grows).
\<close>

locale guarded_system =
  fixes step :: "'e \<Rightarrow> 's \<Rightarrow> 's"
    and inv :: "'s \<Rightarrow> bool"
  assumes step_inv: "inv s \<Longrightarrow> inv (step e s)"
begin

lemma run_inv: "inv s \<Longrightarrow> inv (fold step es s)"
  by (induction es arbitrary: s) (simp_all add: step_inv)

end

locale history_system = guarded_system step inv
  for step :: "'e \<Rightarrow> 's \<Rightarrow> 's" and inv :: "'s \<Rightarrow> bool" +
  fixes past :: "'s \<Rightarrow> 's \<Rightarrow> bool"
  assumes past_refl: "past s s"
    and past_trans: "past s t \<Longrightarrow> past t u \<Longrightarrow> past s u"
    and step_past: "inv s \<Longrightarrow> past s (step e s)"
begin

lemma run_past: "inv s \<Longrightarrow> past s (fold step es s)"
proof (induction es arbitrary: s)
  case Nil
  show ?case by (simp add: past_refl)
next
  case (Cons e es)
  have "past s (step e s)" using Cons.prems by (rule step_past)
  moreover have "past (step e s) (fold step es (step e s))"
    using Cons.prems by (intro Cons.IH step_inv)
  ultimately show ?case by (auto intro: past_trans)
qed

lemma prefix_past: "inv s \<Longrightarrow> past (fold step es s) (fold step (es @ fs) s)"
  by (simp add: run_past run_inv)

end

text \<open>A machine that reports as it moves: the reports of a run, in order, after its last state.\<close>

fun emit_run :: "('e \<Rightarrow> 's \<Rightarrow> 's \<times> 'o list) \<Rightarrow> 'e list \<Rightarrow> 's \<Rightarrow> 's \<times> 'o list" where
  "emit_run step [] s = (s, [])"
| "emit_run step (e # es) s =
     (let (t, now) = step e s; (u, later) = emit_run step es t in (u, now @ later))"

locale emitting_system =
  fixes step :: "'e \<Rightarrow> 's \<Rightarrow> 's \<times> 'o list"
    and inv :: "'s \<Rightarrow> bool"
    and good :: "'o \<Rightarrow> bool"
  assumes step_inv: "inv s \<Longrightarrow> inv (fst (step e s))"
    and step_good: "inv s \<Longrightarrow> list_all good (snd (step e s))"
begin

lemma run_ok: "inv s \<Longrightarrow> inv (fst (emit_run step es s)) \<and> list_all good (snd (emit_run step es s))"
proof (induction es arbitrary: s)
  case (Cons e es)
  from Cons.IH [OF step_inv [OF Cons.prems, of e]] step_good [OF Cons.prems, of e]
  show ?case by (simp add: case_prod_beta)
qed simp

end

end
