(* ===== verification/Text.thy ===== *)
theory Text
  imports Prelude
begin

text \<open>
  The part of Rust's \<open>str\<close> and \<open>char\<close> the modelled code uses, on UTF-8 byte sequences.  A
  character is the byte sequence that encodes it, so \<open>utf8_chars\<close> cuts a text into characters
  and \<open>concat\<close> puts it back together (\<open>concat_utf8_chars\<close>); \<open>code_point\<close> reads its number.
  \<open>char::is_alphabetic\<close> is a table of the Unicode database and is a parameter where it is used.
\<close>

section \<open>Characters\<close>

definition is_cont :: "char \<Rightarrow> bool" where
  "is_cont c \<longleftrightarrow> 128 \<le> (of_char c :: nat) \<and> (of_char c :: nat) < 192"

function utf8_chars :: "string \<Rightarrow> string list" where
  "utf8_chars [] = []"
| "utf8_chars (c # cs) = (c # takeWhile is_cont cs) # utf8_chars (dropWhile is_cont cs)"
  by pat_completeness auto
termination
  by (relation "measure length") (auto simp: length_dropWhile_le le_imp_less_Suc)

lemma concat_utf8_chars [simp]: "concat (utf8_chars s) = s"
  by (induction s rule: utf8_chars.induct) simp_all

lemma utf8_chars_nonempty: "c \<in> set (utf8_chars s) \<Longrightarrow> c \<noteq> []"
  by (induction s rule: utf8_chars.induct) auto

fun code_point :: "string \<Rightarrow> nat" where
  "code_point [] = 0"
| "code_point (c # cs) =
     (let n = (of_char c :: nat);
          lead = (if n < 128 then n else if n < 224 then n mod 32
                  else if n < 240 then n mod 16 else n mod 8)
      in foldl (\<lambda>a d. a * 64 + (of_char d :: nat) mod 64) lead cs)"

definition is_whitespace :: "string \<Rightarrow> bool" where
  "is_whitespace ch = (let n = code_point ch in
     9 \<le> n \<and> n \<le> 13 \<or> n = 32 \<or> n = 133 \<or> n = 160 \<or> n = 5760 \<or> 8192 \<le> n \<and> n \<le> 8202
     \<or> n = 8232 \<or> n = 8233 \<or> n = 8239 \<or> n = 8287 \<or> n = 12288)"

definition is_control :: "string \<Rightarrow> bool" where
  "is_control ch = (let n = code_point ch in n < 32 \<or> 127 \<le> n \<and> n < 160)"

definition is_ascii_alphabetic :: "string \<Rightarrow> bool" where
  "is_ascii_alphabetic ch = (let n = code_point ch in
     65 \<le> n \<and> n \<le> 90 \<or> 97 \<le> n \<and> n \<le> 122)"

section \<open>Slices\<close>

definition str_trim :: "string \<Rightarrow> string" where
  "str_trim s = concat (rev (dropWhile is_whitespace (rev (dropWhile is_whitespace (utf8_chars s)))))"

fun strip_prefix :: "string \<Rightarrow> string \<Rightarrow> string option" where
  "strip_prefix [] s = Some s"
| "strip_prefix (p # ps) [] = None"
| "strip_prefix (p # ps) (c # s) = (if c = p then strip_prefix ps s else None)"

definition starts_with :: "string \<Rightarrow> string \<Rightarrow> bool" where
  "starts_with p s \<longleftrightarrow> strip_prefix p s \<noteq> None"

lemma strip_prefix_Some: "strip_prefix p s = Some r \<longleftrightarrow> s = p @ r"
  by (induction p s rule: strip_prefix.induct) auto

lemma strip_prefix_append [simp]: "strip_prefix p (p @ r) = Some r"
  by (simp add: strip_prefix_Some)

lemma starts_with_iff: "starts_with p s \<longleftrightarrow> (\<exists>r. s = p @ r)"
  unfolding starts_with_def using strip_prefix_Some by (metis option.exhaust option.simps(3))

text \<open>\<open>str::find\<close> of a non-empty pattern: where it first starts.\<close>

fun find_sub :: "string \<Rightarrow> string \<Rightarrow> nat option" where
  "find_sub p [] = (if p = [] then Some 0 else None)"
| "find_sub p (c # s) =
     (if starts_with p (c # s) then Some 0 else map_option Suc (find_sub p s))"

definition str_contains :: "string \<Rightarrow> string \<Rightarrow> bool" where
  "str_contains p s \<longleftrightarrow> find_sub p s \<noteq> None"

lemma find_sub_bound: "find_sub p s = Some i \<Longrightarrow> i + length p \<le> length s"
proof (induction p s arbitrary: i rule: find_sub.induct)
  case (1 p)
  then show ?case by (simp split: if_splits)
next
  case (2 p c s)
  show ?case
  proof (cases "starts_with p (c # s)")
    case True
    then obtain r where r: "c # s = p @ r" by (auto simp: starts_with_iff)
    have "length p \<le> length (c # s)" unfolding r by simp
    with True 2 show ?thesis by simp
  next
    case False
    with 2 show ?thesis by auto
  qed
qed

lemma find_sub_split:
  "find_sub p s = Some i \<Longrightarrow> \<exists>r. s = take i s @ p @ r"
proof (induction p s arbitrary: i rule: find_sub.induct)
  case (1 p)
  then show ?case by (simp split: if_splits)
next
  case (2 p c s)
  show ?case
  proof (cases "starts_with p (c # s)")
    case True
    with 2 show ?thesis by (auto simp: starts_with_iff)
  next
    case False
    with 2 show ?thesis by auto
  qed
qed

text \<open>\<open>str::split\<close> at every character that satisfies the predicate.\<close>

fun split_chars :: "(string \<Rightarrow> bool) \<Rightarrow> string list \<Rightarrow> string list" where
  "split_chars p [] = [[]]"
| "split_chars p (c # cs) =
     (if p c then [] # split_chars p cs
      else (case split_chars p cs of w # ws \<Rightarrow> (c @ w) # ws | [] \<Rightarrow> [c]))"

definition str_split :: "(string \<Rightarrow> bool) \<Rightarrow> string \<Rightarrow> string list" where
  "str_split p s = split_chars p (utf8_chars s)"

fun join :: "string \<Rightarrow> string list \<Rightarrow> string" where
  "join sep [] = []"
| "join sep [x] = x"
| "join sep (x # y # zs) = x @ sep @ join sep (y # zs)"

end
