(* ===== verification/Transcript.thy ===== *)
theory Transcript
  imports Text
begin

text \<open>
  \<open>src/src/agent/transcript.rs\<close>: the transcript as the report and the prompts read it: the bounded
  tail, the turns the recognizer did not return as English, and the speaker prefixes.  The
  parameter \<open>alphabetic\<close> is \<open>char::is_alphabetic\<close>.
\<close>

definition MAX_TRANSCRIPT_BYTES :: nat where
  "MAX_TRANSCRIPT_BYTES = 60000"

definition UNRECOGNIZED_TURN :: string where
  "UNRECOGNIZED_TURN = ''(this turn was not recognized as English and is left out)''"

definition EARLIER_OMITTED :: string where
  "EARLIER_OMITTED = ''(earlier conversation omitted)''"

definition CANDIDATE_SPEAKER :: string where
  "CANDIDATE_SPEAKER = ''Candidate''"

section \<open>Turns the recognizer did not return as English\<close>

definition latin_letter :: "string \<Rightarrow> bool" where
  "latin_letter ch = (let n = code_point ch in
     is_ascii_alphabetic ch \<or> 192 \<le> n \<and> n \<le> 591 \<or> 7680 \<le> n \<and> n \<le> 7935)"

definition mostly_non_latin :: "(string \<Rightarrow> bool) \<Rightarrow> string \<Rightarrow> bool" where
  "mostly_non_latin alphabetic speech =
     (let letters = filter alphabetic (utf8_chars speech);
          (latin, other) = foldl (\<lambda>(latin, other) ch.
             if latin_letter ch then (latin + 1, other) else (latin, other + 1)) (0 :: nat, 0 :: nat)
             letters
      in other > latin \<and> other > 2)"

definition is_unrecognized_speech :: "(string \<Rightarrow> bool) \<Rightarrow> string \<Rightarrow> bool" where
  "is_unrecognized_speech alphabetic speech = mostly_non_latin alphabetic speech"

definition assessed_speech :: "(string \<Rightarrow> bool) \<Rightarrow> string \<Rightarrow> string" where
  "assessed_speech alphabetic speech =
     (if mostly_non_latin alphabetic speech then UNRECOGNIZED_TURN else speech)"

definition speaker_speech :: "string \<Rightarrow> string \<Rightarrow> string option" where
  "speaker_speech line speaker = Option.bind (strip_prefix speaker line) (strip_prefix '': '')"

definition candidate_speech :: "string \<Rightarrow> string option" where
  "candidate_speech line = speaker_speech line CANDIDATE_SPEAKER"

definition is_unrecognized_turn :: "(string \<Rightarrow> bool) \<Rightarrow> string \<Rightarrow> bool" where
  "is_unrecognized_turn alphabetic line =
     (case candidate_speech line of None \<Rightarrow> False | Some speech \<Rightarrow> mostly_non_latin alphabetic speech)"

definition mark_unrecognized_turns :: "(string \<Rightarrow> bool) \<Rightarrow> string list \<Rightarrow> string list" where
  "mark_unrecognized_turns alphabetic lines = map (\<lambda>line.
     if is_unrecognized_turn alphabetic line then CANDIDATE_SPEAKER @ '': '' @ UNRECOGNIZED_TURN
     else line) lines"

definition has_recognized_candidate_turn :: "(string \<Rightarrow> bool) \<Rightarrow> string list \<Rightarrow> bool" where
  "has_recognized_candidate_turn alphabetic lines = list_ex (\<lambda>line.
     case candidate_speech line of None \<Rightarrow> False
     | Some speech \<Rightarrow> \<not> mostly_non_latin alphabetic speech) lines"

section \<open>The bounded tail\<close>

text \<open>
  The loop of \<open>tail_start\<close> walks the lines from the last one; \<open>tail_scan\<close> is that loop over the
  reversed list, \<open>n\<close> the number of lines not yet walked.
\<close>

fun tail_scan :: "string list \<Rightarrow> nat \<Rightarrow> nat \<Rightarrow> nat" where
  "tail_scan [] n budget = 0"
| "tail_scan (line # rest) n budget =
     (if length line + 1 \<le> budget then tail_scan rest (n - 1) (budget - (length line + 1)) else n)"

definition tail_start :: "string list \<Rightarrow> nat \<Rightarrow> nat" where
  "tail_start lines budget = tail_scan (rev lines) (length lines) budget"

fun char_suffixes :: "string list \<Rightarrow> string list" where
  "char_suffixes [] = []"
| "char_suffixes (c # cs) = concat (c # cs) # char_suffixes cs"

definition tail_within :: "string \<Rightarrow> nat \<Rightarrow> string" where
  "tail_within line budget =
     (case List.find (\<lambda>suffix. length suffix \<le> budget) (char_suffixes (utf8_chars line)) of
        Some suffix \<Rightarrow> suffix | None \<Rightarrow> [])"

definition transcript_tail :: "string list \<Rightarrow> nat \<Rightarrow> string" where
  "transcript_tail lines budget =
     (let start = tail_start lines budget;
          kept = drop start lines;
          kept = (if start > 0
                  then EARLIER_OMITTED #
                    (if kept = [] then [tail_within (lines ! (start - 1)) budget] else kept)
                  else kept)
      in join newline kept)"

definition transcript_for_report :: "(string \<Rightarrow> bool) \<Rightarrow> string list \<Rightarrow> string" where
  "transcript_for_report alphabetic lines =
     transcript_tail (mark_unrecognized_turns alphabetic lines) MAX_TRANSCRIPT_BYTES"

definition report_transcript_cut :: "(string \<Rightarrow> bool) \<Rightarrow> string list \<Rightarrow> bool" where
  "report_transcript_cut alphabetic lines =
     (tail_start (mark_unrecognized_turns alphabetic lines) MAX_TRANSCRIPT_BYTES > 0)"

section \<open>What the tail keeps\<close>

definition tail_cost :: "string list \<Rightarrow> nat" where
  "tail_cost lines = (\<Sum>line\<leftarrow>lines. length line + 1)"

lemma tail_cost_simps [simp]:
  "tail_cost [] = 0"
  "tail_cost (l # ls) = length l + 1 + tail_cost ls"
  "tail_cost (ls @ ms) = tail_cost ls + tail_cost ms"
  by (simp_all add: tail_cost_def)

lemma tail_cost_rev [simp]: "tail_cost (rev ls) = tail_cost ls"
  by (induction ls) simp_all

lemma tail_scan_le: "tail_scan rest (length rest) b \<le> length rest"
  by (induction rest arbitrary: b) (auto intro: le_SucI)

lemma tail_scan_fits:
  "tail_cost (take (length rest - tail_scan rest (length rest) b) rest) \<le> b"
proof (induction rest arbitrary: b)
  case Nil
  show ?case by simp
next
  case (Cons l rest)
  show ?case
  proof (cases "length l + 1 \<le> b")
    case True
    with Cons.IH [of "b - (length l + 1)"] tail_scan_le [of rest "b - (length l + 1)"]
    show ?thesis by (simp add: Suc_diff_le)
  qed simp
qed

lemma tail_scan_maximal:
  assumes "0 < tail_scan rest (length rest) b"
  shows "b < tail_cost (take (Suc (length rest - tail_scan rest (length rest) b)) rest)"
  using assms
proof (induction rest arbitrary: b)
  case Nil
  then show ?case by simp
next
  case (Cons l rest)
  show ?case
  proof (cases "length l + 1 \<le> b")
    case True
    with Cons.prems have "0 < tail_scan rest (length rest) (b - (length l + 1))" by simp
    with Cons.IH [OF this] True tail_scan_le [of rest "b - (length l + 1)"]
    show ?thesis by (simp add: Suc_diff_le)
  qed simp
qed

lemma tail_start_le: "tail_start lines budget \<le> length lines"
  using tail_scan_le [of "rev lines"] by (simp add: tail_start_def)

lemma drop_as_rev_take: "k \<le> length xs \<Longrightarrow> drop k xs = rev (take (length xs - k) (rev xs))"
  by (simp add: take_rev)

lemma tail_start_fits: "tail_cost (drop (tail_start lines budget) lines) \<le> budget"
  using tail_scan_fits [of "rev lines" budget] tail_start_le [of lines budget]
  by (simp add: tail_start_def drop_as_rev_take)

lemma tail_start_maximal:
  assumes "0 < tail_start lines budget"
  shows "budget < tail_cost (drop (tail_start lines budget - 1) lines)"
proof -
  let ?k = "tail_start lines budget"
  have "length lines - (?k - 1) = Suc (length lines - ?k)"
    using assms tail_start_le [of lines budget] by simp
  with tail_scan_maximal [of "rev lines" budget] assms tail_start_le [of lines budget]
  show ?thesis by (simp add: tail_start_def drop_as_rev_take)
qed

lemma char_suffixes_suffix:
  "x \<in> set (char_suffixes cs) \<Longrightarrow> \<exists>ys zs. cs = ys @ zs \<and> x = concat zs"
proof (induction cs)
  case (Cons c cs)
  then show ?case
    by (auto intro: exI [where x = "[]"]) (metis append_Cons)
qed simp

lemma tail_within_bound: "length (tail_within line budget) \<le> budget"
  by (auto simp: tail_within_def find_Some_iff split: option.splits)

lemma tail_within_suffix: "\<exists>pre. line = pre @ tail_within line budget"
proof (cases "List.find (\<lambda>s. length s \<le> budget) (char_suffixes (utf8_chars line))")
  case None
  then show ?thesis by (simp add: tail_within_def)
next
  case (Some x)
  then have "x \<in> set (char_suffixes (utf8_chars line))"
    by (auto simp: find_Some_iff)
  then obtain ys zs where "utf8_chars line = ys @ zs" and x: "x = concat zs"
    using char_suffixes_suffix by blast
  then have "line = concat ys @ concat zs"
    by (metis concat_append concat_utf8_chars)
  with Some x show ?thesis by (auto simp: tail_within_def)
qed

lemma Suc_length_join: "ls \<noteq> [] \<Longrightarrow> Suc (length (join newline ls)) = tail_cost ls"
  by (induction ls rule: induct_list012) (simp_all add: newline_def)

lemma length_join_newline: "length (join newline ls) \<le> tail_cost ls"
  by (cases "ls = []") (simp_all flip: Suc_length_join)

lemma length_join_Cons: "length (join newline (l # ls)) = length l + tail_cost ls"
  using Suc_length_join [of "l # ls"] by simp

text \<open>
  The transcript tail fits: whatever the transcript, what a prompt carries is at most the
  budget plus the one line that says the opening was left out.
\<close>

theorem transcript_tail_bounded:
  "length (transcript_tail lines budget) \<le> budget + length EARLIER_OMITTED + 1"
proof -
  let ?k = "tail_start lines budget"
  have fits: "tail_cost (drop ?k lines) \<le> budget" by (rule tail_start_fits)
  have whole: "length (join newline (drop ?k lines)) \<le> budget"
    using length_join_newline [of "drop ?k lines"] fits by linarith
  have one: "length (join newline [EARLIER_OMITTED, tail_within l budget])
      \<le> budget + length EARLIER_OMITTED + 1" for l
    using tail_within_bound [of l budget] by (simp add: newline_def)
  have many: "length (join newline (EARLIER_OMITTED # drop ?k lines))
      \<le> budget + length EARLIER_OMITTED + 1"
    using length_join_Cons [of EARLIER_OMITTED "drop ?k lines"] fits by linarith
  show ?thesis
    unfolding transcript_tail_def Let_def using whole one many by (auto split: if_splits)
qed

text \<open>
  The tail is the longest one: the lines kept are a suffix of the transcript that the budget
  pays for, separators included, and one more line would not have been paid for.
\<close>

theorem tail_start_longest:
  "tail_start lines budget \<le> length lines
   \<and> tail_cost (drop (tail_start lines budget) lines) \<le> budget
   \<and> (\<forall>k < tail_start lines budget. budget < tail_cost (drop k lines))"
proof -
  let ?s = "tail_start lines budget"
  have "budget < tail_cost (drop k lines)" if k: "k < ?s" for k
  proof -
    have "drop k lines = take (?s - 1 - k) (drop k lines) @ drop (?s - 1) lines"
      using k by (metis (no_types, lifting) add.commute append_take_drop_id drop_drop
          le_add_diff_inverse2 less_Suc_eq_le Suc_pred' less_nat_zero_code neq0_conv)
    then have "tail_cost (drop (?s - 1) lines) \<le> tail_cost (drop k lines)"
      by (metis tail_cost_simps(3) le_add2)
    with tail_start_maximal [of lines budget] k show ?thesis by simp
  qed
  then show ?thesis using tail_start_le tail_start_fits by blast
qed

theorem tail_start_longest_witness:
  "7 < tail_cost (drop 0 [''You: abc'', ''Me: hi''])"
proof -
  have "tail_start [''You: abc'', ''Me: hi''] 7 = 1" by code_simp
  with tail_start_longest [of "[''You: abc'', ''Me: hi'']" 7] show ?thesis by simp
qed

section \<open>What marking keeps\<close>

lemma speaker_speech_Some:
  "speaker_speech line speaker = Some speech \<longleftrightarrow> line = speaker @ '': '' @ speech"
  unfolding speaker_speech_def by (auto simp: bind_eq_Some_conv strip_prefix_Some)

lemma candidate_speech_own [simp]:
  "candidate_speech (CANDIDATE_SPEAKER @ '': '' @ speech) = Some speech"
  using speaker_speech_Some by (simp add: candidate_speech_def)

end
