(* ===== verification/Calendar.thy ===== *)
theory Calendar
  imports Prelude
begin

text \<open>
  \<open>rfc3339\<close> of \<open>src/src/delivery.rs\<close>: epoch seconds as a UTC timestamp.  Rust's \<open>div_euclid\<close> and
  \<open>rem_euclid\<close> by a positive number are \<open>div\<close> and \<open>mod\<close> on \<open>int\<close>; its \<open>/\<close> and \<open>%\<close> agree with them
  here, because everything they are applied to is non-negative (\<open>civil_parts_nonneg\<close>).
\<close>

section \<open>The conversion\<close>

definition day_of_era :: "int \<Rightarrow> int" where
  "day_of_era days = (days + 719468) mod 146097"

definition era_of :: "int \<Rightarrow> int" where
  "era_of days = (days + 719468) div 146097"

definition year_of_era :: "int \<Rightarrow> int" where
  "year_of_era doe = (doe - doe div 1460 + doe div 36524 - doe div 146096) div 365"

definition day_of_year :: "int \<Rightarrow> int" where
  "day_of_year doe = (let yoe = year_of_era doe in doe - (365 * yoe + yoe div 4 - yoe div 100))"

text \<open>Year, month and day of the day that is \<open>days\<close> days after 1970-01-01.\<close>

definition civil_from_days :: "int \<Rightarrow> int \<times> int \<times> int" where
  "civil_from_days days =
     (let doe = day_of_era days;
          year = year_of_era doe + era_of days * 400;
          doy = day_of_year doe;
          shifted_month = (5 * doy + 2) div 153;
          day = doy - (153 * shifted_month + 2) div 5 + 1;
          month = (if shifted_month < 10 then shifted_month + 3 else shifted_month - 9);
          year = (if month \<le> 2 then year + 1 else year)
      in (year, month, day))"

definition show_padded :: "nat \<Rightarrow> int \<Rightarrow> string" where
  "show_padded width n =
     (let digits = decimal (nat \<bar>n\<bar>); sign = (if n < 0 then ''-'' else [])
      in sign @ replicate (width - length sign - length digits) (CHR ''0'') @ digits)"

definition rfc3339 :: "int \<Rightarrow> string" where
  "rfc3339 epoch_seconds =
     (let days = epoch_seconds div 86400;
          seconds = epoch_seconds mod 86400;
          (year, month, day) = civil_from_days days
      in show_padded 4 year @ ''-'' @ show_padded 2 month @ ''-'' @ show_padded 2 day @ ''T''
         @ show_padded 2 (seconds div 3600) @ '':'' @ show_padded 2 ((seconds mod 3600) div 60) @ '':''
         @ show_padded 2 (seconds mod 60) @ ''Z'')"

definition i64_of_u64 :: "nat \<Rightarrow> int" where
  "i64_of_u64 n = (if n < 9223372036854775808 then int n else int n - 18446744073709551616)"

section \<open>The Gregorian calendar\<close>

text \<open>The calendar as people state it: leap years, the length of a month, the next day.\<close>

definition leap :: "int \<Rightarrow> bool" where
  "leap y \<longleftrightarrow> y mod 4 = 0 \<and> (y mod 100 \<noteq> 0 \<or> y mod 400 = 0)"

definition month_length :: "int \<Rightarrow> int \<Rightarrow> int" where
  "month_length y m =
     (if m = 2 then (if leap y then 29 else 28)
      else if m \<in> {4, 6, 9, 11} then 30 else 31)"

definition valid_date :: "int \<times> int \<times> int \<Rightarrow> bool" where
  "valid_date d = (case d of (y, m, dd) \<Rightarrow> 1 \<le> m \<and> m \<le> 12 \<and> 1 \<le> dd \<and> dd \<le> month_length y m)"

definition next_day :: "int \<times> int \<times> int \<Rightarrow> int \<times> int \<times> int" where
  "next_day d = (case d of (y, m, dd) \<Rightarrow>
     if dd < month_length y m then (y, m, dd + 1)
     else if m < 12 then (y, m + 1, 1) else (y + 1, 1, 1))"

text \<open>
  The year that starts in March.  \<open>march_start y\<close> counts the days before year \<open>y\<close>, from the March
  that opens year 0; the leap day is the last day of such a year, when the next one is a leap year.
\<close>

definition march_start :: "int \<Rightarrow> int" where
  "march_start y = 365 * y + y div 4 - y div 100 + y div 400"

definition march_length :: "int \<Rightarrow> int" where
  "march_length y = (if leap (y + 1) then 366 else 365)"

definition in_year :: "int \<Rightarrow> int \<Rightarrow> int \<Rightarrow> bool" where
  "in_year days y d \<longleftrightarrow> days + 719468 = march_start y + d \<and> 0 \<le> d \<and> d < march_length y"

lemma div_succ:
  fixes y k :: int
  assumes "0 < k"
  shows "(y + 1) div k = y div k + (if (y + 1) mod k = 0 then 1 else 0)"
proof -
  define q r where "q = (y + 1) div k" and "r = (y + 1) mod k"
  have y: "y + 1 = k * q + r" by (simp add: q_def r_def)
  have r: "0 \<le> r" "r < k" using assms by (simp_all add: r_def)
  have "y div k = (if r = 0 then q - 1 else q)"
  proof (cases "r = 0")
    case True
    then have "y = k * (q - 1) + (k - 1)" using y by (simp add: right_diff_distrib)
    then have "y div k = q - 1" by (rule int_div_pos_eq) (use assms in simp_all)
    with True show ?thesis by simp
  next
    case False
    have "y = k * q + (r - 1)" using y by simp
    then have "y div k = q" by (rule int_div_pos_eq) (use False r in simp_all)
    with False show ?thesis by simp
  qed
  then show ?thesis unfolding q_def [symmetric] r_def [symmetric] by auto
qed

lemma mod_100_4: "(y::int) mod 100 = 0 \<Longrightarrow> y mod 4 = 0"
  unfolding mod_eq_0_iff_dvd by (rule dvd_trans [of 4 100]) simp_all

lemma mod_400_100: "(y::int) mod 400 = 0 \<Longrightarrow> y mod 100 = 0"
  unfolding mod_eq_0_iff_dvd by (rule dvd_trans [of 100 400]) simp_all

lemma march_start_succ: "march_start (y + 1) = march_start y + march_length y"
proof -
  have "(y + 1) div 4 = y div 4 + (if (y + 1) mod 4 = 0 then 1 else 0)"
    "(y + 1) div 100 = y div 100 + (if (y + 1) mod 100 = 0 then 1 else 0)"
    "(y + 1) div 400 = y div 400 + (if (y + 1) mod 400 = 0 then 1 else 0)"
    by (rule div_succ; simp)+
  then show ?thesis
    unfolding march_start_def march_length_def leap_def
    using mod_100_4 [of "y + 1"] mod_400_100 [of "y + 1"] by (smt (verit, ccfv_threshold))
qed

lemma in_year_next:
  assumes "in_year days y d"
  shows "in_year (days + 1) (if d + 1 < march_length y then y else y + 1)
           (if d + 1 < march_length y then d + 1 else 0)"
  using assms by (auto simp: in_year_def march_start_succ march_length_def)

section \<open>The conversion counts years and days right\<close>

lemma year_of_era_parts:
  assumes "0 \<le> c" "c \<le> 3" "0 \<le> b" "b \<le> 24" "0 \<le> a" "a \<le> 3" "0 \<le> d" "d \<le> 365"
    and "d = 365 \<longrightarrow> a = 3 \<and> (b < 24 \<or> c = 3)"
    and doe: "doe = 36524 * c + 1461 * b + 365 * a + d"
  shows "year_of_era doe = 100 * c + 4 * b + a"
proof -
  define e where "e = (if 24 * c + b + 365 * a + d < 1460 then 0 else 1 :: int)"
  have q1: "doe div 1460 = 25 * c + b + e"
    using assms by (intro int_div_pos_eq [of _ _ _ "24 * c + b + 365 * a + d - 1460 * e"]) (simp_all add: e_def)
  define s where "s = (if doe = 146096 then 1 else 0 :: int)"
  have top: "doe = 146096 \<longleftrightarrow> c = 3 \<and> b = 24 \<and> a = 3 \<and> d = 365"
    using assms by (intro iffI) linarith+
  have q2: "doe div 36524 = c + s"
    using assms top by (intro int_div_pos_eq [of _ _ _ "1461 * b + 365 * a + d - 36524 * s"]) (auto simp: s_def)
  have q3: "doe div 146096 = s"
    using assms top by (intro int_div_pos_eq [of _ _ _ "doe - 146096 * s"]) (auto simp: s_def)
  have n: "doe - doe div 1460 + doe div 36524 - doe div 146096 = 365 * (100 * c + 4 * b + a) + (d - e)"
    unfolding q1 q2 q3 by (simp add: doe)
  have "0 \<le> d - e" "d - e < 365"
    using assms by (auto simp: e_def)
  then show ?thesis
    unfolding year_of_era_def n by (intro int_div_pos_eq) simp_all
qed

text \<open>A year number within its era, in centuries, leap cycles and years.\<close>

lemma year_parts:
  fixes y :: int
  assumes "0 \<le> y" "y < 400"
  obtains c b a where "y = 100 * c + 4 * b + a" "0 \<le> c" "c \<le> 3" "0 \<le> b" "b \<le> 24" "0 \<le> a" "a \<le> 3"
proof -
  define r where "r = y mod 100"
  have y: "y = 100 * (y div 100) + r" by (simp add: r_def)
  have r: "0 \<le> r" "r < 100" by (simp_all add: r_def)
  have r4: "r = 4 * (r div 4) + r mod 4" by simp
  have m: "0 \<le> r mod 4" "r mod 4 < 4" by simp_all
  show ?thesis
    by (rule that [of "y div 100" "r div 4" "r mod 4"]; use assms y r r4 m in linarith)
qed

lemma era_div:
  fixes k :: int
  assumes "0 < k"
  shows "(k * E + y) div k = E + y div k" and "(k * E + y) mod k = y mod k"
  using assms by simp_all

lemma year_split:
  fixes y :: int
  shows "march_start (400 * E + y) = 146097 * E + march_start y"
    and "march_length (400 * E + y) = march_length y"
proof -
  have "(4 * (100 * E) + y) div 4 = 100 * E + y div 4" "(100 * (4 * E) + y) div 100 = 4 * E + y div 100"
    "(400 * E + y) div 400 = E + y div 400" by (rule era_div; simp)+
  then show "march_start (400 * E + y) = 146097 * E + march_start y"
    by (simp add: march_start_def)
  have "(4 * (100 * E) + (y + 1)) mod 4 = (y + 1) mod 4" "(100 * (4 * E) + (y + 1)) mod 100 = (y + 1) mod 100"
    "(400 * E + (y + 1)) mod 400 = (y + 1) mod 400" by (rule era_div; simp)+
  then show "march_length (400 * E + y) = march_length y"
    by (simp add: march_length_def leap_def add.assoc)
qed

lemma leap_parts:
  fixes a b c :: int
  assumes "leap (100 * c + 4 * b + a + 1)" "0 \<le> c" "c \<le> 3" "0 \<le> b" "b \<le> 24" "0 \<le> a" "a \<le> 3"
  shows "a = 3 \<and> (b < 24 \<or> c = 3)"
proof -
  have "(4 * (25 * c + b) + (a + 1)) mod 4 = 0"
    using assms(1) by (simp add: leap_def algebra_simps)
  then have "(a + 1) mod 4 = 0" unfolding mod_mult_self4 .
  then have a: "a = 3" using assms by presburger
  have False if "b = 24" "c \<noteq> 3"
  proof -
    have "(100 * (c + 1)) mod 400 = 0"
      using assms(1) that a by (simp add: leap_def algebra_simps)
    then obtain k where "100 * (c + 1) = 400 * k" by (auto simp: mod_eq_0_iff_dvd)
    then have "c + 1 = 4 * k" by simp
    with assms(2,3) that(2) show False by presburger
  qed
  with a assms show ?thesis by force
qed

lemma in_year_conversion:
  assumes "in_year days y d"
  shows "era_of days = y div 400" and "year_of_era (day_of_era days) = y mod 400"
    and "day_of_year (day_of_era days) = d"
proof -
  let ?E = "y div 400" and ?y = "y mod 400"
  have y: "y = 400 * ?E + ?y" by simp
  obtain c b a where abc: "?y = 100 * c + 4 * b + a" "0 \<le> c" "c \<le> 3" "0 \<le> b" "b \<le> 24" "0 \<le> a" "a \<le> 3"
    using year_parts [of ?y] by (metis pos_mod_bound pos_mod_sign zero_less_numeral)
  have "?y div 4 = 25 * c + b"
    using abc by (intro int_div_pos_eq [of _ _ _ a]) simp_all
  moreover have "?y div 100 = c"
    using abc by (intro int_div_pos_eq [of _ _ _ "4 * b + a"]) simp_all
  moreover have "?y div 400 = 0" by simp
  ultimately have start: "march_start ?y = 36524 * c + 1461 * b + 365 * a"
    unfolding march_start_def abc(1) by simp
  have d: "0 \<le> d" "d < march_length ?y"
    and days: "days + 719468 = 146097 * ?E + (march_start ?y + d)"
    using assms year_split [of ?E ?y] by (simp_all add: in_year_def)
  have leap: "a = 3 \<and> (b < 24 \<or> c = 3)" if "leap (?y + 1)"
    using leap_parts [OF that [unfolded abc(1)] abc(2-7)] .
  have d365: "d \<le> 365" "d = 365 \<longrightarrow> a = 3 \<and> (b < 24 \<or> c = 3)"
    using d leap by (auto simp: march_length_def split: if_splits)
  let ?doe = "march_start ?y + d"
  have range: "0 \<le> ?doe" "?doe < 146097"
    unfolding start using abc d(1) d365 by auto
  show "era_of days = ?E"
    unfolding era_of_def days using range by (intro int_div_pos_eq) simp_all
  have doe: "day_of_era days = ?doe"
    unfolding day_of_era_def days using range by (intro int_mod_pos_eq) simp_all
  show yoe: "year_of_era (day_of_era days) = ?y"
    unfolding doe abc(1) by (rule year_of_era_parts [where d = d]) (use abc d d365 start in simp_all)
  show "day_of_year (day_of_era days) = d"
    using yoe unfolding doe by (simp add: day_of_year_def Let_def march_start_def)
qed

section \<open>Months\<close>

definition date_of :: "int \<Rightarrow> int \<Rightarrow> int \<times> int \<times> int" where
  "date_of y d =
     (let mp = (5 * d + 2) div 153;
          month = (if mp < 10 then mp + 3 else mp - 9)
      in (if month \<le> 2 then y + 1 else y, month, d - (153 * mp + 2) div 5 + 1))"

lemma civil_in_year: "in_year days y d \<Longrightarrow> civil_from_days days = date_of y d"
  by (simp add: civil_from_days_def in_year_conversion Let_def date_of_def)

text \<open>The twelve months from March on, each with its first day and the first day of the next.\<close>

definition march_months :: "(int \<times> int \<times> int) list" where
  "march_months = [(0, 0, 31), (1, 31, 61), (2, 61, 92), (3, 92, 122), (4, 122, 153), (5, 153, 184),
     (6, 184, 214), (7, 214, 245), (8, 245, 275), (9, 275, 306), (10, 306, 337), (11, 337, 367)]"

lemma march_month_cases:
  assumes "0 \<le> d" "d \<le> 365"
  obtains mp lo hi where "(mp, lo, hi) \<in> set march_months" "lo \<le> d" "d < hi"
  using assms unfolding march_months_def
  by (smt (verit, best) list.set_intros)

lemma date_of_month:
  assumes "(mp, lo, hi) \<in> set march_months" "lo \<le> d" "d < hi"
  shows "date_of y d = (if mp < 10 then (y, mp + 3, d - lo + 1) else (y + 1, mp - 9, d - lo + 1))"
proof -
  have mp: "(5 * d + 2) div 153 = mp"
    using assms by (intro int_div_pos_eq [of _ _ _ "5 * d + 2 - 153 * mp"])
      (auto simp: march_months_def)
  have "(153 * mp + 2) div 5 = lo"
    using assms(1) by (auto simp: march_months_def)
  with mp show ?thesis
    using assms(1) by (auto simp: date_of_def march_months_def)
qed

lemma month_next:
  assumes "(mp, lo, hi) \<in> set march_months" "mp < 11"
  shows "\<exists>hi'. (mp + 1, hi, hi') \<in> set march_months \<and> hi < hi'"
  using assms unfolding march_months_def by (simp; elim disjE; simp)

lemma month_days:
  assumes "(mp, lo, hi) \<in> set march_months" "mp < 11"
  shows "month_length (if mp < 10 then y else y + 1) (if mp < 10 then mp + 3 else mp - 9) = hi - lo"
  using assms unfolding march_months_def by (simp; elim disjE; simp add: month_length_def)

lemma last_month:
  assumes "(mp, lo, hi) \<in> set march_months" "\<not> mp < 11"
  shows "mp = 11" "lo = 337" "hi = 367"
  using assms by (auto simp: march_months_def)

lemma month_range: "(mp, lo, hi) \<in> set march_months \<Longrightarrow> 0 \<le> mp \<and> mp \<le> 11 \<and> lo < hi"
  by (auto simp: march_months_def)

lemma date_step:
  assumes "0 \<le> d" "d < march_length y"
  shows "valid_date (date_of y d)"
    and "next_day (date_of y d) = (if d + 1 < march_length y then date_of y (d + 1) else date_of (y + 1) 0)"
proof -
  have "d \<le> 365" using assms by (simp add: march_length_def split: if_splits)
  with assms obtain mp lo hi where m: "(mp, lo, hi) \<in> set march_months" "lo \<le> d" "d < hi"
    using march_month_cases by metis
  note here = date_of_month [OF m, of y] and range = month_range [OF m(1)]
  have both: "valid_date (date_of y d) \<and>
    next_day (date_of y d) = (if d + 1 < march_length y then date_of y (d + 1) else date_of (y + 1) 0)"
  proof (cases "mp < 11")
    case True
    from month_next [OF m(1) True] obtain hi' where after: "(mp + 1, hi, hi') \<in> set march_months" "hi < hi'"
      by blast
    note len = month_days [OF m(1) True, of y]
    have in_year: "hi < march_length y"
      using m(1) True by (auto simp: march_months_def march_length_def)
    show ?thesis
    proof (cases "d + 1 < hi")
      case True
      have "date_of y (d + 1) = (if mp < 10 then (y, mp + 3, d + 1 - lo + 1) else (y + 1, mp - 9, d + 1 - lo + 1))"
        by (rule date_of_month [OF m(1)]) (use m True in simp_all)
      then show ?thesis
        using here len in_year True m range by (auto simp: next_day_def valid_date_def split: if_splits)
    next
      case False
      then have hi: "d + 1 = hi" using m by simp
      have "date_of y hi = (if mp + 1 < 10 then (y, mp + 1 + 3, hi - hi + 1) else (y + 1, mp + 1 - 9, hi - hi + 1))"
        by (rule date_of_month [OF after(1)]) (use after in simp_all)
      moreover have "mp = 9 \<or> mp + 1 < 10 \<or> 10 \<le> mp" by linarith
      ultimately show ?thesis
        using here len in_year hi m range by (auto simp: next_day_def valid_date_def split: if_splits)
    qed
  next
    case False
    note last = last_month [OF m(1) False]
    have after: "date_of (y + 1) 0 = (y + 1, 3, 1)" by (simp add: date_of_def)
    have now: "date_of y d = (y + 1, 2, d - 336)" using here last by simp
    have len: "month_length (y + 1) 2 = march_length y - 337" by (simp add: month_length_def march_length_def)
    show ?thesis
    proof (cases "d + 1 < march_length y")
      case True
      then have "d + 1 < hi" using last by (simp add: march_length_def split: if_splits)
      then have "date_of y (d + 1) = (y + 1, 2, d - 335)"
        using date_of_month [OF m(1), of "d + 1" y] m last by simp
      then show ?thesis using now True len m last by (simp add: next_day_def valid_date_def)
    next
      case False
      then show ?thesis using now after len m last assms by (simp add: next_day_def valid_date_def)
    qed
  qed
  show "valid_date (date_of y d)" using both ..
  show "next_day (date_of y d) = (if d + 1 < march_length y then date_of y (d + 1) else date_of (y + 1) 0)"
    using both ..
qed

section \<open>Every day from the epoch on\<close>

lemma epoch_in_year: "in_year 0 1969 306"
  by (simp add: in_year_def march_start_def march_length_def leap_def)

lemma every_day_in_year: "\<exists>y d. in_year (int n) y d \<and> date_of y d = (next_day ^^ n) (1970, 1, 1)"
proof (induction n)
  case 0
  have "date_of 1969 306 = (1970, 1, 1)" by (simp add: date_of_def)
  with epoch_in_year show ?case by auto
next
  case (Suc n)
  then obtain y d where yd: "in_year (int n) y d" "date_of y d = (next_day ^^ n) (1970, 1, 1)" by blast
  then have range: "0 \<le> d" "d < march_length y" by (simp_all add: in_year_def)
  from yd(2) date_step(2) [OF range]
  have "(next_day ^^ Suc n) (1970, 1, 1) = (if d + 1 < march_length y then date_of y (d + 1) else date_of (y + 1) 0)"
    by simp
  moreover note in_year_next [OF yd(1)]
  moreover have "int n + 1 = int (Suc n)" by simp
  ultimately show ?case by (cases "d + 1 < march_length y") auto
qed

text \<open>
  The date arithmetic that \<open>rfc3339\<close> writes out instead of using a date crate is the Gregorian
  calendar: for every day from 1970-01-01 on, it gives the date reached by stepping day by day from
  1970-01-01 under the leap-year rules, and that date exists (a month between 1 and 12 and a day
  within that month of that year).
\<close>

theorem civil_from_days_is_calendar:
  "civil_from_days (int n) = (next_day ^^ n) (1970, 1, 1) \<and> valid_date (civil_from_days (int n))"
  using every_day_in_year [of n] civil_in_year date_step(1)
  by (metis in_year_def)

end
