(* ===== verification/Json.thy ===== *)
theory Json
  imports Text "HOL-Library.Word"
begin

unbundle bit_operations_syntax

text \<open>
  The JSON values (\<open>serde_json::Value\<close>) the code passes around, its compact rendering, and
  \<open>src/src/agent/value.rs\<close>: reading a value the way the browser and Python do.

  An object is a list of its fields with distinct keys.  \<open>serde_json\<close> keeps an object as a
  \<open>BTreeMap\<close>, so a function that walks one, to print it or to visit what is in it, walks it in the
  order of its keys (\<open>by_key\<close>), whatever the order of the list.  An integer keeps its value; a float
  keeps the 64 bits of its IEEE representation, and how such a number is printed (\<open>fmt_float\<close>) is a
  parameter.
\<close>

datatype json =
    JNull
  | JBool bool
  | JInt int
  | JFloat "64 word"
  | JStr string
  | JArr "json list"
  | JObj "(string \<times> json) list"

fun json_as_str :: "json \<Rightarrow> string option" where
  "json_as_str (JStr s) = Some s"
| "json_as_str _ = None"

fun json_as_u64 :: "json \<Rightarrow> nat option" where
  "json_as_u64 (JInt n) = (if 0 \<le> n then Some (nat n) else None)"
| "json_as_u64 _ = None"

fun json_as_i64 :: "json \<Rightarrow> int option" where
  "json_as_i64 (JInt n) = (if -9223372036854775808 \<le> n \<and> n \<le> 9223372036854775807 then Some n else None)"
| "json_as_i64 _ = None"

fun json_as_object :: "json \<Rightarrow> (string \<times> json) list option" where
  "json_as_object (JObj obj) = Some obj"
| "json_as_object _ = None"

fun json_as_arr :: "json \<Rightarrow> json list option" where
  "json_as_arr (JArr items) = Some items"
| "json_as_arr _ = None"

fun json_as_bool :: "json \<Rightarrow> bool option" where
  "json_as_bool (JBool b) = Some b"
| "json_as_bool _ = None"

fun json_get :: "json \<Rightarrow> string \<Rightarrow> json option" where
  "json_get (JObj fields) key = map_of fields key"
| "json_get _ key = None"

text \<open>\<open>value[key]\<close>: a missing field, or a value that is no object, reads as null.\<close>

definition json_index :: "json \<Rightarrow> string \<Rightarrow> json" where
  "json_index v key = (case json_get v key of Some x \<Rightarrow> x | None \<Rightarrow> JNull)"

definition by_key :: "(string \<times> 'a) list \<Rightarrow> 'a list" where
  "by_key obj = map snd (sort_key fst obj)"

lemma set_by_key [simp]: "set (by_key obj) = snd ` set obj"
  by (simp add: by_key_def)

lemma by_key_simps [simp]: "by_key [] = []" "by_key [f] = [snd f]" "length (by_key obj) = length obj"
  by (simp_all add: by_key_def)

lemma by_key_sorted: "sorted (map fst obj) \<Longrightarrow> by_key obj = map snd obj"
  by (simp add: by_key_def sort_key_id_if_sorted)

section \<open>Compact rendering\<close>

definition hex_digit :: "nat \<Rightarrow> char" where
  "hex_digit n = char_of (if n < 10 then 48 + n else 87 + n)"

definition escape_char :: "char \<Rightarrow> string" where
  "escape_char c = (let n = (of_char c :: nat) in
     if n = 34 then [CHR 0x5C, CHR 0x22]
     else if n = 92 then [CHR 0x5C, CHR 0x5C]
     else if n = 8 then [CHR 0x5C, CHR ''b'']
     else if n = 9 then [CHR 0x5C, CHR ''t'']
     else if n = 10 then [CHR 0x5C, CHR ''n'']
     else if n = 12 then [CHR 0x5C, CHR ''f'']
     else if n = 13 then [CHR 0x5C, CHR ''r'']
     else if n < 32 then [CHR 0x5C, CHR ''u'', CHR ''0'', CHR ''0'', hex_digit (n div 16), hex_digit (n mod 16)]
     else [c])"

definition json_quote :: "string \<Rightarrow> string" where
  "json_quote s = [CHR 0x22] @ concat (map escape_char s) @ [CHR 0x22]"

definition show_int :: "int \<Rightarrow> string" where
  "show_int n = (if n < 0 then CHR ''-'' # decimal (nat (- n)) else decimal (nat n))"

fun json_render :: "(64 word \<Rightarrow> string) \<Rightarrow> json \<Rightarrow> string" where
  "json_render fmt JNull = ''null''"
| "json_render fmt (JBool b) = (if b then ''true'' else ''false'')"
| "json_render fmt (JInt n) = show_int n"
| "json_render fmt (JFloat w) = fmt w"
| "json_render fmt (JStr s) = json_quote s"
| "json_render fmt (JArr items) = ''['' @ join '','' (map (json_render fmt) items) @ '']''"
| "json_render fmt (JObj fields) =
     ''{'' @ join '','' (by_key (map (\<lambda>f. (fst f, json_quote (fst f) @ '':'' @ json_render fmt (snd f))) fields)) @ ''}''"

text \<open>
  A quoted text stays on one line and carries no unescaped quote: what is put in quotes cannot
  close them, nor start a line of its own in a prompt.
\<close>

lemma escape_char_no_control: "c \<in> set (escape_char d) \<Longrightarrow> 32 \<le> (of_char c :: nat)"
proof -
  assume c: "c \<in> set (escape_char d)"
  have hex: "32 \<le> (of_char (hex_digit n) :: nat)" if "n < 16" for n
    using that by (auto simp: hex_digit_def)
  show ?thesis
    using c hex [of "of_char d div 16"] hex [of "of_char d mod 16"]
    by (auto simp: escape_char_def Let_def not_less split: if_splits)
qed

lemma json_quote_one_line: "c \<in> set (json_quote s) \<Longrightarrow> 32 \<le> (of_char c :: nat)"
  using escape_char_no_control by (auto simp: json_quote_def)

section \<open>Reading values as Python does\<close>

fun python_truthy :: "json \<Rightarrow> bool" where
  "python_truthy JNull = False"
| "python_truthy (JBool b) = b"
| "python_truthy (JInt n) = (n \<noteq> 0)"
| "python_truthy (JFloat w) = (w AND 0x7FFFFFFFFFFFFFFF \<noteq> 0)"
| "python_truthy (JStr s) = (s \<noteq> [])"
| "python_truthy (JArr items) = (items \<noteq> [])"
| "python_truthy (JObj fields) = (fields \<noteq> [])"

fun python_string :: "(64 word \<Rightarrow> string) \<Rightarrow> json \<Rightarrow> string"
  and python_repr :: "(64 word \<Rightarrow> string) \<Rightarrow> json \<Rightarrow> string" where
  "python_string fmt JNull = ''None''"
| "python_string fmt (JBool b) = (if b then ''True'' else ''False'')"
| "python_string fmt (JInt n) = show_int n"
| "python_string fmt (JFloat w) = fmt w"
| "python_string fmt (JStr s) = s"
| "python_string fmt (JArr items) = ''['' @ join '', '' (map (python_repr fmt) items) @ '']''"
| "python_string fmt (JObj fields) =
     ''{'' @ join '', '' (by_key (map (\<lambda>f. (fst f, [CHR 0x27] @ fst f @ [CHR 0x27] @ '': '' @ python_repr fmt (snd f))) fields)) @ ''}''"
| "python_repr fmt (JStr s) = [CHR 0x27] @ s @ [CHR 0x27]"
| "python_repr fmt JNull = python_string fmt JNull"
| "python_repr fmt (JBool b) = python_string fmt (JBool b)"
| "python_repr fmt (JInt n) = python_string fmt (JInt n)"
| "python_repr fmt (JFloat w) = python_string fmt (JFloat w)"
| "python_repr fmt (JArr items) = python_string fmt (JArr items)"
| "python_repr fmt (JObj fields) = python_string fmt (JObj fields)"

definition truthy_string :: "(64 word \<Rightarrow> string) \<Rightarrow> json option \<Rightarrow> string option" where
  "truthy_string fmt value =
     (case value of Some v \<Rightarrow> (if python_truthy v then Some (python_string fmt v) else None)
      | None \<Rightarrow> None)"

definition value_string :: "(64 word \<Rightarrow> string) \<Rightarrow> json option \<Rightarrow> string option" where
  "value_string fmt value = map_option (python_string fmt) value"

definition breaks_a_prompt_line :: "string \<Rightarrow> bool" where
  "breaks_a_prompt_line ch \<longleftrightarrow> is_control ch \<or> code_point ch = 8232 \<or> code_point ch = 8233"

definition bounded_model_text :: "string \<Rightarrow> nat \<Rightarrow> string" where
  "bounded_model_text text max_chars =
     concat (take max_chars (filter (\<lambda>ch. \<not> breaks_a_prompt_line ch) (utf8_chars text)))"

end
