(* ===== verification/Task_Exercise.thy ===== *)
theory Task_Exercise
  imports Json
begin

text \<open>
  \<open>src/src/tasks/mod.rs\<close> and \<open>src/src/tasks/exercise.rs\<close>: the limits of a task, its identifiers, one
  exercise as a learner's attempt reads it, the validation of the instructor's sidecar, the
  renaming of a starter's tokens, and the prompt template.  An error is the text of a
  \<open>TaskError\<close>.  The parameter \<open>alphanumeric\<close> is \<open>char::is_alphanumeric\<close>.
\<close>

type_synonym task_error = string

section \<open>Limits and identifiers\<close>

definition LANGUAGES :: "string list" where
  "LANGUAGES = [''python'', ''javascript'', ''c'', ''cpp'', ''java'']"

definition EXPLAINERS :: "string list" where
  "EXPLAINERS = [''cube'']"

definition COMPILED_LANGUAGES :: "string list" where
  "COMPILED_LANGUAGES = [''c'', ''cpp'', ''java'']"

definition runnable :: "string \<Rightarrow> bool \<Rightarrow> bool" where
  "runnable language compiler_explorer \<longleftrightarrow>
     language \<in> set LANGUAGES \<and> (compiler_explorer \<or> language \<notin> set COMPILED_LANGUAGES)"

definition task_defaults :: "(string \<times> nat) list" where
  "task_defaults =
     [(''durationMin'', 15), (''maxHintRungs'', 3), (''extraChecks'', 2), (''wrapUpSeconds'', 120),
      (''wrapUpChecks'', 3), (''nudgeIdleSeconds'', 90), (''nudgeIntervalSeconds'', 180),
      (''codeReviewNudges'', 3), (''pinDigits'', 6), (''taskBytes'', 1048576), (''setBytes'', 8388608),
      (''revisionSnapshots'', 10), (''publicRunSummaries'', 20), (''evidenceRevisions'', 8),
      (''pendingAdmissionSeconds'', 120), (''promptBytes'', 4096), (''fetchSeconds'', 15),
      (''coreChecks'', 3), (''runCaptureSeconds'', 150), (''wrapUpAnswerSeconds'', 30),
      (''reviewBytes'', 65536), (''reviewRetentionSeconds'', 7200), (''reviewDeliverySeconds'', 300),
      (''lookAwaySeconds'', 8), (''kdfIterations'', 600000), (''codeBytes'', 32000)]"

definition default_number :: "string \<Rightarrow> nat" where
  "default_number key = the (map_of task_defaults key)"

lemma default_number_simps [simp]:
  "default_number ''maxHintRungs'' = 3"
  "default_number ''extraChecks'' = 2"
  "default_number ''wrapUpSeconds'' = 120"
  "default_number ''wrapUpChecks'' = 3"
  "default_number ''nudgeIdleSeconds'' = 90"
  "default_number ''nudgeIntervalSeconds'' = 180"
  "default_number ''codeReviewNudges'' = 3"
  "default_number ''revisionSnapshots'' = 10"
  "default_number ''publicRunSummaries'' = 20"
  "default_number ''evidenceRevisions'' = 8"
  "default_number ''pendingAdmissionSeconds'' = 120"
  "default_number ''promptBytes'' = 4096"
  "default_number ''coreChecks'' = 3"
  "default_number ''runCaptureSeconds'' = 150"
  "default_number ''reviewBytes'' = 65536"
  "default_number ''reviewRetentionSeconds'' = 7200"
  "default_number ''reviewDeliverySeconds'' = 300"
  "default_number ''pinDigits'' = 6"
  by (simp_all add: default_number_def task_defaults_def)

definition record_id :: "string \<Rightarrow> bool" where
  "record_id value \<longleftrightarrow> value \<noteq> [] \<and> length value \<le> 64 \<and> \<not> starts_with ''-'' value
     \<and> list_all (\<lambda>b. is_ascii_lowercase b \<or> is_ascii_digit b \<or> b = CHR ''-'') value"

definition task_identifier :: "string \<Rightarrow> bool" where
  "task_identifier value \<longleftrightarrow> record_id value \<and> is_ascii_lowercase (value ! 0)"

definition bounded_text :: "string \<Rightarrow> nat \<Rightarrow> bool" where
  "bounded_text value limit \<longleftrightarrow> str_trim value \<noteq> [] \<and> length value \<le> limit"

definition opaque_id :: "string \<Rightarrow> bool" where
  "opaque_id value \<longleftrightarrow> value \<noteq> [] \<and> length value \<le> 128
     \<and> list_all (\<lambda>b. is_ascii_alphanumeric b \<or> b = CHR ''_'' \<or> b = CHR ''-'') value"

section \<open>An exercise\<close>

record completion_target =
  tgt_id :: string
  tgt_language :: string
  tgt_marker :: string
  tgt_goal :: string

record understanding_check =
  uc_id :: string
  uc_question :: string

record sidecar =
  sc_prompt_version :: nat
  sc_interaction_prompt :: string
  sc_completion_targets :: "completion_target list"
  sc_understanding_checks :: "understanding_check list"
  sc_required_cases :: "string list"
  sc_max_hint_rungs :: nat
  sc_rubric_profile :: string
  sc_languages :: "string list"
  sc_optimization :: "string option"
  sc_explainers :: "string list"

record task_record =
  tr_id :: string
  tr_title :: string
  tr_brief :: json
  tr_contract :: string
  tr_clarifications :: json
  tr_starters :: "(string, string) btree"
  tr_hints :: "string list"
  tr_reference_code :: "string option"
  tr_optimal :: string
  tr_pitfalls :: string
  tr_judge :: json
  tr_sidecar :: sidecar
  tr_required_cases :: "nat list"

definition starter :: "task_record \<Rightarrow> string \<Rightarrow> string option" where
  "starter ex language = map_of (tr_starters ex) language"

text \<open>The slice \<open>&hints[..max_hint_rungs]\<close> panics when the ladder is shorter: \<open>None\<close>.\<close>

definition hints :: "task_record \<Rightarrow> string list option" where
  "hints ex = (if sc_max_hint_rungs (tr_sidecar ex) \<le> length (tr_hints ex)
     then Some (take (sc_max_hint_rungs (tr_sidecar ex)) (tr_hints ex)) else None)"

definition targets_in :: "task_record \<Rightarrow> string \<Rightarrow> completion_target list" where
  "targets_in ex language =
     filter (\<lambda>t. tgt_language t = language) (sc_completion_targets (tr_sidecar ex))"

definition check_question :: "task_record \<Rightarrow> string \<Rightarrow> string option" where
  "check_question ex i = map_option uc_question
     (List.find (\<lambda>c. uc_id c = i) (sc_understanding_checks (tr_sidecar ex)))"

definition review_reference :: "task_record \<Rightarrow> string" where
  "review_reference ex = tr_optimal ex @ newline @ tr_pitfalls ex @ newline
     @ (case tr_reference_code ex of Some code \<Rightarrow> code | None \<Rightarrow> [])"

section \<open>Tokens\<close>

definition is_word :: "(string \<Rightarrow> bool) \<Rightarrow> string \<Rightarrow> bool" where
  "is_word alphanumeric ch \<longleftrightarrow> alphanumeric ch \<or> ch = ''_''"

definition token_count :: "(string \<Rightarrow> bool) \<Rightarrow> string \<Rightarrow> string \<Rightarrow> nat" where
  "token_count alphanumeric code marker =
     length (filter (\<lambda>w. w = marker) (str_split (\<lambda>ch. \<not> is_word alphanumeric ch) code))"

text \<open>The loop of \<open>map_tokens\<close> over the characters that remain.\<close>

function map_token_chars ::
  "(string \<Rightarrow> bool) \<Rightarrow> (string \<Rightarrow> string option) \<Rightarrow> string list \<Rightarrow> string" where
  "map_token_chars word rename rest =
     (let gap = takeWhile (\<lambda>ch. \<not> word ch) rest; at = dropWhile (\<lambda>ch. \<not> word ch) rest
      in if at = [] then concat rest
         else let token = concat (takeWhile word at)
              in concat gap @ (case rename token of Some renamed \<Rightarrow> renamed | None \<Rightarrow> token)
                 @ map_token_chars word rename (dropWhile word at))"
  by pat_completeness auto
termination
proof (relation "measure (\<lambda>(word, rename, rest). length rest)")
  fix word :: "string \<Rightarrow> bool" and rename :: "string \<Rightarrow> string option" and rest gap at token
  assume at: "at = dropWhile (\<lambda>ch. \<not> word ch) rest" and ne: "at \<noteq> []"
  have "word (hd at)" using ne hd_dropWhile [of "\<lambda>ch. \<not> word ch" rest] unfolding at by simp
  then have "length (dropWhile word at) < length at"
    using ne by (cases at) (simp_all add: length_dropWhile_le le_imp_less_Suc)
  moreover have "length at \<le> length rest" by (simp add: at length_dropWhile_le)
  ultimately show "((word, rename, dropWhile word at), word, rename, rest)
      \<in> measure (\<lambda>(word, rename, rest). length rest)"
    by simp
qed simp

declare map_token_chars.simps [simp del]

definition map_tokens ::
  "(string \<Rightarrow> bool) \<Rightarrow> string \<Rightarrow> (string \<Rightarrow> string option) \<Rightarrow> string" where
  "map_tokens alphanumeric code rename =
     map_token_chars (is_word alphanumeric) rename (utf8_chars code)"

definition rename_starter ::
  "(string \<Rightarrow> bool) \<Rightarrow> string \<Rightarrow> (string \<times> string) list \<Rightarrow> (string, string) btree \<Rightarrow> string" where
  "rename_starter alphanumeric code renames prefixes =
     (let code = foldl (\<lambda>code (old, new). map_tokens alphanumeric code
                   (\<lambda>token. if token = old then Some new else None)) code renames
      in foldl (\<lambda>code (old, new). map_tokens alphanumeric code
                   (\<lambda>token. case strip_prefix old token of
                      Some tail \<Rightarrow>
                        (if tail \<noteq> [] \<and> is_ascii_uppercase (tail ! 0) then Some (new @ tail) else None)
                    | None \<Rightarrow> None)) code prefixes)"

definition rename_tokens ::
  "(string \<Rightarrow> bool) \<Rightarrow> string \<Rightarrow> (string, string) btree \<Rightarrow> string" where
  "rename_tokens alphanumeric code renames = map_tokens alphanumeric code (map_of renames)"

section \<open>The prompt template\<close>

definition malformed :: task_error where
  "malformed = ''malformed prompt variable''"

definition unknown_variable :: task_error where
  "unknown_variable = ''unknown prompt variable''"

text \<open>The loop of \<open>interpolate\<close>: the text that remains and the output so far.\<close>

function interpolate_loop ::
  "(string \<rightharpoonup> string) \<Rightarrow> string \<Rightarrow> string \<Rightarrow> task_error + string" where
  "interpolate_loop vals rest out =
     (case find_sub ''{{'' rest of
        None \<Rightarrow> (if str_contains ''}}'' rest then Inl malformed else Inr (out @ rest))
      | Some at \<Rightarrow>
          if str_contains ''}}'' (take at rest) then Inl malformed
          else if starts_with ''{{{{'' (drop at rest) then Inl malformed
          else if starts_with ''{{{'' (drop at rest)
          then interpolate_loop vals (drop (at + 1) rest) (out @ take at rest @ ''{'')
          else (case find_sub ''}}'' (drop (at + 2) rest) of
                  None \<Rightarrow> Inl malformed
                | Some stop \<Rightarrow>
                    (case vals (take stop (drop (at + 2) rest)) of
                       None \<Rightarrow> Inl unknown_variable
                     | Some v \<Rightarrow> interpolate_loop vals (drop (stop + 2) (drop (at + 2) rest))
                                 (out @ take at rest @ v))))"
  by pat_completeness auto
termination
  by (relation "measure (\<lambda>(vals, rest, out). length rest)") (auto dest!: find_sub_bound)

declare interpolate_loop.simps [simp del]

definition interpolate :: "string \<Rightarrow> (string \<rightharpoonup> string) \<Rightarrow> task_error + string" where
  "interpolate prompt vals = interpolate_loop vals prompt []"

text \<open>
  What a template means, with no value in sight: its literal pieces (\<open>Inl\<close>) and the names of its
  variables (\<open>Inr\<close>).
\<close>

function template_segments :: "string \<Rightarrow> (string + string) list option" where
  "template_segments rest =
     (case find_sub ''{{'' rest of
        None \<Rightarrow> (if str_contains ''}}'' rest then None else Some [Inl rest])
      | Some at \<Rightarrow>
          if str_contains ''}}'' (take at rest) \<or> starts_with ''{{{{'' (drop at rest) then None
          else if starts_with ''{{{'' (drop at rest)
          then map_option (\<lambda>segs. Inl (take at rest @ ''{'') # segs)
                 (template_segments (drop (at + 1) rest))
          else (case find_sub ''}}'' (drop (at + 2) rest) of
                  None \<Rightarrow> None
                | Some stop \<Rightarrow>
                    map_option (\<lambda>segs. Inl (take at rest) # Inr (take stop (drop (at + 2) rest)) # segs)
                      (template_segments (drop (stop + 2) (drop (at + 2) rest)))))"
  by pat_completeness auto
termination
  by (relation "measure length") (auto dest!: find_sub_bound)

declare template_segments.simps [simp del]

fun segment_names :: "(string + string) list \<Rightarrow> string set" where
  "segment_names [] = {}"
| "segment_names (Inl t # segs) = segment_names segs"
| "segment_names (Inr x # segs) = insert x (segment_names segs)"

definition segment_text :: "(string \<rightharpoonup> string) \<Rightarrow> string + string \<Rightarrow> string" where
  "segment_text vals seg = (case seg of Inl text \<Rightarrow> text | Inr name \<Rightarrow> the (vals name))"

definition render_segments :: "(string \<rightharpoonup> string) \<Rightarrow> (string + string) list \<Rightarrow> string" where
  "render_segments vals segs = concat (map (segment_text vals) segs)"

lemma segment_simps [simp]:
  "render_segments vals [] = []"
  "render_segments vals (s # segs) = segment_text vals s @ render_segments vals segs"
  "segment_text vals (Inl t) = t"
  "segment_text vals (Inr x) = the (vals x)"
  by (auto simp: render_segments_def segment_text_def)

lemma interpolate_loop_segments:
  "interpolate_loop vals rest out = Inr r \<longleftrightarrow>
     (\<exists>segs. template_segments rest = Some segs \<and> segment_names segs \<subseteq> dom vals
        \<and> r = out @ render_segments vals segs)"
proof (induction vals rest out arbitrary: r rule: interpolate_loop.induct)
  case (1 vals rest out)
  show ?case
  proof (cases "find_sub ''{{'' rest")
    case None
    then show ?thesis
      by (subst interpolate_loop.simps, subst template_segments.simps) auto
  next
    case at: (Some at)
    show ?thesis
    proof (cases "str_contains ''}}'' (take at rest) \<or> starts_with ''{{{{'' (drop at rest)")
      case True
      with at show ?thesis
        by (subst interpolate_loop.simps, subst template_segments.simps) auto
    next
      case clean: False
      show ?thesis
      proof (cases "starts_with ''{{{'' (drop at rest)")
        case True
        with at clean "1.IH"(1) [OF at] show ?thesis
          by (subst interpolate_loop.simps, subst template_segments.simps) auto
      next
        case var: False
        show ?thesis
        proof (cases "find_sub ''}}'' (drop (at + 2) rest)")
          case None
          with at clean var show ?thesis
            by (subst interpolate_loop.simps, subst template_segments.simps) auto
        next
          case stop: (Some stop)
          show ?thesis
          proof (cases "vals (take stop (drop (at + 2) rest))")
            case None
            with at clean var stop show ?thesis
              by (subst interpolate_loop.simps, subst template_segments.simps) auto
          next
            case (Some v)
            with at clean var stop "1.IH"(2) [OF at _ _ _ stop Some] show ?thesis
              by (subst interpolate_loop.simps, subst template_segments.simps) auto
          qed
        qed
      qed
    qed
  qed
qed

text \<open>
  Interpolation implements its specification: the template alone decides what is literal and
  what is a variable, and the result is the literals and the values in order.  So a value is
  never scanned for variables again, whatever a learner's code or an instructor's text contains.
\<close>

theorem interpolate_refines_segments:
  "interpolate prompt vals = Inr r \<longleftrightarrow>
     (\<exists>segs. template_segments prompt = Some segs \<and> segment_names segs \<subseteq> dom vals
        \<and> r = render_segments vals segs)"
  by (simp add: interpolate_def interpolate_loop_segments)

lemma interpolate_dom:
  assumes "interpolate prompt vals = Inr r" and "dom vals \<subseteq> dom vals'"
  shows "\<exists>r'. interpolate prompt vals' = Inr r'"
  using assms by (fastforce simp: interpolate_def interpolate_loop_segments)

section \<open>Validating the sidecar\<close>

fun languages_ok :: "(string, string) btree \<Rightarrow> string set \<Rightarrow> string list \<Rightarrow> bool" where
  "languages_ok starters seen [] = True"
| "languages_ok starters seen (l # ls) =
     (l \<in> set LANGUAGES \<and> l \<notin> seen \<and> bt_has starters l \<and> languages_ok starters (insert l seen) ls)"

fun explainers_ok :: "string set \<Rightarrow> string list \<Rightarrow> bool" where
  "explainers_ok before [] = True"
| "explainers_ok before (x # xs) =
     (x \<in> set EXPLAINERS \<and> x \<notin> before \<and> explainers_ok (insert x before) xs)"

fun check_targets ::
  "(string \<Rightarrow> bool) \<Rightarrow> (string, string) btree \<Rightarrow> string set \<Rightarrow> string set \<Rightarrow> (string \<times> string) set
     \<Rightarrow> completion_target list \<Rightarrow> task_error + unit" where
  "check_targets alphanumeric starters languages ids markers [] = Inr ()"
| "check_targets alphanumeric starters languages ids markers (t # ts) =
     (if \<not> task_identifier (tgt_id t) \<or> tgt_id t \<in> ids \<or> tgt_language t \<notin> languages
         \<or> \<not> bounded_text (tgt_goal t) 1024
      then Inl ''invalid completion target''
      else let marker = tgt_marker t in
        if marker = [] \<or> length marker > 128 \<or> \<not> is_ascii_uppercase (marker ! 0)
           \<or> \<not> list_all (\<lambda>b. is_ascii_uppercase b \<or> is_ascii_digit b \<or> b = CHR ''_'') marker
           \<or> (tgt_language t, marker) \<in> markers
           \<or> token_count alphanumeric (the (map_of starters (tgt_language t))) marker \<noteq> 1
        then Inl ''missing, invalid or duplicate completion marker''
        else check_targets alphanumeric starters languages (insert (tgt_id t) ids)
               (insert (tgt_language t, marker) markers) ts)"

fun check_checks :: "string set \<Rightarrow> understanding_check list \<Rightarrow> task_error + unit" where
  "check_checks ids [] = Inr ()"
| "check_checks ids (c # cs) =
     (if \<not> task_identifier (uc_id c) \<or> uc_id c \<in> ids \<or> \<not> bounded_text (uc_question c) 1024
      then Inl ''invalid understanding check''
      else check_checks (insert (uc_id c) ids) cs)"

definition prompt_names :: "string \<rightharpoonup> string" where
  "prompt_names = [''title'' \<mapsto> [], ''language'' \<mapsto> [], ''target'' \<mapsto> [], ''phase'' \<mapsto> []]"

definition validate_sidecar ::
  "(string \<Rightarrow> bool) \<Rightarrow> sidecar \<Rightarrow> (string, string) btree \<Rightarrow> string list \<Rightarrow> task_error + unit" where
  "validate_sidecar alphanumeric sc starters hs =
     (if sc_prompt_version sc \<noteq> 1 \<or> sc_rubric_profile sc \<noteq> ''task-engagement-v1''
      then Inl ''unknown task version or rubric''
      else if \<not> bounded_text (sc_interaction_prompt sc) (default_number ''promptBytes'')
      then Inl ''invalid instructor prompt size''
      else case interpolate (sc_interaction_prompt sc) prompt_names of
        Inl e \<Rightarrow> Inl e
      | Inr _ \<Rightarrow>
          if sc_max_hint_rungs sc > min (length hs) (default_number ''maxHintRungs'')
          then Inl ''hint maximum exceeds ladder''
          else if length (sc_completion_targets sc) > 8
             \<or> length (sc_understanding_checks sc) \<noteq> default_number ''coreChecks''
          then Inl ''invalid target or check count''
          else if sc_languages sc = [] \<or> \<not> languages_ok starters {} (sc_languages sc)
          then Inl ''unknown, repeated or starterless task language''
          else if (case sc_optimization sc of None \<Rightarrow> False | Some level \<Rightarrow>
                     level \<notin> {''O0'', ''O1''}
                     \<or> \<not> list_ex (\<lambda>l. l \<in> {''c'', ''cpp''}) (sc_languages sc))
          then Inl ''invalid compiler optimization''
          else if \<not> explainers_ok {} (sc_explainers sc)
          then Inl ''explainers are known, distinct names''
          else case check_targets alphanumeric starters (set (sc_languages sc)) {} {}
                      (sc_completion_targets sc) of
            Inl e \<Rightarrow> Inl e
          | Inr _ \<Rightarrow> check_checks {} (sc_understanding_checks sc))"

section \<open>The instructor's prompt\<close>

text \<open>
  \<open>Phase\<close> is declared in \<open>src/src/tasks/session.rs\<close>; the prompt carries its name.  The template
  \<open>src/problem-bank/task-prompt.txt\<close> is the parameter \<open>template\<close>; \<open>projection\<close> is the rendering of
  the public projection.
\<close>

definition target_goal :: "task_record \<Rightarrow> string \<Rightarrow> string option \<Rightarrow> task_error + string" where
  "target_goal ex language target =
     (case target of
        None \<Rightarrow> Inr []
      | Some i \<Rightarrow> (case List.find (\<lambda>row. tgt_id row = i) (targets_in ex language) of
                     None \<Rightarrow> Inl ''unknown completion target''
                   | Some row \<Rightarrow> Inr (tgt_goal row)))"

fun target_json :: "completion_target \<Rightarrow> json" where
  "target_json t = JObj [(''id'', JStr (tgt_id t)), (''language'', JStr (tgt_language t)),
     (''marker'', JStr (tgt_marker t)), (''goal'', JStr (tgt_goal t))]"

fun check_json :: "understanding_check \<Rightarrow> json" where
  "check_json c = JObj [(''id'', JStr (uc_id c)), (''question'', JStr (uc_question c))]"

definition live_projection :: "task_record \<Rightarrow> string \<Rightarrow> (string \<times> json) list" where
  "live_projection ex language =
     [(''title'', JStr (tr_title ex)), (''brief'', tr_brief ex), (''contract'', JStr (tr_contract ex)),
      (''clarifications'', tr_clarifications ex), (''language'', JStr language),
      (''completionTargets'', JArr (map target_json (targets_in ex language))),
      (''understandingChecks'', JArr (map check_json (sc_understanding_checks (tr_sidecar ex))))]"

definition task_prompt_with_hint_limit ::
  "(64 word \<Rightarrow> string) \<Rightarrow> string \<Rightarrow> task_record \<Rightarrow> string \<Rightarrow> string option \<Rightarrow> string \<Rightarrow> string \<Rightarrow> nat
     \<Rightarrow> task_error + string" where
  "task_prompt_with_hint_limit fmt template ex phase target code language limit =
     (case target_goal ex language target of
        Inl e \<Rightarrow> Inl e
      | Inr goal \<Rightarrow>
         (case interpolate (sc_interaction_prompt (tr_sidecar ex))
                 [''title'' \<mapsto> tr_title ex, ''language'' \<mapsto> language, ''target'' \<mapsto> goal, ''phase'' \<mapsto> phase] of
            Inl e \<Rightarrow> Inl e
          | Inr instructor \<Rightarrow>
             interpolate template
               [''phase'' \<mapsto> phase, ''language'' \<mapsto> language, ''instructorPrompt'' \<mapsto> instructor,
                ''publicProjection'' \<mapsto> json_render fmt (JObj (live_projection ex language
                    @ [(''hintRungsMax'', JInt (int limit))])),
                ''code'' \<mapsto> json_render fmt (JStr code)]))"

text \<open>What the shipped template is checked against: it parses, and names nothing else.\<close>

definition template_ok :: "string \<Rightarrow> bool" where
  "template_ok template = (case template_segments template of
     None \<Rightarrow> False
   | Some segs \<Rightarrow> segment_names segs
       \<subseteq> {''phase'', ''language'', ''instructorPrompt'', ''publicProjection'', ''code''})"

lemma validate_sidecar_prompt:
  assumes "validate_sidecar alphanumeric sc starters hs = Inr u"
  shows "\<exists>r. interpolate (sc_interaction_prompt sc) prompt_names = Inr r"
  using assms by (auto simp: validate_sidecar_def split: if_splits sum.splits)

lemma validate_sidecar_hints:
  assumes "validate_sidecar alphanumeric sc starters hs = Inr u"
  shows "sc_max_hint_rungs sc \<le> length hs" and "sc_max_hint_rungs sc \<le> 3"
  using assms by (auto simp: validate_sidecar_def split: if_splits sum.splits)

lemma prompt_builds:
  assumes "validate_sidecar alphanumeric (tr_sidecar ex) starters hs = Inr ()"
    and "template_ok template"
    and "case target of None \<Rightarrow> True | Some i \<Rightarrow> \<exists>row \<in> set (targets_in ex language). tgt_id row = i"
  shows "\<exists>p. task_prompt_with_hint_limit fmt template ex phase target code language limit = Inr p"
proof -
  obtain goal where goal: "target_goal ex language target = Inr goal"
    using assms(3) by (fastforce simp: target_goal_def find_None_iff split: option.splits)
  obtain r where "interpolate (sc_interaction_prompt (tr_sidecar ex)) prompt_names = Inr r"
    using validate_sidecar_prompt [OF assms(1)] by blast
  then have "\<exists>i. interpolate (sc_interaction_prompt (tr_sidecar ex))
      [''title'' \<mapsto> tr_title ex, ''language'' \<mapsto> language, ''target'' \<mapsto> goal, ''phase'' \<mapsto> phase] = Inr i"
    by (rule interpolate_dom) (auto simp: prompt_names_def)
  then obtain i where inst: "interpolate (sc_interaction_prompt (tr_sidecar ex))
      [''title'' \<mapsto> tr_title ex, ''language'' \<mapsto> language, ''target'' \<mapsto> goal, ''phase'' \<mapsto> phase] = Inr i"
    by blast
  from assms(2) obtain segs where segs: "template_segments template = Some segs"
    and names: "segment_names segs
       \<subseteq> {''phase'', ''language'', ''instructorPrompt'', ''publicProjection'', ''code''}"
    by (auto simp: template_ok_def split: option.splits)
  have "\<exists>p. interpolate template vals = Inr p"
    if "{''phase'', ''language'', ''instructorPrompt'', ''publicProjection'', ''code''} \<subseteq> dom vals"
    for vals
    using segs names that by (auto simp: interpolate_def interpolate_loop_segments)
  then show ?thesis
    by (simp add: task_prompt_with_hint_limit_def goal inst del: fun_upd_apply)
qed

text \<open>
  C30. A validated task's prompt always builds: once the sidecar was accepted, no phase, code,
  language or hint limit, and no target that is marked in that language, makes
  \<open>task_prompt_with_hint_limit\<close> fail, so the \<open>expect\<close> on it cannot panic.
\<close>

theorem validated_prompt_builds:
  assumes "validate_sidecar alphanumeric (tr_sidecar ex) starters hs = Inr ()"
    and "template_ok template"
    and "case target of None \<Rightarrow> True | Some i \<Rightarrow> \<exists>row \<in> set (targets_in ex language). tgt_id row = i"
  shows "\<exists>p. task_prompt_with_hint_limit fmt template ex phase target code language limit = Inr p"
  using assms by (rule prompt_builds)

end
