(* ===== verification/Task_Access.thy ===== *)
theory Task_Access
  imports Task_Exercise
begin

text \<open>
  \<open>src/src/tasks/access.rs\<close>, with the set rules of \<open>src/src/tasks/package.rs\<close> and the result
  envelope of \<open>src/src/tasks/report.rs\<close> it keeps: what the local learner has unlocked and is
  attempting.  The service's state is one record behind a mutex, so every method is one atomic
  step on it, and dropping a lease or an unanswered Start is a step of its own.

  Parameters: \<open>chrono\<close> is \<open>chrono::DateTime::parse_from_rfc3339(..).timestamp()\<close>, \<open>built_in\<close> the set
  shipped with the program, \<open>site_base\<close> the URL normalization, \<open>fmt\<close> the printing of floats.  An
  \<open>Instant\<close> is a number of nanoseconds.
\<close>

section \<open>Set rules\<close>

record rules =
  rl_duration_min :: nat
  rl_max_hint_rungs :: nat
  rl_closes_at :: "string option"
  rl_look_away_seconds :: nat
  rl_rules_note :: "string option"

record set_config =
  cf_id :: string
  cf_version :: nat
  cf_rules :: rules

record loaded_set =
  ls_config :: set_config
  ls_records :: "(string, task_record) btree"

fun close_shape :: "nat \<Rightarrow> string \<Rightarrow> bool" where
  "close_shape i [] = True"
| "close_shape i (b # bs) =
     ((if i = 4 \<or> i = 7 then b = CHR ''-''
       else if i = 10 then b = CHR ''T''
       else if i = 13 \<or> i = 16 then b = CHR '':''
       else if i = 19 then b = CHR ''Z''
       else is_ascii_digit b) \<and> close_shape (i + 1) bs)"

definition parse_close :: "(string \<Rightarrow> int option) \<Rightarrow> string \<Rightarrow> task_error + nat" where
  "parse_close chrono text =
     (if \<not> (length text = 20 \<and> close_shape 0 text)
      then Inl ''close date must be UTC to the second''
      else case chrono text of
        None \<Rightarrow> Inl ''invalid close date''
      | Some t \<Rightarrow> if t < 0 then Inl ''close date predates epoch'' else Inr (nat t))"

definition closes_at_seconds :: "(string \<Rightarrow> int option) \<Rightarrow> set_config \<Rightarrow> nat option" where
  "closes_at_seconds chrono cf =
     (case rl_closes_at (cf_rules cf) of
        None \<Rightarrow> None
      | Some date \<Rightarrow> (case parse_close chrono date of Inr t \<Rightarrow> Some t | Inl _ \<Rightarrow> None))"

definition set_closed :: "(string \<Rightarrow> int option) \<Rightarrow> set_config \<Rightarrow> nat \<Rightarrow> bool" where
  "set_closed chrono cf now =
     (case closes_at_seconds chrono cf of None \<Rightarrow> False | Some close \<Rightarrow> close \<le> now)"

definition opt_str_json :: "string option \<Rightarrow> json" where
  "opt_str_json s = (case s of None \<Rightarrow> JNull | Some x \<Rightarrow> JStr x)"

definition rules_json :: "rules \<Rightarrow> json" where
  "rules_json r = JObj [(''durationMin'', JInt (int (rl_duration_min r))),
     (''maxHintRungs'', JInt (int (rl_max_hint_rungs r))),
     (''closesAt'', opt_str_json (rl_closes_at r)),
     (''lookAwaySeconds'', JInt (int (rl_look_away_seconds r))),
     (''rulesNote'', opt_str_json (rl_rules_note r))]"

definition MAX_RULES_NOTE_BYTES :: nat where
  "MAX_RULES_NOTE_BYTES = 1024"

definition checked_rules :: "(string \<Rightarrow> int option) \<Rightarrow> rules \<Rightarrow> task_error + rules" where
  "checked_rules chrono r =
     (if \<not> (10 \<le> rl_duration_min r \<and> rl_duration_min r \<le> 90)
         \<or> rl_max_hint_rungs r > default_number ''maxHintRungs''
         \<or> \<not> (5 \<le> rl_look_away_seconds r \<and> rl_look_away_seconds r \<le> 60)
      then Inl ''set rules outside bounds''
      else case (case rl_closes_at r of None \<Rightarrow> Inr 0 | Some close \<Rightarrow> parse_close chrono close) of
        Inl e \<Rightarrow> Inl e
      | Inr _ \<Rightarrow>
          if (case rl_rules_note r of None \<Rightarrow> False
              | Some note \<Rightarrow> str_trim note = [] \<or> length note > MAX_RULES_NOTE_BYTES)
          then Inl ''invalid rules note''
          else Inr r)"

definition valid_pin :: "string \<Rightarrow> bool" where
  "valid_pin pin \<longleftrightarrow> length pin = default_number ''pinDigits'' \<and> list_all is_ascii_digit pin"

section \<open>Assignments\<close>

record access_error =
  ae_code :: string
  ae_retry_after :: "nat option"

definition access_error :: "string \<Rightarrow> access_error" where
  "access_error code = \<lparr>ae_code = code, ae_retry_after = None\<rparr>"

definition MAX_UNLOCKED_SETS :: nat where "MAX_UNLOCKED_SETS = 8"
definition MAX_ADMISSIONS :: nat where "MAX_ADMISSIONS = 256"
definition MAX_REQUEST_KEY_BYTES :: nat where "MAX_REQUEST_KEY_BYTES = 128"

definition BUILT_IN_SITE :: string where "BUILT_IN_SITE = ''https://built-in.invalid/''"
definition BUILT_IN_SET :: string where "BUILT_IN_SET = ''default''"
definition BUILT_IN_VERSION :: nat where "BUILT_IN_VERSION = 1"

record assignment =
  as_site :: string
  as_set_id :: string
  as_version :: nat

definition built_in_assignment :: assignment where
  "built_in_assignment = \<lparr>as_site = BUILT_IN_SITE, as_set_id = BUILT_IN_SET, as_version = BUILT_IN_VERSION\<rparr>"

definition trim_end_slashes :: "string \<Rightarrow> string" where
  "trim_end_slashes s = rev (dropWhile (\<lambda>c. c = CHR ''/'') (rev s))"

definition assignment_new ::
  "(string \<Rightarrow> string option) \<Rightarrow> string \<Rightarrow> string \<Rightarrow> nat \<Rightarrow> access_error + assignment" where
  "assignment_new site_base site set_id version =
     (if trim_end_slashes site = trim_end_slashes BUILT_IN_SITE \<and> set_id = BUILT_IN_SET
         \<and> version = BUILT_IN_VERSION
      then Inr built_in_assignment
      else if \<not> task_identifier set_id \<or> version = 0 \<or> version > 2147483647
      then Inl (access_error ''site_invalid'')
      else case site_base site of
        None \<Rightarrow> Inl (access_error ''site_invalid'')
      | Some url \<Rightarrow> Inr \<lparr>as_site = url, as_set_id = set_id, as_version = version\<rparr>)"

section \<open>The state of the service\<close>

type_synonym set_key = "int \<times> assignment"
type_synonym request_key = "int \<times> string"

record unlocked =
  ul_set :: loaded_set
  ul_site_clock :: "(nat \<times> nat) option"

record active_attempt =
  aa_owner_id :: int
  aa_claim_id :: nat
  aa_room :: "string option"

record stored_result =
  sr_owner_id :: int
  sr_room :: string
  sr_expires_at :: nat
  sr_value :: json

record preparation =
  pr_rules_acknowledged_at :: string
  pr_calibration :: json
  pr_language :: string
  pr_compiler_explorer :: bool

record pinned_task =
  pt_config :: set_config
  pt_exercise :: task_record
  pt_owner_id :: int
  pt_github_login :: string
  pt_github_id :: nat
  pt_session_ordinal :: nat
  pt_hint_limit :: nat
  pt_claim_id :: nat
  pt_preparation :: preparation

record pending_admission =
  pa_claim_id :: nat
  pa_assignment :: "assignment \<times> string"
  pa_language :: string
  pa_ordinal :: nat
  pa_expires_at :: nat
  pa_response :: "json option"

record access_state =
  st_unlocked :: "set_key \<rightharpoonup> unlocked"
  st_unlock_order :: "set_key list"
  st_next_claim_id :: nat
  st_active :: "active_attempt option"
  st_ordinals :: "int \<times> string \<rightharpoonup> nat"
  st_admissions :: "request_key \<rightharpoonup> pending_admission"
  st_admission_order :: "request_key list"
  st_result :: "stored_result option"

definition access_init :: access_state where
  "access_init = \<lparr>st_unlocked = Map.empty, st_unlock_order = [], st_next_claim_id = 0,
     st_active = None, st_ordinals = Map.empty, st_admissions = Map.empty,
     st_admission_order = [], st_result = None\<rparr>"

definition unlocked_now :: "unlocked \<Rightarrow> nat \<Rightarrow> nat \<Rightarrow> nat" where
  "unlocked_now u instant local_now =
     (case ul_site_clock u of
        None \<Rightarrow> local_now
      | Some (at, since) \<Rightarrow> at + (instant - since) div 1000000000)"

section \<open>Methods of the state\<close>

text \<open>
  \<open>forget_unanswered\<close> looks a claim up among the admissions.  The hash map's order is unspecified;
  the keys are walked in \<open>st_admission_order\<close>, which lists exactly them, and a claim belongs to one
  admission only (both are part of \<open>access_ok\<close>).
\<close>

definition unanswered_claim :: "access_state \<Rightarrow> nat \<Rightarrow> request_key \<Rightarrow> bool" where
  "unanswered_claim st claim_id key =
     (case st_admissions st key of
        None \<Rightarrow> False
      | Some a \<Rightarrow> pa_claim_id a = claim_id \<and> pa_response a = None)"

definition forget_unanswered :: "nat \<Rightarrow> access_state \<Rightarrow> access_state" where
  "forget_unanswered claim_id st =
     (case List.find (unanswered_claim st claim_id) (st_admission_order st) of
        None \<Rightarrow> st
      | Some key \<Rightarrow>
         (case st_admissions st key of
            None \<Rightarrow> st
          | Some a \<Rightarrow>
              let okey = (fst key, as_set_id (fst (pa_assignment a)));
                  ords = (case st_ordinals st okey of
                     None \<Rightarrow> st_ordinals st
                   | Some ordinal \<Rightarrow>
                       if ordinal = pa_ordinal a then (st_ordinals st)(okey \<mapsto> ordinal - 1)
                       else st_ordinals st)
              in st\<lparr>st_admissions := (st_admissions st)(key := None),
                    st_admission_order := filter (\<lambda>held. held \<noteq> key) (st_admission_order st),
                    st_ordinals := ords\<rparr>))"

definition remember :: "set_key \<Rightarrow> unlocked \<Rightarrow> access_state \<Rightarrow> access_state" where
  "remember key u st =
     (let order = filter (\<lambda>held. held \<noteq> key) (st_unlock_order st) @ [key];
          held = (st_unlocked st)(key \<mapsto> u)
      in if length order > MAX_UNLOCKED_SETS
         then st\<lparr>st_unlock_order := tl order, st_unlocked := held(hd order := None)\<rparr>
         else st\<lparr>st_unlock_order := order, st_unlocked := held\<rparr>)"

definition purge :: "nat \<Rightarrow> access_state \<Rightarrow> access_state" where
  "purge now st =
     (case st_result st of
        None \<Rightarrow> st
      | Some r \<Rightarrow> if sr_expires_at r \<le> now then st\<lparr>st_result := None\<rparr> else st)"

section \<open>Unlocking\<close>

datatype open_error = WrongPin | InvalidPackage task_error

text \<open>\<open>open\<close> after the decryption, whose outcome is \<open>opened\<close>; the answer lists the tasks by title.\<close>

definition open_set ::
  "(string \<Rightarrow> int option) \<Rightarrow> int \<Rightarrow> assignment \<Rightarrow> open_error + loaded_set \<Rightarrow> (nat \<times> nat) option
     \<Rightarrow> nat \<Rightarrow> nat \<Rightarrow> access_state \<Rightarrow> (access_error + json) \<times> access_state" where
  "open_set chrono owner a opened site_time instant now st =
     (case opened of
        Inl WrongPin \<Rightarrow> (Inl (access_error ''invalid_pin''), st)
      | Inl (InvalidPackage _) \<Rightarrow> (Inl (access_error ''package_invalid''), st)
      | Inr s \<Rightarrow>
          let u = \<lparr>ul_set = s, ul_site_clock = site_time\<rparr>
          in if set_closed chrono (ls_config s) (unlocked_now u instant now)
             then (Inl (access_error ''set_closed''), st)
             else (Inr (JObj [(''setId'', JStr (as_set_id a)), (''version'', JInt (int (as_version a))),
                     (''tasks'', JArr (map (\<lambda>(i, r). JObj [(''id'', JStr i), (''title'', JStr (tr_title r))])
                        (ls_records s)))]),
                   remember (owner, a) u st))"

fun json_extend :: "(string \<times> json) list \<Rightarrow> (string \<times> json) list \<Rightarrow> (string \<times> json) list" where
  "json_extend obj [] = obj"
| "json_extend obj ((k, v) # rest) =
     json_extend (if k \<in> fst ` set obj then map (\<lambda>f. if fst f = k then (k, v) else f) obj
                  else obj @ [(k, v)]) rest"

text \<open>\<open>extend\<close> is one overwrite after another: what a field reads as afterwards.\<close>

lemma json_replace_get:
  "map_of (map (\<lambda>f. if fst f = a then (a, v) else f) obj) k
     = (if k = a \<and> map_of obj a \<noteq> None then Some v else map_of obj k)"
  by (induction obj) auto

lemma json_extend_get:
  "distinct (map fst new) \<Longrightarrow> map_of (json_extend obj new) k = (case map_of new k of Some v \<Rightarrow> Some v | None \<Rightarrow> map_of obj k)"
proof (induction new arbitrary: obj)
  case (Cons f new)
  obtain a v where f: "f = (a, v)" by (cases f)
  let ?obj = "if a \<in> fst ` set obj then map (\<lambda>f. if fst f = a then (a, v) else f) obj else obj @ [(a, v)]"
  have none: "a \<notin> fst ` set obj \<longleftrightarrow> map_of obj a = None" by (simp add: map_of_eq_None_iff)
  have obj: "map_of ?obj k = (if k = a then Some v else map_of obj k)"
    using none by (auto simp: json_replace_get map_add_def split: option.splits)
  have "map_of new a = None" using Cons.prems f by (simp add: map_of_eq_None_iff)
  moreover have "map_of (json_extend obj (f # new)) k = (case map_of new k of Some v \<Rightarrow> Some v | None \<Rightarrow> map_of ?obj k)"
    using Cons unfolding f by simp
  ultimately show ?case unfolding obj f by (auto split: option.splits)
qed simp

section \<open>Reading a task\<close>

definition task_view :: "loaded_set \<Rightarrow> assignment \<Rightarrow> string \<Rightarrow> task_record \<Rightarrow> json" where
  "task_view s a task_id r =
     (let sc = tr_sidecar r in
      JObj ([(''setId'', JStr (as_set_id a)), (''version'', JInt (int (cf_version (ls_config s)))),
         (''taskId'', JStr task_id), (''title'', JStr (tr_title r)), (''brief'', tr_brief r),
         (''contract'', JStr (tr_contract r)), (''languages'', JArr (map JStr (sc_languages sc))),
         (''starterCode'', JObj (json_extend [] (map (\<lambda>l. (l, opt_str_json (starter r l))) (sc_languages sc)))),
         (''publicCases'', tr_judge r),
         (''requiredCases'', JArr (map (\<lambda>n. JInt (int n)) (tr_required_cases r))),
         (''completionTargets'', JArr (map target_json (sc_completion_targets sc))),
         (''understandingChecks'', JArr (map check_json (sc_understanding_checks sc))),
         (''rules'', rules_json (cf_rules (ls_config s))),
         (''setupTimeoutSeconds'', JInt (int (default_number ''pendingAdmissionSeconds''))),
         (''reviewDeliverySeconds'', JInt (int (default_number ''reviewDeliverySeconds'')))]
        @ (case sc_optimization sc of None \<Rightarrow> [] | Some level \<Rightarrow> [(''optimization'', JStr level)])
        @ (if sc_explainers sc = [] then [] else [(''explainers'', JArr (map JStr (sc_explainers sc)))])))"

definition load_task ::
  "loaded_set \<Rightarrow> int \<Rightarrow> assignment \<Rightarrow> string \<Rightarrow> access_state \<Rightarrow> access_error + json" where
  "load_task built_in owner a task_id st =
     (case (if a = built_in_assignment then Some built_in
            else map_option ul_set (st_unlocked st (owner, a))) of
        None \<Rightarrow> Inl (access_error ''unlock_required'')
      | Some s \<Rightarrow>
          (case map_of (ls_records s) task_id of
             None \<Rightarrow> Inl (access_error ''task_not_found'')
           | Some r \<Rightarrow> Inr (task_view s a task_id r)))"

section \<open>Admission\<close>

datatype admission = New pinned_task | Replayed json

definition hint_limit :: "loaded_set \<Rightarrow> task_record \<Rightarrow> nat" where
  "hint_limit s r = min (sc_max_hint_rungs (tr_sidecar r)) (rl_max_hint_rungs (cf_rules (ls_config s)))"

text \<open>The branch of \<open>begin_admission\<close> for a request key that was seen before.\<close>

definition replay_admission ::
  "pending_admission \<Rightarrow> assignment \<times> string \<Rightarrow> string \<Rightarrow> nat \<Rightarrow> access_state \<Rightarrow> access_error + admission"
where
  "replay_admission adm named language now st =
     (if pa_assignment adm \<noteq> named \<or> pa_language adm \<noteq> language
      then Inl (access_error ''client_override'')
      else if pa_expires_at adm \<le> now
         \<or> (case st_active st of None \<Rightarrow> True | Some act \<Rightarrow> aa_claim_id act \<noteq> pa_claim_id adm)
      then Inl (access_error ''request_key_expired'')
      else case pa_response adm of
        Some response \<Rightarrow> Inr (Replayed response)
      | None \<Rightarrow> Inl \<lparr>ae_code = ''setup_pending'', ae_retry_after = Some 1\<rparr>)"

definition unlocked_set ::
  "(string \<Rightarrow> int option) \<Rightarrow> loaded_set \<Rightarrow> int \<Rightarrow> assignment \<Rightarrow> nat \<Rightarrow> nat \<Rightarrow> access_state
     \<Rightarrow> access_error + loaded_set" where
  "unlocked_set chrono built_in owner a instant now st =
     (if a = built_in_assignment then Inr built_in
      else case st_unlocked st (owner, a) of
        None \<Rightarrow> Inl (access_error ''unlock_required'')
      | Some u \<Rightarrow>
          if set_closed chrono (ls_config (ul_set u)) (unlocked_now u instant now)
          then Inl (access_error ''set_closed'')
          else Inr (ul_set u))"

text \<open>The part of \<open>begin_admission\<close> that changes the state: the claim, the ordinal, the admission.\<close>

definition admit ::
  "int \<Rightarrow> string \<times> nat \<Rightarrow> assignment \<Rightarrow> string \<Rightarrow> string \<Rightarrow> preparation \<Rightarrow> nat
     \<Rightarrow> loaded_set \<Rightarrow> task_record \<Rightarrow> access_state \<Rightarrow> pinned_task \<times> access_state" where
  "admit owner github a task_id req prep now s r st =
     (let claim_id = st_next_claim_id st + 1;
          okey = (owner, as_set_id a);
          ordinal = (case st_ordinals st okey of None \<Rightarrow> 0 | Some n \<Rightarrow> n) + 1;
          key = (owner, req);
          adm = \<lparr>pa_claim_id = claim_id, pa_assignment = (a, task_id), pa_language = pr_language prep,
                 pa_ordinal = ordinal,
                 pa_expires_at = sat_add64 now (default_number ''pendingAdmissionSeconds''),
                 pa_response = None\<rparr>;
          order = st_admission_order st @ [key];
          adms = (st_admissions st)(key \<mapsto> adm);
          (order, adms) = (if length order > MAX_ADMISSIONS then (tl order, adms(hd order := None))
                           else (order, adms))
      in (\<lparr>pt_config = ls_config s, pt_exercise = r, pt_owner_id = owner,
           pt_github_login = fst github, pt_github_id = snd github, pt_session_ordinal = ordinal,
           pt_hint_limit = hint_limit s r, pt_claim_id = claim_id, pt_preparation = prep\<rparr>,
          st\<lparr>st_next_claim_id := claim_id,
             st_ordinals := (st_ordinals st)(okey \<mapsto> ordinal),
             st_active := Some \<lparr>aa_owner_id = owner, aa_claim_id = claim_id, aa_room = None\<rparr>,
             st_admissions := adms,
             st_admission_order := order\<rparr>))"

definition begin_admission ::
  "(string \<Rightarrow> int option) \<Rightarrow> loaded_set \<Rightarrow> int \<Rightarrow> string \<times> nat \<Rightarrow> assignment \<Rightarrow> string \<Rightarrow> string
     \<Rightarrow> preparation \<Rightarrow> nat \<Rightarrow> nat \<Rightarrow> access_state \<Rightarrow> (access_error + admission) \<times> access_state" where
  "begin_admission chrono built_in owner github a task_id req prep instant now st0 =
     (if \<not> bounded_text req MAX_REQUEST_KEY_BYTES then (Inl (access_error ''client_override''), st0)
      else let st = purge now st0 in
        case st_admissions st (owner, req) of
          Some adm \<Rightarrow> (replay_admission adm (a, task_id) (pr_language prep) now st, st)
        | None \<Rightarrow>
           if st_active st \<noteq> None then (Inl (access_error ''active_task_session''), st)
           else case unlocked_set chrono built_in owner a instant now st of
             Inl e \<Rightarrow> (Inl e, st)
           | Inr s \<Rightarrow>
              (case map_of (ls_records s) task_id of
                 None \<Rightarrow> (Inl (access_error ''task_not_found''), st)
               | Some r \<Rightarrow>
                   if pr_language prep \<notin> set (sc_languages (tr_sidecar r))
                   then (Inl (access_error ''language_unsupported''), st)
                   else if \<not> runnable (pr_language prep) (pr_compiler_explorer prep)
                   then (Inl (access_error ''language_unavailable''), st)
                   else let (task, st') = admit owner github a task_id req prep now s r st
                        in (Inr (New task), st')))"

definition finish_admission ::
  "int \<Rightarrow> string \<Rightarrow> nat \<Rightarrow> json option \<Rightarrow> access_state \<Rightarrow> access_state" where
  "finish_admission owner req claim_id response st =
     (case st_admissions st (owner, req) of
        None \<Rightarrow> st
      | Some adm \<Rightarrow>
          if pa_claim_id adm \<noteq> claim_id then st
          else case response of
            None \<Rightarrow> forget_unanswered claim_id st
          | Some r \<Rightarrow>
              let act = (case st_active st of
                     None \<Rightarrow> None
                   | Some act \<Rightarrow>
                       Some (if aa_claim_id act = claim_id
                             then act\<lparr>aa_room := json_as_str (json_index r ''roomName'')\<rparr> else act))
              in st\<lparr>st_active := act,
                    st_admissions := (st_admissions st)((owner, req) \<mapsto> adm\<lparr>pa_response := Some r\<rparr>)\<rparr>)"

text \<open>Dropping the attempt's lease (\<open>AdmissionLease::drop\<close>) frees the one attempt slot.\<close>

definition drop_lease :: "nat \<Rightarrow> access_state \<Rightarrow> access_state" where
  "drop_lease claim_id st =
     (case st_active st of
        None \<Rightarrow> st
      | Some act \<Rightarrow> if aa_claim_id act = claim_id then st\<lparr>st_active := None\<rparr> else st)"

section \<open>Results\<close>

datatype result_lookup = Ready json | Pending | Unavailable

definition result_of :: "int \<Rightarrow> string \<Rightarrow> nat \<Rightarrow> access_state \<Rightarrow> result_lookup \<times> access_state" where
  "result_of owner room now st0 =
     (let st = purge now st0;
          pending = (case st_active st of None \<Rightarrow> False
            | Some act \<Rightarrow> aa_owner_id act = owner \<and> aa_room act = Some room)
      in (case st_result st of
            Some r \<Rightarrow> if sr_owner_id r = owner \<and> sr_room r = room then Ready (sr_value r)
                      else if pending then Pending else Unavailable
          | None \<Rightarrow> if pending then Pending else Unavailable, st))"

definition task_contract :: json where
  "task_contract = JObj [(''package'', JInt 1), (''prompt'', JInt 1), (''wire'', JInt 1),
     (''reportSchema'', JInt 1), (''rubric'', JInt 1)]"

definition stamp_fields :: "pinned_task \<Rightarrow> string \<Rightarrow> (string \<times> json) list" where
  "stamp_fields task session_id =
     [(''setId'', JStr (cf_id (pt_config task))), (''setVersion'', JInt (int (cf_version (pt_config task)))),
      (''taskId'', JStr (tr_id (pt_exercise task))), (''sessionId'', JStr session_id),
      (''sessionOrdinal'', JInt (int (pt_session_ordinal task))),
      (''rubricProfile'', JStr ''task-engagement-v1''),
      (''githubLogin'', JStr (pt_github_login task)), (''githubId'', JInt (int (pt_github_id task))),
      (''language'', JStr (pr_language (pt_preparation task))),
      (''rulesAcknowledgedAt'', JStr (pr_rules_acknowledged_at (pt_preparation task))),
      (''rules'', rules_json (cf_rules (pt_config task))),
      (''calibration'', pr_calibration (pt_preparation task))]"

definition stamped :: "pinned_task \<Rightarrow> string \<Rightarrow> (string \<times> json) list \<Rightarrow> json \<Rightarrow> json" where
  "stamped task session_id ending assessment =
     JObj [(''assessmentMode'', JStr ''task''), (''taskContract'', task_contract),
       (''taskAssessment'', case assessment of
           JObj obj \<Rightarrow> JObj (json_extend (json_extend obj (stamp_fields task session_id)) ending)
         | other \<Rightarrow> other)]"

definition filter_str :: "(string \<Rightarrow> bool) \<Rightarrow> json \<Rightarrow> json" where
  "filter_str p v = (case json_as_str v of Some s \<Rightarrow> if p s then JStr s else JNull | None \<Rightarrow> JNull)"

definition MAX_CODE_BYTES :: nat where
  "MAX_CODE_BYTES = 32000"

definition unavailable_for_task :: "pinned_task \<Rightarrow> string \<Rightarrow> json \<Rightarrow> json" where
  "unavailable_for_task task room oversized =
     (let recorded = json_index oversized ''taskAssessment'';
          ending = [(''outcome'', json_index recorded ''outcome''),
             (''captureOverflow'', case json_index recorded ''captureOverflow'' of
                 JBool b \<Rightarrow> JBool b | _ \<Rightarrow> JBool False),
             (''finalRevisionId'', filter_str opaque_id (json_index recorded ''finalRevisionId'')),
             (''finalCode'', filter_str (\<lambda>code. length code \<le> MAX_CODE_BYTES) (json_index recorded ''finalCode''))];
          value = stamped task room ending (JObj []);
          completed = (case json_as_str (json_index (json_index recorded ''outcome'') ''outcome'') of
             None \<Rightarrow> True | Some outcome \<Rightarrow> outcome = ''completed'')
      in if completed
         then (case value of JObj obj \<Rightarrow> JObj (json_extend obj [(''feedbackUnavailable'', JBool True)])
               | other \<Rightarrow> other)
         else value)"

definition retain_result ::
  "(64 word \<Rightarrow> string) \<Rightarrow> pinned_task \<Rightarrow> string \<Rightarrow> json \<Rightarrow> nat \<Rightarrow> access_state \<Rightarrow> access_state" where
  "retain_result fmt task room result now st =
     (let value = (if length (json_render fmt result) \<le> default_number ''reviewBytes'' then result
                   else unavailable_for_task task room result)
      in st\<lparr>st_result := Some \<lparr>sr_owner_id = pt_owner_id task, sr_room = room,
             sr_expires_at = sat_add64 now (default_number ''reviewRetentionSeconds''),
             sr_value = value\<rparr>\<rparr>)"

text \<open>The timer \<open>retain_result\<close> starts, when it fires.\<close>

definition retention_over :: "string \<Rightarrow> nat \<Rightarrow> access_state \<Rightarrow> access_state" where
  "retention_over room expires_at st =
     (case st_result st of
        None \<Rightarrow> st
      | Some kept \<Rightarrow>
          if sr_room kept = room \<and> sr_expires_at kept = expires_at then st\<lparr>st_result := None\<rparr> else st)"

end
