(* ===== verification/Task_Access_Correct.thy ===== *)
theory Task_Access_Correct
  imports Task_Access
begin

text \<open>
  What \<open>Task_Access\<close> keeps: the two bounded tables list exactly their keys in order, a claim
  and a session ordinal belong to one remembered admission, one attempt runs at a time, and a
  retried Start never opens a second room.
\<close>

section \<open>The invariant\<close>

definition adm_ordinal_key :: "request_key \<Rightarrow> pending_admission \<Rightarrow> int \<times> string" where
  "adm_ordinal_key key a = (fst key, as_set_id (fst (pa_assignment a)))"

definition unlocks_ok :: "access_state \<Rightarrow> bool" where
  "unlocks_ok st \<longleftrightarrow> distinct (st_unlock_order st)
     \<and> set (st_unlock_order st) = dom (st_unlocked st)
     \<and> length (st_unlock_order st) \<le> MAX_UNLOCKED_SETS"

definition table_ok :: "access_state \<Rightarrow> bool" where
  "table_ok st \<longleftrightarrow> distinct (st_admission_order st)
     \<and> set (st_admission_order st) = dom (st_admissions st)
     \<and> length (st_admission_order st) \<le> MAX_ADMISSIONS"

definition claims_ok :: "access_state \<Rightarrow> bool" where
  "claims_ok st \<longleftrightarrow>
     (\<forall>k a. st_admissions st k = Some a \<longrightarrow> pa_claim_id a \<le> st_next_claim_id st)
   \<and> (\<forall>k k' a a'. st_admissions st k = Some a \<longrightarrow> st_admissions st k' = Some a'
        \<longrightarrow> pa_claim_id a = pa_claim_id a' \<longrightarrow> k = k')
   \<and> (\<forall>act. st_active st = Some act \<longrightarrow> aa_claim_id act \<le> st_next_claim_id st)"

definition ordinals_ok :: "access_state \<Rightarrow> bool" where
  "ordinals_ok st \<longleftrightarrow>
     (\<forall>k a. st_admissions st k = Some a \<longrightarrow> 1 \<le> pa_ordinal a
        \<and> (\<exists>n. st_ordinals st (adm_ordinal_key k a) = Some n \<and> pa_ordinal a \<le> n))
   \<and> (\<forall>k k' a a'. st_admissions st k = Some a \<longrightarrow> st_admissions st k' = Some a'
        \<longrightarrow> adm_ordinal_key k a = adm_ordinal_key k' a' \<longrightarrow> pa_ordinal a = pa_ordinal a' \<longrightarrow> k = k')"

definition access_ok :: "access_state \<Rightarrow> bool" where
  "access_ok st \<longleftrightarrow> unlocks_ok st \<and> table_ok st \<and> claims_ok st \<and> ordinals_ok st"

lemmas access_ok_defs = access_ok_def unlocks_ok_def table_ok_def claims_ok_def ordinals_ok_def

lemma access_okI:
  "unlocks_ok st \<Longrightarrow> table_ok st \<Longrightarrow> claims_ok st \<Longrightarrow> ordinals_ok st \<Longrightarrow> access_ok st"
  by (simp add: access_ok_def)

lemma access_init_ok: "access_ok access_init"
  by (simp add: access_ok_defs access_init_def)

section \<open>Every method keeps it\<close>

text \<open>A bounded queue of distinct keys beside a map on exactly those keys: adding one, dropping the
  oldest past the cap.\<close>

lemma queue_push:
  assumes "distinct ks" and "set ks = dom m" and "k \<notin> set ks" and "length ks \<le> n" and "0 < n"
    and "ks' = (if length (ks @ [k]) > n then tl (ks @ [k]) else ks @ [k])"
    and "m' = (if length (ks @ [k]) > n then (m(k \<mapsto> v))(hd (ks @ [k]) := None) else m(k \<mapsto> v))"
  shows "distinct ks' \<and> set ks' = dom m' \<and> length ks' \<le> n"
proof (cases ks)
  case Nil
  with assms show ?thesis by (simp split: if_splits)
next
  case (Cons x xs)
  then have tl: "set (tl (ks @ [k])) = insert k (set ks - {x})" and x: "x \<notin> set xs" and "x \<noteq> k"
    using assms(1,3) by auto
  show ?thesis
  proof (cases "length (ks @ [k]) > n")
    case True
    have "dom m' = insert k (dom m) - {x}" using True Cons by (auto simp: assms(7))
    with True Cons assms(1-6) tl \<open>x \<noteq> k\<close> show ?thesis by auto
  next
    case False
    with assms show ?thesis by auto
  qed
qed

lemma remember_ok:
  assumes "access_ok st"
  shows "access_ok (remember key u st)"
proof -
  let ?ks = "filter (\<lambda>held. held \<noteq> key) (st_unlock_order st)"
  let ?m = "(st_unlocked st)(key := None)"
  have ks: "distinct ?ks" "set ?ks = dom ?m" "key \<notin> set ?ks" "length ?ks \<le> MAX_UNLOCKED_SETS"
    using assms by (auto simp: access_ok_defs intro: order_trans [OF length_filter_le])
  have order: "st_unlock_order (remember key u st)
      = (if length (?ks @ [key]) > MAX_UNLOCKED_SETS then tl (?ks @ [key]) else ?ks @ [key])"
    and held: "st_unlocked (remember key u st)
      = (if length (?ks @ [key]) > MAX_UNLOCKED_SETS then (?m(key \<mapsto> u))(hd (?ks @ [key]) := None)
         else ?m(key \<mapsto> u))"
    by (simp_all add: remember_def Let_def)
  have "unlocks_ok (remember key u st)"
    using queue_push [OF ks _ order held] by (simp add: unlocks_ok_def MAX_UNLOCKED_SETS_def)
  moreover have "table_ok (remember key u st)" "claims_ok (remember key u st)"
    "ordinals_ok (remember key u st)"
    using assms by (simp_all add: access_ok_defs remember_def Let_def)
  ultimately show ?thesis by (rule access_okI)
qed

lemma purge_simps [simp]:
  "st_unlocked (purge now st) = st_unlocked st"
  "st_unlock_order (purge now st) = st_unlock_order st"
  "st_next_claim_id (purge now st) = st_next_claim_id st"
  "st_active (purge now st) = st_active st"
  "st_ordinals (purge now st) = st_ordinals st"
  "st_admissions (purge now st) = st_admissions st"
  "st_admission_order (purge now st) = st_admission_order st"
  by (simp_all add: purge_def split: option.splits)

lemma purge_ok [simp]: "access_ok (purge now st) = access_ok st"
  by (simp add: access_ok_defs)

lemma open_set_ok: "access_ok st \<Longrightarrow> access_ok (snd (open_set chrono owner a opened t i now st))"
  by (auto simp: open_set_def Let_def remember_ok split: sum.splits open_error.splits)

lemma admit_fields:
  assumes "admit owner github a task_id req prep now s r st = (task, st')"
  shows "st_next_claim_id st' = Suc (st_next_claim_id st)"
    and "st_active st' = Some \<lparr>aa_owner_id = owner, aa_claim_id = Suc (st_next_claim_id st), aa_room = None\<rparr>"
    and "pt_claim_id task = Suc (st_next_claim_id st)"
    and "st_unlocked st' = st_unlocked st" and "st_unlock_order st' = st_unlock_order st"
    and "st_ordinals st' = (st_ordinals st)((owner, as_set_id a) \<mapsto> pt_session_ordinal task)"
    and "pt_session_ordinal task = (case st_ordinals st (owner, as_set_id a) of None \<Rightarrow> 1 | Some n \<Rightarrow> Suc n)"
    and "st_result st' = st_result st"
  using assms by (auto simp: admit_def Let_def split: option.splits if_splits)

definition fresh_admission :: "nat \<Rightarrow> assignment \<Rightarrow> string \<Rightarrow> preparation \<Rightarrow> nat \<Rightarrow> access_state \<Rightarrow> nat \<Rightarrow> pending_admission" where
  "fresh_admission claim a task_id prep ordinal st now =
     \<lparr>pa_claim_id = claim, pa_assignment = (a, task_id), pa_language = pr_language prep,
      pa_ordinal = ordinal, pa_expires_at = sat_add64 now 120, pa_response = None\<rparr>"

lemma admit_table:
  assumes "admit owner github a task_id req prep now s r st = (task, st')"
    and "table_ok st" and "st_admissions st (owner, req) = None"
  shows "table_ok st'"
    and "st_admissions st' (owner, req)
           = Some (fresh_admission (pt_claim_id task) a task_id prep (pt_session_ordinal task) st now)"
    and "\<And>k adm. st_admissions st' k = Some adm \<Longrightarrow> k \<noteq> (owner, req) \<Longrightarrow> st_admissions st k = Some adm"
proof -
  let ?key = "(owner, req)"
  let ?adm = "fresh_admission (pt_claim_id task) a task_id prep (pt_session_ordinal task) st now"
  let ?ks = "st_admission_order st"
  have order: "st_admission_order st'
      = (if length (?ks @ [?key]) > MAX_ADMISSIONS then tl (?ks @ [?key]) else ?ks @ [?key])"
    and adms: "st_admissions st'
      = (if length (?ks @ [?key]) > MAX_ADMISSIONS
         then ((st_admissions st)(?key \<mapsto> ?adm))(hd (?ks @ [?key]) := None)
         else (st_admissions st)(?key \<mapsto> ?adm))"
    using assms(1) by (auto simp: admit_def Let_def fresh_admission_def split: option.splits if_splits)
  have notin: "?key \<notin> set ?ks" using assms(2,3) by (auto simp: table_ok_def)
  show "table_ok st'"
    using queue_push [OF _ _ notin _ _ order adms] assms(2)
    by (simp add: table_ok_def MAX_ADMISSIONS_def)
  have "hd (?ks @ [?key]) \<noteq> ?key" if "length (?ks @ [?key]) > MAX_ADMISSIONS"
  proof -
    have "?ks \<noteq> []" using that by (auto simp: MAX_ADMISSIONS_def)
    then show ?thesis using notin by (metis hd_append2 hd_in_set)
  qed
  then show "st_admissions st' ?key = Some ?adm" by (auto simp: adms)
  show "\<And>k adm. st_admissions st' k = Some adm \<Longrightarrow> k \<noteq> ?key \<Longrightarrow> st_admissions st k = Some adm"
    by (auto simp: adms split: if_splits)
qed

lemma admit_ok:
  assumes admit: "admit owner github a task_id req prep now s r st = (task, st')"
    and ok: "access_ok st" and new: "st_admissions st (owner, req) = None"
  shows "access_ok st'"
proof (rule access_okI)
  note f = admit_fields [OF admit]
  have table: "table_ok st" and claims: "claims_ok st" and ords: "ordinals_ok st"
    using ok by (simp_all add: access_ok_def)
  note t = admit_table [OF admit table new]
  show "unlocks_ok st'" using ok f by (simp add: access_ok_defs)
  show "table_ok st'" by (rule t(1))
  have old: "st_admissions st' k = Some b \<Longrightarrow> k \<noteq> (owner, req) \<Longrightarrow> pa_claim_id b \<le> st_next_claim_id st" for k b
    using t(3) [of k b] claims unfolding claims_ok_def by blast
  show "claims_ok st'"
    unfolding claims_ok_def
  proof (intro conjI allI impI)
    fix k b assume "st_admissions st' k = Some b"
    then show "pa_claim_id b \<le> st_next_claim_id st'"
      using old [of k b] t(2) f(1,3) by (cases "k = (owner, req)") (auto simp: fresh_admission_def)
  next
    fix k k' b b'
    assume b: "st_admissions st' k = Some b" and b': "st_admissions st' k' = Some b'"
      and eq: "pa_claim_id b = pa_claim_id b'"
    show "k = k'"
    proof (cases "k = (owner, req) \<or> k' = (owner, req)")
      case True
      then show ?thesis
        using old [OF b] old [OF b'] eq b b' t(2) f(3)
        by (cases "k = (owner, req)"; cases "k' = (owner, req)") (auto simp: fresh_admission_def)
    next
      case False
      then show ?thesis
        using t(3) [OF b] t(3) [OF b'] eq claims unfolding claims_ok_def by blast
    qed
  next
    fix act assume "st_active st' = Some act"
    then show "aa_claim_id act \<le> st_next_claim_id st'" using f(1,2) by auto
  qed
  have old_ord: "\<exists>n. st_ordinals st (adm_ordinal_key k b) = Some n \<and> pa_ordinal b \<le> n" "1 \<le> pa_ordinal b"
    if "st_admissions st' k = Some b" "k \<noteq> (owner, req)" for k b
    using t(3) [OF that] ords unfolding ordinals_ok_def by blast+
  have new_key: "adm_ordinal_key (owner, req)
      (fresh_admission (pt_claim_id task) a task_id prep (pt_session_ordinal task) st now)
        = (owner, as_set_id a)"
    by (simp add: adm_ordinal_key_def fresh_admission_def)
  have above: "pa_ordinal b < pt_session_ordinal task"
    if "st_admissions st' k = Some b" "k \<noteq> (owner, req)" "adm_ordinal_key k b = (owner, as_set_id a)" for k b
    using old_ord(1) [OF that(1,2)] that(3) f(7) by (auto split: option.splits)
  show "ordinals_ok st'"
    unfolding ordinals_ok_def
  proof (intro conjI allI impI)
    fix k b assume b: "st_admissions st' k = Some b"
    show "1 \<le> pa_ordinal b"
      using b old_ord(2) [OF b] t(2) f(7)
      by (cases "k = (owner, req)") (auto simp: fresh_admission_def split: option.splits)
    show "\<exists>n. st_ordinals st' (adm_ordinal_key k b) = Some n \<and> pa_ordinal b \<le> n"
    proof (cases "k = (owner, req)")
      case True
      with b t(2) f(6) new_key show ?thesis by (auto simp: fresh_admission_def)
    next
      case False
      with old_ord(1) [OF b] above [OF b] f(6) show ?thesis
        by (auto intro: less_imp_le)
    qed
  next
    fix k k' b b'
    assume b: "st_admissions st' k = Some b" and b': "st_admissions st' k' = Some b'"
      and key: "adm_ordinal_key k b = adm_ordinal_key k' b'" and ord: "pa_ordinal b = pa_ordinal b'"
    show "k = k'"
    proof (cases "k = (owner, req) \<or> k' = (owner, req)")
      case True
      then show ?thesis
        using b b' key ord above [OF b] above [OF b'] t(2) new_key
        by (cases "k = (owner, req)"; cases "k' = (owner, req)") (auto simp: fresh_admission_def)
    next
      case False
      then show ?thesis
        using t(3) [OF b] t(3) [OF b'] key ord ords unfolding ordinals_ok_def by blast
    qed
  qed
qed

lemma begin_admission_cases:
  assumes "begin_admission chrono bi owner github a task_id req prep i now st = (res, st')"
  shows "(st' = st \<or> st' = purge now st) \<and> (\<forall>t. res \<noteq> Inr (New t))
    \<or> (\<exists>s r t. res = Inr (New t) \<and> st_admissions st (owner, req) = None \<and> st_active st = None
         \<and> unlocked_set chrono bi owner a i now (purge now st) = Inr s
         \<and> map_of (ls_records s) task_id = Some r
         \<and> pr_language prep \<in> set (sc_languages (tr_sidecar r))
         \<and> admit owner github a task_id req prep now s r (purge now st) = (t, st'))"
proof (cases "bounded_text req MAX_REQUEST_KEY_BYTES")
  case False
  with assms show ?thesis by (auto simp: begin_admission_def)
next
  case txt_ok: True
  show ?thesis
  proof (cases "st_admissions st (owner, req)")
    case (Some adm)
    with assms txt_ok show ?thesis
      by (auto simp: begin_admission_def Let_def replay_admission_def split: option.splits if_splits)
  next
    case new: None
    show ?thesis
    proof (cases "st_active st = None")
      case False
      with assms txt_ok new show ?thesis by (auto simp: begin_admission_def Let_def)
    next
      case free: True
      show ?thesis
      proof (cases "unlocked_set chrono bi owner a i now (purge now st)")
        case (Inl e)
        with assms txt_ok new free show ?thesis by (auto simp: begin_admission_def Let_def)
      next
        case (Inr s)
        with assms txt_ok new free show ?thesis
          by (auto simp: begin_admission_def Let_def split: option.splits if_splits prod.splits)
      qed
    qed
  qed
qed

lemma begin_admission_ok:
  assumes "access_ok st"
  shows "access_ok (snd (begin_admission chrono bi owner github a task_id req prep i now st))"
proof -
  obtain res st' where b: "begin_admission chrono bi owner github a task_id req prep i now st = (res, st')"
    by (cases "begin_admission chrono bi owner github a task_id req prep i now st")
  from begin_admission_cases [OF b] show ?thesis
    using assms admit_ok [of owner github a task_id req prep now _ _ "purge now st" _ st']
    by (auto simp: b)
qed

lemma unanswered_claimD:
  "unanswered_claim st c k \<Longrightarrow> \<exists>a. st_admissions st k = Some a \<and> pa_claim_id a = c \<and> pa_response a = None"
  by (auto simp: unanswered_claim_def split: option.splits)

lemma forget_unanswered_cases:
  obtains (nothing) "forget_unanswered c st = st"
  | (forgot) key a where "st_admissions st key = Some a" and "pa_claim_id a = c" and "pa_response a = None"
      and "st_admissions (forget_unanswered c st) = (st_admissions st)(key := None)"
      and "st_admission_order (forget_unanswered c st) = filter (\<lambda>held. held \<noteq> key) (st_admission_order st)"
      and "st_ordinals (forget_unanswered c st) =
            (if st_ordinals st (adm_ordinal_key key a) = Some (pa_ordinal a)
             then (st_ordinals st)(adm_ordinal_key key a \<mapsto> pa_ordinal a - 1) else st_ordinals st)"
      and "st_active (forget_unanswered c st) = st_active st"
      and "st_next_claim_id (forget_unanswered c st) = st_next_claim_id st"
      and "st_unlocked (forget_unanswered c st) = st_unlocked st"
      and "st_unlock_order (forget_unanswered c st) = st_unlock_order st"
      and "st_result (forget_unanswered c st) = st_result st"
proof (cases "List.find (unanswered_claim st c) (st_admission_order st)")
  case None
  show ?thesis by (rule nothing) (simp add: forget_unanswered_def None)
next
  case (Some key)
  then have "unanswered_claim st c key" by (auto simp: find_Some_iff)
  then obtain a where a: "st_admissions st key = Some a" "pa_claim_id a = c" "pa_response a = None"
    using unanswered_claimD by blast
  show ?thesis
    by (rule forgot [of key a], fact+)
       (simp_all add: a forget_unanswered_def Some Let_def adm_ordinal_key_def split: option.splits)
qed

lemma forget_unanswered_ok:
  assumes "access_ok st"
  shows "access_ok (forget_unanswered c st)"
proof (cases rule: forget_unanswered_cases [of c st])
  case nothing
  with assms show ?thesis by simp
next
  case (forgot key a)
  have claims: "claims_ok st" and ords: "ordinals_ok st" using assms by (simp_all add: access_ok_def)
  have old: "st_admissions st k = Some b" "k \<noteq> key"
    if "st_admissions (forget_unanswered c st) k = Some b" for k b
    using that by (auto simp: forgot split: if_splits)
  show ?thesis
  proof (rule access_okI)
    show "unlocks_ok (forget_unanswered c st)" using assms by (simp add: access_ok_defs forgot)
    have "length (filter (\<lambda>held. held \<noteq> key) (st_admission_order st)) \<le> length (st_admission_order st)"
      by (rule length_filter_le)
    also have "\<dots> \<le> MAX_ADMISSIONS" using assms by (simp add: access_ok_defs)
    finally have len: "length (filter (\<lambda>held. held \<noteq> key) (st_admission_order st)) \<le> MAX_ADMISSIONS" .
    have "table_ok st" using assms by (simp add: access_ok_def)
    then have "distinct (filter (\<lambda>held. held \<noteq> key) (st_admission_order st))"
      and "set (filter (\<lambda>held. held \<noteq> key) (st_admission_order st))
        = dom ((st_admissions st)(key := None))"
      by (auto simp: table_ok_def)
    with len show "table_ok (forget_unanswered c st)"
      unfolding table_ok_def forgot(4,5) by blast
    show "claims_ok (forget_unanswered c st)"
      unfolding claims_ok_def forgot(7,8)
    proof (intro conjI allI impI)
      fix k b assume "st_admissions (forget_unanswered c st) k = Some b"
      from old(1) [OF this] claims show "pa_claim_id b \<le> st_next_claim_id st"
        unfolding claims_ok_def by blast
    next
      fix k k' b b'
      assume "st_admissions (forget_unanswered c st) k = Some b"
        and "st_admissions (forget_unanswered c st) k' = Some b'" and "pa_claim_id b = pa_claim_id b'"
      with old(1) [of k b] old(1) [of k' b'] claims show "k = k'"
        unfolding claims_ok_def by blast
    next
      fix act assume "st_active st = Some act"
      with claims show "aa_claim_id act \<le> st_next_claim_id st" unfolding claims_ok_def by blast
    qed
    have keep: "\<exists>n. st_ordinals (forget_unanswered c st) (adm_ordinal_key k b) = Some n \<and> pa_ordinal b \<le> n"
      if b: "st_admissions (forget_unanswered c st) k = Some b" for k b
    proof -
      obtain n where n: "st_ordinals st (adm_ordinal_key k b) = Some n" "pa_ordinal b \<le> n"
        using ords old [OF b] unfolding ordinals_ok_def by blast
      show ?thesis
      proof (cases "adm_ordinal_key k b = adm_ordinal_key key a \<and> n = pa_ordinal a")
        case True
        then have "pa_ordinal b \<noteq> pa_ordinal a"
          using ords old [OF b] forgot(1) unfolding ordinals_ok_def by blast
        with True n show ?thesis by (auto simp: forgot)
      next
        case False
        with n show ?thesis by (auto simp: forgot)
      qed
    qed
    show "ordinals_ok (forget_unanswered c st)"
      unfolding ordinals_ok_def
    proof (intro conjI allI impI)
      fix k b assume b: "st_admissions (forget_unanswered c st) k = Some b"
      from old(1) [OF b] ords show "1 \<le> pa_ordinal b" unfolding ordinals_ok_def by blast
      from b show "\<exists>n. st_ordinals (forget_unanswered c st) (adm_ordinal_key k b) = Some n \<and> pa_ordinal b \<le> n"
        by (rule keep)
    next
      fix k k' b b'
      assume "st_admissions (forget_unanswered c st) k = Some b"
        and "st_admissions (forget_unanswered c st) k' = Some b'"
        and "adm_ordinal_key k b = adm_ordinal_key k' b'" and "pa_ordinal b = pa_ordinal b'"
      with old(1) [of k b] old(1) [of k' b'] ords show "k = k'"
        unfolding ordinals_ok_def by blast
    qed
  qed
qed

lemma finish_answer_fields:
  assumes "st_admissions st (owner, req) = Some adm" and "pa_claim_id adm = c"
  shows "st_admissions (finish_admission owner req c (Some r) st)
           = (st_admissions st)((owner, req) \<mapsto> adm\<lparr>pa_response := Some r\<rparr>)"
    and "st_active (finish_admission owner req c (Some r) st) = map_option (\<lambda>act.
           if aa_claim_id act = c then act\<lparr>aa_room := json_as_str (json_index r ''roomName'')\<rparr> else act)
           (st_active st)"
    and "st_admission_order (finish_admission owner req c (Some r) st) = st_admission_order st"
    and "st_next_claim_id (finish_admission owner req c (Some r) st) = st_next_claim_id st"
    and "st_ordinals (finish_admission owner req c (Some r) st) = st_ordinals st"
    and "st_unlocked (finish_admission owner req c (Some r) st) = st_unlocked st"
    and "st_unlock_order (finish_admission owner req c (Some r) st) = st_unlock_order st"
    and "st_result (finish_admission owner req c (Some r) st) = st_result st"
  using assms by (simp_all add: finish_admission_def Let_def split: option.splits)

lemma finish_admission_ok:
  assumes "access_ok st"
  shows "access_ok (finish_admission owner req c response st)"
proof (cases "\<exists>adm. st_admissions st (owner, req) = Some adm \<and> pa_claim_id adm = c")
  case False
  with assms show ?thesis by (auto simp: finish_admission_def split: option.splits)
next
  case True
  then obtain adm where adm: "st_admissions st (owner, req) = Some adm" "pa_claim_id adm = c" by blast
  show ?thesis
  proof (cases response)
    case None
    with adm assms show ?thesis by (simp add: finish_admission_def forget_unanswered_ok)
  next
    case (Some r)
    let ?st = "finish_admission owner req c (Some r) st"
    note f = finish_answer_fields [OF adm, of r]
    have old: "\<exists>b'. st_admissions st k = Some b' \<and> pa_claim_id b' = pa_claim_id b
        \<and> pa_ordinal b' = pa_ordinal b \<and> adm_ordinal_key k b' = adm_ordinal_key k b"
      if "st_admissions ?st k = Some b" for k b
      using that adm by (auto simp: f adm_ordinal_key_def split: if_splits)
    have "unlocks_ok ?st" using assms by (simp add: access_ok_defs f)
    moreover have "table_ok ?st" using assms adm by (auto simp: access_ok_defs f)
    moreover have "claims_ok ?st"
    proof -
      have c: "claims_ok st" using assms by (simp add: access_ok_def)
      have "\<forall>act. st_active ?st = Some act \<longrightarrow> aa_claim_id act \<le> st_next_claim_id ?st"
        using c by (auto simp: claims_ok_def f)
      moreover have "\<forall>k a. st_admissions ?st k = Some a \<longrightarrow> pa_claim_id a \<le> st_next_claim_id ?st"
        using c old unfolding claims_ok_def f(4) by metis
      moreover have "\<forall>k k' a a'. st_admissions ?st k = Some a \<longrightarrow> st_admissions ?st k' = Some a'
          \<longrightarrow> pa_claim_id a = pa_claim_id a' \<longrightarrow> k = k'"
        using c old unfolding claims_ok_def by metis
      ultimately show ?thesis unfolding claims_ok_def by blast
    qed
    moreover have "ordinals_ok ?st"
    proof -
      have o: "ordinals_ok st" using assms by (simp add: access_ok_def)
      show ?thesis
        unfolding ordinals_ok_def f(5)
      proof (intro conjI allI impI)
        fix k b assume "st_admissions ?st k = Some b"
        from old [OF this] o show "1 \<le> pa_ordinal b"
          and "\<exists>n. st_ordinals st (adm_ordinal_key k b) = Some n \<and> pa_ordinal b \<le> n"
          unfolding ordinals_ok_def by metis+
      next
        fix k k' b b'
        assume "st_admissions ?st k = Some b" "st_admissions ?st k' = Some b'"
          and eq: "adm_ordinal_key k b = adm_ordinal_key k' b'" "pa_ordinal b = pa_ordinal b'"
        from old [OF this(1)] old [OF this(2)] eq o show "k = k'"
          unfolding ordinals_ok_def by metis
      qed
    qed
    ultimately show ?thesis unfolding Some by (rule access_okI)
  qed
qed

lemma drop_lease_ok: "access_ok st \<Longrightarrow> access_ok (drop_lease c st)"
  by (auto simp: access_ok_defs drop_lease_def split: option.splits)

lemma result_only_ok:
  "access_ok (st\<lparr>st_result := r\<rparr>) = access_ok st"
  by (simp add: access_ok_defs)

lemma retain_result_ok: "access_ok st \<Longrightarrow> access_ok (retain_result fmt task room result now st)"
  by (simp add: retain_result_def Let_def result_only_ok)

lemma retention_over_ok: "access_ok st \<Longrightarrow> access_ok (retention_over room e st)"
  by (auto simp: retention_over_def result_only_ok split: option.splits)

section \<open>The service as a state machine\<close>

datatype access_event =
    EvOpen int assignment "open_error + loaded_set" "(nat \<times> nat) option" nat nat
  | EvBegin int "string \<times> nat" assignment string string preparation nat nat
  | EvFinish int string nat "json option"
  | EvDropLease nat
  | EvRetain pinned_task string json nat
  | EvRetentionOver string nat
  | EvResult int string nat

fun access_step ::
  "(string \<Rightarrow> int option) \<Rightarrow> loaded_set \<Rightarrow> (64 word \<Rightarrow> string) \<Rightarrow> access_event \<Rightarrow> access_state \<Rightarrow> access_state"
where
  "access_step chrono bi fmt (EvOpen owner a opened t i now) st = snd (open_set chrono owner a opened t i now st)"
| "access_step chrono bi fmt (EvBegin owner github a task_id req prep i now) st =
     snd (begin_admission chrono bi owner github a task_id req prep i now st)"
| "access_step chrono bi fmt (EvFinish owner req c response) st = finish_admission owner req c response st"
| "access_step chrono bi fmt (EvDropLease c) st = drop_lease c st"
| "access_step chrono bi fmt (EvRetain task room result now) st = retain_result fmt task room result now st"
| "access_step chrono bi fmt (EvRetentionOver room e) st = retention_over room e st"
| "access_step chrono bi fmt (EvResult owner room now) st = snd (result_of owner room now st)"

lemma access_step_ok: "access_ok st \<Longrightarrow> access_ok (access_step chrono bi fmt e st)"
  by (cases e) (simp_all add: open_set_ok begin_admission_ok finish_admission_ok drop_lease_ok
      retain_result_ok retention_over_ok result_of_def Let_def)

lemma begin_admission_claim:
  "st_next_claim_id st \<le> st_next_claim_id (snd (begin_admission chrono bi owner github a task_id req prep i now st))"
proof -
  obtain res st' where b: "begin_admission chrono bi owner github a task_id req prep i now st = (res, st')"
    by (cases "begin_admission chrono bi owner github a task_id req prep i now st")
  from begin_admission_cases [OF b] show ?thesis
    using admit_fields(1) [of owner github a task_id req prep now _ _ "purge now st" _ st']
    by (auto simp: b)
qed

lemma finish_admission_claim: "st_next_claim_id (finish_admission owner req c r st) = st_next_claim_id st"
proof -
  have "st_next_claim_id (forget_unanswered c st) = st_next_claim_id st"
    by (cases rule: forget_unanswered_cases [of c st]) simp_all
  then show ?thesis by (auto simp: finish_admission_def Let_def split: option.splits)
qed

lemma access_step_claim: "st_next_claim_id st \<le> st_next_claim_id (access_step chrono bi fmt e st)"
  by (cases e) (auto simp: open_set_def remember_def Let_def begin_admission_claim finish_admission_claim
      drop_lease_def retain_result_def retention_over_def result_of_def
      split: sum.splits open_error.splits option.splits)

definition access_past :: "access_state \<Rightarrow> access_state \<Rightarrow> bool" where
  "access_past st st' \<longleftrightarrow> st_next_claim_id st \<le> st_next_claim_id st'"

interpretation access: history_system "access_step chrono bi fmt" access_ok access_past
  by unfold_locales (auto simp: access_step_ok access_past_def access_step_claim)

section \<open>What a learner can rely on\<close>

text \<open>
  C18. Whatever requests, answers, dropped leases and timers come, in whatever order, the service
  stays well-formed: at most eight unlocked sets and 256 remembered Starts, each table listing
  exactly its keys, no claim and no session ordinal shared by two remembered Starts.
\<close>

theorem access_always_ok: "access_ok (fold (access_step chrono bi fmt) es access_init)"
  by (rule access.run_inv) (rule access_init_ok)

text \<open>
  One attempt at a time: a Start is admitted only when no attempt runs, it becomes the one
  that runs, with a claim no earlier attempt had, and every other outcome of \<open>begin_admission\<close>
  leaves the state alone apart from dropping an expired result.
\<close>

theorem one_attempt_at_a_time:
  "case begin_admission chrono bi owner github a task_id req prep i now st of (res, st') \<Rightarrow>
     (case res of
        Inr (New t) \<Rightarrow> st_active st = None
          \<and> st_active st' = Some \<lparr>aa_owner_id = owner, aa_claim_id = pt_claim_id t, aa_room = None\<rparr>
          \<and> pt_claim_id t = Suc (st_next_claim_id st) \<and> st_next_claim_id st' = pt_claim_id t
      | _ \<Rightarrow> st' \<in> {st, purge now st})"
proof -
  obtain res st' where b: "begin_admission chrono bi owner github a task_id req prep i now st = (res, st')"
    by (cases "begin_admission chrono bi owner github a task_id req prep i now st")
  from begin_admission_cases [OF b] show ?thesis
  proof (elim disjE conjE exE)
    assume "st' = st" "\<forall>t. res \<noteq> Inr (New t)"
    then show ?thesis by (auto simp: b split: sum.splits admission.splits)
  next
    assume "st' = purge now st" "\<forall>t. res \<noteq> Inr (New t)"
    then show ?thesis by (auto simp: b split: sum.splits admission.splits)
  next
    fix s r t
    assume "res = Inr (New t)" "st_active st = None"
      and "admit owner github a task_id req prep now s r (purge now st) = (t, st')"
    then show ?thesis using admit_fields(1-3) [of owner github a task_id req prep now s r "purge now st" t st']
      by (simp add: b)
  qed
qed

lemma begin_NewD:
  assumes "begin_admission chrono bi owner github a task_id req prep i now st = (Inr (New t), st')"
    and "access_ok st"
  shows "bounded_text req MAX_REQUEST_KEY_BYTES"
    and "st_admissions st (owner, req) = None"
    and "st_admissions st' (owner, req)
       = Some (fresh_admission (pt_claim_id t) a task_id prep (pt_session_ordinal t) (purge now st) now)"
    and "st_active st' = Some \<lparr>aa_owner_id = owner, aa_claim_id = pt_claim_id t, aa_room = None\<rparr>"
    and "access_ok st'"
    and "\<exists>s r. admit owner github a task_id req prep now s r (purge now st) = (t, st')"
proof -
  from begin_admission_cases [OF assms(1)] obtain s r where
    adm: "admit owner github a task_id req prep now s r (purge now st) = (t, st')"
    and new: "st_admissions (purge now st) (owner, req) = None" by auto
  show "bounded_text req MAX_REQUEST_KEY_BYTES"
    using assms(1) by (auto simp: begin_admission_def split: if_splits)
  show "st_admissions st (owner, req) = None" using new by simp
  have "table_ok (purge now st)" using assms(2) by (simp add: access_ok_defs)
  then show "st_admissions st' (owner, req)
       = Some (fresh_admission (pt_claim_id t) a task_id prep (pt_session_ordinal t) (purge now st) now)"
    using admit_table(2) [OF adm _ new] by simp
  show "st_active st' = Some \<lparr>aa_owner_id = owner, aa_claim_id = pt_claim_id t, aa_room = None\<rparr>"
    using admit_fields(2,3) [OF adm] by simp
  show "access_ok st'" using admit_ok [OF adm _ new] assms(2) by simp
  show "\<exists>s r. admit owner github a task_id req prep now s r (purge now st) = (t, st')" using adm by blast
qed


definition ordinal_of :: "access_state \<Rightarrow> int \<times> string \<Rightarrow> nat" where
  "ordinal_of st k = (case st_ordinals st k of None \<Rightarrow> 0 | Some n \<Rightarrow> n)"

lemma finish_unanswered:
  assumes "st_admissions st (owner, req) = Some adm" and "pa_response adm = None" and "claims_ok st"
    and "table_ok st"
  shows "finish_admission owner req (pa_claim_id adm) None st
    = st\<lparr>st_admissions := (st_admissions st)((owner, req) := None),
         st_admission_order := filter (\<lambda>held. held \<noteq> (owner, req)) (st_admission_order st),
         st_ordinals := (if st_ordinals st (adm_ordinal_key (owner, req) adm) = Some (pa_ordinal adm)
            then (st_ordinals st)(adm_ordinal_key (owner, req) adm \<mapsto> pa_ordinal adm - 1)
            else st_ordinals st)\<rparr>"
proof -
  let ?p = "unanswered_claim st (pa_claim_id adm)"
  have only: "?p k \<longleftrightarrow> k = (owner, req)" for k
  proof
    assume "?p k"
    then show "k = (owner, req)"
      using assms(1,3) unanswered_claimD unfolding claims_ok_def by blast
  next
    assume "k = (owner, req)"
    then show "?p k" using assms(1,2) by (simp add: unanswered_claim_def)
  qed
  have "(owner, req) \<in> set (st_admission_order st)" using assms(1,4) by (auto simp: table_ok_def)
  then have "List.find ?p (st_admission_order st) = Some (owner, req)"
    by (rule find_the_one [OF only])
  then show ?thesis
    using assms(1) by (auto simp: finish_admission_def forget_unanswered_def adm_ordinal_key_def Let_def
        split: option.splits)
qed

text \<open>
  A Start that fails leaves no trace: when its request ends without an answer and its attempt's
  lease is dropped, the request key is free again, no attempt runs, and every session ordinal is
  what it was before.  Only the claim counter has moved on.
\<close>

theorem failed_start_undone:
  assumes "access_ok st"
    and "begin_admission chrono bi owner github a task_id req prep i now st = (Inr (New t), st')"
    and "length (st_admission_order st) < MAX_ADMISSIONS"
  shows "let u = drop_lease (pt_claim_id t) (finish_admission owner req (pt_claim_id t) None st')
         in st_admissions u = st_admissions st \<and> st_admission_order u = st_admission_order st
          \<and> st_active u = None \<and> ordinal_of u = ordinal_of st \<and> st_unlocked u = st_unlocked st"
proof -
  note d = begin_NewD [OF assms(2,1)]
  obtain s r where adm: "admit owner github a task_id req prep now s r (purge now st) = (t, st')"
    using d(6) by blast
  let ?a = "fresh_admission (pt_claim_id t) a task_id prep (pt_session_ordinal t) (purge now st) now"
  have tab: "table_ok st'" "claims_ok st'" using d(5) by (simp_all add: access_ok_def)
  have pa: "pa_claim_id ?a = pt_claim_id t" "pa_response ?a = None" "pa_ordinal ?a = pt_session_ordinal t"
    "adm_ordinal_key (owner, req) ?a = (owner, as_set_id a)"
    by (simp_all add: fresh_admission_def adm_ordinal_key_def)
  note f = finish_unanswered [OF d(3) pa(2) tab(2,1), unfolded pa]
  have order: "st_admission_order st' = st_admission_order st @ [(owner, req)]"
    and adms: "st_admissions st' = (st_admissions st)((owner, req) \<mapsto> ?a)"
    using adm assms(3) by (auto simp: admit_def Let_def fresh_admission_def split: option.splits if_splits)
  have "(owner, req) \<notin> set (st_admission_order st)"
    using assms(1) d(2) by (auto simp: access_ok_defs)
  then have "filter (\<lambda>held. held \<noteq> (owner, req)) (st_admission_order st) = st_admission_order st"
    by (auto simp: filter_id_conv)
  moreover have "(st_admissions st)((owner, req) := None) = st_admissions st"
    using d(2) by auto
  moreover note admit_fields(4,6,7) [OF adm] d(4)
  ultimately show ?thesis
    by (auto simp: f order adms drop_lease_def Let_def ordinal_of_def fun_eq_iff split: option.splits)
qed

text \<open>
  A kept result reaches the learner it belongs to, in the room it belongs to, and only until
  it expires.
\<close>

theorem result_of_ready:
  "fst (result_of owner room now st) = Ready v \<longleftrightarrow>
     (\<exists>r. st_result st = Some r \<and> sr_value r = v \<and> sr_owner_id r = owner \<and> sr_room r = room
        \<and> now < sr_expires_at r)"
  by (auto simp: result_of_def Let_def purge_def not_le split: option.splits)

end
