(* ===== verification/Task_Example.thy ===== *)
theory Task_Example
  imports Task_Session "HOL-Library.Code_Target_Nat"
begin

text \<open>A small task, used to show the theorems about tasks on concrete data.\<close>

definition example_sidecar :: sidecar where
  "example_sidecar = \<lparr>sc_prompt_version = 1, sc_interaction_prompt = ''Task {{title}}'',
     sc_completion_targets = [],
     sc_understanding_checks = [\<lparr>uc_id = ''cost'', uc_question = ''Why?''\<rparr>,
        \<lparr>uc_id = ''edge'', uc_question = ''When?''\<rparr>, \<lparr>uc_id = ''plan'', uc_question = ''How?''\<rparr>],
     sc_required_cases = [], sc_max_hint_rungs = 1, sc_rubric_profile = ''task-engagement-v1'',
     sc_languages = [''python''], sc_optimization = None, sc_explainers = []\<rparr>"

definition example_record :: task_record where
  "example_record = \<lparr>tr_id = ''two-sum'', tr_title = ''Two Sum'', tr_brief = JObj [],
     tr_contract = ''Return two indices.'', tr_clarifications = JArr [],
     tr_starters = [(''python'', ''pass'')], tr_hints = [''Use a map.''], tr_reference_code = None,
     tr_optimal = ''O(n)'', tr_pitfalls = '''', tr_judge = JNull, tr_sidecar = example_sidecar,
     tr_required_cases = []\<rparr>"

definition example_config :: set_config where
  "example_config = \<lparr>cf_id = ''default'', cf_version = 1,
     cf_rules = \<lparr>rl_duration_min = 15, rl_max_hint_rungs = 1, rl_closes_at = None,
       rl_look_away_seconds = 8, rl_rules_note = None\<rparr>\<rparr>"

definition example_task :: pinned_task where
  "example_task = \<lparr>pt_config = example_config, pt_exercise = example_record, pt_owner_id = 7,
     pt_github_login = ''ada'', pt_github_id = 7, pt_session_ordinal = 1, pt_hint_limit = 1, pt_claim_id = 0,
     pt_preparation = \<lparr>pr_rules_acknowledged_at = ''2024-01-01T00:00:00Z'', pr_calibration = JNull,
       pr_language = ''python'', pr_compiler_explorer = False\<rparr>\<rparr>"

definition example_codec :: task_codec where
  "example_codec = \<lparr>cd_version = (\<lambda>p. if p = ''v1'' then Some 1 else None), cd_end = (\<lambda>p. None),
     cd_action = (\<lambda>p. if p = ''hint'' then Some \<lparr>am_version = 1, am_request_id = ''h'', am_action = Hint,
        am_revision_id = None, am_target_id = None\<rparr> else if p = ''finish'' then Some \<lparr>am_version = 1, am_request_id = ''a'', am_action = Finish,
        am_revision_id = Some ''initial'', am_target_id = None\<rparr> else None),
     cd_revision = (\<lambda>p. if p = ''run'' then Some \<lparr>rm_version = 1, rm_request_id = ''r'', rm_revision_id = ''b'',
        rm_code = ''x = 1'', rm_trigger = RunTrigger\<rparr> else None), cd_run = (\<lambda>p. None),
     cd_edit = (\<lambda>p. None), cd_thinking = (\<lambda>p. None)\<rparr>"


lemma example_sidecar_valid:
  "validate_sidecar (\<lambda>c. True) example_sidecar (tr_starters example_record) (tr_hints example_record) = Inr ()"
  by code_simp

end
