(* ===== verification/Task_Access_Examples.thy ===== *)
theory Task_Access_Examples
  imports Task_Access_Correct Task_Example
begin

text \<open>
  The first Start of a fresh service, on the example task of the built-in set: the theorems about
  admissions apply to it.
\<close>

definition example_set :: loaded_set where
  "example_set = \<lparr>ls_config = example_config, ls_records = [(''two-sum'', example_record)]\<rparr>"

definition example_start :: "(access_error + admission) \<times> access_state" where
  "example_start = begin_admission (\<lambda>d. None) example_set 7 (''ada'', 7) built_in_assignment ''two-sum''
     ''start'' (pt_preparation example_task) 0 1000 access_init"

lemma example_start_new:
  "fst example_start = Inr (New (example_task\<lparr>pt_claim_id := 1\<rparr>))"
  by code_simp

lemma example_admission:
  "begin_admission (\<lambda>d. None) example_set 7 (''ada'', 7) built_in_assignment ''two-sum''
     ''start'' (pt_preparation example_task) 0 1000 access_init
   = (Inr (New (example_task\<lparr>pt_claim_id := 1\<rparr>)), snd example_start)"
  using example_start_new by (simp add: example_start_def prod_eq_iff)


theorem failed_start_undone_witness:
  "st_active (drop_lease 1 (finish_admission 7 ''start'' 1 None (snd example_start))) = None"
proof -
  have "length (st_admission_order access_init) < MAX_ADMISSIONS" by code_simp
  from failed_start_undone [OF access_init_ok example_admission this]
  show ?thesis by (simp add: Let_def)
qed

theorem validated_prompt_builds_witness:
  "\<exists>p. task_prompt_with_hint_limit (\<lambda>w. ''0.5'') ''{{instructorPrompt}} {{code}}'' example_record
     ''Implementation'' None ''x = 1'' ''python'' 1 = Inr p"
proof -
  have v: "validate_sidecar (\<lambda>c. True) (tr_sidecar example_record) (tr_starters example_record) (tr_hints example_record) = Inr ()"
    using example_sidecar_valid by (simp add: example_record_def)
  have "template_ok ''{{instructorPrompt}} {{code}}''" by code_simp
  from validated_prompt_builds [OF v this, where target = None] show ?thesis by simp
qed

end
