(* ===== verification/Judgments.thy ===== *)
theory Judgments
  imports Text "HOL-Library.Sublist" "HOL-Library.Code_Target_Nat"
begin

text \<open>
  The judgments a report may not make about a person (\<open>refused_judgments\<close>, \<open>spelled_words\<close> and the
  rules in \<open>src/src/agent/report.rs\<close>).  The code searches a padded text for padded phrases; what it
  means is a search for whole words, and the two are shown equal.
\<close>

section \<open>Words\<close>

definition ascii_char :: "(char \<Rightarrow> bool) \<Rightarrow> string \<Rightarrow> bool" where
  "ascii_char p ch = (case ch of [c] \<Rightarrow> p c | _ \<Rightarrow> False)"

definition to_ascii_lowercase :: "string \<Rightarrow> string" where
  "to_ascii_lowercase ch = map (\<lambda>c. if is_ascii_uppercase c then char_of ((of_char c :: nat) + 32) else c) ch"

text \<open>The loop of \<open>spelled_words\<close>: the previous character, the characters that remain, the current word.\<close>

fun spell :: "string option \<Rightarrow> string list \<Rightarrow> string \<Rightarrow> string list" where
  "spell previous [] current = (if current \<noteq> [] then [current] else [])"
| "spell previous (c # rest) current =
     (if \<not> ascii_char is_ascii_alphanumeric c
      then (if current \<noteq> [] then [current] else []) @ spell (Some c) rest []
      else let upper = ascii_char is_ascii_uppercase c;
               lower_then_upper = upper \<and> (case previous of None \<Rightarrow> False
                 | Some b \<Rightarrow> ascii_char is_ascii_lowercase b \<or> ascii_char is_ascii_digit b);
               acronym_ends = upper \<and> (case previous of None \<Rightarrow> False | Some b \<Rightarrow> ascii_char is_ascii_uppercase b)
                 \<and> (case rest of [] \<Rightarrow> False | d # _ \<Rightarrow> ascii_char is_ascii_lowercase d)
           in if (lower_then_upper \<or> acronym_ends) \<and> current \<noteq> []
              then current # spell (Some c) rest (to_ascii_lowercase c)
              else spell (Some c) rest (current @ to_ascii_lowercase c))"

definition spelled_words :: "string \<Rightarrow> string list" where
  "spelled_words speech = spell None (utf8_chars speech) []"

section \<open>The rules\<close>

record judgment_rule =
  jr_reason :: string
  jr_improvements_only :: bool
  jr_phrases :: "string list"
  jr_before_speech :: "string list"

definition SPEECH_WORDS :: "string list" where
  "SPEECH_WORDS =
     [''response'', ''responses'', ''answer'', ''answers'', ''reply'', ''replies'', ''remark'',
      ''remarks'', ''statement'', ''statements'', ''explanation'', ''explanations'', ''utterance'',
      ''utterances'', ''speech'', ''transcript'', ''transcripts'', ''transcription'', ''turn'',
      ''turns'']"

definition JUDGMENT_RULES :: "judgment_rule list" where
  "JUDGMENT_RULES = [
    \<lparr>jr_reason = ''unsupported delivery or personality judgment'',
     jr_improvements_only = False,
     jr_phrases = ['' accent '', '' accents '', '' dialect '', '' dialects '', '' typing speed '',
      '' typing pace '', '' typed slowly '', '' typed quickly '', '' type slowly '',
      '' type quickly '', '' speech rate '', '' filler word '', '' filler words '', '' disfluency '',
      '' disfluencies '', '' hesitation '', '' hesitations '', '' hesitant '', '' hesitantly '',
      '' eye contact '', '' posture '', '' body language '', '' facial expression '',
      '' facial expressions '', '' voice tone '', '' vocal tone '', '' tone of voice '',
      '' attractiveness '', '' physical appearance '', '' nervous '', '' nervousness '',
      '' nervously '', '' anxious '', '' anxiety '', '' confident demeanor '', '' lacked confidence '',
      '' lack of confidence '', '' personality '', '' introvert '', '' extrovert '', '' charisma '',
      '' appeared confident '', '' appears confident '', '' seemed confident '',
      '' looked confident '', '' sounded confident '', '' come across as confident '',
      '' comes across as confident ''],
     jr_before_speech = []\<rparr>,
    \<lparr>jr_reason = ''the recognizer's language attributed to the candidate'',
     jr_improvements_only = False,
     jr_phrases = ['' in chinese '', '' in japanese '', '' in korean '', '' in hindi '', '' in spanish '',
      '' in french '', '' in german '', '' in portuguese '', '' mandarin '', '' cantonese '',
      '' non english '', '' foreign language '', '' native language '', '' broken english '',
      '' english proficiency '', '' english fluency '', '' fluent english '', '' language barrier ''],
     jr_before_speech = [''chinese'', ''japanese'', ''korean'', ''hindi'', ''spanish'', ''french'', ''german'',
      ''portuguese'']\<rparr>,
    \<lparr>jr_reason = ''a speech-recognition gap is not the candidate's weakness'',
     jr_improvements_only = True,
     jr_phrases = ['' avoid transcription '', '' prevent transcription '', '' in english '', '' speak english '',
      '' your english '', '' spoken english '', '' primary language '', '' interview language '',
      '' language of the interview '', '' audible '', '' audibly '', '' speak more clearly '',
      '' speak clearly '', '' enunciate '', '' enunciation '', '' pronounce '', '' pronunciation ''],
     jr_before_speech = []\<rparr>]"

section \<open>The search\<close>

text \<open>The loop over the words: adjectives before a speech word, each added once.\<close>

fun before_speech_loop :: "string list \<Rightarrow> string list \<Rightarrow> string list \<Rightarrow> string list" where
  "before_speech_loop adjectives [] phrases = phrases"
| "before_speech_loop adjectives (word # rest) phrases =
     (case List.find (\<lambda>name. name = word) adjectives of
        None \<Rightarrow> before_speech_loop adjectives rest phrases
      | Some adjective \<Rightarrow>
          let following = (case rest of
                [] \<Rightarrow> None
              | next_word # later \<Rightarrow>
                  if next_word = ''language'' then (case later of [] \<Rightarrow> None | w # _ \<Rightarrow> Some w)
                  else Some next_word)
          in before_speech_loop adjectives rest
               (if (case following of None \<Rightarrow> False | Some w \<Rightarrow> w \<in> set SPEECH_WORDS)
                   \<and> adjective \<notin> set phrases
                then phrases @ [adjective] else phrases))"

definition rule_phrases :: "judgment_rule \<Rightarrow> string list \<Rightarrow> string list" where
  "rule_phrases rule words =
     (let padded = '' '' @ join '' '' words @ '' '';
          phrases = map str_trim (filter (\<lambda>phrase. str_contains phrase padded) (jr_phrases rule))
      in before_speech_loop (jr_before_speech rule) words phrases)"

definition refused_judgments :: "string \<Rightarrow> bool \<Rightarrow> (string \<times> string list) list" where
  "refused_judgments speech improvement =
     (let words = spelled_words speech
      in filter (\<lambda>m. snd m \<noteq> [])
           (map (\<lambda>rule. (jr_reason rule, rule_phrases rule words))
             (filter (\<lambda>rule. improvement \<or> \<not> jr_improvements_only rule) JUDGMENT_RULES)))"

definition task_narrative_permitted :: "string \<Rightarrow> bool \<Rightarrow> bool" where
  "task_narrative_permitted speech improvement \<longleftrightarrow> refused_judgments speech improvement = []"

section \<open>What a word is\<close>

definition plain_word :: "string \<Rightarrow> bool" where
  "plain_word w \<longleftrightarrow> w \<noteq> [] \<and> list_all (\<lambda>c. is_ascii_lowercase c \<or> is_ascii_digit c) w"

lemma to_lowercase_plain:
  assumes "ascii_char is_ascii_alphanumeric c"
  shows "plain_word (to_ascii_lowercase c)"
proof -
  obtain x where c: "c = [x]" and x: "is_ascii_alphanumeric x"
    using assms by (auto simp: ascii_char_def split: list.splits)
  have "of_char (char_of ((of_char x :: nat) + 32) :: char) = (of_char x :: nat) + 32" if "is_ascii_uppercase x"
    using that by (simp add: is_ascii_uppercase_def)
  then show ?thesis
    using x unfolding c plain_word_def to_ascii_lowercase_def ascii_defs by auto
qed

lemma plain_append: "plain_word u \<or> u = [] \<Longrightarrow> plain_word w \<Longrightarrow> plain_word (u @ w)"
  by (auto simp: plain_word_def)

lemma spell_plain: "plain_word current \<or> current = [] \<Longrightarrow> w \<in> set (spell previous cs current) \<Longrightarrow> plain_word w"
proof (induction previous cs current rule: spell.induct)
  case (2 previous c rest current)
  show ?case
  proof (cases "ascii_char is_ascii_alphanumeric c")
    case False
    with 2 show ?thesis by (auto split: if_splits)
  next
    case True
    note low = to_lowercase_plain [OF True] and app = plain_append [OF 2(4) to_lowercase_plain [OF True]]
    show ?thesis using 2 True low app by (auto simp: Let_def split: if_splits)
  qed
qed (auto split: if_splits)

lemma spell_letters:
  "concat (spell previous cs current)
     = current @ concat (map to_ascii_lowercase (filter (ascii_char is_ascii_alphanumeric) cs))"
  by (induction previous cs current rule: spell.induct) (simp_all add: Let_def)

text \<open>
  \<open>spelled_words\<close> loses no letter and invents none: its words, put end to end, are exactly the
  ASCII letters and digits of the text in lower case and in order, and every word is a non-empty run
  of lower-case letters and digits.
\<close>

theorem spelled_words_keep_letters:
  "concat (spelled_words speech)
     = concat (map to_ascii_lowercase (filter (ascii_char is_ascii_alphanumeric) (utf8_chars speech)))
   \<and> list_all plain_word (spelled_words speech)"
  using spell_plain [of "[]"] by (auto simp: spelled_words_def spell_letters list_all_iff)

section \<open>Searching for words\<close>

text \<open>The reference: a phrase is its words, and a text makes a judgment when it says them in a row.\<close>

fun phrase_split :: "string \<Rightarrow> string \<Rightarrow> string list" where
  "phrase_split current [] = (if current = [] then [] else [current])"
| "phrase_split current (c # cs) =
     (if c = CHR '' '' then (if current = [] then [] else [current]) @ phrase_split [] cs
      else phrase_split (current @ [c]) cs)"

definition phrase_words :: "string \<Rightarrow> string list" where
  "phrase_words phrase = phrase_split [] phrase"

definition describes_speech :: "string list \<Rightarrow> string list \<Rightarrow> bool" where
  "describes_speech adjectives words \<longleftrightarrow> (\<exists>adjective \<in> set adjectives. \<exists>w \<in> set SPEECH_WORDS.
     sublist [adjective, w] words \<or> sublist [adjective, ''language'', w] words)"

definition makes_judgment :: "judgment_rule \<Rightarrow> string list \<Rightarrow> bool" where
  "makes_judgment rule words \<longleftrightarrow>
     (\<exists>phrase \<in> set (jr_phrases rule). sublist (phrase_words phrase) words)
     \<or> describes_speech (jr_before_speech rule) words"

text \<open>Words padded with spaces: where one phrase can start in the padding of the text.\<close>

definition pad :: "string list \<Rightarrow> string" where
  "pad ws = concat (map (\<lambda>w. w @ '' '') ws)"

definition spaceless :: "string \<Rightarrow> bool" where
  "spaceless w \<longleftrightarrow> CHR '' '' \<notin> set w"

lemma pad_simps [simp]: "pad [] = []" "pad (w # ws) = w @ '' '' @ pad ws" "pad (xs @ ys) = pad xs @ pad ys"
  by (simp_all add: pad_def)

lemma join_pad: "ws \<noteq> [] \<Longrightarrow> join '' '' ws @ '' '' = pad ws"
  by (induction ws rule: induct_list012) simp_all

lemma str_contains_iff: "str_contains p s \<longleftrightarrow> (\<exists>u v. s = u @ p @ v)"
proof -
  have "find_sub p s \<noteq> None \<longleftrightarrow> (\<exists>u v. s = u @ p @ v)"
  proof (induction s)
    case (Cons c s)
    have "(\<exists>u v. c # s = u @ p @ v) \<longleftrightarrow> (\<exists>v. c # s = p @ v) \<or> (\<exists>u v. s = u @ p @ v)"
      by (metis append_Cons append_Nil list.sel(3) neq_Nil_conv)
    with Cons.IH show ?case by (auto simp: starts_with_iff)
  qed simp
  then show ?thesis by (simp add: str_contains_def)
qed

lemma spaceless_head:
  assumes "spaceless w" "spaceless q" "w @ '' '' @ xs = q @ '' '' @ ys"
  shows "w = q \<and> xs = ys"
  using assms
proof (induction w arbitrary: q)
  case Nil
  then show ?case by (cases q) (simp_all add: spaceless_def)
next
  case (Cons c w)
  then show ?case by (cases q) (auto simp: spaceless_def)
qed

lemma pad_prefix:
  assumes "list_all spaceless ws" "list_all spaceless qs" "pad ws = pad qs @ v"
  shows "\<exists>ys. ws = qs @ ys"
  using assms
proof (induction qs arbitrary: ws)
  case (Cons q qs)
  then obtain w ws' where ws: "ws = w # ws'" by (cases ws) simp_all
  with Cons.prems have "w = q \<and> pad ws' = pad qs @ v"
    by (intro spaceless_head) simp_all
  with Cons.IH [of ws'] Cons.prems ws show ?case by auto
qed simp

lemma spaceless_skip:
  assumes "spaceless w" "w @ '' '' @ xs = u @ '' '' @ ys"
  shows "\<exists>u'. u = w @ u'"
  using assms
proof (induction w arbitrary: u)
  case (Cons c w)
  then show ?case by (cases u) (auto simp: spaceless_def)
qed simp

lemma pad_occurs:
  assumes "list_all spaceless ws" "list_all spaceless qs" "'' '' @ pad ws = u @ '' '' @ pad qs @ v"
  shows "\<exists>xs ys. ws = xs @ qs @ ys"
  using assms
proof (induction ws arbitrary: u)
  case Nil
  then have "qs = []" by (cases u; cases qs) simp_all
  then show ?case by simp
next
  case (Cons w ws)
  show ?case
  proof (cases u)
    case Nil
    with Cons.prems pad_prefix [of "w # ws" qs v] show ?thesis by (metis append_Nil append_same_eq list.inject append_Cons)
  next
    case (Cons c u')
    with Cons.prems have split: "w @ '' '' @ pad ws = u' @ '' '' @ pad qs @ v" by auto
    obtain u'' where u'': "u' = w @ u''" using spaceless_skip [OF _ split] Cons.prems by auto
    with split have "'' '' @ pad ws = u'' @ '' '' @ pad qs @ v" by simp
    then obtain xs ys where "ws = xs @ qs @ ys" using Cons.IH [of u''] Cons.prems by auto
    then show ?thesis by (metis append_Cons)
  qed
qed

lemma pad_ends: "\<exists>u. '' '' @ pad xs = u @ '' ''"
  by (cases xs rule: rev_cases) auto

lemma padded_contains:
  assumes ws: "list_all spaceless ws" and qs: "list_all spaceless qs" and q: "qs \<noteq> []" "hd qs \<noteq> []"
  shows "str_contains ('' '' @ pad qs) ('' '' @ join '' '' ws @ '' '') \<longleftrightarrow> sublist qs ws"
proof (cases "ws = []")
  case True
  obtain c where c: "c \<in> set (hd qs)" using q(2) by (cases "hd qs") auto
  have "c \<in> set (pad qs)" using c q(1) by (cases qs) simp_all
  moreover have "c \<noteq> CHR '' ''" using c qs q(1) by (cases qs) (auto simp: spaceless_def)
  moreover have "set ('' '' @ join '' '' ws @ '' '') = {CHR '' ''}" using True by simp
  ultimately have "\<not> str_contains ('' '' @ pad qs) ('' '' @ join '' '' ws @ '' '')"
    using set_append by (metis Un_iff singletonD str_contains_iff)
  moreover have "\<not> sublist qs ws" using True q(1) by simp
  ultimately show ?thesis by blast
next
  case False
  then have "'' '' @ join '' '' ws @ '' '' = '' '' @ pad ws" by (simp add: join_pad)
  moreover have "str_contains ('' '' @ pad qs) ('' '' @ pad ws)" if "sublist qs ws"
  proof -
    from that obtain xs ys where "ws = xs @ qs @ ys" by (auto simp: sublist_def)
    moreover obtain u where "'' '' @ pad xs = u @ '' ''" using pad_ends by blast
    ultimately have "'' '' @ pad ws = u @ ('' '' @ pad qs) @ pad ys" by (metis append.assoc pad_simps(3))
    then show ?thesis by (auto simp: str_contains_iff)
  qed
  moreover have "sublist qs ws" if "str_contains ('' '' @ pad qs) ('' '' @ pad ws)"
    using that pad_occurs [OF ws qs] by (auto simp: str_contains_iff sublist_def)
  ultimately show ?thesis by metis
qed

lemma plain_spaceless: "plain_word w \<Longrightarrow> spaceless w"
  by (auto simp: plain_word_def spaceless_def list_all_iff ascii_defs)

text \<open>Every phrase of the rules is written as its words with a space around each.\<close>

definition phrase_ok :: "string \<Rightarrow> bool" where
  "phrase_ok phrase \<longleftrightarrow> phrase = '' '' @ pad (phrase_words phrase) \<and> phrase_words phrase \<noteq> []
     \<and> hd (phrase_words phrase) \<noteq> [] \<and> list_all spaceless (phrase_words phrase)"

lemma rules_ok: "list_all (\<lambda>rule. list_all phrase_ok (jr_phrases rule)) JUDGMENT_RULES"
  by code_simp

lemma before_speech_loop_empty:
  "before_speech_loop adjectives words phrases = [] \<longleftrightarrow> phrases = [] \<and> \<not> describes_speech adjectives words"
proof (induction adjectives words phrases rule: before_speech_loop.induct)
  case (1 adjectives phrases)
  show ?case by (simp add: describes_speech_def)
next
  case (2 adjectives word rest phrases)
  define following where "following = (case rest of [] \<Rightarrow> None
    | next_word # later \<Rightarrow> if next_word = ''language'' then (case later of [] \<Rightarrow> None | w # _ \<Rightarrow> Some w) else Some next_word)"
  have "''language'' \<notin> set SPEECH_WORDS" by (simp add: SPEECH_WORDS_def)
  then have head: "(\<exists>w \<in> set SPEECH_WORDS. prefix [word, w] (word # rest) \<or> prefix [word, ''language'', w] (word # rest))
      \<longleftrightarrow> (\<exists>w \<in> set SPEECH_WORDS. following = Some w)"
    by (auto simp: following_def split: list.splits)
  have step: "describes_speech adjectives (word # rest) \<longleftrightarrow>
      word \<in> set adjectives \<and> (\<exists>w \<in> set SPEECH_WORDS. following = Some w) \<or> describes_speech adjectives rest"
    unfolding head [symmetric] describes_speech_def by (auto simp: sublist_Cons_right)
  show ?case
  proof (cases "List.find (\<lambda>name. name = word) adjectives")
    case None
    then have "word \<notin> set adjectives" by (auto simp: find_None_iff)
    with None 2(1) [OF None] step show ?thesis by simp
  next
    case (Some adjective)
    then have adj: "adjective = word" "word \<in> set adjectives" using find_SomeD by fastforce+
    define found where "found \<longleftrightarrow> (\<exists>w \<in> set SPEECH_WORDS. following = Some w)"
    have case_found: "(case following of None \<Rightarrow> False | Some w \<Rightarrow> w \<in> set SPEECH_WORDS) = found"
      by (cases following) (simp_all add: found_def)
    let ?next = "if found \<and> adjective \<notin> set phrases then phrases @ [adjective] else phrases"
    have loop: "before_speech_loop adjectives (word # rest) phrases = before_speech_loop adjectives rest ?next"
      by (simp only: before_speech_loop.simps Some option.case Let_def following_def [symmetric] case_found)
    have "before_speech_loop adjectives rest ?next = [] \<longleftrightarrow> ?next = [] \<and> \<not> describes_speech adjectives rest"
      using 2(2) [OF Some following_def] unfolding case_found .
    moreover have "describes_speech adjectives (word # rest) \<longleftrightarrow> found \<or> describes_speech adjectives rest"
      using step adj(2) by (simp add: found_def)
    ultimately show ?thesis unfolding loop by auto
  qed
qed

lemma rule_phrases_empty:
  assumes "list_all plain_word words" and "list_all phrase_ok (jr_phrases rule)"
  shows "rule_phrases rule words = [] \<longleftrightarrow> \<not> makes_judgment rule words"
proof -
  have ws: "list_all spaceless words" using assms(1) plain_spaceless by (auto simp: list_all_iff)
  have "str_contains phrase ('' '' @ join '' '' words @ '' '') \<longleftrightarrow> sublist (phrase_words phrase) words"
    if "phrase \<in> set (jr_phrases rule)" for phrase
  proof -
    have "phrase_ok phrase" using assms(2) that by (simp add: list_all_iff)
    then show ?thesis using padded_contains [OF ws, of "phrase_words phrase"] by (simp add: phrase_ok_def)
  qed
  then show ?thesis
    by (auto simp: rule_phrases_def Let_def before_speech_loop_empty makes_judgment_def filter_empty_conv)
qed

definition rule_applies :: "bool \<Rightarrow> judgment_rule \<Rightarrow> bool" where
  "rule_applies improvement rule \<longleftrightarrow> improvement \<or> \<not> jr_improvements_only rule"

text \<open>
  The padded substring search refuses exactly the texts that say a listed phrase as whole words
  in a row, or put a listed adjective before a speech word, directly or through "language": a phrase
  inside a longer word is never refused, and one broken by punctuation or case always is.
\<close>

theorem narrative_refused_for_its_words:
  "task_narrative_permitted speech improvement \<longleftrightarrow>
     \<not> (\<exists>rule \<in> set JUDGMENT_RULES. rule_applies improvement rule
          \<and> makes_judgment rule (spelled_words speech))"
proof -
  have words: "list_all plain_word (spelled_words speech)"
    using spell_plain [of "[]"] by (auto simp: spelled_words_def list_all_iff)
  have "rule_phrases rule (spelled_words speech) = [] \<longleftrightarrow> \<not> makes_judgment rule (spelled_words speech)"
    if "rule \<in> set JUDGMENT_RULES" for rule
    using rule_phrases_empty [OF words] rules_ok that by (simp add: list_all_iff)
  then show ?thesis
    by (auto simp: task_narrative_permitted_def refused_judgments_def Let_def filter_empty_conv rule_applies_def)
qed

end
