(* ===== verification/Task_Session_Store.thy ===== *)
theory Task_Session_Store
  imports Task_Session
begin

text \<open>
  What a task session keeps (\<open>session_ok\<close>), and the store of captured revisions.  The invariant is a
  conjunction of predicates over the fields they are about, so an operation that leaves a field
  alone leaves its predicate alone.  A capture is described by the four ways it can end
  (\<open>captured\<close>), from which its effect on the store and on everything else follows.
\<close>

section \<open>The invariant\<close>

text \<open>Stored revisions: under their own ids, hashed right, at most ten, the starter among them.\<close>

definition revisions_ok ::
  "(string \<Rightarrow> string) \<Rightarrow> (string, revision) btree \<Rightarrow> (string \<rightharpoonup> string) \<Rightarrow> revision \<Rightarrow> bool" where
  "revisions_ok sha revs hashes current \<longleftrightarrow>
     bt_ok revs \<and> length revs \<le> 10 \<and> ''initial'' \<in> set (bt_keys revs)
     \<and> (\<forall>i r. map_of revs i = Some r \<longrightarrow> rv_id r = i \<and> rv_content_hash r = sha (rv_code r)
              \<and> hashes i = Some (rv_content_hash r))
     \<and> rv_content_hash current = sha (rv_code current)
     \<and> hashes (rv_id current) \<in> {None, Some (rv_content_hash current)}"

text \<open>Evidence and the one run that may be pending keep their revisions.\<close>

definition refs_ok :: "(string, revision) btree \<Rightarrow> string set \<Rightarrow> (string, nat) btree \<Rightarrow> bool" where
  "refs_ok revs evidence pending \<longleftrightarrow>
     finite evidence \<and> card evidence \<le> 8 \<and> evidence \<subseteq> set (bt_keys revs)
     \<and> bt_ok pending \<and> length pending \<le> 1 \<and> set (bt_keys pending) \<subseteq> set (bt_keys revs)"

definition final_ok :: "(string, revision) btree \<Rightarrow> revision \<Rightarrow> string option \<Rightarrow> bool" where
  "final_ok revs current final \<longleftrightarrow>
     (case final of None \<Rightarrow> True | Some f \<Rightarrow> f = rv_id current \<and> f \<in> set (bt_keys revs))"

definition runs_ok ::
  "(string, revision) btree \<Rightarrow> (string, run_message) btree \<Rightarrow> string set \<Rightarrow> bool" where
  "runs_ok revs runs dropped \<longleftrightarrow> bt_ok runs \<and> length runs \<le> 20
     \<and> (\<forall>i m. map_of runs i = Some m \<longrightarrow> rn_run_id m = i \<and> rn_passed m \<le> rn_total m
              \<and> rn_revision_id m \<in> set (bt_keys revs) \<union> dropped)"

definition phase_ok ::
  "phase \<Rightarrow> nat option \<Rightarrow> string option \<Rightarrow> attempt_outcome option \<Rightarrow> bool" where
  "phase_ok ph deadline final oc \<longleftrightarrow>
     (ph = Feedback \<longleftrightarrow> oc \<noteq> None) \<and> (ph = Feedback \<longrightarrow> final \<noteq> None)
     \<and> (ph = Ready \<longleftrightarrow> deadline = None \<and> oc = None)
     \<and> (ph = Ready \<or> ph = Work \<longrightarrow> final = None)
     \<and> (case oc of None \<Rightarrow> True | Some o1 \<Rightarrow> oc_outcome o1 = cause_kind (oc_cause o1))"

definition turns_ok :: "turns \<Rightarrow> bool" where
  "turns_ok ts \<longleftrightarrow> length ts \<le> MAX_TURNS \<and> distinct (map fst ts)
     \<and> (\<forall>t \<in> set ts. length (snd t) \<le> MAX_TURN_BYTES)"

definition limits_ok :: "nat \<Rightarrow> nat \<Rightarrow> nat \<Rightarrow> nat \<Rightarrow> string set \<Rightarrow> string set \<Rightarrow> bool" where
  "limits_ok cap used followups nudges wrap_ups requests \<longleftrightarrow>
     used \<le> cap \<and> followups \<le> 2 \<and> nudges \<le> 3
     \<and> finite wrap_ups \<and> card wrap_ups \<le> 3 \<and> finite requests \<and> card requests \<le> MAX_REQUESTS"

text \<open>Every support opportunity is one of the counted hints or follow-ups.\<close>

definition offer_ids :: "nat \<Rightarrow> nat \<Rightarrow> string set" where
  "offer_ids used followups = (\<lambda>n. ''hint-'' @ decimal (n + 1)) ` {..<used}
     \<union> (\<lambda>n. ''followup-'' @ decimal (n + 1)) ` {..<followups}"

definition support_ok :: "(string, support_opportunity) btree \<Rightarrow> nat \<Rightarrow> nat \<Rightarrow> turns \<Rightarrow> bool" where
  "support_ok offers used followups ts \<longleftrightarrow> bt_ok offers
     \<and> set (bt_keys offers) \<subseteq> offer_ids used followups
     \<and> (\<forall>i o1. map_of offers i = Some o1 \<longrightarrow> so_after_turn o1 \<le> length ts \<and> so_kind o1 \<noteq> NoSupport)"

text \<open>
  A check cites at most eight revisions and eight turns, all of them real; and a turn bound to a
  support was spoken after an offer of that support.
\<close>

definition offered_before ::
  "(string, support_opportunity) btree \<Rightarrow> turns \<Rightarrow> string \<Rightarrow> support \<Rightarrow> bool" where
  "offered_before offers ts turn_id support \<longleftrightarrow>
     (\<exists>i o1 n. map_of offers i = Some o1 \<and> so_kind o1 = support
        \<and> turns_ordinal ts turn_id = Some n \<and> so_after_turn o1 < n)"

definition check_ok ::
  "string set \<Rightarrow> turns \<Rightarrow> (string, support_opportunity) btree \<Rightarrow> task_check \<Rightarrow> bool" where
  "check_ok evidence ts offers c \<longleftrightarrow>
     length (ck_revision_ids c) \<le> 8 \<and> distinct (ck_revision_ids c) \<and> set (ck_revision_ids c) \<subseteq> evidence
     \<and> length (ck_turn_ids c) \<le> 8 \<and> distinct (ck_turn_ids c)
     \<and> set (ck_turn_ids c) \<subseteq> set (bt_keys (ck_turn_support c))
     \<and> bt_ok (ck_turn_support c) \<and> set (bt_keys (ck_turn_support c)) \<subseteq> fst ` set ts
     \<and> (\<forall>t sup. map_of (ck_turn_support c) t = Some sup \<longrightarrow> sup \<noteq> NoSupport
            \<longrightarrow> offered_before offers ts t sup)
     \<and> (ck_state c = CheckOpen \<longleftrightarrow> ck_turn_support c = [])"

definition checks_ok ::
  "(string, task_check) btree \<Rightarrow> string set \<Rightarrow> turns \<Rightarrow> (string, support_opportunity) btree \<Rightarrow> bool" where
  "checks_ok checks evidence ts offers \<longleftrightarrow> bt_ok checks
     \<and> (\<forall>i c. map_of checks i = Some c \<longrightarrow> ck_id c = i \<and> check_ok evidence ts offers c)"

text \<open>The target the learner chose is one their language has.\<close>

definition target_ok :: "pinned_task \<Rightarrow> string option \<Rightarrow> bool" where
  "target_ok task target \<longleftrightarrow> (\<forall>i. target = Some i \<longrightarrow>
     (\<exists>row \<in> set (targets_in (pt_exercise task) (pr_language (pt_preparation task))). tgt_id row = i))"

definition session_ok :: "(string \<Rightarrow> string) \<Rightarrow> task_session \<Rightarrow> bool" where
  "session_ok sha s \<longleftrightarrow>
     revisions_ok sha (ts_revisions s) (ts_revision_hashes s) (ts_current s)
     \<and> refs_ok (ts_revisions s) (ts_evidence_revisions s) (ts_pending_run_revisions s)
     \<and> final_ok (ts_revisions s) (ts_current s) (ts_final_revision_id s)
     \<and> runs_ok (ts_revisions s) (ts_runs s) (ts_dropped_run_revision_ids s)
     \<and> phase_ok (ts_phase s) (ts_deadline_at s) (ts_final_revision_id s) (ts_outcome s)
     \<and> turns_ok (ts_turns s)
     \<and> limits_ok (pt_hint_limit (ts_task s)) (ts_hint_rungs_used s) (ts_targeted_followups s)
         (ts_code_review_nudges s) (ts_wrap_up_checks s) (ts_requests s)
     \<and> support_ok (ts_support_opportunities s) (ts_hint_rungs_used s) (ts_targeted_followups s) (ts_turns s)
     \<and> checks_ok (ts_checks s) (ts_evidence_revisions s) (ts_turns s) (ts_support_opportunities s)
     \<and> target_ok (ts_task s) (ts_active_target_id s)"

lemma session_okD:
  assumes "session_ok sha s"
  shows "revisions_ok sha (ts_revisions s) (ts_revision_hashes s) (ts_current s)"
    and "refs_ok (ts_revisions s) (ts_evidence_revisions s) (ts_pending_run_revisions s)"
    and "final_ok (ts_revisions s) (ts_current s) (ts_final_revision_id s)"
    and "runs_ok (ts_revisions s) (ts_runs s) (ts_dropped_run_revision_ids s)"
    and "phase_ok (ts_phase s) (ts_deadline_at s) (ts_final_revision_id s) (ts_outcome s)"
    and "turns_ok (ts_turns s)"
    and "limits_ok (pt_hint_limit (ts_task s)) (ts_hint_rungs_used s) (ts_targeted_followups s)
         (ts_code_review_nudges s) (ts_wrap_up_checks s) (ts_requests s)"
    and "support_ok (ts_support_opportunities s) (ts_hint_rungs_used s) (ts_targeted_followups s) (ts_turns s)"
    and "checks_ok (ts_checks s) (ts_evidence_revisions s) (ts_turns s) (ts_support_opportunities s)"
    and "target_ok (ts_task s) (ts_active_target_id s)"
  using assms unfolding session_ok_def by blast+

section \<open>Capturing a revision\<close>

definition keys_of :: "task_session \<Rightarrow> string set" where
  "keys_of s = set (bt_keys (ts_revisions s))"

text \<open>A capture touches the store, the hashes, the dropped runs, the overflow flag and the counter.\<close>

lemma mark_overflow_shape:
  "\<exists>o1 q. mark_overflow s = s\<lparr>ts_capture_overflow := o1, ts_seq := q\<rparr>"
proof (cases "ts_capture_overflow s")
  case True
  then have "mark_overflow s = s\<lparr>ts_capture_overflow := ts_capture_overflow s, ts_seq := ts_seq s\<rparr>"
    by (simp add: mark_overflow_def)
  then show ?thesis by blast
next
  case False
  then have "mark_overflow s = s\<lparr>ts_capture_overflow := True, ts_seq := ts_seq s + 1\<rparr>"
    by (simp add: mark_overflow_def)
  then show ?thesis by blast
qed

lemma mark_overflow_id: "s\<lparr>ts_capture_overflow := ts_capture_overflow s\<rparr> = s"
  by simp

text \<open>The three ways a capture ends: already stored, refused, or stored (after an eviction or not).\<close>

inductive captured :: "revision \<Rightarrow> task_session \<Rightarrow> bool \<Rightarrow> task_session \<Rightarrow> bool"
  for r :: revision and s :: task_session where
  already: "rv_id r \<in> keys_of s \<Longrightarrow> captured r s True s"
| refused: "\<lbrakk>rv_id r \<notin> keys_of s; 9 \<le> length (ts_revisions s);
     ts_final_revision_id s \<noteq> None \<Longrightarrow> 10 \<le> length (ts_revisions s);
     \<forall>i \<in> keys_of s. \<not> evictable s i\<rbrakk> \<Longrightarrow> captured r s False (mark_overflow s)"
| stored: "\<lbrakk>rv_id r \<notin> keys_of s; length (ts_revisions s) < 10\<rbrakk> \<Longrightarrow>
     captured r s True (s\<lparr>ts_revision_hashes := (ts_revision_hashes s)(rv_id r \<mapsto> rv_content_hash r),
       ts_revisions := bt_insert (rv_id r) r (ts_revisions s)\<rparr>)"
| evicted: "\<lbrakk>rv_id r \<notin> keys_of s; i \<in> keys_of s; evictable s i;
     list_ex (\<lambda>run. rn_revision_id run = i) (bt_values (ts_runs s)) \<longrightarrow> i \<in> dropped;
     ts_dropped_run_revision_ids s \<subseteq> dropped; t = mark_overflow s\<rbrakk> \<Longrightarrow>
     captured r s True (t\<lparr>ts_revisions := bt_insert (rv_id r) r (bt_remove i (ts_revisions s)),
       ts_dropped_run_revision_ids := dropped,
       ts_revision_hashes := (ts_revision_hashes s)(rv_id r \<mapsto> rv_content_hash r)\<rparr>)"

lemma mark_overflow_fields [simp]:
  "ts_revisions (mark_overflow s) = ts_revisions s"
  "ts_runs (mark_overflow s) = ts_runs s"
  "ts_revision_hashes (mark_overflow s) = ts_revision_hashes s"
  "ts_dropped_run_revision_ids (mark_overflow s) = ts_dropped_run_revision_ids s"
  by (simp_all add: mark_overflow_def)

lemma capture_captured:
  assumes "length (ts_revisions s) \<le> 10"
  shows "captured r s (fst (capture_with_final_slot r final_slot s)) (snd (capture_with_final_slot r final_slot s))"
proof (cases "rv_id r \<in> keys_of s")
  case True
  then show ?thesis
    by (simp add: capture_with_final_slot_def bt_has_set keys_of_def captured.already)
next
  case new: False
  let ?limit = "default_number ''revisionSnapshots'' - (if ts_final_revision_id s = None \<and> \<not> final_slot then 1 else 0)"
  show ?thesis
  proof (cases "length (ts_revisions s) \<ge> ?limit")
    case False
    with new show ?thesis
      by (auto simp: capture_with_final_slot_def bt_has_set keys_of_def Let_def intro!: captured.stored split: if_splits)
  next
    case full: True
    show ?thesis
    proof (cases "List.find (evictable s) (bt_keys (ts_revisions s))")
      case None
      then have "\<forall>i \<in> keys_of s. \<not> evictable s i" by (simp add: find_None_iff keys_of_def)
      with new full None show ?thesis
        by (auto simp: capture_with_final_slot_def bt_has_set keys_of_def Let_def intro!: captured.refused split: if_splits)
    next
      case (Some i)
      then have i: "i \<in> keys_of s" "evictable s i" by (auto dest: find_SomeD simp: keys_of_def)
      define dropped where "dropped = (if list_ex (\<lambda>run. rn_revision_id run = i) (bt_values (ts_runs s))
        then insert i (ts_dropped_run_revision_ids s) else ts_dropped_run_revision_ids s)"
      have "captured r s True ((mark_overflow s)\<lparr>ts_revisions := bt_insert (rv_id r) r (bt_remove i (ts_revisions s)),
         ts_dropped_run_revision_ids := dropped,
         ts_revision_hashes := (ts_revision_hashes s)(rv_id r \<mapsto> rv_content_hash r)\<rparr>)"
        using new i by (intro captured.evicted) (auto simp: dropped_def)
      moreover have "capture_with_final_slot r final_slot s =
        (True, (mark_overflow s)\<lparr>ts_revisions := bt_insert (rv_id r) r (bt_remove i (ts_revisions s)),
         ts_dropped_run_revision_ids := dropped,
         ts_revision_hashes := (ts_revision_hashes s)(rv_id r \<mapsto> rv_content_hash r)\<rparr>)"
        using new full Some
        by (simp add: capture_with_final_slot_def bt_has_set keys_of_def Let_def dropped_def)
      ultimately show ?thesis by simp
    qed
  qed
qed

text \<open>A capture changes only these five fields.\<close>

definition only_store :: "task_session \<Rightarrow> task_session \<Rightarrow> bool" where
  "only_store s t \<longleftrightarrow> (\<exists>revs hashes dropped overflow n.
     t = s\<lparr>ts_revisions := revs, ts_revision_hashes := hashes, ts_dropped_run_revision_ids := dropped,
           ts_capture_overflow := overflow, ts_seq := n\<rparr>
     \<and> ts_seq s \<le> n \<and> (n = ts_seq s \<longrightarrow> overflow = ts_capture_overflow s)
     \<and> (ts_capture_overflow s \<longrightarrow> overflow))"

lemma only_storeI:
  assumes "t = s\<lparr>ts_revisions := revs, ts_revision_hashes := hashes, ts_dropped_run_revision_ids := dropped,
           ts_capture_overflow := overflow, ts_seq := n\<rparr>"
    and "ts_seq s \<le> n" "n = ts_seq s \<longrightarrow> overflow = ts_capture_overflow s" "ts_capture_overflow s \<longrightarrow> overflow"
  shows "only_store s t"
  unfolding only_store_def using assms by blast

lemma only_store_refl [simp]: "only_store s s"
  by (rule only_storeI [where revs = "ts_revisions s" and hashes = "ts_revision_hashes s"
        and dropped = "ts_dropped_run_revision_ids s" and overflow = "ts_capture_overflow s" and n = "ts_seq s"])
    simp_all

lemma only_store_fields:
  assumes "only_store s t"
  shows "ts_task t = ts_task s" "ts_phase t = ts_phase s" "ts_deadline_at t = ts_deadline_at s"
    "ts_interviewer t = ts_interviewer s" "ts_checks t = ts_checks s" "ts_runs t = ts_runs s"
    "ts_turns t = ts_turns s" "ts_current t = ts_current s"
    "ts_acknowledged_capture_request_id t = ts_acknowledged_capture_request_id s"
    "ts_final_revision_id t = ts_final_revision_id s" "ts_outcome t = ts_outcome s"
    "ts_page_absent t = ts_page_absent s" "ts_ready_acknowledged t = ts_ready_acknowledged s"
    "ts_thinking t = ts_thinking s" "ts_started_at t = ts_started_at s"
    "ts_active_target_id t = ts_active_target_id s" "ts_hint_rungs_used t = ts_hint_rungs_used s"
    "ts_support_opportunities t = ts_support_opportunities s"
    "ts_targeted_followups t = ts_targeted_followups s"
    "ts_pending_run_revisions t = ts_pending_run_revisions s" "ts_requests t = ts_requests s"
    "ts_evidence_revisions t = ts_evidence_revisions s"
    "ts_last_activity_at t = ts_last_activity_at s" "ts_last_nudge_at t = ts_last_nudge_at s"
    "ts_reviewed_hash t = ts_reviewed_hash s" "ts_code_review_nudges t = ts_code_review_nudges s"
    "ts_wrap_up_checks t = ts_wrap_up_checks s" "ts_seq s \<le> ts_seq t"
    "ts_seq t = ts_seq s \<Longrightarrow> ts_capture_overflow t = ts_capture_overflow s"
    "ts_capture_overflow s \<Longrightarrow> ts_capture_overflow t"
  using assms unfolding only_store_def by auto

lemma only_store_overflow: "only_store s (mark_overflow s)"
proof (cases "ts_capture_overflow s")
  case True
  then show ?thesis by (simp add: mark_overflow_def)
next
  case False
  then show ?thesis
    by (intro only_storeI [where revs = "ts_revisions s" and hashes = "ts_revision_hashes s"
        and dropped = "ts_dropped_run_revision_ids s" and overflow = True and n = "Suc (ts_seq s)"])
      (simp_all add: mark_overflow_def)
qed

lemma captured_only_store: "captured r s b t \<Longrightarrow> only_store s t"
proof (induction rule: captured.induct)
  case already
  show ?case by simp
next
  case refused
  show ?case by (rule only_store_overflow)
next
  case stored
  show ?case
    by (rule only_storeI [where revs = "bt_insert (rv_id r) r (ts_revisions s)"
          and hashes = "(ts_revision_hashes s)(rv_id r \<mapsto> rv_content_hash r)"
          and dropped = "ts_dropped_run_revision_ids s" and overflow = "ts_capture_overflow s"
          and n = "ts_seq s"]) simp_all
next
  case (evicted i dropped t)
  obtain o1 q where t: "t = s\<lparr>ts_capture_overflow := o1, ts_seq := q\<rparr>" "ts_seq s \<le> q"
    "q = ts_seq s \<longrightarrow> o1 = ts_capture_overflow s" "ts_capture_overflow s \<longrightarrow> o1"
    using evicted(6) mark_overflow_shape [of s] only_store_fields(28-30) [OF only_store_overflow [of s]]
    by auto
  show ?case
    unfolding t(1)
    by (rule only_storeI [where revs = "bt_insert (rv_id r) r (bt_remove i (ts_revisions s))"
          and hashes = "(ts_revision_hashes s)(rv_id r \<mapsto> rv_content_hash r)"
          and dropped = dropped and overflow = o1 and n = q]) (use t in simp_all)
qed

text \<open>A revision may be bound when its id was never used for other code.\<close>

definition bindable :: "(string \<Rightarrow> string) \<Rightarrow> task_session \<Rightarrow> revision \<Rightarrow> bool" where
  "bindable sha s r \<longleftrightarrow> rv_content_hash r = sha (rv_code r)
     \<and> ts_revision_hashes s (rv_id r) \<in> {None, Some (rv_content_hash r)}
     \<and> (rv_id r = rv_id (ts_current s) \<longrightarrow> rv_content_hash r = rv_content_hash (ts_current s))"

definition store_ok :: "(string \<Rightarrow> string) \<Rightarrow> task_session \<Rightarrow> bool" where
  "store_ok sha s \<longleftrightarrow>
     revisions_ok sha (ts_revisions s) (ts_revision_hashes s) (ts_current s)
     \<and> refs_ok (ts_revisions s) (ts_evidence_revisions s) (ts_pending_run_revisions s)
     \<and> runs_ok (ts_revisions s) (ts_runs s) (ts_dropped_run_revision_ids s)"

lemma bindable_current: "store_ok sha s \<Longrightarrow> bindable sha s (ts_current s)"
  unfolding store_ok_def revisions_ok_def bindable_def by blast

lemma revisions_ok_put:
  assumes "revisions_ok sha revs hashes cur" and "bt_ok revs'" and "length (bt_insert (rv_id r) r revs') \<le> 10"
    and "\<And>i x. map_of revs' i = Some x \<Longrightarrow> map_of revs i = Some x" and "''initial'' \<in> set (bt_keys revs')"
    and "rv_content_hash r = sha (rv_code r)" "hashes (rv_id r) \<in> {None, Some (rv_content_hash r)}"
    and "rv_id r = rv_id cur \<longrightarrow> rv_content_hash r = rv_content_hash cur"
  shows "revisions_ok sha (bt_insert (rv_id r) r revs') (hashes(rv_id r \<mapsto> rv_content_hash r)) cur"
  using assms unfolding revisions_ok_def
  by (auto simp: bt_ok_insert map_of_bt_insert split: if_splits)

lemma captured_store_ok:
  assumes "captured r s b t" and "store_ok sha s" and "bindable sha s r"
  shows "store_ok sha t"
  using assms(1)
proof cases
  case already
  with assms show ?thesis by simp
next
  case refused
  with assms only_store_fields [OF only_store_overflow [of s]] show ?thesis by (simp add: store_ok_def)
next
  case stored
  have revs: "revisions_ok sha (ts_revisions s) (ts_revision_hashes s) (ts_current s)"
    using assms(2) by (simp add: store_ok_def)
  then have ok: "bt_ok (ts_revisions s)" and initial: "''initial'' \<in> set (bt_keys (ts_revisions s))"
    by (simp_all add: revisions_ok_def)
  have "map_of (ts_revisions s) (rv_id r) = None"
    using stored(3) bt.set_keys [OF ok] by (auto simp: keys_of_def)
  then have "length (bt_insert (rv_id r) r (ts_revisions s)) \<le> 10"
    using bt_length_new [OF ok] stored(4) by simp
  then have "revisions_ok sha (bt_insert (rv_id r) r (ts_revisions s))
      ((ts_revision_hashes s)(rv_id r \<mapsto> rv_content_hash r)) (ts_current s)"
    using assms(3) initial unfolding bindable_def
    by (intro revisions_ok_put [OF revs ok]) blast+
  moreover have "refs_ok (bt_insert (rv_id r) r (ts_revisions s)) (ts_evidence_revisions s) (ts_pending_run_revisions s)"
    using assms(2) unfolding store_ok_def refs_ok_def by auto
  moreover have "runs_ok (bt_insert (rv_id r) r (ts_revisions s)) (ts_runs s) (ts_dropped_run_revision_ids s)"
    using assms(2) unfolding store_ok_def runs_ok_def by auto
  ultimately show ?thesis using stored by (simp add: store_ok_def)
next
  case (evicted i dropped u)
  let ?revs = "bt_insert (rv_id r) r (bt_remove i (ts_revisions s))"
  have ok: "bt_ok (ts_revisions s)" and ten: "length (ts_revisions s) \<le> 10"
    using assms(2) by (simp_all add: store_ok_def revisions_ok_def)
  have i: "map_of (ts_revisions s) i \<noteq> None" using evicted(4) ok by (auto simp: keys_of_def bt.set_keys)
  have "length ?revs \<le> 10" using bt.evict_then_put [OF ok i, of 10 "rv_id r" r] ten by simp
  moreover have "''initial'' \<in> set (bt_keys (bt_remove i (ts_revisions s)))"
    using assms(2) evicted(5) unfolding store_ok_def revisions_ok_def evictable_def by simp blast
  moreover have "map_of (ts_revisions s) j = Some x" if "map_of (bt_remove i (ts_revisions s)) j = Some x" for j x
    using that by (simp add: map_of_bt_remove split: if_splits)
  ultimately have "revisions_ok sha ?revs ((ts_revision_hashes s)(rv_id r \<mapsto> rv_content_hash r)) (ts_current s)"
    using assms(2,3) unfolding store_ok_def bindable_def
    by (intro revisions_ok_put [of sha "ts_revisions s"] bt_ok_remove ok) blast+
  moreover have "refs_ok ?revs (ts_evidence_revisions s) (ts_pending_run_revisions s)"
    using assms(2) evicted(5) unfolding store_ok_def refs_ok_def evictable_def by (auto simp: bt_has_set)
  moreover have "runs_ok ?revs (ts_runs s) dropped"
  proof -
    have "rn_revision_id m \<in> set (bt_keys ?revs) \<union> dropped" if "map_of (ts_runs s) j = Some m" for j m
    proof (cases "rn_revision_id m = i")
      case True
      from that have "m \<in> set (bt_values (ts_runs s))"
        by (force simp: bt_values_def dest: map_of_SomeD)
      with True evicted(6) show ?thesis by (auto simp: list_ex_iff)
    next
      case False
      from assms(2) that have "rn_revision_id m \<in> set (bt_keys (ts_revisions s)) \<union> ts_dropped_run_revision_ids s"
        unfolding store_ok_def runs_ok_def by blast
      with False evicted(7) show ?thesis by auto
    qed
    with assms(2) show ?thesis unfolding store_ok_def runs_ok_def by blast
  qed
  ultimately show ?thesis
    using evicted only_store_fields [OF only_store_overflow [of s]] by (simp add: store_ok_def)
qed

lemma captured_keys:
  assumes "captured r s b t"
  shows "b \<Longrightarrow> rv_id r \<in> keys_of t"
    and "i \<in> keys_of s \<Longrightarrow> \<not> evictable s i \<Longrightarrow> i \<in> keys_of t"
    and "\<not> b \<Longrightarrow> t = mark_overflow s \<and> 9 \<le> length (ts_revisions s) \<and> rv_id r \<notin> keys_of s
       \<and> (ts_final_revision_id s \<noteq> None \<longrightarrow> 10 \<le> length (ts_revisions s)) \<and> (\<forall>i \<in> keys_of s. \<not> evictable s i)"
  using assms by (induction rule: captured.induct) (auto simp: keys_of_def)

lemma captured_hashes:
  assumes "captured r s b t" and "ts_revision_hashes s (rv_id r) \<in> {None, Some (rv_content_hash r)}"
  shows "ts_revision_hashes s \<subseteq>\<^sub>m ts_revision_hashes t"
  using assms by (induction rule: captured.induct) (auto simp: map_le_def)

section \<open>Freezing the final revision\<close>

lemma only_store_trans: "only_store s t \<Longrightarrow> only_store t u \<Longrightarrow> only_store s u"
proof -
  assume st: "only_store s t" and tu: "only_store t u"
  note fields = only_store_fields(28-30) [OF st] only_store_fields(28-30) [OF tu]
  from st obtain r1 h1 d1 o1 n1 where t: "t = s\<lparr>ts_revisions := r1, ts_revision_hashes := h1,
      ts_dropped_run_revision_ids := d1, ts_capture_overflow := o1, ts_seq := n1\<rparr>"
    unfolding only_store_def by blast
  from tu obtain r2 h2 d2 o2 n2 where u: "u = t\<lparr>ts_revisions := r2, ts_revision_hashes := h2,
      ts_dropped_run_revision_ids := d2, ts_capture_overflow := o2, ts_seq := n2\<rparr>"
    unfolding only_store_def by blast
  have "u = s\<lparr>ts_revisions := r2, ts_revision_hashes := h2, ts_dropped_run_revision_ids := d2,
      ts_capture_overflow := o2, ts_seq := n2\<rparr>"
    unfolding u t by simp
  then show ?thesis by (rule only_storeI) (use fields u in auto)
qed

lemma capture_current_captured:
  assumes "length (ts_revisions s) \<le> 10"
  shows "captured (ts_current s) s (fst (capture_current s)) (snd (capture_current s))"
  using capture_captured [OF assms, of "ts_current s" False]
  by (auto simp: capture_current_def bt_has_set keys_of_def intro: captured.already)

lemma store_okD:
  assumes "store_ok sha s"
  shows "length (ts_revisions s) \<le> 10" "bt_ok (ts_revisions s)" "''initial'' \<in> keys_of s"
    "finite (ts_evidence_revisions s)" "card (ts_evidence_revisions s) \<le> 8"
    "ts_evidence_revisions s \<subseteq> keys_of s" "set (bt_keys (ts_pending_run_revisions s)) \<subseteq> keys_of s"
  using assms by (simp_all add: store_ok_def revisions_ok_def refs_ok_def keys_of_def)

text \<open>With no run pending there is always a revision to evict from a full store.\<close>

lemma room_without_pending:
  assumes "store_ok sha s" and "ts_pending_run_revisions s = []" and "10 \<le> length (ts_revisions s)"
    and final: "\<And>f. ts_final_revision_id s = Some f \<Longrightarrow> f \<notin> keys_of s"
  shows "\<exists>i \<in> keys_of s. evictable s i"
proof (rule ccontr)
  assume none: "\<not> ?thesis"
  have "keys_of s \<subseteq> insert ''initial'' (ts_evidence_revisions s)"
    using none assms(2) final unfolding evictable_def by (auto simp: bt_has_set)
  then have "card (keys_of s) \<le> card (insert ''initial'' (ts_evidence_revisions s))"
    using store_okD(4) [OF assms(1)] by (intro card_mono) simp_all
  also have "\<dots> \<le> 9"
    using card_insert_le_Suc [of "''initial''" "ts_evidence_revisions s"] store_okD(5) [OF assms(1)] by linarith
  finally have "length (ts_revisions s) \<le> 9"
    using length_bt_card [OF store_okD(2) [OF assms(1)]] by (simp add: keys_of_def)
  with assms(3) show False by simp
qed

lemma freeze_noop: "ts_final_revision_id s \<noteq> None \<Longrightarrow> freeze s = s"
  by (auto simp: freeze_def)

lemma mark_overflow_pending:
  "(mark_overflow s)\<lparr>ts_pending_run_revisions := p\<rparr> = mark_overflow (s\<lparr>ts_pending_run_revisions := p\<rparr>)"
  by (simp add: mark_overflow_def)

lemma store_ok_final [simp]: "store_ok sha (s\<lparr>ts_final_revision_id := f\<rparr>) = store_ok sha s"
  by (simp add: store_ok_def)

lemma store_ok_fewer_pending:
  "store_ok sha s \<Longrightarrow> store_ok sha (s\<lparr>ts_pending_run_revisions := []\<rparr>)"
  by (simp add: store_ok_def refs_ok_def bt_ok_def)

text \<open>Freezing stores the acknowledged revision, whatever fills the store.\<close>

lemma freeze_stores:
  assumes ok: "store_ok sha s" and none: "ts_final_revision_id s = None"
  shows "store_ok sha (freeze s) \<and> rv_id (ts_current s) \<in> keys_of (freeze s)
    \<and> ts_revision_hashes s \<subseteq>\<^sub>m ts_revision_hashes (freeze s)
    \<and> (\<exists>p. only_store (s\<lparr>ts_pending_run_revisions := p, ts_final_revision_id := Some (rv_id (ts_current s))\<rparr>) (freeze s))"
proof -
  define s1 where "s1 = s\<lparr>ts_final_revision_id := Some (rv_id (ts_current s))\<rparr>"
  have ok1: "store_ok sha s1" and cur: "ts_current s1 = ts_current s" using ok by (simp_all add: s1_def)
  define t1 where "t1 = snd (capture_current s1)"
  have c1: "captured (ts_current s) s1 (fst (capture_current s1)) t1"
    using capture_current_captured [OF store_okD(1) [OF ok1]] by (simp add: t1_def cur)
  have bound: "ts_revision_hashes s (rv_id (ts_current s)) \<in> {None, Some (rv_content_hash (ts_current s))}"
    using bindable_current [OF ok] unfolding bindable_def by blast
  show ?thesis
  proof (cases "fst (capture_current s1)")
    case True
    then have t: "freeze s = t1"
      using none by (simp add: freeze_def s1_def [symmetric] t1_def case_prod_beta Let_def)
    have "store_ok sha t1" using captured_store_ok [OF c1 ok1] bindable_current [OF ok1] by (simp add: cur)
    moreover have "rv_id (ts_current s) \<in> keys_of t1" using captured_keys(1) [OF c1 True] .
    moreover have "ts_revision_hashes s \<subseteq>\<^sub>m ts_revision_hashes t1"
      using captured_hashes [OF c1] bound by (simp add: s1_def)
    moreover have "s\<lparr>ts_pending_run_revisions := ts_pending_run_revisions s,
        ts_final_revision_id := Some (rv_id (ts_current s))\<rparr> = s1" by (simp add: s1_def)
    ultimately show ?thesis unfolding t using captured_only_store [OF c1] by metis
  next
    case False
    define s2 where "s2 = mark_overflow (s1\<lparr>ts_pending_run_revisions := []\<rparr>)"
    have full: "t1 = mark_overflow s1" "10 \<le> length (ts_revisions s1)" "rv_id (ts_current s) \<notin> keys_of s1"
      using captured_keys(3) [OF c1 False] by (simp_all add: s1_def)
    then have t: "freeze s = snd (capture_current s2)"
      using none False by (simp add: freeze_def s1_def [symmetric] t1_def s2_def mark_overflow_pending case_prod_beta Let_def)
    have o2: "only_store (s1\<lparr>ts_pending_run_revisions := []\<rparr>) s2"
      unfolding s2_def by (rule only_store_overflow)
    note f2 = only_store_fields [OF o2]
    have ok2: "store_ok sha s2"
      using store_ok_fewer_pending [OF ok1] f2 by (simp add: store_ok_def s2_def)
    have cur2: "ts_current s2 = ts_current s" using f2 cur by simp
    define t2 where "t2 = snd (capture_current s2)"
    have c2: "captured (ts_current s) s2 (fst (capture_current s2)) t2"
      using capture_current_captured [OF store_okD(1) [OF ok2]] by (simp add: t2_def cur2)
    have keys2: "keys_of s2 = keys_of s1" by (simp add: s2_def keys_of_def)
    have "\<exists>i \<in> keys_of s2. evictable s2 i"
    proof (rule room_without_pending [OF ok2])
      show "ts_pending_run_revisions s2 = []" using f2 by simp
      show "10 \<le> length (ts_revisions s2)" using full by (simp add: s2_def)
      show "f \<notin> keys_of s2" if "ts_final_revision_id s2 = Some f" for f
        using that f2 full(3) keys2 by (simp add: s1_def)
    qed
    then have kept: "fst (capture_current s2)" using captured_keys(3) [OF c2] by blast
    have "store_ok sha t2" using captured_store_ok [OF c2 ok2] bindable_current [OF ok2] by (simp add: cur2)
    moreover have "rv_id (ts_current s) \<in> keys_of t2" using captured_keys(1) [OF c2 kept] .
    moreover have "ts_revision_hashes s \<subseteq>\<^sub>m ts_revision_hashes t2"
      using captured_hashes [OF c2] bound by (simp add: s2_def s1_def)
    moreover have "only_store (s1\<lparr>ts_pending_run_revisions := []\<rparr>) t2"
      by (rule only_store_trans [OF o2 captured_only_store [OF c2]])
    moreover have "s1\<lparr>ts_pending_run_revisions := []\<rparr>
        = s\<lparr>ts_pending_run_revisions := [], ts_final_revision_id := Some (rv_id (ts_current s))\<rparr>"
      by (simp add: s1_def)
    ultimately show ?thesis unfolding t t2_def [symmetric] by metis
  qed
qed

end
