(* ===== verification/Task_Session_Moves.thy ===== *)
theory Task_Session_Moves
  imports Task_Session_Store
begin

text \<open>
  Every operation of a task session keeps the invariant and its history: nothing a learner was told,
  no evidence and no ending is ever taken back.  \<open>steady\<close> is the promise the publisher relies on:
  while the sequence number stands still, so does the snapshot.
\<close>

section \<open>What never goes back\<close>

definition earlier :: "task_session \<Rightarrow> task_session \<Rightarrow> bool" where
  "earlier s t \<longleftrightarrow> ts_task t = ts_task s
     \<and> ts_revision_hashes s \<subseteq>\<^sub>m ts_revision_hashes t
     \<and> (ts_final_revision_id s \<noteq> None \<longrightarrow>
          ts_final_revision_id t = ts_final_revision_id s \<and> ts_current t = ts_current s)
     \<and> (ts_outcome s \<noteq> None \<longrightarrow> ts_outcome t = ts_outcome s)
     \<and> ts_phase s \<le> ts_phase t
     \<and> (\<forall>d. ts_deadline_at s = Some d \<longrightarrow> (\<exists>d' \<le> d. ts_deadline_at t = Some d'))
     \<and> ts_evidence_revisions s \<subseteq> ts_evidence_revisions t
     \<and> (\<exists>more_turns. ts_turns t = ts_turns s @ more_turns)
     \<and> ts_hint_rungs_used s \<le> ts_hint_rungs_used t
     \<and> ts_code_review_nudges s \<le> ts_code_review_nudges t
     \<and> (ts_capture_overflow s \<longrightarrow> ts_capture_overflow t)"

text \<open>What a snapshot shows, besides the clock and the sequence number.\<close>

definition shown :: "task_session \<Rightarrow> (phase \<times> nat option \<times> interviewer \<times> attempt_outcome option
    \<times> (string, task_check) btree) \<times> (nat \<times> nat \<times> string option \<times> string option \<times> bool \<times> string option)" where
  "shown s = ((ts_phase s, ts_deadline_at s, ts_interviewer s, ts_outcome s, ts_checks s),
     (ts_hint_rungs_used s, pt_hint_limit (ts_task s), ts_final_revision_id s,
      ts_acknowledged_capture_request_id s, ts_capture_overflow s, ts_active_target_id s))"

definition steady :: "task_session \<Rightarrow> task_session \<Rightarrow> bool" where
  "steady s t \<longleftrightarrow> ts_seq s \<le> ts_seq t \<and> (ts_seq t = ts_seq s \<longrightarrow> shown t = shown s)"

lemma shown_snapshot:
  "shown t = shown s \<Longrightarrow> ts_seq t = ts_seq s \<Longrightarrow> session_snapshot now t = session_snapshot now s"
  by (simp add: shown_def session_snapshot_def)

lemma earlier_refl [simp]: "earlier s s"
  by (simp add: earlier_def)

lemma earlier_trans: "earlier s t \<Longrightarrow> earlier t u \<Longrightarrow> earlier s u"
  unfolding earlier_def
  apply (intro conjI)
  subgoal by simp
  subgoal by (blast intro: map_le_trans)
  subgoal by (metis)
  subgoal by (metis)
  subgoal by (blast intro: order_trans)
  subgoal by (meson order_trans)
  subgoal by blast
  subgoal by (metis append.assoc)
  subgoal by linarith
  subgoal by linarith
  subgoal by blast
  done

lemma steady_refl [simp]: "steady s s"
  by (simp add: steady_def)

lemma steady_trans: "steady s t \<Longrightarrow> steady t u \<Longrightarrow> steady s u"
  unfolding steady_def by (metis le_antisym le_trans)

lemma steady_less: "ts_seq s < ts_seq t \<Longrightarrow> steady s t"
  by (simp add: steady_def)

definition past :: "task_session \<Rightarrow> task_session \<Rightarrow> bool" where
  "past s t \<longleftrightarrow> earlier s t \<and> steady s t"

lemma past_refl [simp]: "past s s"
  by (simp add: past_def)

lemma past_trans: "past s t \<Longrightarrow> past t u \<Longrightarrow> past s u"
  unfolding past_def using earlier_trans steady_trans by blast

text \<open>An operation \<open>moves\<close> a session when it keeps the invariant and the past.\<close>

definition moves :: "(string \<Rightarrow> string) \<Rightarrow> task_session \<Rightarrow> task_session \<Rightarrow> bool" where
  "moves sha s t \<longleftrightarrow> session_ok sha t \<and> past s t"

lemma moves_refl [simp]: "session_ok sha s \<Longrightarrow> moves sha s s"
  by (simp add: moves_def)

lemma moves_trans: "moves sha s t \<Longrightarrow> moves sha t u \<Longrightarrow> moves sha s u"
  unfolding moves_def using past_trans by blast

lemma moves_ok: "moves sha s t \<Longrightarrow> session_ok sha t"
  by (simp add: moves_def)

lemmas session_defs = session_ok_def past_def earlier_def steady_def shown_def

lemma session_ok_store: "session_ok sha s \<Longrightarrow> store_ok sha s"
  by (simp add: session_ok_def store_ok_def)

section \<open>Operations that only set a field\<close>

lemma move_fields:
  assumes "session_ok sha s"
  shows "moves sha s (s\<lparr>ts_page_absent := absent\<rparr>)"
    and "moves sha s (s\<lparr>ts_ready_acknowledged := ready\<rparr>)"
    and "moves sha s (s\<lparr>ts_thinking := quiet\<rparr>)"
    and "moves sha s (s\<lparr>ts_last_activity_at := now\<rparr>)"
    and "moves sha s (s\<lparr>ts_last_nudge_at := nudge\<rparr>)"
    and "moves sha s (session_availability state s)"
    and "moves sha s (mark_overflow s)"
    and "moves sha s (retry_wrap_up_check i s)"
proof -
  show "moves sha s (retry_wrap_up_check i s)"
  proof -
    have "card (ts_wrap_up_checks s - {i}) \<le> card (ts_wrap_up_checks s)"
      using session_okD(7) [OF assms] by (intro card_mono) (auto simp: limits_ok_def)
    then have "limits_ok (pt_hint_limit (ts_task s)) (ts_hint_rungs_used s) (ts_targeted_followups s)
         (ts_code_review_nudges s) (ts_wrap_up_checks s - {i}) (ts_requests s)"
      using session_okD(7) [OF assms] by (simp add: limits_ok_def)
    then show ?thesis
      using assms unfolding moves_def session_defs retry_wrap_up_check_def by simp
  qed
  show "moves sha s (session_availability state s)"
    using assms unfolding moves_def session_defs session_availability_def by simp
  show "moves sha s (mark_overflow s)"
    using assms unfolding moves_def session_defs mark_overflow_def by simp
  show "moves sha s (s\<lparr>ts_page_absent := absent\<rparr>)"
    using assms unfolding moves_def session_defs by simp
  show "moves sha s (s\<lparr>ts_ready_acknowledged := ready\<rparr>)"
    using assms unfolding moves_def session_defs by simp
  show "moves sha s (s\<lparr>ts_thinking := quiet\<rparr>)"
    using assms unfolding moves_def session_defs by simp
  show "moves sha s (s\<lparr>ts_last_activity_at := now\<rparr>)"
    using assms unfolding moves_def session_defs by simp
  show "moves sha s (s\<lparr>ts_last_nudge_at := nudge\<rparr>)"
    using assms unfolding moves_def session_defs by simp
qed

lemma move_sweep:
  assumes "session_ok sha s"
  shows "moves sha s (sweep_pending now s)"
proof -
  let ?p = "filter (\<lambda>p. snd p > now) (ts_pending_run_revisions s)"
  have "bt_ok ?p" if "bt_ok (ts_pending_run_revisions s)"
    using that unfolding bt_ok_def bt_keys_def by (simp add: sorted_wrt_map sorted_wrt_filter)
  moreover have "length ?p \<le> length (ts_pending_run_revisions s)" by (rule length_filter_le)
  moreover have "set (bt_keys ?p) \<subseteq> set (bt_keys (ts_pending_run_revisions s))"
    by (auto simp: bt_keys_def)
  ultimately have "refs_ok (ts_revisions s) (ts_evidence_revisions s) ?p"
    using session_okD(2) [OF assms] unfolding refs_ok_def by (meson order_trans)
  with assms show ?thesis
    unfolding moves_def session_defs sweep_pending_def by simp
qed

section \<open>Captures\<close>

lemma captured_moves:
  assumes "captured r s b t" and ok: "session_ok sha s" and "bindable sha s r"
  shows "moves sha s t"
proof -
  note store = captured_store_ok [OF assms(1) session_ok_store [OF ok] assms(3)]
  note fields = only_store_fields [OF captured_only_store [OF assms(1)]]
  have bound: "ts_revision_hashes s (rv_id r) \<in> {None, Some (rv_content_hash r)}"
    using assms(3) unfolding bindable_def by blast
  have "final_ok (ts_revisions t) (ts_current t) (ts_final_revision_id t)"
  proof (cases "ts_final_revision_id s")
    case (Some f)
    then have "f = rv_id (ts_current s)" "f \<in> keys_of s" "\<not> evictable s f"
      using session_okD(3) [OF ok] by (auto simp: final_ok_def evictable_def keys_of_def)
    with Some captured_keys(2) [OF assms(1)] show ?thesis by (simp add: final_ok_def fields keys_of_def)
  qed (simp add: final_ok_def fields)
  then have "session_ok sha t"
    using store ok fields(1-27) unfolding session_ok_def store_ok_def by simp
  moreover have "earlier s t"
    using captured_hashes [OF assms(1) bound] fields unfolding earlier_def by simp
  moreover have "steady s t"
    using fields unfolding steady_def shown_def by simp
  ultimately show ?thesis by (simp add: moves_def past_def)
qed

lemma capture_moves:
  assumes "session_ok sha s" and "bindable sha s r"
  shows "moves sha s (snd (capture_with_final_slot r final_slot s))"
  using captured_moves [OF capture_captured [OF store_okD(1) [OF session_ok_store [OF assms(1)]]] assms] .

lemma capture_current_moves:
  assumes "session_ok sha s"
  shows "moves sha s (snd (capture_current s))"
  using captured_moves [OF capture_current_captured [OF store_okD(1) [OF session_ok_store [OF assms]]] assms
      bindable_current [OF session_ok_store [OF assms]]] .

section \<open>Endings\<close>

lemma freeze_core:
  assumes ok: "session_ok sha s"
  shows "only_store (s\<lparr>ts_pending_run_revisions := ts_pending_run_revisions (freeze s),
      ts_final_revision_id := Some (rv_id (ts_current s))\<rparr>) (freeze s)"
    and "store_ok sha (freeze s)" "rv_id (ts_current s) \<in> keys_of (freeze s)"
    and "ts_revision_hashes s \<subseteq>\<^sub>m ts_revision_hashes (freeze s)"
proof -
  let ?like = "\<lambda>p. s\<lparr>ts_pending_run_revisions := p, ts_final_revision_id := Some (rv_id (ts_current s))\<rparr>"
  have "(\<exists>p. only_store (?like p) (freeze s)) \<and> store_ok sha (freeze s)
     \<and> rv_id (ts_current s) \<in> keys_of (freeze s) \<and> ts_revision_hashes s \<subseteq>\<^sub>m ts_revision_hashes (freeze s)"
  proof (cases "ts_final_revision_id s")
    case None
    then show ?thesis using freeze_stores [OF session_ok_store [OF ok]] by blast
  next
    case (Some f)
    then have f: "f = rv_id (ts_current s)" "f \<in> keys_of s"
      using session_okD(3) [OF ok] by (auto simp: final_ok_def keys_of_def)
    with Some have "?like (ts_pending_run_revisions s) = s" by simp
    then have "\<exists>p. only_store (?like p) s" by (metis only_store_refl)
    with Some f session_ok_store [OF ok] freeze_noop [of s] show ?thesis by auto
  qed
  then obtain p where p: "only_store (?like p) (freeze s)"
    and rest: "store_ok sha (freeze s)" "rv_id (ts_current s) \<in> keys_of (freeze s)"
      "ts_revision_hashes s \<subseteq>\<^sub>m ts_revision_hashes (freeze s)" by blast
  have "p = ts_pending_run_revisions (freeze s)" using only_store_fields(20) [OF p] by simp
  with p show "only_store (?like (ts_pending_run_revisions (freeze s))) (freeze s)" by simp
  show "store_ok sha (freeze s)" "rv_id (ts_current s) \<in> keys_of (freeze s)"
    "ts_revision_hashes s \<subseteq>\<^sub>m ts_revision_hashes (freeze s)" by (fact rest)+
qed

text \<open>What freezing leaves as it was.\<close>

lemma freeze_fields:
  assumes ok: "session_ok sha s"
  shows "ts_task (freeze s) = ts_task s" "ts_phase (freeze s) = ts_phase s"
    "ts_deadline_at (freeze s) = ts_deadline_at s" "ts_interviewer (freeze s) = ts_interviewer s"
    "ts_checks (freeze s) = ts_checks s" "ts_runs (freeze s) = ts_runs s" "ts_turns (freeze s) = ts_turns s"
    "ts_current (freeze s) = ts_current s" "ts_outcome (freeze s) = ts_outcome s"
    "ts_started_at (freeze s) = ts_started_at s"
    "ts_hint_rungs_used (freeze s) = ts_hint_rungs_used s"
    "ts_support_opportunities (freeze s) = ts_support_opportunities s"
    "ts_targeted_followups (freeze s) = ts_targeted_followups s" "ts_requests (freeze s) = ts_requests s"
    "ts_evidence_revisions (freeze s) = ts_evidence_revisions s"
    "ts_code_review_nudges (freeze s) = ts_code_review_nudges s"
    "ts_wrap_up_checks (freeze s) = ts_wrap_up_checks s" "ts_active_target_id (freeze s) = ts_active_target_id s"
    "ts_seq s \<le> ts_seq (freeze s)" "ts_capture_overflow s \<Longrightarrow> ts_capture_overflow (freeze s)"
    "ts_final_revision_id (freeze s) = Some (rv_id (ts_current s))" "store_ok sha (freeze s)"
    "final_ok (ts_revisions (freeze s)) (ts_current s) (Some (rv_id (ts_current s)))"
    "ts_revision_hashes s \<subseteq>\<^sub>m ts_revision_hashes (freeze s)"
  using only_store_fields [OF freeze_core(1) [OF ok]] freeze_core [OF ok]
  by (simp_all add: final_ok_def keys_of_def)

lemma frozen_moves:
  assumes ok: "session_ok sha s" and ph: "ph = WrapUp \<or> ph = Feedback" and le: "ts_phase s \<le> ph"
    and ready: "ph = WrapUp \<Longrightarrow> ts_deadline_at s \<noteq> None"
    and deadline: "\<And>d. ts_deadline_at s = Some d \<Longrightarrow> \<exists>d' \<le> d. deadline = Some d'"
    and none: "ts_deadline_at s = None \<Longrightarrow> deadline = None"
    and oc: "if ph = Feedback then oc \<noteq> None \<and> (\<forall>o1. oc = Some o1 \<longrightarrow> oc_outcome o1 = cause_kind (oc_cause o1))
             else oc = None"
    and first: "ts_outcome s = None"
  shows "moves sha s ((freeze s)\<lparr>ts_phase := ph, ts_deadline_at := deadline, ts_outcome := oc,
     ts_seq := ts_seq (freeze s) + 1\<rparr>)"
proof -
  note f = freeze_fields [OF ok]
  have "phase_ok ph deadline (Some (rv_id (ts_current s))) oc"
    using ph oc ready deadline none by (cases "ts_deadline_at s") (auto simp: phase_ok_def split: if_splits option.splits)
  then have "session_ok sha ((freeze s)\<lparr>ts_phase := ph, ts_deadline_at := deadline, ts_outcome := oc,
     ts_seq := ts_seq (freeze s) + 1\<rparr>)"
    using ok f(22,23) unfolding session_ok_def store_ok_def by (simp add: f(1-21))
  moreover have "earlier s ((freeze s)\<lparr>ts_phase := ph, ts_deadline_at := deadline, ts_outcome := oc,
     ts_seq := ts_seq (freeze s) + 1\<rparr>)"
    using f(24,20) le deadline first session_okD(3) [OF ok]
    by (auto simp: earlier_def f(1-21) final_ok_def split: option.splits)
  moreover have "ts_seq s < ts_seq (freeze s) + 1" using f(19) by simp
  ultimately show ?thesis unfolding moves_def past_def by (simp add: steady_less)
qed

lemma feedback_top: "p \<le> Feedback"
  by (cases p) (simp_all add: less_eq_phase_def)

lemma conclude_eq:
  assumes "ts_phase s \<noteq> Feedback" and ok: "session_ok sha s"
  shows "snd (conclude c d now s) = (freeze s)\<lparr>ts_phase := Feedback,
     ts_deadline_at := ts_deadline_at s, ts_outcome := Some \<lparr>oc_outcome = cause_kind c, oc_cause = c,
       oc_at = now - (case ts_started_at s of Some at \<Rightarrow> at | None \<Rightarrow> now), oc_duration_ms = d\<rparr>,
     ts_seq := ts_seq (freeze s) + 1\<rparr>"
proof -
  show ?thesis
    using assms(1) freeze_fields(10) [OF ok]
    by (simp add: conclude_def Let_def flip: freeze_fields(3) [OF ok])
qed

lemma conclude_moves:
  assumes ok: "session_ok sha s"
  shows "moves sha s (snd (conclude c d now s))"
proof (cases "ts_phase s = Feedback")
  case True
  with ok show ?thesis by (simp add: conclude_def)
next
  case False
  then have "ts_outcome s = None" using session_okD(5) [OF ok] by (simp add: phase_ok_def)
  then show ?thesis
    unfolding conclude_eq [OF False ok] by (intro frozen_moves ok) (simp_all add: feedback_top)
qed

lemma expire_moves:
  assumes "session_ok sha s"
  shows "moves sha s (snd (expire now s))"
  using assms conclude_moves [OF assms] by (simp add: expire_def)

lemma expire_ok: "session_ok sha s \<Longrightarrow> session_ok sha (snd (expire now s))"
  by (rule moves_ok [OF expire_moves])

lemma feedback_moves: "session_ok sha s \<Longrightarrow> moves sha s (session_feedback now s)"
  by (simp add: session_feedback_def conclude_moves)

lemma end_moves:
  assumes ok: "session_ok sha s"
  shows "moves sha s (snd (session_end m now s))"
proof -
  note first = expire_moves [OF ok, of now] and step = conclude_moves [OF expire_ok [OF ok]]
  then show ?thesis
    using moves_trans [OF first step] by (simp add: session_end_def Let_def)
qed

lemma start_moves:
  assumes ok: "session_ok sha s"
  shows "moves sha s (session_start now s)"
proof (cases "ts_phase s = Ready \<and> ts_deadline_at s = None")
  case True
  then have "ts_final_revision_id s = None" "ts_outcome s = None"
    using session_okD(5) [OF ok] by (simp_all add: phase_ok_def)
  with True ok show ?thesis
    unfolding moves_def session_defs session_start_def by (simp add: phase_ok_def less_eq_phase_def)
qed (use ok in \<open>auto simp: session_start_def\<close>)

section \<open>Edits, revisions and runs\<close>

lemma checked_edit_Inr:
  assumes "checked_edit sha i code s = Inr edit"
  shows "edit = revision_of sha i code" "ts_final_revision_id s = None" "is_active (ts_phase s)"
    "bindable sha s edit" "length code \<le> MAX_CODE_BYTES" "opaque_id i"
  using assms by (auto simp: checked_edit_def bindable_def revision_of_def Let_def split: if_splits option.splits)

lemma bindableD:
  assumes "bindable sha s r"
  shows "rv_content_hash r = sha (rv_code r)"
    and "ts_revision_hashes s (rv_id r) \<in> {None, Some (rv_content_hash r)}"
  using assms unfolding bindable_def by blast+

lemma apply_edit_moves:
  assumes ok: "session_ok sha s" and "ts_final_revision_id s = None" and "rv_content_hash edit = sha (rv_code edit)"
    and "ts_revision_hashes s (rv_id edit) \<in> {None, Some (rv_content_hash edit)}"
  shows "moves sha s (apply_edit edit now s)"
proof -
  have "revisions_ok sha (ts_revisions s) (ts_revision_hashes s) edit"
    using session_okD(1) [OF ok] assms(3,4) unfolding revisions_ok_def by blast
  moreover have "final_ok (ts_revisions s) edit None" by (simp add: final_ok_def)
  ultimately show ?thesis
    using ok assms(2) unfolding moves_def session_defs apply_edit_def by simp
qed

lemma acknowledge_edit_moves:
  assumes ok: "session_ok sha s"
  shows "moves sha s (snd (acknowledge_edit sha i code now s))"
proof -
  let ?s = "snd (expire now s)"
  have first: "moves sha s ?s" by (rule expire_moves [OF ok])
  show ?thesis
  proof (cases "checked_edit sha i code ?s")
    case (Inl e)
    with first show ?thesis by (simp add: acknowledge_edit_def Let_def)
  next
    case (Inr edit)
    note edit = checked_edit_Inr [OF Inr]
    have "moves sha ?s (apply_edit edit now ?s)"
      by (rule apply_edit_moves [OF expire_ok [OF ok] edit(2) bindableD [OF edit(4)]])
    with first Inr show ?thesis by (simp add: acknowledge_edit_def Let_def moves_trans)
  qed
qed

text \<open>A new request id fits under the bound it was checked against.\<close>

lemma request_room:
  assumes "session_request v i s = Inr True" and "session_ok sha s"
  shows "finite (insert i (ts_requests s))" "card (insert i (ts_requests s)) \<le> MAX_REQUESTS"
  using assms session_okD(7) [OF assms(2)]
  by (auto simp: session_request_def limits_ok_def card_insert_if split: if_splits)

lemma request_moves:
  assumes ok: "session_ok sha s" and "session_request v i s = Inr True"
  shows "moves sha s (s\<lparr>ts_requests := insert i (ts_requests s)\<rparr>)"
proof -
  have "limits_ok (pt_hint_limit (ts_task s)) (ts_hint_rungs_used s) (ts_targeted_followups s)
      (ts_code_review_nudges s) (ts_wrap_up_checks s) (insert i (ts_requests s))"
    using session_okD(7) [OF ok] request_room [OF assms(2) ok] unfolding limits_ok_def by blast
  with ok show ?thesis unfolding moves_def session_defs by simp
qed

lemma session_request_cong:
  "ts_requests t = ts_requests s \<Longrightarrow> session_request v i t = session_request v i s"
  by (simp add: session_request_def)

lemma expire_requests: "session_ok sha s \<Longrightarrow> ts_requests (snd (expire now s)) = ts_requests s"
  by (simp add: expire_def conclude_def Let_def freeze_fields)

text \<open>The bookkeeping at the end of a capture: the pending run, the acknowledged request.\<close>

lemma acknowledge_capture_moves:
  assumes ok: "session_ok sha s" and request: "session_request v i s = Inr True"
    and pending: "bt_ok pending" "length pending \<le> 1" "set (bt_keys pending) \<subseteq> keys_of s"
  shows "moves sha s (bump (s\<lparr>ts_pending_run_revisions := pending,
     ts_acknowledged_capture_request_id := Some j, ts_requests := insert i (ts_requests s)\<rparr>))"
proof -
  have "refs_ok (ts_revisions s) (ts_evidence_revisions s) pending"
    using session_okD(2) [OF ok] pending unfolding refs_ok_def keys_of_def by blast
  moreover have "limits_ok (pt_hint_limit (ts_task s)) (ts_hint_rungs_used s) (ts_targeted_followups s)
      (ts_code_review_nudges s) (ts_wrap_up_checks s) (insert i (ts_requests s))"
    using session_okD(7) [OF ok] request_room [OF request ok] unfolding limits_ok_def by blast
  ultimately show ?thesis using ok unfolding moves_def session_defs by simp
qed

lemma bt_insert_only:
  assumes "\<forall>j \<in> set (bt_keys m). j = i" and "length m \<le> 1"
  shows "bt_insert i v m = [(i, v)]"
proof (cases m)
  case (Cons p ps)
  with assms show ?thesis by auto
qed simp

lemma revision_moves:
  assumes ok: "session_ok sha s"
  shows "moves sha s (snd (session_revision sha m now s))"
proof -
  let ?s = "snd (expire now s)"
  let ?w = "sweep_pending now ?s"
  have s: "moves sha s ?s" by (rule expire_moves [OF ok])
  have w: "moves sha s ?w" by (rule moves_trans [OF s move_sweep [OF moves_ok [OF s]]])
  note okw = moves_ok [OF w]
  have req_w: "session_request v i ?w = session_request v i ?s" for v i
    by (rule session_request_cong) (simp add: sweep_pending_def)
  let ?request = "session_request (rm_version m) (rm_request_id m) ?s"
  show ?thesis
  proof (cases "?request = Inr True \<and> \<not> (rm_trigger m = RunTrigger
      \<and> list_ex (\<lambda>i. i \<noteq> rm_revision_id m) (bt_keys (ts_pending_run_revisions ?w)))
      \<and> (\<exists>edit. checked_edit sha (rm_revision_id m) (rm_code m) ?w = Inr edit)")
    case False
    then show ?thesis
      using s w by (auto simp: session_revision_def Let_def split: sum.splits bool.splits)
  next
    case True
    then obtain edit where req: "?request = Inr True" and edit: "checked_edit sha (rm_revision_id m) (rm_code m) ?w = Inr edit"
      and other: "rm_trigger m = RunTrigger \<Longrightarrow> \<forall>i \<in> set (bt_keys (ts_pending_run_revisions ?w)). i = rm_revision_id m"
      by (auto simp: list_ex_iff)
    note facts = checked_edit_Inr [OF edit]
    obtain kept c where cap: "capture_with_final_slot edit (rm_trigger m = FinishTrigger) ?w = (kept, c)"
      by fastforce
    have captured: "captured edit ?w kept c"
      using capture_captured [OF store_okD(1) [OF session_ok_store [OF okw]], of edit "rm_trigger m = FinishTrigger"] cap
      by simp
    have wc: "moves sha ?w c" by (rule captured_moves [OF captured okw facts(4)])
    note fields = only_store_fields [OF captured_only_store [OF captured]]
    show ?thesis
    proof (cases kept)
      case False
      with req edit other cap moves_trans [OF w wc] show ?thesis
        by (auto simp: session_revision_def Let_def list_ex_iff)
    next
      case True
      have id: "rv_id edit = rm_revision_id m" using facts(1) by (simp add: revision_of_def)
      have "ts_revision_hashes c (rv_id edit) \<in> {None, Some (rv_content_hash edit)}"
        using captured facts(4) session_okD(1) [OF moves_ok [OF wc]] captured_keys(1) [OF captured True]
          session_okD(1) [OF okw]
        by (induction rule: captured.induct) (auto simp: bindable_def)
      then have ca: "moves sha c (apply_edit edit now c)"
        using facts(2) fields by (intro apply_edit_moves moves_ok [OF wc] bindableD(1) [OF facts(4)]) simp_all
      let ?a = "apply_edit edit now c"
      have keys_a: "keys_of ?a = keys_of c" by (simp add: keys_of_def apply_edit_def)
      have req_a: "session_request (rm_version m) (rm_request_id m) ?a = Inr True"
        using req session_request_cong [of ?a ?s] by (simp add: apply_edit_def fields sweep_pending_def)
      define pending where "pending = (if rm_trigger m = RunTrigger
        then bt_insert (rv_id edit) (sat_add64 now (default_number ''runCaptureSeconds'')) (ts_pending_run_revisions c)
        else ts_pending_run_revisions c)"
      have refs: "refs_ok (ts_revisions c) (ts_evidence_revisions c) (ts_pending_run_revisions c)"
        by (rule session_okD(2) [OF moves_ok [OF wc]])
      have pend: "bt_ok pending \<and> length pending \<le> 1 \<and> set (bt_keys pending) \<subseteq> keys_of ?a"
      proof (cases "rm_trigger m = RunTrigger")
        case True
        have "pending = [(rv_id edit, sat_add64 now (default_number ''runCaptureSeconds''))]"
          using other [OF True] refs True fields id
          unfolding pending_def refs_ok_def by (simp add: bt_insert_only)
        then show ?thesis using captured_keys(1) [OF captured \<open>kept\<close>] keys_a by (simp add: bt_ok_def)
      next
        case False
        then show ?thesis using refs keys_a by (simp add: pending_def refs_ok_def keys_of_def)
      qed
      have "moves sha ?a (bump (?a\<lparr>ts_pending_run_revisions := pending,
          ts_acknowledged_capture_request_id := Some (rm_request_id m),
          ts_requests := insert (rm_request_id m) (ts_requests ?a)\<rparr>))"
        using pend by (intro acknowledge_capture_moves [OF moves_ok [OF ca] req_a]) simp_all
      then have all: "moves sha s (bump (?a\<lparr>ts_pending_run_revisions := pending,
          ts_acknowledged_capture_request_id := Some (rm_request_id m),
          ts_requests := insert (rm_request_id m) (ts_requests ?a)\<rparr>))"
        by (rule moves_trans [OF moves_trans [OF moves_trans [OF w wc] ca]])
      have "\<not> (rm_trigger m = RunTrigger \<and> list_ex (\<lambda>i. i \<noteq> rm_revision_id m) (bt_keys (ts_pending_run_revisions ?w)))"
        using other by (auto simp: list_ex_iff)
      then have "snd (session_revision sha m now s) = bump (?a\<lparr>ts_pending_run_revisions := pending,
          ts_acknowledged_capture_request_id := Some (rm_request_id m),
          ts_requests := insert (rm_request_id m) (ts_requests ?a)\<rparr>)"
        using req edit cap True
        by (cases "rm_trigger m = RunTrigger") (simp_all add: session_revision_def Let_def pending_def apply_edit_def)
      with all show ?thesis by simp
    qed
  qed
qed

end
