(* ===== verification/Task_Session_Correct.thy ===== *)
theory Task_Session_Correct
  imports Task_Session_Moves
begin

text \<open>
  The rest of a session's operations (runs, actions, the clock, evidence, messages and tool calls),
  the session as a state machine over the calls the room makes, and the properties of all its runs.
\<close>

section \<open>Practice runs\<close>

lemma run_kept_moves:
  assumes ok: "session_ok sha s" and request: "session_request v i s = Inr True"
    and m: "rn_passed m \<le> rn_total m" "rn_revision_id m \<in> keys_of s"
    and new: "length (ts_runs s) < 20"
  shows "moves sha s (bump (s\<lparr>ts_requests := insert i (ts_requests s),
     ts_pending_run_revisions := bt_remove j (ts_pending_run_revisions s),
     ts_runs := bt_insert (rn_run_id m) m (ts_runs s), ts_last_activity_at := now\<rparr>))"
proof -
  have "limits_ok (pt_hint_limit (ts_task s)) (ts_hint_rungs_used s) (ts_targeted_followups s)
      (ts_code_review_nudges s) (ts_wrap_up_checks s) (insert i (ts_requests s))"
    using session_okD(7) [OF ok] request_room [OF request ok] unfolding limits_ok_def by blast
  moreover have "refs_ok (ts_revisions s) (ts_evidence_revisions s) (bt_remove j (ts_pending_run_revisions s))"
    using session_okD(2) [OF ok] bt_ok_remove [of "ts_pending_run_revisions s" j]
      length_filter_le [of "\<lambda>p. fst p \<noteq> j" "ts_pending_run_revisions s"]
    unfolding refs_ok_def by (auto simp: bt_remove_def [symmetric])
  moreover have "runs_ok (ts_revisions s) (bt_insert (rn_run_id m) m (ts_runs s)) (ts_dropped_run_revision_ids s)"
  proof -
    have runs: "runs_ok (ts_revisions s) (ts_runs s) (ts_dropped_run_revision_ids s)"
      by (rule session_okD(4) [OF ok])
    then have "bt_ok (ts_runs s)" by (simp add: runs_ok_def)
    then show ?thesis
      using runs m bt.size_put_le [of "ts_runs s" "rn_run_id m" m] new unfolding runs_ok_def
      by (auto simp: map_of_bt_insert bt_ok_insert keys_of_def)
  qed
  ultimately show ?thesis using ok unfolding moves_def session_defs by simp
qed

lemma run_dropped_moves:
  assumes ok: "session_ok sha s" and request: "session_request v i s = Inr True"
  shows "moves sha s (s\<lparr>ts_requests := insert i (ts_requests s),
     ts_pending_run_revisions := bt_remove j (ts_pending_run_revisions s)\<rparr>)"
proof -
  have "limits_ok (pt_hint_limit (ts_task s)) (ts_hint_rungs_used s) (ts_targeted_followups s)
      (ts_code_review_nudges s) (ts_wrap_up_checks s) (insert i (ts_requests s))"
    using session_okD(7) [OF ok] request_room [OF request ok] unfolding limits_ok_def by blast
  moreover have "refs_ok (ts_revisions s) (ts_evidence_revisions s) (bt_remove j (ts_pending_run_revisions s))"
    using session_okD(2) [OF ok] bt_ok_remove [of "ts_pending_run_revisions s" j]
      length_filter_le [of "\<lambda>p. fst p \<noteq> j" "ts_pending_run_revisions s"]
    unfolding refs_ok_def by (auto simp: bt_remove_def [symmetric])
  ultimately show ?thesis using ok unfolding moves_def session_defs by simp
qed

lemma run_moves:
  assumes ok: "session_ok sha s"
  shows "moves sha s (snd (session_run m now s))"
proof -
  let ?s = "snd (expire now s)"
  have s: "moves sha s ?s" by (rule expire_moves [OF ok])
  note oks = moves_ok [OF s]
  let ?request = "session_request (rn_version m) (rn_request_id m) ?s"
  let ?refused = "\<not> is_active (ts_phase ?s) \<or> rn_passed m > rn_total m
            \<or> (rn_total m = 0 \<and> str_trim (rn_diagnostics m) = [])
            \<or> length (rn_diagnostics m) > MAX_DIAGNOSTIC_BYTES
            \<or> \<not> opaque_id (rn_run_id m)
            \<or> \<not> bt_has (ts_revisions ?s) (rn_revision_id m)"
  let ?due = "case map_of (ts_pending_run_revisions ?s) (rn_revision_id m) of
                         None \<Rightarrow> False | Some expires_at \<Rightarrow> expires_at > now"
  show ?thesis
  proof (cases "\<not> ?refused \<and> ?request = Inr True \<and> \<not> bt_has (ts_runs ?s) (rn_run_id m) \<and> ?due")
    case False
    then have "snd (session_run m now s) = ?s"
      unfolding session_run_def Let_def by (auto split: sum.splits bool.splits)
    with s show ?thesis by simp
  next
    case True
    then have req: "?request = Inr True" and m: "rn_passed m \<le> rn_total m" "rn_revision_id m \<in> keys_of ?s"
      by (auto simp: bt_has_set keys_of_def not_less)
    let ?t = "?s\<lparr>ts_requests := insert (rn_request_id m) (ts_requests ?s),
        ts_pending_run_revisions := bt_remove (rn_revision_id m) (ts_pending_run_revisions ?s)\<rparr>"
    have t: "moves sha ?s ?t" by (rule run_dropped_moves [OF oks req])
    show ?thesis
    proof (cases "length (ts_runs ?s) \<ge> 20")
      case full: True
      have "moves sha ?t (mark_overflow ?t)" by (rule move_fields(7) [OF moves_ok [OF t]])
      moreover have "snd (session_run m now s) = mark_overflow ?t"
        using True full unfolding session_run_def Let_def by auto
      ultimately show ?thesis using moves_trans [OF s moves_trans [OF t]] by simp
    next
      case False
      then have "snd (session_run m now s) = bump (?t\<lparr>ts_runs := bt_insert (rn_run_id m) m (ts_runs ?s),
          ts_last_activity_at := now\<rparr>)"
        using True unfolding session_run_def Let_def by auto
      with False run_kept_moves [OF oks req m, where j = "rn_revision_id m" and now = now] moves_trans [OF s] show ?thesis
        by simp
    qed
  qed
qed

section \<open>Offers of support\<close>

lemma turns_ordinal_append: "turns_ordinal ts i = Some n \<Longrightarrow> turns_ordinal (ts @ us) i = Some n"
  by (induction ts arbitrary: n) auto

lemma turns_ordinal_dom: "turns_ordinal ts i \<noteq> None \<longleftrightarrow> i \<in> fst ` set ts"
  by (induction ts) auto

lemma turns_ordinal_le: "turns_ordinal ts i = Some n \<Longrightarrow> n \<le> length ts"
  by (induction ts arbitrary: n) (auto split: if_splits)

lemma turns_get_None: "turns_get ts i = None \<longleftrightarrow> i \<notin> fst ` set ts"
  by (auto simp: turns_get_def find_None_iff) (metis fst_conv image_eqI)

lemma check_ok_mono:
  assumes c: "check_ok ev ts offers c" and "ev \<subseteq> ev'" and "\<exists>us. ts' = ts @ us" and "map_of offers \<subseteq>\<^sub>m map_of offers'"
  shows "check_ok ev' ts' offers' c"
proof -
  have "offered_before offers' ts' t given" if "offered_before offers ts t given" for t given
    using that assms(3,4) turns_ordinal_append unfolding offered_before_def map_le_def
    by (metis domI)
  moreover have "fst ` set ts \<subseteq> fst ` set ts'" using assms(3) by auto
  ultimately show ?thesis using c assms(2) unfolding check_ok_def by (meson subset_trans)
qed

lemma checks_ok_mono:
  assumes "checks_ok checks ev ts offers" and "ev \<subseteq> ev'" and "\<exists>us. ts' = ts @ us"
    and "map_of offers \<subseteq>\<^sub>m map_of offers'"
  shows "checks_ok checks ev' ts' offers'"
  using assms(1) check_ok_mono [OF _ assms(2-4)] unfolding checks_ok_def by blast

lemma hint_new: "''hint-'' @ decimal (used + 1) \<notin> offer_ids used followups"
  by (auto simp: offer_ids_def dest: decimal_inj)

lemma followup_new: "''followup-'' @ decimal (followups + 1) \<notin> offer_ids used followups"
  by (auto simp: offer_ids_def dest: decimal_inj)

lemma offer_ids_hint: "insert (''hint-'' @ decimal (used + 1)) (offer_ids used followups) \<subseteq> offer_ids (used + 1) followups"
  by (force simp: offer_ids_def)

lemma offer_ids_followup:
  "insert (''followup-'' @ decimal (followups + 1)) (offer_ids used followups) \<subseteq> offer_ids used (followups + 1)"
  by (force simp: offer_ids_def)

text \<open>A new offer, under a new id.\<close>

lemma offer_added:
  assumes "support_ok offers used followups ts" and "i \<notin> offer_ids used followups"
    and "insert i (offer_ids used followups) \<subseteq> offer_ids used' followups'"
    and "so_after_turn o1 = length ts" "so_kind o1 \<noteq> NoSupport"
  shows "support_ok (bt_insert i o1 offers) used' followups' ts" and "map_of offers \<subseteq>\<^sub>m map_of (bt_insert i o1 offers)"
proof -
  have ok: "bt_ok offers" and keys: "set (bt_keys offers) \<subseteq> offer_ids used followups"
    using assms(1) by (simp_all add: support_ok_def)
  have "i \<notin> dom (map_of offers)" using keys assms(2) bt.set_keys [OF ok] by blast
  then show "map_of offers \<subseteq>\<^sub>m map_of (bt_insert i o1 offers)"
    by (auto simp: map_of_bt_insert [OF ok] map_le_def)
  show "support_ok (bt_insert i o1 offers) used' followups' ts"
    using assms ok unfolding support_ok_def by (auto simp: bt_ok_insert map_of_bt_insert)
qed

lemma followup_moves:
  assumes ok: "session_ok sha s"
  shows "moves sha s (snd (targeted_followup i s))"
proof (cases "\<not> is_active (ts_phase s) \<or> ts_targeted_followups s \<ge> 2 \<or> \<not> bt_has (ts_checks s) i")
  case True
  with ok show ?thesis by (auto simp: targeted_followup_def)
next
  case False
  let ?n = "ts_targeted_followups s + 1" and ?id = "''followup-'' @ decimal (ts_targeted_followups s + 1)"
  let ?o = "\<lparr>so_kind = TargetedFollowup, so_check_id = Some i, so_after_turn = length (ts_turns s)\<rparr>"
  let ?offers = "bt_insert ?id ?o (ts_support_opportunities s)"
  note added = offer_added [OF session_okD(8) [OF ok] followup_new offer_ids_followup, of ?o, simplified]
  have "support_ok ?offers (ts_hint_rungs_used s) ?n (ts_turns s)" using added(1) by simp
  moreover have "checks_ok (ts_checks s) (ts_evidence_revisions s) (ts_turns s) ?offers"
    using checks_ok_mono [OF session_okD(9) [OF ok] order_refl _ added(2)] by simp
  moreover have "limits_ok (pt_hint_limit (ts_task s)) (ts_hint_rungs_used s) ?n
      (ts_code_review_nudges s) (ts_wrap_up_checks s) (ts_requests s)"
    using session_okD(7) [OF ok] False unfolding limits_ok_def by simp
  moreover have "snd (targeted_followup i s) = s\<lparr>ts_targeted_followups := ?n, ts_support_opportunities := ?offers\<rparr>"
    using False by (simp add: targeted_followup_def Let_def)
  ultimately show ?thesis using ok unfolding moves_def session_defs by simp
qed

section \<open>Actions\<close>

text \<open>A \<open>loud\<close> operation also moves the sequence number, so it may change what is shown.\<close>

definition loud :: "(string \<Rightarrow> string) \<Rightarrow> task_session \<Rightarrow> task_session \<Rightarrow> bool" where
  "loud sha s t \<longleftrightarrow> session_ok sha t \<and> earlier s t \<and> ts_seq s < ts_seq t"

lemma loud_moves: "loud sha s t \<Longrightarrow> moves sha s t"
  by (simp add: loud_def moves_def past_def steady_less)

lemma bump_loud: "session_ok sha s \<Longrightarrow> loud sha s (bump s)"
  unfolding loud_def session_ok_def earlier_def by simp

text \<open>The ladder is as long as the hints the attempt may use: what validation and the set promise.\<close>

definition ladder_ok :: "pinned_task \<Rightarrow> bool" where
  "ladder_ok task \<longleftrightarrow> (\<exists>hs. hints (pt_exercise task) = Some hs \<and> pt_hint_limit task \<le> length hs)"

lemma hint_loud:
  assumes ok: "session_ok sha s" and ladder: "ladder_ok (ts_task s)"
  shows "loud sha s (snd (perform_action Hint now s)) \<and> fst (perform_action Hint now s) \<noteq> Inl Panicked"
proof (cases "ts_hint_rungs_used s \<ge> pt_hint_limit (ts_task s)")
  case True
  with bump_loud [OF ok] show ?thesis by (simp add: perform_action_def)
next
  case False
  let ?n = "ts_hint_rungs_used s + 1" and ?id = "''hint-'' @ decimal (ts_hint_rungs_used s + 1)"
  let ?o = "\<lparr>so_kind = ConceptualHint, so_check_id = None, so_after_turn = length (ts_turns s)\<rparr>"
  let ?offers = "bt_insert ?id ?o (ts_support_opportunities s)"
  note added = offer_added [OF session_okD(8) [OF ok] hint_new offer_ids_hint, of ?o, simplified]
  from ladder False obtain hs where hs: "hints (pt_exercise (ts_task s)) = Some hs" "ts_hint_rungs_used s < length hs"
    by (auto simp: ladder_ok_def)
  let ?t = "bump (s\<lparr>ts_support_opportunities := ?offers, ts_hint_rungs_used := ?n\<rparr>)"
  have "perform_action Hint now s = (Inr (Some (hint_message ?n ?id (hs ! ts_hint_rungs_used s))), ?t)"
    using False hs by (simp add: perform_action_def hint_clue_def Let_def)
  moreover have "support_ok ?offers ?n (ts_targeted_followups s) (ts_turns s)" using added(1) by simp
  moreover have "checks_ok (ts_checks s) (ts_evidence_revisions s) (ts_turns s) ?offers"
    using checks_ok_mono [OF session_okD(9) [OF ok] order_refl _ added(2)] by simp
  moreover have "limits_ok (pt_hint_limit (ts_task s)) ?n (ts_targeted_followups s)
      (ts_code_review_nudges s) (ts_wrap_up_checks s) (ts_requests s)"
    using session_okD(7) [OF ok] False unfolding limits_ok_def by simp
  ultimately show ?thesis using ok unfolding loud_def session_ok_def earlier_def by simp
qed

lemma record_same: "ts_outcome s = oc \<Longrightarrow> s\<lparr>ts_phase := p, ts_deadline_at := d, ts_outcome := oc, ts_seq := n\<rparr>
    = s\<lparr>ts_phase := p, ts_deadline_at := d, ts_seq := n\<rparr>"
  by auto

lemma finish_loud:
  assumes ok: "session_ok sha s" and active: "is_active (ts_phase s)"
  shows "loud sha s (snd (perform_action Finish now s))"
proof -
  let ?d = "map_option (\<lambda>deadline. min deadline (sat_add64 now (default_number ''wrapUpSeconds''))) (ts_deadline_at s)"
  have phase: "phase_ok (ts_phase s) (ts_deadline_at s) (ts_final_revision_id s) (ts_outcome s)"
    by (rule session_okD(5) [OF ok])
  then have none: "ts_outcome s = None" and some: "ts_deadline_at s \<noteq> None"
    using active by (auto simp: phase_ok_def is_active_def)
  have shape: "snd (perform_action Finish now s) = (freeze s)\<lparr>ts_phase := WrapUp, ts_deadline_at := ?d,
      ts_outcome := None, ts_seq := ts_seq (freeze s) + 1\<rparr>"
    using freeze_fields(3) [OF ok] record_same [of "freeze s"] freeze_fields(9) [OF ok] none
    by (simp add: perform_action_def Let_def)
  have "moves sha s (snd (perform_action Finish now s))"
    unfolding shape using active some none
    by (intro frozen_moves ok) (auto simp: is_active_def less_eq_phase_def)
  moreover have "ts_seq s < ts_seq (snd (perform_action Finish now s))"
    unfolding shape using freeze_fields(19) [OF ok] by simp
  ultimately show ?thesis by (simp add: loud_def moves_def past_def)
qed

lemma perform_loud:
  assumes "session_ok sha s" and "ladder_ok (ts_task s)" and "is_active (ts_phase s)"
  shows "loud sha s (snd (perform_action kind now s)) \<and> fst (perform_action kind now s) \<noteq> Inl Panicked"
  using assms hint_loud [of sha s now] finish_loud [of sha s now] bump_loud [of sha s]
  by (cases kind) (auto simp: perform_action_def Let_def)

lemma is_active_fields: "is_active (ts_phase s) \<Longrightarrow> ts_phase s \<noteq> Feedback \<and> ts_phase s \<noteq> Ready"
  by (auto simp: is_active_def)

lemma ladder_moves: "moves sha s t \<Longrightarrow> ts_task t = ts_task s"
  by (simp add: moves_def past_def earlier_def)

lemma action_moves:
  assumes ok: "session_ok sha s" and ladder: "ladder_ok (ts_task s)"
  shows "moves sha s (snd (session_action m now s)) \<and> fst (session_action m now s) \<noteq> Inl Panicked"
proof -
  let ?s = "snd (expire now s)"
  have s: "moves sha s ?s" by (rule expire_moves [OF ok])
  note oks = moves_ok [OF s]
  let ?request = "session_request (am_version m) (am_request_id m) ?s"
  let ?retry = "am_action m = Finish \<and> ts_final_revision_id ?s \<noteq> None \<and> ts_final_revision_id ?s = am_revision_id m"
  have no_panic: "?request \<noteq> Inl Panicked" by (simp add: session_request_def)
  show ?thesis
  proof (cases "?request = Inr True \<and> \<not> ?retry \<and> action_refusal m ?s = None")
    case False
    let ?r = "?s\<lparr>ts_requests := insert (am_request_id m) (ts_requests ?s)\<rparr>"
    consider e where "?request = Inl e" | "?request = Inr False" | "?request = Inr True" "?retry"
      | e where "?request = Inr True" "\<not> ?retry" "action_refusal m ?s = Some e"
      using False by (metis (full_types) not_None_eq old.sum.exhaust)
    then show ?thesis
    proof cases
      case 3
      have "moves sha s ?r" by (rule moves_trans [OF s request_moves [OF oks 3(1)]])
      moreover have "session_action m now s = (Inr None, ?r)" using 3 by (auto simp: session_action_def Let_def)
      ultimately show ?thesis by simp
    next
      case 4
      then have "session_action m now s = (invalid e, ?s)" by (auto simp: session_action_def Let_def)
      with s show ?thesis by simp
    qed (use s no_panic in \<open>simp_all add: session_action_def Let_def\<close>)
  next
    case True
    obtain kept c where kc: "(if am_action m = Discuss then capture_current ?s else (True, ?s)) = (kept, c)"
      by fastforce
    have sc: "moves sha ?s c" and cf: "ts_requests c = ts_requests ?s" "ts_phase c = ts_phase ?s"
    proof -
      show "moves sha ?s c" using kc capture_current_moves [OF oks] oks by (auto split: if_splits)
      have "only_store ?s c"
        using kc captured_only_store [OF capture_current_captured [OF store_okD(1) [OF session_ok_store [OF oks]]]]
        by (auto split: if_splits)
      from only_store_fields [OF this] show "ts_requests c = ts_requests ?s" "ts_phase c = ts_phase ?s" by simp_all
    qed
    have eq: "session_action m now s = (if \<not> kept then (invalid ''revision capture capacity reached'', c)
       else perform_action (am_action m) now
         ((if am_action m \<in> {Hint, Discuss} then c\<lparr>ts_active_target_id := am_target_id m\<rparr> else c)
            \<lparr>ts_requests := insert (am_request_id m) (ts_requests c), ts_last_activity_at := now\<rparr>))"
      using True kc unfolding session_action_def Let_def by auto
    show ?thesis
    proof (cases kept)
      case False
      then show ?thesis using eq moves_trans [OF s sc] by simp
    next
      case kept: True
      define a where "a = (if am_action m \<in> {Hint, Discuss} then am_target_id m else ts_active_target_id c)"
      let ?u = "c\<lparr>ts_active_target_id := a, ts_requests := insert (am_request_id m) (ts_requests c), ts_last_activity_at := now\<rparr>"
      have "ts_task c = ts_task ?s" by (rule ladder_moves [OF sc])
      then have target: "target_ok (ts_task c) a"
        using True session_okD(10) [OF moves_ok [OF sc]]
        by (auto simp: a_def target_ok_def action_refusal_def target_known_def list_ex_iff split: if_splits option.splits)
      have req: "session_request (am_version m) (am_request_id m) c = Inr True"
        using True session_request_cong [of c ?s] cf by simp
      have u: "session_ok sha ?u"
        using moves_ok [OF request_moves [OF moves_ok [OF sc] req]] target unfolding session_ok_def by simp
      have eu: "earlier c ?u" by (simp add: earlier_def)
      have "is_active (ts_phase ?u)" using True cf by (simp add: action_refusal_def split: if_splits)
      moreover have "ladder_ok (ts_task ?u)" using ladder ladder_moves [OF s] ladder_moves [OF sc] by simp
      ultimately have l: "loud sha ?u (snd (perform_action (am_action m) now ?u))
          \<and> fst (perform_action (am_action m) now ?u) \<noteq> Inl Panicked"
        by (intro perform_loud [OF u])
      then have "loud sha c (snd (perform_action (am_action m) now ?u))"
        using earlier_trans [OF eu] by (simp add: loud_def)
      then have "moves sha s (snd (perform_action (am_action m) now ?u))"
        using moves_trans [OF moves_trans [OF s sc] loud_moves] by blast
      moreover have "session_action m now s = perform_action (am_action m) now ?u"
        using eq kept by (simp add: a_def)
      ultimately show ?thesis using l by simp
    qed
  qed
qed

section \<open>The clock\<close>

lemma tick_moves:
  assumes ok: "session_ok sha s"
  shows "moves sha s (snd (tick now speaking s))"
proof -
  let ?w = "sweep_pending now s"
  have w: "moves sha s ?w" by (rule move_sweep [OF ok])
  note okw = moves_ok [OF w]
  show ?thesis
  proof (cases "ts_deadline_at ?w")
    case None
    with w show ?thesis by (simp add: tick_def Let_def)
  next
    case (Some deadline)
    obtain b e where be: "expire now ?w = (b, e)" by fastforce
    have e: "moves sha ?w e" using expire_moves [OF okw, of now] be by simp
    note we = moves_trans [OF w e]
    show ?thesis
    proof (cases b)
      case True
      with Some be we show ?thesis by (simp add: tick_def Let_def)
    next
      case False
      have wrap: "moves sha e (bump (e\<lparr>ts_phase := WrapUp\<rparr>))" if "ts_phase e = Work"
        using moves_ok [OF e] that unfolding moves_def session_defs by (auto simp: phase_ok_def less_eq_phase_def)
      have nudge: "moves sha e (e\<lparr>ts_last_nudge_at := n, ts_reviewed_hash := h, ts_code_review_nudges := ts_code_review_nudges e + 1\<rparr>)"
        if "ts_code_review_nudges e < 3" for n h
      proof -
        have "limits_ok (pt_hint_limit (ts_task e)) (ts_hint_rungs_used e) (ts_targeted_followups e)
            (ts_code_review_nudges e + 1) (ts_wrap_up_checks e) (ts_requests e)"
          using session_okD(7) [OF moves_ok [OF e]] that unfolding limits_ok_def by simp
        then show ?thesis using moves_ok [OF e] unfolding moves_def session_defs by simp
      qed
      note steps = wrap nudge move_fields(4,5) [OF moves_ok [OF e]] moves_refl [OF moves_ok [OF e]]
      have "moves sha e (snd (tick now speaking s))"
        using Some be False steps by (simp add: tick_def Let_def code_review_due_def)
      then show ?thesis by (rule moves_trans [OF we])
    qed
  qed
qed

lemma note_activity_moves: "session_ok sha s \<Longrightarrow> moves sha s (note_activity now s)"
  by (simp add: note_activity_def move_fields)

section \<open>Evidence\<close>

lemma turn_moves:
  assumes ok: "session_ok sha s" and "length speech \<le> MAX_TURN_BYTES" "length (ts_turns s) < MAX_TURNS"
    and "turns_get (ts_turns s) i = None"
  shows "moves sha s (s\<lparr>ts_turns := ts_turns s @ [(i, speech)], ts_last_activity_at := now\<rparr>)"
proof -
  let ?ts = "ts_turns s @ [(i, speech)]"
  have "turns_ok ?ts"
    using session_okD(6) [OF ok] assms(2-4) by (auto simp: turns_ok_def turns_get_None)
  moreover have "support_ok (ts_support_opportunities s) (ts_hint_rungs_used s) (ts_targeted_followups s) ?ts"
    using session_okD(8) [OF ok] unfolding support_ok_def by (auto intro: le_SucI)
  moreover have "checks_ok (ts_checks s) (ts_evidence_revisions s) ?ts (ts_support_opportunities s)"
    using checks_ok_mono [OF session_okD(9) [OF ok] order_refl] by auto
  ultimately show ?thesis using ok unfolding moves_def session_defs by simp
qed

lemma observe_turn_moves:
  assumes ok: "session_ok sha s"
  shows "moves sha s (observe_turn i speech now s)"
proof -
  let ?s = "snd (expire now s)"
  have s: "moves sha s ?s" by (rule expire_moves [OF ok])
  note oks = moves_ok [OF s]
  have over: "moves sha ?s ((mark_overflow ?s)\<lparr>ts_last_activity_at := now\<rparr>)"
    using moves_trans [OF move_fields(7) [OF oks] move_fields(4) [OF moves_ok [OF move_fields(7) [OF oks]]]] .
  have "moves sha ?s (observe_turn i speech now s)"
    using over oks turn_moves [OF oks, of speech i now] by (auto simp: observe_turn_def Let_def)
  then show ?thesis by (rule moves_trans [OF s])
qed

text \<open>A recorded check keeps its references real and its support earned.\<close>

lemma add_reference_facts:
  assumes "length ids \<le> 8" "distinct ids" "add_reference v ids = (ids', dropped)"
  shows "length ids' \<le> 8" "distinct ids'" "set ids \<subseteq> set ids'" "set ids' \<subseteq> insert v (set ids)"
  using assms by (auto simp: add_reference_def MAX_CHECK_REFERENCES_def split: if_splits)

lemma bind_turn_support_facts:
  assumes "bt_ok m"
  shows "bt_ok (bind_turn_support t given m)" "set (bt_keys (bind_turn_support t given m)) = insert t (set (bt_keys m))"
    "map_of (bind_turn_support t given m) u = Some given' \<Longrightarrow> given' \<noteq> NoSupport \<Longrightarrow>
       u = t \<and> given' = given \<or> map_of m u = Some given'"
  using assms
  by (auto simp: bind_turn_support_def Let_def bt_ok_insert map_of_bt_insert bt_has_set split: if_splits)

lemma keys_nonempty: "set (bt_keys m) = insert t A \<Longrightarrow> m \<noteq> []"
  by auto

lemma record_on_check_ok:
  assumes c: "check_ok ev ts offers c" and "state \<noteq> CheckOpen" and "turn_id \<in> fst ` set ts"
    and given: "given \<noteq> NoSupport \<Longrightarrow> offered_before offers ts turn_id given"
  shows "check_ok (insert rev_id ev) ts offers (fst (record_on_check state given request rev_id turn_id c))
    \<and> ck_id (fst (record_on_check state given request rev_id turn_id c)) = ck_id c"
proof -
  obtain revs d1 where revs: "add_reference rev_id (ck_revision_ids c) = (revs, d1)" by fastforce
  obtain turns d2 where turns: "add_reference turn_id (ck_turn_ids c) = (turns, d2)" by fastforce
  let ?m = "bind_turn_support turn_id given (ck_turn_support c)"
  let ?c = "fst (record_on_check state given request rev_id turn_id c)"
  have parts: "ck_revision_ids ?c = revs" "ck_turn_ids ?c = turns" "ck_turn_support ?c = ?m"
    "ck_state ?c = state" "ck_id ?c = ck_id c"
    using revs turns by (simp_all add: record_on_check_def Let_def)
  have ok: "bt_ok (ck_turn_support c)" using c by (simp add: check_ok_def)
  note m = bind_turn_support_facts [OF ok, of turn_id given]
  note r = add_reference_facts [OF _ _ revs] and t = add_reference_facts [OF _ _ turns]
  have "?m \<noteq> []" using keys_nonempty [OF m(2)] .
  moreover have "length revs \<le> 8" "distinct revs" "set revs \<subseteq> insert rev_id ev"
    using r c unfolding check_ok_def by blast+
  moreover have "length turns \<le> 8" "distinct turns" "set turns \<subseteq> set (bt_keys ?m)" "set (bt_keys ?m) \<subseteq> fst ` set ts"
    using t c m(2) assms(3) unfolding check_ok_def by blast+
  moreover have "\<forall>u given'. map_of ?m u = Some given' \<longrightarrow> given' \<noteq> NoSupport \<longrightarrow> offered_before offers ts u given'"
    using m(3) given c unfolding check_ok_def by blast
  ultimately show ?thesis using m(1) assms(2) unfolding check_ok_def parts by blast
qed

lemma support_of_request_offered:
  assumes "support_of_request i (turns_ordinal ts turn_id) request s = Inr given" and "given \<noteq> NoSupport"
  shows "offered_before (ts_support_opportunities s) ts turn_id given"
  using assms by (fastforce simp: support_of_request_def offered_before_def not_le split: option.splits if_splits)

lemma evidence_moves:
  assumes ok: "session_ok sha s" and c: "map_of (ts_checks s) i = Some c"
    and rev_id: "rev_id \<in> keys_of s" and room: "rev_id \<in> ts_evidence_revisions s \<or> card (ts_evidence_revisions s) < 8"
    and c': "check_ok (insert rev_id (ts_evidence_revisions s)) (ts_turns s) (ts_support_opportunities s) c'" "ck_id c' = ck_id c"
  shows "moves sha s (bump (s\<lparr>ts_checks := bt_insert i c' (ts_checks s),
     ts_evidence_revisions := insert rev_id (ts_evidence_revisions s)\<rparr>))"
proof -
  let ?ev = "insert rev_id (ts_evidence_revisions s)"
  have "refs_ok (ts_revisions s) ?ev (ts_pending_run_revisions s)"
    using session_okD(2) [OF ok] rev_id room
    by (auto simp: refs_ok_def keys_of_def card_insert_if)
  moreover have "checks_ok (bt_insert i c' (ts_checks s)) ?ev (ts_turns s) (ts_support_opportunities s)"
  proof -
    have all: "checks_ok (ts_checks s) ?ev (ts_turns s) (ts_support_opportunities s)"
      by (rule checks_ok_mono [OF session_okD(9) [OF ok]]) auto
    then have "bt_ok (ts_checks s)" by (simp add: checks_ok_def)
    with all c c' show ?thesis unfolding checks_ok_def by (auto simp: map_of_bt_insert bt_ok_insert)
  qed
  ultimately show ?thesis
    using ok unfolding moves_def session_defs by auto
qed

lemma recorded_not_open: "check_state_recorded v = Some st \<Longrightarrow> st \<noteq> CheckOpen"
  by (auto simp: check_state_recorded_def split: if_splits)

lemma record_check_moves:
  assumes ok: "session_ok sha s"
  shows "moves sha s (snd (record_check_with_support alphabetic i state rev_id turn_id request s))"
proof -
  let ?ord = "turns_ordinal (ts_turns s) turn_id"
  define req where "req = (case request of Some r \<Rightarrow> Some r | None \<Rightarrow> implied_support i ?ord s)"
  define c where "c = (if rv_id (ts_current s) = rev_id then snd (capture_current s) else s)"
  let ?reliable = "is_active (ts_phase s)
     \<and> \<not> (case turns_get (ts_turns s) turn_id of None \<Rightarrow> True | Some speech \<Rightarrow> is_unrecognized_speech alphabetic speech)"
  have sc: "moves sha s c" using capture_current_moves [OF ok] ok by (simp add: c_def)
  note okc = moves_ok [OF sc]
  have over: "moves sha s (mark_overflow c)" by (rule moves_trans [OF sc move_fields(7) [OF okc]])
  have same: "ts_turns c = ts_turns s" "ts_checks c = ts_checks s" "ts_evidence_revisions c = ts_evidence_revisions s"
    "ts_support_opportunities c = ts_support_opportunities s"
    using only_store_fields [OF captured_only_store [OF capture_current_captured
        [OF store_okD(1) [OF session_ok_store [OF ok]]]]] by (simp_all add: c_def)
  note unfold = record_check_with_support_def Let_def req_def [symmetric] c_def [symmetric]
  show ?thesis
  proof (cases "support_of_request i ?ord req s")
    case (Inl e)
    with ok show ?thesis by (simp add: unfold)
  next
    case given: (Inr given)
    show ?thesis
    proof (cases "check_state_recorded state")
      case None
      with ok given show ?thesis by (simp add: unfold)
    next
      case st: (Some st)
      show ?thesis
      proof (cases "?reliable \<and> bt_has (ts_revisions c) rev_id
          \<and> \<not> (rev_id \<notin> ts_evidence_revisions c \<and> card (ts_evidence_revisions c) \<ge> 8)
          \<and> map_of (ts_checks c) i \<noteq> None")
        case False
        then have "snd (record_check_with_support alphabetic i state rev_id turn_id request s) \<in> {s, c, mark_overflow c}"
          using given st unfolding unfold by (auto split: option.splits)
        with ok sc over show ?thesis by auto
      next
        case True
        then obtain chk where chk: "map_of (ts_checks c) i = Some chk" by blast
        obtain chk' dropped where rec: "record_on_check st given req rev_id turn_id chk = (chk', dropped)" by fastforce
        let ?e = "if dropped then mark_overflow c else c"
        have e: "moves sha s ?e" using sc over by simp
        have fe: "ts_checks ?e = ts_checks c" "ts_evidence_revisions ?e = ts_evidence_revisions c"
          "ts_turns ?e = ts_turns c" "ts_support_opportunities ?e = ts_support_opportunities c" "keys_of ?e = keys_of c"
          by (simp_all add: mark_overflow_def keys_of_def)
        have "check_ok (ts_evidence_revisions c) (ts_turns c) (ts_support_opportunities c) chk"
          using session_okD(9) [OF okc] chk unfolding checks_ok_def by blast
        moreover have "turn_id \<in> fst ` set (ts_turns c)"
          using True same(1) turns_get_None [of "ts_turns s" turn_id] by (auto split: option.splits)
        moreover have "offered_before (ts_support_opportunities c) (ts_turns c) turn_id given" if "given \<noteq> NoSupport"
          using support_of_request_offered [OF given that] same by simp
        ultimately have chk': "check_ok (insert rev_id (ts_evidence_revisions c)) (ts_turns c) (ts_support_opportunities c) chk'"
            "ck_id chk' = ck_id chk"
          using record_on_check_ok [OF _ recorded_not_open [OF st], of "ts_evidence_revisions c" "ts_turns c"
              "ts_support_opportunities c" chk turn_id given rev_id req] rec by simp_all
        have "moves sha ?e (bump (?e\<lparr>ts_checks := bt_insert i chk' (ts_checks ?e),
            ts_evidence_revisions := insert rev_id (ts_evidence_revisions ?e)\<rparr>))"
          by (rule evidence_moves [OF moves_ok [OF e]])
            (use True chk chk' in \<open>auto simp: fe bt_has_set keys_of_def simp del: if_split\<close>)
        moreover have "snd (record_check_with_support alphabetic i state rev_id turn_id request s)
          = bump (?e\<lparr>ts_checks := bt_insert i chk' (ts_checks ?e),
            ts_evidence_revisions := insert rev_id (ts_evidence_revisions ?e)\<rparr>)"
          using True given st chk rec
          by (auto simp: unfold mark_overflow_def simp del: if_split split: option.splits)
        ultimately show ?thesis using moves_trans [OF e] by simp
      qed
    qed
  qed
qed

lemma wrap_up_moves:
  assumes ok: "session_ok sha s"
  shows "moves sha s (snd (next_wrap_up_check s))"
proof -
  have "moves sha s (s\<lparr>ts_wrap_up_checks := insert i (ts_wrap_up_checks s)\<rparr>)"
    if "card (ts_wrap_up_checks s) < 3" for i
  proof -
    have "limits_ok (pt_hint_limit (ts_task s)) (ts_hint_rungs_used s) (ts_targeted_followups s)
        (ts_code_review_nudges s) (insert i (ts_wrap_up_checks s)) (ts_requests s)"
      using session_okD(7) [OF ok] that unfolding limits_ok_def by (simp add: card_insert_if)
    then show ?thesis using ok unfolding moves_def session_defs by simp
  qed
  then show ?thesis using ok by (auto simp: next_wrap_up_check_def split: option.splits)
qed

section \<open>Messages and tool calls\<close>

lemma receive_moves:
  assumes ok: "session_ok sha s" and ladder: "ladder_ok (ts_task s)"
  shows "moves sha s (snd (receive sha fmt codec topic payload now s))"
    and "fst (receive sha fmt codec topic payload now s) \<noteq> Some (Inl Panicked)"
proof -
  note steps = end_moves [OF ok] action_moves [OF ok ladder] revision_moves [OF ok] run_moves [OF ok]
    acknowledge_edit_moves [OF ok] start_moves [OF ok] move_fields(2,3) [OF ok]
  have refused: "fst (session_end m now s) \<noteq> Inl Panicked" "fst (session_revision sha m' now s) \<noteq> Inl Panicked"
    "fst (session_run m'' now s) \<noteq> Inl Panicked" "fst (acknowledge_edit sha i code now s) \<noteq> Inl Panicked"
    for m m' m'' i code
    by (auto simp: session_end_def session_revision_def session_run_def acknowledge_edit_def checked_edit_def
        session_request_def Let_def split: sum.splits bool.splits prod.splits if_splits option.splits)
  define good where "good r \<longleftrightarrow> moves sha s (snd r) \<and> fst r \<noteq> Inl Panicked"
    for r :: "string option reply \<times> task_session"
  define fine where "fine r \<longleftrightarrow> moves sha s (snd r) \<and> fst r \<noteq> Inl Panicked" for r :: "unit reply \<times> task_session"
  have no_text: "good (no_text x)" if "fine x" for x
    using that by (auto simp: no_text_def good_def fine_def split: sum.splits)
  have "good (parsed e m (receive_run fmt now) s)" for e m
    using run_moves [OF ok, of _ now] refused(3) ok
    by (cases m) (auto simp: parsed_def good_def receive_run_def split: prod.splits sum.splits, (metis fst_conv snd_conv)+)
  moreover have "fine (parsed e m (receive_edit sha now) s)" for e m
    using acknowledge_edit_moves [OF ok] refused(4) ok
    by (cases m) (simp_all add: parsed_def fine_def receive_edit_def)
  moreover have "good (parsed e m set_thinking s)" for e m
    using move_fields(3) [OF ok] ok by (cases m) (simp_all add: parsed_def good_def set_thinking_def)
  moreover have "fine (parsed e m (\<lambda>m. session_end m now) s)" for e m
    using end_moves [OF ok] refused(1) ok by (cases m) (simp_all add: parsed_def fine_def)
  moreover have "good (parsed e m (\<lambda>m. session_action m now) s)" for e m
    using action_moves [OF ok ladder] ok by (cases m) (simp_all add: parsed_def good_def)
  moreover have "fine (parsed e m (\<lambda>m. session_revision sha m now) s)" for e m
    using revision_moves [OF ok] refused(2) ok by (cases m) (simp_all add: parsed_def fine_def)
  moreover have "good (Inr None, s\<lparr>ts_ready_acknowledged := True\<rparr>)"
    using move_fields(2) [OF ok] by (simp add: good_def)
  moreover have "good (Inr x, session_start now s)" for x
    using start_moves [OF ok] by (simp add: good_def)
  ultimately have "pred_option good (dispatch_topic sha fmt codec topic payload now s)"
    unfolding dispatch_topic_def by (simp add: no_text)
  then have both: "moves sha s (snd r) \<and> fst r \<noteq> Inl Panicked"
    if "dispatch_topic sha fmt codec topic payload now s = Some r" for r
    using that by (simp add: good_def)
  have "moves sha s (snd (receive sha fmt codec topic payload now s))
      \<and> fst (receive sha fmt codec topic payload now s) \<noteq> Some (Inl Panicked)"
  proof (cases "dispatch_topic sha fmt codec topic payload now s")
    case None
    with ok show ?thesis by (simp add: receive_def)
  next
    case (Some r)
    obtain x t where r: "r = (x, t)" by (cases r)
    have t: "moves sha s t" "x \<noteq> Inl Panicked" using both [OF Some] r by simp_all
    then have "moves sha s (t\<lparr>ts_thinking := False\<rparr>)"
      using moves_trans [OF t(1) move_fields(3) [OF moves_ok [OF t(1)]]] by simp
    with t Some r show ?thesis by (simp add: receive_def)
  qed
  then show "moves sha s (snd (receive sha fmt codec topic payload now s))"
    and "fst (receive sha fmt codec topic payload now s) \<noteq> Some (Inl Panicked)" by blast+
qed

lemma answer_tool_moves:
  assumes ok: "session_ok sha s"
  shows "moves sha s (snd (answer_tool alphabetic name args s))"
proof -
  obtain r t where r: "record_check_with_support alphabetic (arg_text args ''checkId'') (arg_text args ''state'')
      (arg_text args ''revisionId'') (arg_text args ''turnId'') (json_as_str (json_index args ''supportRequestId'')) s = (r, t)"
    by fastforce
  obtain q u where q: "targeted_followup (arg_text args ''checkId'') s = (q, u)" by fastforce
  have "moves sha s t" "moves sha s u"
    using record_check_moves [OF ok] r followup_moves [OF ok] q by (metis snd_conv)+
  then show ?thesis using ok by (simp add: answer_tool_def r q split: sum.splits)
qed

section \<open>The session as a state machine\<close>

datatype session_event =
    Received "string option" string nat
  | ToolCalled string json
  | Ticked nat bool
  | TurnHeard string string nat
  | ActivityNoted nat
  | AvailabilityChanged interviewer
  | PageLeft
  | PageReturned
  | Concluded cause nat nat
  | WrapUpDone nat
  | WrapUpAsked
  | WrapUpRetried string
  | Expired nat
  | OverflowMarked

fun session_step :: "(string \<Rightarrow> string) \<Rightarrow> (64 word \<Rightarrow> string) \<Rightarrow> (string \<Rightarrow> bool) \<Rightarrow> task_codec
    \<Rightarrow> session_event \<Rightarrow> task_session \<Rightarrow> task_session" where
  "session_step sha fmt alphabetic codec (Received topic payload now) s = snd (receive sha fmt codec topic payload now s)"
| "session_step sha fmt alphabetic codec (ToolCalled name args) s = snd (answer_tool alphabetic name args s)"
| "session_step sha fmt alphabetic codec (Ticked now speaking) s = snd (tick now speaking s)"
| "session_step sha fmt alphabetic codec (TurnHeard i speech now) s = observe_turn i speech now s"
| "session_step sha fmt alphabetic codec (ActivityNoted now) s = note_activity now s"
| "session_step sha fmt alphabetic codec (AvailabilityChanged state) s = session_availability state s"
| "session_step sha fmt alphabetic codec PageLeft s = page_left s"
| "session_step sha fmt alphabetic codec PageReturned s = snd (page_returned s)"
| "session_step sha fmt alphabetic codec (Concluded why duration now) s = snd (conclude why duration now s)"
| "session_step sha fmt alphabetic codec (WrapUpDone now) s = session_feedback now s"
| "session_step sha fmt alphabetic codec WrapUpAsked s = snd (next_wrap_up_check s)"
| "session_step sha fmt alphabetic codec (WrapUpRetried i) s = retry_wrap_up_check i s"
| "session_step sha fmt alphabetic codec (Expired now) s = snd (expire now s)"
| "session_step sha fmt alphabetic codec OverflowMarked s = mark_overflow s"

definition session_inv :: "(string \<Rightarrow> string) \<Rightarrow> task_session \<Rightarrow> bool" where
  "session_inv sha s \<longleftrightarrow> session_ok sha s \<and> ladder_ok (ts_task s)"

lemma step_moves:
  assumes "session_inv sha s"
  shows "moves sha s (session_step sha fmt alphabetic codec e s)"
proof -
  have ok: "session_ok sha s" and ladder: "ladder_ok (ts_task s)" using assms by (simp_all add: session_inv_def)
  show ?thesis
    using receive_moves(1) [OF ok ladder] answer_tool_moves [OF ok] tick_moves [OF ok] observe_turn_moves [OF ok]
      note_activity_moves [OF ok] move_fields [OF ok] conclude_moves [OF ok] feedback_moves [OF ok]
      wrap_up_moves [OF ok] expire_moves [OF ok]
    by (cases e) (simp_all add: page_left_def page_returned_def)
qed

interpretation session: history_system "session_step sha fmt alphabetic codec" "session_inv sha" past
  for sha fmt alphabetic codec
proof unfold_locales
  show "session_inv sha (session_step sha fmt alphabetic codec e s)" if "session_inv sha s" for e s
    using step_moves [OF that] that by (metis ladder_moves moves_ok session_inv_def)
  show "past s (session_step sha fmt alphabetic codec e s)" if "session_inv sha s" for e s
    using step_moves [OF that] by (simp add: moves_def)
qed (auto intro: past_trans)

definition session_run_of :: "(string \<Rightarrow> string) \<Rightarrow> (64 word \<Rightarrow> string) \<Rightarrow> (string \<Rightarrow> bool) \<Rightarrow> task_codec
    \<Rightarrow> pinned_task \<Rightarrow> nat \<Rightarrow> session_event list \<Rightarrow> task_session" where
  "session_run_of sha fmt alphabetic codec task now es =
     fold (session_step sha fmt alphabetic codec) es (session_new sha task now)"

lemma open_checks_ok:
  "bt_ok m \<Longrightarrow> \<forall>i c. map_of m i = Some c \<longrightarrow> ck_id c = i \<and> check_ok {} [] [] c \<Longrightarrow>
   checks_ok (fold (\<lambda>c m. bt_insert (uc_id c) (open_check c) m) cs m) {} [] []"
proof (induction cs arbitrary: m)
  case Nil
  then show ?case by (simp add: checks_ok_def)
next
  case (Cons c cs)
  have "check_ok {} [] [] (open_check c) \<and> ck_id (open_check c) = uc_id c"
    by (simp add: check_ok_def open_check_def bt_ok_def)
  with Cons.prems have "\<forall>i d. map_of (bt_insert (uc_id c) (open_check c) m) i = Some d \<longrightarrow> ck_id d = i \<and> check_ok {} [] [] d"
    by (simp add: map_of_bt_insert)
  with Cons.prems(1) show ?case by (simp add: bt_ok_insert Cons.IH)
qed

lemma session_new_ok: "session_ok sha (session_new sha task now)"
proof -
  have "checks_ok (fold (\<lambda>c m. bt_insert (uc_id c) (open_check c) m)
      (sc_understanding_checks (tr_sidecar (pt_exercise task))) []) {} [] []"
    by (rule open_checks_ok) (simp_all add: bt_ok_def)
  then show ?thesis
    by (simp add: session_ok_def session_new_def Let_def revisions_ok_def refs_ok_def final_ok_def runs_ok_def
        phase_ok_def turns_ok_def limits_ok_def support_ok_def revision_of_def bt_ok_def target_ok_def)
qed

lemma run_inv_session:
  assumes "ladder_ok task"
  shows "session_inv sha (session_run_of sha fmt alphabetic codec task now es)"
  unfolding session_run_of_def
  by (rule session.run_inv) (simp add: session_inv_def session_new_ok, simp add: assms session_new_def Let_def)

lemma run_past_session:
  assumes "ladder_ok task"
  shows "past (session_run_of sha fmt alphabetic codec task now es)
              (session_run_of sha fmt alphabetic codec task now (es @ fs))"
  unfolding session_run_of_def
  by (rule session.prefix_past) (simp add: session_inv_def session_new_ok, simp add: assms session_new_def Let_def)

end
