(* ===== verification/Task_Session_Properties.thy ===== *)
theory Task_Session_Properties
  imports Task_Session_Correct Task_Example "HOL-Library.Sublist"
begin

text \<open>
  The properties of a task session, over every sequence of calls the room can make
  (\<open>session_run_of\<close>), from the facts of its operations.
\<close>

text \<open>The example task has as many hints as it may use.\<close>

lemma example_ladder: "ladder_ok example_task"
  by (simp add: ladder_ok_def hints_def example_task_def example_record_def example_sidecar_def)

lemma inv_ok: "ladder_ok task \<Longrightarrow> session_ok sha (session_run_of sha fmt alphabetic codec task now es)"
  using run_inv_session by (simp add: session_inv_def)

section \<open>What holds in every reachable session\<close>

text \<open>
  C15. Whatever the page, the interviewer's model and the clock do, a task session stays well formed:
  at most ten stored revisions, each under its own id with its own hash and the starter never
  evicted; every revision that evidence cites, that a pending run waits for or that a check names is
  still stored; at most twenty runs, each of a stored or recorded-as-dropped revision; at most 128
  distinct turns; at most one pending run; hints, follow-ups, nudges and questions within their
  bounds; an outcome exactly in the Feedback phase, of the kind its cause has.
\<close>

theorem session_always_ok:
  assumes "ladder_ok task"
  shows "session_ok sha (session_run_of sha fmt alphabetic codec task now es)"
  using run_inv_session [OF assms] by (simp add: session_inv_def)

theorem session_always_ok_witness:
  "session_ok (\<lambda>c. c) (session_run_of (\<lambda>c. c) (\<lambda>w. []) (\<lambda>c. True) example_codec example_task 0
     [Received (Some ''task_connected'') ''v1'' 1, Received (Some ''task_start'') ''v1'' 2,
      Received (Some ''task_revision'') ''run'' 3, Ticked 2000 False])"
  by (rule session_always_ok [OF example_ladder])

text \<open>
  C16. The first terminal event wins: once an attempt has an outcome, no later message, tool call,
  tick or room event changes the outcome, the phase, the final revision or the code, and the final
  revision is fixed by then.
\<close>

theorem first_ending_wins:
  assumes "ladder_ok task"
    and "ts_outcome (session_run_of sha fmt alphabetic codec task now es) \<noteq> None"
  shows "ts_outcome (session_run_of sha fmt alphabetic codec task now (es @ fs))
           = ts_outcome (session_run_of sha fmt alphabetic codec task now es)
    \<and> ts_phase (session_run_of sha fmt alphabetic codec task now (es @ fs)) = Feedback
    \<and> ts_final_revision_id (session_run_of sha fmt alphabetic codec task now es) \<noteq> None
    \<and> ts_final_revision_id (session_run_of sha fmt alphabetic codec task now (es @ fs))
        = ts_final_revision_id (session_run_of sha fmt alphabetic codec task now es)
    \<and> ts_current (session_run_of sha fmt alphabetic codec task now (es @ fs))
        = ts_current (session_run_of sha fmt alphabetic codec task now es)"
proof -
  let ?s = "session_run_of sha fmt alphabetic codec task now es"
  let ?t = "session_run_of sha fmt alphabetic codec task now (es @ fs)"
  have earlier: "earlier ?s ?t" using run_past_session [OF assms(1)] by (simp add: past_def)
  have s: "ts_final_revision_id ?s \<noteq> None"
    using session_okD(5) [OF inv_ok [OF assms(1)], of sha fmt alphabetic codec now es] assms(2)
    by (auto simp: phase_ok_def)
  have same: "ts_outcome ?t = ts_outcome ?s" using earlier assms(2) unfolding earlier_def by blast
  then have "ts_phase ?t = Feedback"
    using session_okD(5) [OF inv_ok [OF assms(1)], of sha fmt alphabetic codec now "es @ fs"] assms(2)
    unfolding phase_ok_def by metis
  then show ?thesis using s same earlier unfolding earlier_def by blast
qed

theorem first_ending_wins_witness:
  "ts_outcome (session_run_of (\<lambda>c. c) (\<lambda>w. []) (\<lambda>c. True) example_codec example_task 0
      ([Concluded Camera 40 9] @ [Received (Some ''task_start'') ''v1'' 10]))
    = ts_outcome (session_run_of (\<lambda>c. c) (\<lambda>w. []) (\<lambda>c. True) example_codec example_task 0 [Concluded Camera 40 9])"
proof -
  have "ts_outcome (session_run_of (\<lambda>c. c) (\<lambda>w. []) (\<lambda>c. True) example_codec example_task 0 [Concluded Camera 40 9]) \<noteq> None"
    by (simp add: session_run_of_def session_new_def conclude_def Let_def)
  from first_ending_wins [OF example_ladder this] show ?thesis by blast
qed

text \<open>
  An ending never reports a final revision without its code: whenever a final revision is named,
  and always in the Feedback phase, the store holds a revision under that id, it is the one the page
  last acknowledged, and its hash is the hash of its code and of the acknowledged code - even when
  evidence, the starter and a pending run had filled every slot.
\<close>

theorem final_revision_is_stored:
  assumes "ladder_ok task"
    and "ts_phase (session_run_of sha fmt alphabetic codec task now es) = Feedback
      \<or> ts_final_revision_id (session_run_of sha fmt alphabetic codec task now es) \<noteq> None"
  shows "\<exists>f r. ts_final_revision_id (session_run_of sha fmt alphabetic codec task now es) = Some f
    \<and> map_of (ts_revisions (session_run_of sha fmt alphabetic codec task now es)) f = Some r
    \<and> f = rv_id (ts_current (session_run_of sha fmt alphabetic codec task now es)) \<and> rv_id r = f
    \<and> sha (rv_code r) = sha (rv_code (ts_current (session_run_of sha fmt alphabetic codec task now es)))"
proof -
  let ?s = "session_run_of sha fmt alphabetic codec task now es"
  note ok = inv_ok [OF assms(1), of sha fmt alphabetic codec now es]
  obtain f where f: "ts_final_revision_id ?s = Some f"
    using assms(2) session_okD(5) [OF ok] by (auto simp: phase_ok_def)
  note revs = session_okD(1) [OF ok, unfolded revisions_ok_def]
  have "f = rv_id (ts_current ?s)" "f \<in> set (bt_keys (ts_revisions ?s))"
    using session_okD(3) [OF ok] f by (auto simp: final_ok_def)
  moreover obtain r where r: "map_of (ts_revisions ?s) f = Some r"
    using calculation(2) bt.set_keys [of "ts_revisions ?s"] revs by blast
  moreover have "rv_id r = f" "rv_content_hash r = sha (rv_code r)" "ts_revision_hashes ?s f = Some (rv_content_hash r)"
    using revs r by blast+
  moreover have "rv_content_hash r = sha (rv_code (ts_current ?s))"
    using revs calculation(1,6) by auto
  ultimately show ?thesis using f by metis
qed

theorem final_revision_is_stored_witness:
  "\<exists>f. ts_final_revision_id (session_run_of (\<lambda>c. c) (\<lambda>w. []) (\<lambda>c. True) example_codec example_task 0
      [Concluded Camera 40 9]) = Some f"
proof -
  have "ts_phase (session_run_of (\<lambda>c. c) (\<lambda>w. []) (\<lambda>c. True) example_codec example_task 0 [Concluded Camera 40 9]) = Feedback"
    by (simp add: session_run_of_def session_new_def conclude_def Let_def)
  from final_revision_is_stored [OF example_ladder disjI1 [OF this]] show ?thesis by blast
qed

text \<open>
  A revision id is never rebound to other code: two revisions stored under one id at any two
  times of an attempt, across evictions and re-captures, have the same content hash.
\<close>

theorem revision_ids_never_rebound:
  assumes "ladder_ok task"
    and "map_of (ts_revisions (session_run_of sha fmt alphabetic codec task now es)) i = Some r"
    and "map_of (ts_revisions (session_run_of sha fmt alphabetic codec task now (es @ fs))) i = Some r'"
  shows "sha (rv_code r') = sha (rv_code r)"
proof -
  let ?s = "session_run_of sha fmt alphabetic codec task now es"
  let ?t = "session_run_of sha fmt alphabetic codec task now (es @ fs)"
  have "ts_revision_hashes ?s \<subseteq>\<^sub>m ts_revision_hashes ?t"
    using run_past_session [OF assms(1)] by (simp add: past_def earlier_def)
  moreover have "ts_revision_hashes ?s i = Some (rv_content_hash r)" "rv_content_hash r = sha (rv_code r)"
    using session_okD(1) [OF inv_ok [OF assms(1)]] assms(2) unfolding revisions_ok_def by blast+
  moreover have "ts_revision_hashes ?t i = Some (rv_content_hash r')" "rv_content_hash r' = sha (rv_code r')"
    using session_okD(1) [OF inv_ok [OF assms(1)]] assms(3) unfolding revisions_ok_def by blast+
  ultimately show ?thesis by (metis domI map_le_def option.inject)
qed

theorem revision_ids_never_rebound_witness:
  "rv_code \<lparr>rv_id = ''initial'', rv_content_hash = ''pass'', rv_code = ''pass''\<rparr> = ''pass''"
proof -
  let ?r = "\<lparr>rv_id = ''initial'', rv_content_hash = ''pass'', rv_code = ''pass''\<rparr> :: revision"
  have "map_of (ts_revisions (session_run_of (\<lambda>c. c) (\<lambda>w. []) (\<lambda>c. True) example_codec example_task 0 [])) ''initial'' = Some ?r"
    "map_of (ts_revisions (session_run_of (\<lambda>c. c) (\<lambda>w. []) (\<lambda>c. True) example_codec example_task 0 ([] @ [PageLeft]))) ''initial'' = Some ?r"
    by (simp_all add: session_run_of_def session_new_def Let_def page_left_def revision_of_def starter_code_def
        starter_def example_task_def example_record_def)
  from revision_ids_never_rebound [OF example_ladder this] show ?thesis by simp
qed

text \<open>
  The publisher may skip a session whose sequence number stands still: the number never goes
  back, and while it is the same the snapshot is the same at every clock reading.
\<close>

theorem snapshot_moves_with_seq:
  assumes "ladder_ok task"
  shows "ts_seq (session_run_of sha fmt alphabetic codec task now es)
      \<le> ts_seq (session_run_of sha fmt alphabetic codec task now (es @ fs))
    \<and> (ts_seq (session_run_of sha fmt alphabetic codec task now (es @ fs))
        = ts_seq (session_run_of sha fmt alphabetic codec task now es) \<longrightarrow>
      session_snapshot clock (session_run_of sha fmt alphabetic codec task now (es @ fs))
        = session_snapshot clock (session_run_of sha fmt alphabetic codec task now es))"
  using run_past_session [OF assms, of sha fmt alphabetic codec now es fs] shown_snapshot
  unfolding past_def steady_def by blast

theorem snapshot_moves_with_seq_witness:
  "session_snapshot 5 (session_run_of (\<lambda>c. c) (\<lambda>w. []) (\<lambda>c. True) example_codec example_task 0 ([] @ [PageLeft]))
    = session_snapshot 5 (session_run_of (\<lambda>c. c) (\<lambda>w. []) (\<lambda>c. True) example_codec example_task 0 [])"
proof -
  have "ts_seq (session_run_of (\<lambda>c. c) (\<lambda>w. []) (\<lambda>c. True) example_codec example_task 0 ([] @ [PageLeft]))
    = ts_seq (session_run_of (\<lambda>c. c) (\<lambda>w. []) (\<lambda>c. True) example_codec example_task 0 [])"
    by (simp add: session_run_of_def page_left_def)
  with snapshot_moves_with_seq [OF example_ladder] show ?thesis by blast
qed

text \<open>
  The deadline only comes closer, the phase only moves forward, and no captured turn and no
  revision cited as evidence is ever lost.
\<close>

theorem attempt_moves_forward:
  assumes "ladder_ok task"
  shows "ts_phase (session_run_of sha fmt alphabetic codec task now es)
      \<le> ts_phase (session_run_of sha fmt alphabetic codec task now (es @ fs))
    \<and> (\<forall>d. ts_deadline_at (session_run_of sha fmt alphabetic codec task now es) = Some d \<longrightarrow>
         (\<exists>d' \<le> d. ts_deadline_at (session_run_of sha fmt alphabetic codec task now (es @ fs)) = Some d'))
    \<and> prefix (ts_turns (session_run_of sha fmt alphabetic codec task now es))
         (ts_turns (session_run_of sha fmt alphabetic codec task now (es @ fs)))
    \<and> (\<forall>i \<in> ts_evidence_revisions (session_run_of sha fmt alphabetic codec task now es).
         bt_has (ts_revisions (session_run_of sha fmt alphabetic codec task now (es @ fs))) i)"
proof -
  let ?s = "session_run_of sha fmt alphabetic codec task now es"
  let ?t = "session_run_of sha fmt alphabetic codec task now (es @ fs)"
  have e: "earlier ?s ?t" using run_past_session [OF assms] by (simp add: past_def)
  moreover have "ts_evidence_revisions ?t \<subseteq> set (bt_keys (ts_revisions ?t))"
    using session_okD(2) [OF inv_ok [OF assms]] unfolding refs_ok_def by blast
  ultimately show ?thesis unfolding earlier_def prefix_def bt_has_set by blast
qed

theorem attempt_moves_forward_witness:
  "ts_phase (session_run_of (\<lambda>c. c) (\<lambda>w. []) (\<lambda>c. True) example_codec example_task 0 [])
    \<le> ts_phase (session_run_of (\<lambda>c. c) (\<lambda>w. []) (\<lambda>c. True) example_codec example_task 0 ([] @ [WrapUpDone 3]))"
  using attempt_moves_forward [OF example_ladder] by blast

section \<open>After the deadline\<close>

text \<open>The learner's work and the evidence about it.\<close>

definition work_of :: "task_session \<Rightarrow> revision \<times> turns \<times> (string, run_message) btree
    \<times> (string, task_check) btree \<times> string set \<times> nat \<times> string option" where
  "work_of s = (ts_current s, ts_turns s, ts_runs s, ts_checks s, ts_evidence_revisions s,
     ts_hint_rungs_used s, ts_active_target_id s)"


lemma work_of_fields [simp]:
  "work_of (s\<lparr>ts_thinking := b\<rparr>) = work_of s"
  "work_of (s\<lparr>ts_ready_acknowledged := b\<rparr>) = work_of s"
  "work_of (s\<lparr>ts_requests := r\<rparr>) = work_of s"
  "work_of (s\<lparr>ts_last_activity_at := n\<rparr>) = work_of s"
  "work_of (sweep_pending now s) = work_of s"
  by (simp_all add: work_of_def sweep_pending_def)









text \<open>
  An attempt nobody was watching is kept from completing: if the learner's page is out of the
  room when a tick, a finished turn or the room's own check first reads the clock past the deadline,
  the attempt ends interrupted by a reload, and it still is after anything that follows.
\<close>

theorem absent_page_interrupts:
  assumes "ladder_ok task"
    and "ts_page_absent (session_run_of sha fmt alphabetic codec task now es)"
    and "ts_outcome (session_run_of sha fmt alphabetic codec task now es) = None"
    and "ts_deadline_at (session_run_of sha fmt alphabetic codec task now es) = Some d" and "d \<le> t"
    and "e \<in> {Ticked t speaking, TurnHeard i speech t, Expired t}"
  shows "\<exists>oc. ts_outcome (session_run_of sha fmt alphabetic codec task now (es @ [e] @ fs)) = Some oc
    \<and> oc_cause oc = Reload \<and> oc_outcome oc = Interrupted"
proof -
  let ?s = "session_run_of sha fmt alphabetic codec task now es"
  let ?u = "session_run_of sha fmt alphabetic codec task now (es @ [e])"
  note ok = inv_ok [OF assms(1), of sha fmt alphabetic codec now es]
  have phase: "ts_phase ?s \<noteq> Feedback" using session_okD(5) [OF ok] assms(3) by (simp add: phase_ok_def)
  define reloaded where "reloaded s \<longleftrightarrow> (\<exists>oc. ts_outcome s = Some oc \<and> oc_cause oc = Reload \<and> oc_outcome oc = Interrupted)"
    for s :: task_session
  have expired: "reloaded (snd (expire t s)) \<and> fst (expire t s) \<and> ts_phase (snd (expire t s)) = Feedback"
    if "ts_phase s \<noteq> Feedback" "ts_deadline_at s = Some d" "ts_page_absent s" for s
    using that assms(5) by (auto simp: expire_def conclude_def Let_def reloaded_def)
  have swept: "reloaded (snd (expire t (sweep_pending t ?s))) \<and> fst (expire t (sweep_pending t ?s))"
    using expired [of "sweep_pending t ?s"] phase assms(2,4) by (simp add: sweep_pending_def)
  have "reloaded (session_step sha fmt alphabetic codec e ?s)"
    using assms(6)
  proof (elim insertE emptyE)
    assume "e = Ticked t speaking"
    then show ?thesis
      using swept assms(4) by (cases "expire t (sweep_pending t ?s)") (auto simp: tick_def Let_def sweep_pending_def)
  qed (use expired [OF phase assms(4,2)] in \<open>simp_all add: observe_turn_def Let_def\<close>)
  then obtain oc where oc: "ts_outcome ?u = Some oc" "oc_cause oc = Reload" "oc_outcome oc = Interrupted"
    by (auto simp: reloaded_def session_run_of_def)
  have "earlier ?u (session_run_of sha fmt alphabetic codec task now ((es @ [e]) @ fs))"
    using run_past_session [OF assms(1), of sha fmt alphabetic codec now "es @ [e]" fs] by (simp add: past_def)
  with oc show ?thesis unfolding earlier_def by (metis append.assoc option.distinct(1))
qed

theorem absent_page_interrupts_witness:
  "\<exists>oc. ts_outcome (session_run_of (\<lambda>c. c) (\<lambda>w. []) (\<lambda>c. True) example_codec example_task 0
      ([Received (Some ''task_connected'') ''v1'' 1, Received (Some ''task_start'') ''v1'' 2, PageLeft]
        @ [Ticked 902 False] @ [WrapUpDone 903])) = Some oc \<and> oc_cause oc = Reload \<and> oc_outcome oc = Interrupted"
  by (rule absent_page_interrupts [OF example_ladder, where d = 902 and t = 902 and speaking = False])
    (simp_all add: session_run_of_def session_new_def Let_def receive_def dispatch_topic_def example_codec_def
        session_start_def sat_add64_def u64_max_def example_task_def example_config_def page_left_def)

section \<open>Requests, support and prompts\<close>

text \<open>
  A message the page sends again is accepted once: when its request id was already accepted, a
  captured revision, a practice run or an action changes nothing beyond the deadline it may notice -
  whatever the repeated message carries.
\<close>

theorem repeated_request_changes_nothing:
  assumes "rm_request_id m1 \<in> ts_requests (snd (expire now s))" "rn_request_id m2 \<in> ts_requests (snd (expire now s))"
    and "am_request_id m3 \<in> ts_requests (snd (expire now s))"
  shows "snd (session_revision sha m1 now s) = snd (expire now s)
    \<and> snd (session_run m2 now s) = snd (expire now s)
    \<and> snd (session_action m3 now s) = snd (expire now s)"
  using assms
  by (simp add: session_revision_def session_run_def session_action_def session_request_def Let_def)

theorem repeated_request_changes_nothing_witness:
  "snd (session_action \<lparr>am_version = 1, am_request_id = ''q'', am_action = Hint, am_revision_id = None, am_target_id = None\<rparr>
      3 ((session_new (\<lambda>c. c) example_task 0)\<lparr>ts_requests := {''q''}\<rparr>))
    = (session_new (\<lambda>c. c) example_task 0)\<lparr>ts_requests := {''q''}\<rparr>"
proof -
  let ?s = "(session_new (\<lambda>c. c) example_task 0)\<lparr>ts_requests := {''q''}\<rparr>"
  have e: "snd (expire 3 ?s) = ?s" by (simp add: expire_def session_new_def Let_def)
  from repeated_request_changes_nothing [of
      "\<lparr>rm_version = 1, rm_request_id = ''q'', rm_revision_id = ''b'', rm_code = [], rm_trigger = RunTrigger\<rparr>" 3 ?s
      "\<lparr>rn_version = 1, rn_request_id = ''q'', rn_run_id = ''x'', rn_revision_id = ''b'', rn_passed = 0, rn_total = 0, rn_diagnostics = []\<rparr>"
      "\<lparr>am_version = 1, am_request_id = ''q'', am_action = Hint, am_revision_id = None, am_target_id = None\<rparr>"]
  show ?thesis unfolding e by simp
qed

lemma bound_support_offered:
  assumes "ladder_ok task"
    and "map_of (ts_checks (session_run_of sha fmt alphabetic codec task now es)) i = Some c"
    and "map_of (ck_turn_support c) turn_id = Some given" and "given \<noteq> NoSupport"
  shows "\<exists>offer o1 n speech.
      map_of (ts_support_opportunities (session_run_of sha fmt alphabetic codec task now es)) offer = Some o1
    \<and> so_kind o1 = given
    \<and> n < length (ts_turns (session_run_of sha fmt alphabetic codec task now es))
    \<and> ts_turns (session_run_of sha fmt alphabetic codec task now es) ! n = (turn_id, speech)
    \<and> so_after_turn o1 \<le> n"
proof -
  let ?s = "session_run_of sha fmt alphabetic codec task now es"
  have ordinal: "\<exists>speech. n - 1 < length ts \<and> ts ! (n - 1) = (i, speech) \<and> 0 < n"
    if "turns_ordinal ts i = Some n" for ts i n
    using that
  proof (induction ts arbitrary: n)
    case (Cons t ts)
    show ?case
    proof (cases "fst t = i")
      case True
      with Cons.prems show ?thesis by (cases t) simp
    next
      case False
      with Cons.prems obtain k where k: "turns_ordinal ts i = Some k" "n = Suc k" by auto
      from Cons.IH [OF k(1)] k(2) show ?thesis by (auto simp: nth_Cons')
    qed
  qed simp
  have "check_ok (ts_evidence_revisions ?s) (ts_turns ?s) (ts_support_opportunities ?s) c"
    using session_okD(9) [OF inv_ok [OF assms(1)]] assms(2) unfolding checks_ok_def by blast
  then have "offered_before (ts_support_opportunities ?s) (ts_turns ?s) turn_id given"
    using assms(3,4) unfolding check_ok_def by blast
  then obtain offer o1 n where o1: "map_of (ts_support_opportunities ?s) offer = Some o1" "so_kind o1 = given"
    "turns_ordinal (ts_turns ?s) turn_id = Some n" "so_after_turn o1 < n" by (auto simp: offered_before_def)
  from ordinal [OF o1(3)] obtain speech where "n - 1 < length (ts_turns ?s)" "ts_turns ?s ! (n - 1) = (turn_id, speech)"
    "0 < n" by blast
  moreover have "so_after_turn o1 \<le> n - 1" using o1(4) by simp
  ultimately show ?thesis using o1(1,2) by blast
qed

text \<open>
  Support belongs to the evidence that used it: in every reachable session, a turn that a check
  binds to a hint or a follow-up was captured after an offer of that kind of support was made, and
  the turn itself was captured.
\<close>

theorem support_follows_its_offer:
  assumes "ladder_ok task"
    and "map_of (ts_checks (session_run_of sha fmt alphabetic codec task now es)) i = Some c"
    and "map_of (ck_turn_support c) turn_id = Some given" and "given \<noteq> NoSupport"
  shows "\<exists>offer o1 n speech.
      map_of (ts_support_opportunities (session_run_of sha fmt alphabetic codec task now es)) offer = Some o1
    \<and> so_kind o1 = given
    \<and> n < length (ts_turns (session_run_of sha fmt alphabetic codec task now es))
    \<and> ts_turns (session_run_of sha fmt alphabetic codec task now es) ! n = (turn_id, speech)
    \<and> so_after_turn o1 \<le> n"
  using assms by (rule bound_support_offered)

definition hinted_events :: "session_event list" where
  "hinted_events = [Received (Some ''task_connected'') ''v1'' 1, Received (Some ''task_start'') ''v1'' 2,
     Received (Some ''task_action'') ''hint'' 3, TurnHeard ''t1'' ''a map of seen values'' 4,
     ToolCalled ''record_task_check'' (JObj [(''checkId'', JStr ''plan''), (''state'', JStr ''covered''),
       (''revisionId'', JStr ''initial''), (''turnId'', JStr ''t1''), (''supportRequestId'', JStr ''hint-1'')])]"

lemma hinted_run:
  "map_option ck_turn_support (map_of (ts_checks (session_run_of (\<lambda>c. c) (\<lambda>w. []) (\<lambda>c. False) example_codec
      example_task 0 hinted_events)) ''plan'') = Some [(''t1'', ConceptualHint)]"
  by code_simp

theorem support_follows_its_offer_witness:
  "\<exists>offer o1 n speech.
      map_of (ts_support_opportunities (session_run_of (\<lambda>c. c) (\<lambda>w. []) (\<lambda>c. False) example_codec example_task 0 hinted_events)) offer = Some o1
    \<and> so_kind o1 = ConceptualHint
    \<and> n < length (ts_turns (session_run_of (\<lambda>c. c) (\<lambda>w. []) (\<lambda>c. False) example_codec example_task 0 hinted_events))
    \<and> ts_turns (session_run_of (\<lambda>c. c) (\<lambda>w. []) (\<lambda>c. False) example_codec example_task 0 hinted_events) ! n = (''t1'', speech)
    \<and> so_after_turn o1 \<le> n"
proof -
  obtain c where "map_of (ts_checks (session_run_of (\<lambda>c. c) (\<lambda>w. []) (\<lambda>c. False) example_codec
      example_task 0 hinted_events)) ''plan'' = Some c" "ck_turn_support c = [(''t1'', ConceptualHint)]"
    using hinted_run by auto
  then have "map_of (ck_turn_support c) ''t1'' = Some ConceptualHint" by simp
  from support_follows_its_offer [OF example_ladder _ this] \<open>map_of _ ''plan'' = Some c\<close> show ?thesis by simp
qed

text \<open>
  C17. No message panics and no prompt does: in every reachable session of a validated task, with the
  hint ladder the set allows and a template that names only the values it is given, the hint the
  learner asks for exists, and the interviewer's instructions and context can always be built.
\<close>

theorem session_never_panics:
  assumes "ladder_ok task" and "template_ok template"
    and "validate_sidecar alphanumeric (tr_sidecar (pt_exercise task)) starters hs = Inr ()"
  shows "fst (receive sha fmt codec topic payload t (session_run_of sha fmt alphabetic codec task now es)) \<noteq> Some (Inl Panicked)
    \<and> recovery_instructions fmt template (session_run_of sha fmt alphabetic codec task now es) \<noteq> Inl Panicked
    \<and> provider_context fmt template (session_run_of sha fmt alphabetic codec task now es) \<noteq> Inl Panicked"
proof -
  let ?s = "session_run_of sha fmt alphabetic codec task now es"
  note ok = inv_ok [OF assms(1), of sha fmt alphabetic codec now es]
  have task: "ts_task ?s = task"
    using run_past_session [OF assms(1), of sha fmt alphabetic codec now "[]" es]
    by (simp add: past_def earlier_def) (simp add: session_run_of_def session_new_def Let_def)
  have target: "case ts_active_target_id ?s of None \<Rightarrow> True | Some i \<Rightarrow>
      \<exists>row \<in> set (targets_in (pt_exercise task) (pr_language (pt_preparation task))). tgt_id row = i"
    using session_okD(10) [OF ok] by (auto simp: target_ok_def task split: option.splits)
  have prompt: "\<exists>p. prompt_on fmt template code ?s = Inr p" for code
  proof -
    obtain p where "task_prompt_with_hint_limit fmt template (pt_exercise task) (phase_as_str (ts_phase ?s))
        (ts_active_target_id ?s) code (pr_language (pt_preparation task)) (pt_hint_limit task) = Inr p"
      using prompt_builds [OF assms(3,2) target] by blast
    then show ?thesis by (simp add: prompt_on_def task)
  qed
  have "recovery_instructions fmt template ?s \<noteq> Inl Panicked" "provider_context fmt template ?s \<noteq> Inl Panicked"
    using prompt [of "starter_code (ts_task ?s)"] prompt [of "rv_code (ts_current ?s)"]
    by (auto simp: recovery_instructions_def provider_context_def)
  then show ?thesis
    using receive_moves(2) [OF ok] assms(1) by (simp add: task)
qed

theorem session_never_panics_witness:
  "provider_context (\<lambda>w. []) ''{{code}}'' (session_run_of (\<lambda>c. c) (\<lambda>w. []) (\<lambda>c. True) example_codec example_task 0
      [Received (Some ''task_connected'') ''v1'' 1]) \<noteq> Inl Panicked"
proof -
  have "template_ok ''{{code}}''" by code_simp
  moreover have "validate_sidecar (\<lambda>c. True) (tr_sidecar (pt_exercise example_task))
      (tr_starters example_record) (tr_hints example_record) = Inr ()"
    using example_sidecar_valid by (simp add: example_task_def example_record_def)
  ultimately show ?thesis using session_never_panics [OF example_ladder] by blast
qed

text \<open>
  The platform asks the interviewer to look at the learner's code at most three times in an
  attempt: over any sequence of events, no more than three ticks answer with the review nudge.
\<close>

fun event_says :: "session_event \<Rightarrow> task_session \<Rightarrow> string option" where
  "event_says (Ticked now speaking) s = fst (tick now speaking s)"
| "event_says e s = None"

fun review_nudges :: "(string \<Rightarrow> string) \<Rightarrow> (64 word \<Rightarrow> string) \<Rightarrow> (string \<Rightarrow> bool) \<Rightarrow> task_codec
    \<Rightarrow> session_event list \<Rightarrow> task_session \<Rightarrow> nat" where
  "review_nudges sha fmt alphabetic codec [] s = 0"
| "review_nudges sha fmt alphabetic codec (e # es) s =
     (if event_says e s = Some CODE_REVIEW_NUDGE then 1 else 0)
     + review_nudges sha fmt alphabetic codec es (session_step sha fmt alphabetic codec e s)"

lemma nudge_counted:
  assumes "fst (tick now speaking s) = Some CODE_REVIEW_NUDGE"
  shows "ts_code_review_nudges s < ts_code_review_nudges (snd (tick now speaking s))"
proof -
  have "CODE_REVIEW_NUDGE \<noteq> WRAP_UP_NOTICE" "CODE_REVIEW_NUDGE \<noteq> INVITE_NUDGE"
    by (simp_all add: CODE_REVIEW_NUDGE_def WRAP_UP_NOTICE_def INVITE_NUDGE_def)
  moreover have "ts_code_review_nudges (snd (expire now u)) = ts_code_review_nudges s"
    if "fst (expire now u) = False" "u = sweep_pending now s" for u
    using that by (auto simp: expire_def conclude_def Let_def sweep_pending_def split: if_splits)
  ultimately show ?thesis
    using assms
    by (cases "expire now (sweep_pending now s)")
      (auto simp: tick_def Let_def split: option.splits bool.splits if_splits)
qed

lemma review_nudges_bound:
  assumes "session_inv sha s"
  shows "review_nudges sha fmt alphabetic codec es s + ts_code_review_nudges s
    \<le> ts_code_review_nudges (fold (session_step sha fmt alphabetic codec) es s)"
  using assms
proof (induction es arbitrary: s)
  case (Cons e es)
  let ?t = "session_step sha fmt alphabetic codec e s"
  have t: "session_inv sha ?t" by (rule session.step_inv [OF Cons.prems])
  have "ts_code_review_nudges s \<le> ts_code_review_nudges ?t"
    using session.step_past [OF Cons.prems] by (simp add: past_def earlier_def)
  moreover have "ts_code_review_nudges s < ts_code_review_nudges ?t" if "event_says e s = Some CODE_REVIEW_NUDGE"
    using that nudge_counted by (cases e) simp_all
  ultimately show ?case using Cons.IH [OF t] by auto
qed simp

theorem code_reviews_are_few:
  assumes "ladder_ok task"
  shows "review_nudges sha fmt alphabetic codec es (session_new sha task now) \<le> 3"
proof -
  have inv: "session_inv sha (session_new sha task now)"
    using run_inv_session [OF assms, of sha fmt alphabetic codec now "[]"] by (simp add: session_run_of_def)
  have "ts_code_review_nudges (session_run_of sha fmt alphabetic codec task now es) \<le> 3"
    using session_okD(7) [OF inv_ok [OF assms]] unfolding limits_ok_def by blast
  then show ?thesis
    using review_nudges_bound [OF inv, of fmt alphabetic codec es] unfolding session_run_of_def by linarith
qed

theorem code_reviews_are_few_witness:
  "review_nudges (\<lambda>c. c) (\<lambda>w. []) (\<lambda>c. True) example_codec [Ticked 5 False, PageLeft] (session_new (\<lambda>c. c) example_task 0) \<le> 3"
  by (rule code_reviews_are_few [OF example_ladder])

end
