(* ===== verification/Task_Report_Correct.thy ===== *)
theory Task_Report_Correct
  imports Task_Report Task_Session_Properties
begin

text \<open>
  What an accepted review promises about the session it reviews, that a narrative may not repeat the
  reference, that no learner content starts a line of a prompt, and that a result too large to keep
  loses its review and not its ending.
\<close>

section \<open>Runs of tokens\<close>

lemma windows_sublist: "0 < n \<Longrightarrow> ws \<in> set (windows n xs) \<longleftrightarrow> length ws = n \<and> sublist ws xs"
proof -
  assume n: "0 < n"
  have "length ws = n \<and> sublist ws xs" if "ws \<in> set (windows n xs)"
  proof -
    from that obtain i where lt: "i < Suc (length xs) - n" and ws: "ws = take n (drop i xs)"
      by (auto simp: windows_def)
    from lt n have i: "i + n \<le> length xs" by linarith
    then have "xs = take i xs @ ws @ drop n (drop i xs)" using ws by (metis append_take_drop_id)
    then have "sublist ws xs" by (metis sublist_appendI)
    moreover have "length ws = n" using i ws by simp
    ultimately show ?thesis by blast
  qed
  moreover have "ws \<in> set (windows n xs)" if len: "length ws = n" and sub: "sublist ws xs"
  proof -
    from sub obtain us vs where xs: "xs = us @ ws @ vs" by (auto simp: sublist_def)
    then have "ws = take n (drop (length us) xs)" "length us + n \<le> length xs" using len by simp_all
    then show ?thesis by (force simp: windows_def)
  qed
  ultimately show ?thesis by blast
qed

text \<open>
  A narrative is refused for overlapping the reference exactly when the two share twelve
  consecutive tokens, wherever the run starts in either.
\<close>

theorem overlap_is_a_shared_run:
  "shares_run alphanumeric (windows 12 (tokens alphanumeric reference)) speech \<longleftrightarrow>
     (\<exists>run. length run = 12 \<and> sublist run (tokens alphanumeric speech) \<and> sublist run (tokens alphanumeric reference))"
  by (auto simp: shares_run_def list_ex_iff windows_sublist)

section \<open>What an accepted review is backed by\<close>

definition cited :: "json list \<Rightarrow> string \<Rightarrow> string \<Rightarrow> bool" where
  "cited evidence kind i \<longleftrightarrow> (\<exists>r \<in> set evidence. ref_kind r kind \<and> ref_id r = Some i)"

definition dimension_of :: "json \<Rightarrow> string \<Rightarrow> json" where
  "dimension_of value name = json_index (json_index value ''dimensions'') name"

lemma validate_dimensions_each:
  "validate_dimensions alphanumeric alphabetic s runs value names = Inr u \<Longrightarrow> name \<in> set names \<Longrightarrow>
     \<exists>v. validate_dimension alphanumeric alphabetic s runs name (dimension_of value name) = Inr v"
  by (induction names) (auto simp: dimension_of_def split: sum.splits)

lemma validate_review_dimension:
  assumes "validate_review alphanumeric alphabetic s value reference = Inr u" and "name \<in> set DIMENSIONS"
  shows "\<exists>v. validate_dimension alphanumeric alphabetic s (windows 12 (tokens alphanumeric reference)) name
      (dimension_of value name) = Inr v"
proof -
  have "\<exists>w. validate_dimensions alphanumeric alphabetic s (windows 12 (tokens alphanumeric reference)) value DIMENSIONS = Inr w"
    using assms(1) by (auto simp: validate_review_def Let_def split: if_splits sum.splits)
  then show ?thesis using validate_dimensions_each [OF _ assms(2)] by blast
qed

lemma check_references_each:
  "check_references s evidence = Inr u \<Longrightarrow> r \<in> set evidence \<Longrightarrow> \<exists>i. ref_id r = Some i \<and> reference_exists s r i"
  by (induction evidence) (auto split: if_splits option.splits)

lemma json_as_array_Some: "json_as_array v = Some items \<Longrightarrow> v = JArr items"
  by (cases v) simp_all

lemma set_of_map_filter: "set (List.map_filter f xs) = {y. \<exists>x \<in> set xs. f x = Some y}"
  by (induction xs) (auto split: option.splits)

lemma support_bindings_iff:
  "kind \<in> set (support_bindings s evidence) \<longleftrightarrow>
     (\<exists>i. cited evidence ''turn'' i \<and> (\<exists>c \<in> set (bt_values (ts_checks s)). map_of (ck_turn_support c) i = Some kind))"
  by (simp add: support_bindings_def cited_def set_of_map_filter) blast

lemma has_turn_cited:
  "has_turn alphabetic s evidence \<Longrightarrow> \<exists>i speech. cited evidence ''turn'' i \<and> turns_get (ts_turns s) i = Some speech
     \<and> \<not> is_unrecognized_speech alphabetic speech"
  by (fastforce simp: has_turn_def list_ex_iff cited_def split: option.splits)

lemma has_run_cited:
  "has_run s evidence \<Longrightarrow> \<exists>i run. cited evidence ''run'' i \<and> map_of (ts_runs s) i = Some run \<and> 0 < rn_total run"
  by (fastforce simp: has_run_def list_ex_iff cited_def split: option.splits)

lemma unresolved_cited:
  "unresolved_observed s evidence \<Longrightarrow> \<exists>c \<in> set (bt_values (ts_checks s)). ck_state c = Unresolved
     \<and> (\<exists>i \<in> set (ck_turn_ids c). cited evidence ''turn'' i)"
  by (fastforce simp: unresolved_observed_def list_ex_iff cited_def split: option.splits)

lemma rated_dimension:
  assumes "validate_dimension alphanumeric alphabetic s runs name d = Inr u" and "json_index d ''rating'' = JInt n"
  obtains evidence support where "json_index d ''evidence'' = JArr evidence" "length evidence \<le> 8"
    "Option.bind (json_as_str (json_index d ''support'')) support_parse = Some support"
    "check_references s evidence = Inr ()" "0 \<le> n" "n \<le> 3" "has_turn alphabetic s evidence"
    "name = ''testingAndDiagnosis'' \<longrightarrow> has_run s evidence" "n = 0 \<longrightarrow> unresolved_observed s evidence"
    "n = 3 \<longrightarrow> support = NoSupport \<and> (\<forall>kind \<in> set (support_bindings s evidence). kind = NoSupport)"
    "n = 2 \<longrightarrow> support \<noteq> NoSupport \<and> support \<in> set (support_bindings s evidence)"
proof -
  from assms(1) obtain support evidence where parts:
    "Option.bind (json_as_str (json_index d ''support'')) support_parse = Some support"
    "json_as_array (json_index d ''evidence'') = Some evidence" "length evidence \<le> 8"
    "check_references s evidence = Inr ()" "validate_rating alphabetic s name d support evidence = Inr ()"
    by (auto simp: validate_dimension_def MAX_REVIEW_ROWS_def not_less split: if_splits sum.splits option.splits)
  from parts(5) assms(2) have n: "0 \<le> n" by (auto simp: validate_rating_def split: if_splits)
  with parts(5) assms(2) have "nat n \<le> 3" "has_turn alphabetic s evidence"
    "name = ''testingAndDiagnosis'' \<longrightarrow> has_run s evidence" "nat n = 0 \<longrightarrow> unresolved_observed s evidence"
    "nat n = 3 \<longrightarrow> support = NoSupport \<and> (\<forall>kind \<in> set (support_bindings s evidence). kind = NoSupport)"
    "nat n = 2 \<longrightarrow> support \<noteq> NoSupport \<and> support \<in> set (support_bindings s evidence)"
    by (auto simp: validate_rating_def Let_def list_ex_iff split: if_splits)
  with n have "n \<le> 3" "has_turn alphabetic s evidence"
    "name = ''testingAndDiagnosis'' \<longrightarrow> has_run s evidence" "n = 0 \<longrightarrow> unresolved_observed s evidence"
    "n = 3 \<longrightarrow> support = NoSupport \<and> (\<forall>kind \<in> set (support_bindings s evidence). kind = NoSupport)"
    "n = 2 \<longrightarrow> support \<noteq> NoSupport \<and> support \<in> set (support_bindings s evidence)"
    by auto
  with n parts show ?thesis using that json_as_array_Some by blast
qed

text \<open>
  A rating in an accepted review is backed by the session: it is between 0 and 3 and cites at
  most eight things, each a stored revision, a run of a stored revision or a captured turn; one of
  them is a turn the recognizer returned as English, and for testing one is a run that ran cases;
  a zero cites a turn of a check observed unresolved; an independent rating cites no turn that any
  check bound to support; and a supported one names a support that a check bound to a cited turn.
\<close>

theorem accepted_rating_is_backed:
  assumes "validate_review alphanumeric alphabetic s value reference = Inr ()" and "name \<in> set DIMENSIONS"
    and "json_index (dimension_of value name) ''rating'' = JInt n"
  shows "\<exists>evidence. json_index (dimension_of value name) ''evidence'' = JArr evidence \<and> length evidence \<le> 8
    \<and> 0 \<le> n \<and> n \<le> 3
    \<and> (\<forall>r \<in> set evidence. \<exists>i. ref_id r = Some i \<and> reference_exists s r i)
    \<and> (\<exists>i speech. cited evidence ''turn'' i \<and> turns_get (ts_turns s) i = Some speech
         \<and> \<not> is_unrecognized_speech alphabetic speech)
    \<and> (name = ''testingAndDiagnosis'' \<longrightarrow>
         (\<exists>i run. cited evidence ''run'' i \<and> map_of (ts_runs s) i = Some run \<and> 0 < rn_total run))
    \<and> (n = 0 \<longrightarrow> (\<exists>c \<in> set (bt_values (ts_checks s)). ck_state c = Unresolved
         \<and> (\<exists>i \<in> set (ck_turn_ids c). cited evidence ''turn'' i)))
    \<and> (n = 3 \<longrightarrow> (\<forall>i. cited evidence ''turn'' i \<longrightarrow> (\<forall>c \<in> set (bt_values (ts_checks s)).
         map_of (ck_turn_support c) i \<in> {None, Some NoSupport})))
    \<and> (n = 2 \<longrightarrow> (\<exists>i support. cited evidence ''turn'' i \<and> support \<noteq> NoSupport
         \<and> json_index (dimension_of value name) ''support'' = JStr (support_as_str support)
         \<and> (\<exists>c \<in> set (bt_values (ts_checks s)). map_of (ck_turn_support c) i = Some support)))"
proof -
  obtain v where "validate_dimension alphanumeric alphabetic s (windows 12 (tokens alphanumeric reference)) name
      (dimension_of value name) = Inr v"
    using validate_review_dimension [OF assms(1,2)] by blast
  from rated_dimension [OF this assms(3)] obtain evidence support where d:
    "json_index (dimension_of value name) ''evidence'' = JArr evidence" "length evidence \<le> 8"
    "Option.bind (json_as_str (json_index (dimension_of value name) ''support'')) support_parse = Some support"
    "check_references s evidence = Inr ()" "0 \<le> n" "n \<le> 3" "has_turn alphabetic s evidence"
    "name = ''testingAndDiagnosis'' \<longrightarrow> has_run s evidence" "n = 0 \<longrightarrow> unresolved_observed s evidence"
    "n = 3 \<longrightarrow> support = NoSupport \<and> (\<forall>kind \<in> set (support_bindings s evidence). kind = NoSupport)"
    "n = 2 \<longrightarrow> support \<noteq> NoSupport \<and> support \<in> set (support_bindings s evidence)" .
  have name_of: "json_index (dimension_of value name) ''support'' = JStr (support_as_str support)"
    using d(3) by (cases "json_index (dimension_of value name) ''support''") (auto simp: support_parse_def split: if_splits)
  have "map_of (ck_turn_support c) i \<in> {None, Some NoSupport}"
    if "n = 3" "cited evidence ''turn'' i" "c \<in> set (bt_values (ts_checks s))" for i c
    using that d(10) support_bindings_iff [of _ s evidence] by (cases "map_of (ck_turn_support c) i") auto
  moreover have "\<exists>i support. cited evidence ''turn'' i \<and> support \<noteq> NoSupport
         \<and> json_index (dimension_of value name) ''support'' = JStr (support_as_str support)
         \<and> (\<exists>c \<in> set (bt_values (ts_checks s)). map_of (ck_turn_support c) i = Some support)" if "n = 2"
    using d(11) that support_bindings_iff [of support s evidence] name_of by blast
  ultimately show ?thesis
    using d check_references_each [OF d(4)] has_turn_cited has_run_cited unresolved_cited
    by (intro exI [of _ evidence]) blast
qed

definition empty_dimension :: json where
  "empty_dimension = JObj [(''rating'', JNull), (''reason'', JStr ''ok''), (''insufficientReason'', JStr ''timeout''),
     (''support'', JStr ''none''), (''evidence'', JArr [])]"

definition hinted_review :: json where
  "hinted_review = JObj [(''dimensions'', JObj
     [(''reasoningParticipation'', JObj [(''rating'', JInt 2), (''reason'', JStr ''ok''), (''insufficientReason'', JNull),
        (''support'', JStr ''conceptual_hint''),
        (''evidence'', JArr [JObj [(''kind'', JStr ''turn''), (''id'', JStr ''t1'')]])]),
      (''implementationOwnership'', empty_dimension), (''testingAndDiagnosis'', empty_dimension),
      (''revisionAndImprovement'', empty_dimension)]), (''gaps'', JArr []), (''nextActions'', JArr [])]"

abbreviation hinted_session :: task_session where
  "hinted_session \<equiv> session_run_of (\<lambda>c. c) (\<lambda>w. []) (\<lambda>c. False) example_codec example_task 0 hinted_events"

lemma hinted_review_accepted:
  "validate_review (\<lambda>c. True) (\<lambda>c. False) hinted_session hinted_review ''x'' = Inr ()"
  by code_simp

lemma hinted_rating:
  "''reasoningParticipation'' \<in> set DIMENSIONS"
  "json_index (dimension_of hinted_review ''reasoningParticipation'') ''rating'' = JInt 2"
  by code_simp+

theorem accepted_rating_is_backed_witness:
  "\<exists>evidence. json_index (dimension_of hinted_review ''reasoningParticipation'') ''evidence'' = JArr evidence
    \<and> (\<exists>i speech. cited evidence ''turn'' i \<and> turns_get (ts_turns hinted_session) i = Some speech)"
  using accepted_rating_is_backed [OF hinted_review_accepted hinted_rating] by blast

text \<open>
  C27. A rating that an accepted review gives as supported rests on support the platform really gave:
  in every reachable session, it cites a captured turn that follows an offer of the very kind of
  support the review names.
\<close>

theorem supported_rating_was_offered:
  assumes "ladder_ok task"
    and "validate_review alphanumeric alphabetic (session_run_of sha fmt alphabetic codec task now es) value reference = Inr ()"
    and "name \<in> set DIMENSIONS" and "json_index (dimension_of value name) ''rating'' = JInt 2"
  shows "\<exists>evidence i n speech offer o1.
      json_index (dimension_of value name) ''evidence'' = JArr evidence \<and> cited evidence ''turn'' i
    \<and> n < length (ts_turns (session_run_of sha fmt alphabetic codec task now es))
    \<and> ts_turns (session_run_of sha fmt alphabetic codec task now es) ! n = (i, speech)
    \<and> map_of (ts_support_opportunities (session_run_of sha fmt alphabetic codec task now es)) offer = Some o1
    \<and> so_after_turn o1 \<le> n
    \<and> json_index (dimension_of value name) ''support'' = JStr (support_as_str (so_kind o1))"
proof -
  let ?s = "session_run_of sha fmt alphabetic codec task now es"
  obtain v where "validate_dimension alphanumeric alphabetic ?s (windows 12 (tokens alphanumeric reference)) name
      (dimension_of value name) = Inr v"
    using validate_review_dimension [OF assms(2,3)] by blast
  then obtain evidence support where d:
    "json_index (dimension_of value name) ''evidence'' = JArr evidence"
    "Option.bind (json_as_str (json_index (dimension_of value name) ''support'')) support_parse = Some support"
    "support \<noteq> NoSupport" "support \<in> set (support_bindings ?s evidence)"
    by (rule rated_dimension [OF _ assms(4)]) simp
  have name_of: "json_index (dimension_of value name) ''support'' = JStr (support_as_str support)"
    using d(2) by (cases "json_index (dimension_of value name) ''support''") (auto simp: support_parse_def split: if_splits)
  from d(4) obtain i c where ic: "cited evidence ''turn'' i" "c \<in> set (bt_values (ts_checks ?s))"
    "map_of (ck_turn_support c) i = Some support"
    unfolding support_bindings_iff by blast
  have "bt_ok (ts_checks ?s)" using session_okD(9) [OF inv_ok [OF assms(1)]] by (simp add: checks_ok_def)
  then have "distinct (map fst (ts_checks ?s))" using bt_ok_distinct by (auto simp: bt_keys_def)
  moreover from ic(2) obtain k where "(k, c) \<in> set (ts_checks ?s)" by (auto simp: bt_values_def)
  ultimately have "map_of (ts_checks ?s) k = Some c" by simp
  from bound_support_offered [OF assms(1) this ic(3) d(3)] show ?thesis
    using d(1) ic(1) name_of by metis
qed

theorem supported_rating_was_offered_witness:
  "\<exists>offer o1. map_of (ts_support_opportunities hinted_session) offer = Some o1
     \<and> json_index (dimension_of hinted_review ''reasoningParticipation'') ''support'' = JStr (support_as_str (so_kind o1))"
  using supported_rating_was_offered [OF example_ladder hinted_review_accepted hinted_rating] by blast

section \<open>Lines of a prompt\<close>

definition one_line :: "string \<Rightarrow> bool" where
  "one_line t \<longleftrightarrow> CHR 0x0A \<notin> set t"

lemma one_line_simps [simp]:
  "one_line []" "one_line (c # t) \<longleftrightarrow> c \<noteq> CHR 0x0A \<and> one_line t" "one_line (t @ u) \<longleftrightarrow> one_line t \<and> one_line u"
  by (auto simp: one_line_def)

lemma one_line_quote: "one_line (json_quote t)"
  using json_quote_one_line [of "CHR 0x0A" t] by (auto simp: one_line_def)

lemma one_line_join: "one_line sep \<Longrightarrow> list_all one_line ts \<Longrightarrow> one_line (join sep ts)"
  by (induction sep ts rule: join.induct) auto

lemma digit_not_newline: "n < 10 \<Longrightarrow> digit_char n \<noteq> CHR 0x0A"
  by (auto dest: arg_cong [of _ _ "of_char :: char \<Rightarrow> nat"])

lemma one_line_decimal: "one_line (decimal n)"
proof (induction n rule: decimal.induct)
  case (1 n)
  then show ?case
    using digit_not_newline [of n] digit_not_newline [of "n mod 10"]
    by (subst decimal.simps) (auto simp del: digit_char.simps)
qed

lemma one_line_render:
  shows "(\<And>w. one_line (fmt w)) \<Longrightarrow> one_line (json_render fmt v)"
  by (induction fmt v rule: json_render.induct)
    (auto simp: one_line_quote one_line_decimal show_int_def list_all_iff intro!: one_line_join)

fun lines_of :: "string \<Rightarrow> string list" where
  "lines_of [] = [[]]"
| "lines_of (c # cs) = (if c = CHR 0x0A then [] # lines_of cs
     else (case lines_of cs of l # ls \<Rightarrow> (c # l) # ls | [] \<Rightarrow> [[c]]))"

lemma lines_of_nonempty: "lines_of t \<noteq> []"
  by (induction t) (auto split: list.splits)

lemma lines_of_prefix: "one_line t \<Longrightarrow> lines_of (t @ u) = (t @ hd (lines_of u)) # tl (lines_of u)"
  by (induction t) (auto simp: lines_of_nonempty)

text \<open>The lines of a text when its first line is already begun: one pass over the pieces of a prompt.\<close>

definition lines_from :: "string \<Rightarrow> string \<Rightarrow> string list" where
  "lines_from begun t = (begun @ hd (lines_of t)) # tl (lines_of t)"

lemma lines_from_rules:
  "lines_of t = lines_from [] t"
  "one_line t \<Longrightarrow> lines_from begun (t @ u) = lines_from (begun @ t) u"
  "lines_from begun (newline @ u) = begun # lines_from [] u"
  "one_line t \<Longrightarrow> lines_from begun t = [begun @ t]"
  using lines_of_prefix [of t "[]"]
  by (simp_all add: lines_from_def lines_of_prefix lines_of_nonempty newline_def)

lemma request_lines: "one_line REVIEW_REQUEST" "one_line REVIEW_REQUEST_END"
  by (simp_all add: REVIEW_REQUEST_def REVIEW_REQUEST_END_def one_line_def)

text \<open>
  C28. No learner content starts a line: the code and the runs a replacement connection is given are
  one line each between their fixed delimiters, and the review's prompt always has the same ten
  lines, its evidence between the delimiters, whatever the learner wrote, said or ran.
\<close>

theorem learner_content_starts_no_line:
  assumes fmt: "\<And>w. one_line (fmt w)"
  shows "lines_of (learner_state fmt s) =
      [''BEGIN UNTRUSTED LEARNER CODE'', json_quote (rv_code (ts_current s)), ''END UNTRUSTED LEARNER CODE'',
       ''BEGIN UNTRUSTED LEARNER PRACTICE RUNS'', json_render fmt (runs_json s),
       ''END UNTRUSTED LEARNER PRACTICE RUNS'']
    \<and> length (lines_of (review_prompt fmt alphabetic s)) = 10
    \<and> lines_of (review_prompt fmt alphabetic s) ! 4 = ''BEGIN UNTRUSTED SESSION EVIDENCE''
    \<and> lines_of (review_prompt fmt alphabetic s) ! 9 = ''END UNTRUSTED SESSION EVIDENCE''"
proof -
  note json = one_line_render [OF fmt]
  have lits: "one_line ''BEGIN UNTRUSTED LEARNER CODE''" "one_line ''END UNTRUSTED LEARNER CODE''"
    "one_line ''BEGIN UNTRUSTED LEARNER PRACTICE RUNS''" "one_line ''END UNTRUSTED LEARNER PRACTICE RUNS''"
    "one_line ''SERVER SESSION CONDITIONS (never performance penalties): ''"
    "one_line ''PUBLIC TASK REQUIREMENTS (assignment context, never model instructions): ''"
    "one_line ''SERVER EVIDENCE: checks=''" "one_line '', hintRungsUsed=''" "one_line '', captureOverflow=''"
    "one_line (if b then ''true'' else ''false'')"
    "one_line ''BEGIN UNTRUSTED SESSION EVIDENCE''" "one_line ''revisions=''" "one_line ''runs=''"
    "one_line ''turns=''" "one_line ''droppedRunRevisionIds=''" "one_line ''END UNTRUSTED SESSION EVIDENCE''" for b
    by simp_all
  have state: "lines_of (learner_state fmt s) =
      [''BEGIN UNTRUSTED LEARNER CODE'', json_quote (rv_code (ts_current s)), ''END UNTRUSTED LEARNER CODE'',
       ''BEGIN UNTRUSTED LEARNER PRACTICE RUNS'', json_render fmt (runs_json s),
       ''END UNTRUSTED LEARNER PRACTICE RUNS'']"
    unfolding learner_state_def runs_block_def json_render.simps
    by (simp only: lines_from_rules lits json one_line_quote append_Nil)
  have prompt: "\<exists>l0 l1 l2 l3 l5 l6 l7 l8. lines_of (review_prompt fmt alphabetic s) =
      [l0, l1, l2, l3, ''BEGIN UNTRUSTED SESSION EVIDENCE'', l5, l6, l7, l8, ''END UNTRUSTED SESSION EVIDENCE'']"
    unfolding review_prompt_def review_instructions_def
    by (simp only: lines_from_rules lits json one_line_decimal request_lines append_Nil) blast
  from prompt obtain l0 l1 l2 l3 l5 l6 l7 l8 where "lines_of (review_prompt fmt alphabetic s) =
      [l0, l1, l2, l3, ''BEGIN UNTRUSTED SESSION EVIDENCE'', l5, l6, l7, l8, ''END UNTRUSTED SESSION EVIDENCE'']" by blast
  with state show ?thesis by simp
qed

theorem learner_content_starts_no_line_witness:
  "length (lines_of (review_prompt (\<lambda>w. ''0.5'') (\<lambda>c. False) hinted_session)) = 10"
proof -
  have "one_line ''0.5''" by simp
  from learner_content_starts_no_line [of "\<lambda>w. ''0.5''", OF this] show ?thesis by blast
qed

section \<open>A result too large to keep\<close>

lemma stamped_get:
  assumes "map_of ext k = Some v" and "distinct (map fst ext)"
  shows "json_index (json_index (stamped task i ext (JObj obj)) ''taskAssessment'') k = v"
  using assms by (simp add: stamped_def json_index_def json_extend_get)

text \<open>
  A result too large to keep loses its review and never its ending: the envelope that replaces it
  carries the same outcome, overflow flag, final revision and final code, when the revision's id is
  one the editor accepts and its code is within the bound on learner code.
\<close>

theorem oversized_result_keeps_its_ending:
  assumes "ts_final_revision_id s = Some f" and "map_of (ts_revisions s) f = Some r"
    and "opaque_id f" and "length (rv_code r) \<le> MAX_CODE_BYTES"
    and "k \<in> {''outcome'', ''captureOverflow'', ''finalRevisionId'', ''finalCode''}"
  shows "json_index (json_index (unavailable_for_task task room (stamp s (JObj review) i)) ''taskAssessment'') k
    = json_index (JObj (ending s)) k"
proof -
  let ?rec = "json_index (stamp s (JObj review) i) ''taskAssessment''"
  have dist: "distinct (map fst (ending s))" by (simp add: ending_def)
  have get: "json_index ?rec key = v" if "map_of (ending s) key = Some v" for key v
    unfolding stamp_def by (rule stamped_get [OF that dist])
  have rec: "json_index ?rec ''outcome'' = opt_json outcome_json (ts_outcome s)"
    "json_index ?rec ''captureOverflow'' = JBool (ts_capture_overflow s)"
    "json_index ?rec ''finalRevisionId'' = JStr f" "json_index ?rec ''finalCode'' = JStr (rv_code r)"
    by (rule get; simp add: ending_def assms(1,2) opt_json_def)+
  define new where "new = [(''outcome'', opt_json outcome_json (ts_outcome s)),
    (''captureOverflow'', JBool (ts_capture_overflow s)), (''finalRevisionId'', JStr f), (''finalCode'', JStr (rv_code r))]"
  have new: "json_index (json_index (stamped task room new (JObj [])) ''taskAssessment'') k = json_index (JObj (ending s)) k"
  proof -
    have "distinct (map fst new)" by (simp add: new_def)
    moreover have "map_of new k = map_of (ending s) k"
      using assms(5) by (auto simp: new_def ending_def assms(1,2) opt_json_def)
    moreover have "map_of (ending s) k \<noteq> None" using assms(5) by (auto simp: ending_def)
    ultimately show ?thesis using stamped_get [of new k _ task room "[]"] by (auto simp: json_index_def)
  qed
  obtain obj where obj: "stamped task room new (JObj []) = JObj obj" by (simp add: stamped_def)
  have extra: "json_index (json_index (JObj (json_extend obj [(''feedbackUnavailable'', JBool True)])) ''taskAssessment'') k
      = json_index (json_index (JObj obj) ''taskAssessment'') k"
    by (simp add: json_index_def json_extend_get del: json_extend.simps)
  have "unavailable_for_task task room (stamp s (JObj review) i)
      \<in> {stamped task room new (JObj []), JObj (json_extend obj [(''feedbackUnavailable'', JBool True)])}"
    unfolding unavailable_for_task_def Let_def rec
    by (simp add: filter_str_def assms(3,4) new_def [symmetric] obj split: option.splits)
  with new obj extra show ?thesis by auto
qed

abbreviation example_ended :: task_session where
  "example_ended \<equiv> snd (conclude Camera 0 0 (session_new (\<lambda>c. c) example_task 0))"

theorem oversized_result_keeps_its_ending_witness:
  "json_index (json_index (unavailable_for_task example_task ''room''
     (stamp example_ended (JObj []) ''s'')) ''taskAssessment'') ''finalCode'' = JStr ''pass''"
proof -
  have "ts_final_revision_id example_ended = Some ''initial''" by code_simp
  moreover obtain r where "map_of (ts_revisions example_ended) ''initial'' = Some r" "rv_code r = ''pass''"
  proof -
    have "map_option rv_code (map_of (ts_revisions example_ended) ''initial'') = Some ''pass''" by code_simp
    then show ?thesis using that by auto
  qed
  moreover have "opaque_id ''initial''" "length ''pass'' \<le> MAX_CODE_BYTES" by code_simp+
  ultimately show ?thesis
    using oversized_result_keeps_its_ending [of example_ended "''initial''" r "''finalCode''" example_task "''room''" "[]" "''s''"]
    by (simp add: json_index_def ending_def opt_json_def)
qed

end
