(* ===== verification/Modes.thy ===== *)
theory Modes
  imports Main
begin

text \<open>The surface and the rounds of an interview, of \<open>src/src/agent.rs\<close>.\<close>

datatype interview_mode = Coding | Whiteboard

definition is_whiteboard :: "interview_mode \<Rightarrow> bool" where
  "is_whiteboard mode \<longleftrightarrow> mode = Whiteboard"

datatype interview_loop = CodingOnly | CodingBehavioral

end
