(* ===== verification/Report.thy ===== *)
theory Report
  imports Modes Judgments Json Task_Access "HOL-Library.Product_Lexorder"
begin

text \<open>
  \<open>src/src/agent/report.rs\<close>: what a model's answer must satisfy to be an interview report, what the
  server writes over it, and what stands in when there is none.  A validator of the code pushes onto
  one \<open>errors\<close> vector; here it returns the errors it pushes, in order, and the callers append them.

  Parameters: \<open>lower\<close> is \<open>str::to_lowercase\<close> (a Unicode table), \<open>v\<close> is \<open>problem.variant()\<close>, a row of
  the generated bank.
\<close>

section \<open>The exercise\<close>

record problem =
  pb_id :: string
  pb_title :: string
  pb_source :: "string option"
  pb_difficulty :: string
  pb_summary :: string
  pb_optimal :: string
  pb_pitfalls :: string

record problem_variant =
  pv_title :: string
  pv_page :: string
  pv_brief :: "string list"
  pv_examples :: "(string \<times> string \<times> string option) list"
  pv_contract :: string
  pv_constraints :: "string list"
  pv_clarifications :: "(string \<times> string) list"
  pv_follow_ups :: "string list"
  pv_hints :: "string list"
  pv_starters :: "(string \<times> string) list"

definition brief_text :: "problem_variant \<Rightarrow> string" where
  "brief_text v = join '' '' (pv_brief v)"

definition source_title :: "problem \<Rightarrow> problem_variant \<Rightarrow> string option" where
  "source_title p v = (if pb_title p \<noteq> pv_title v then Some (pb_title p) else None)"

section \<open>Naming the published problem\<close>

fun joins_to :: "string \<Rightarrow> string \<Rightarrow> string list \<Rightarrow> bool" where
  "joins_to target joined [] = False"
| "joins_to target joined (word # ws) =
     (let joined = joined @ word
      in if joined = target then True
         else if length joined \<ge> length target then False
         else joins_to target joined ws)"

fun pairs :: "'a list \<Rightarrow> ('a \<times> 'a) list" where
  "pairs (x # y # zs) = (x, y) # pairs (y # zs)"
| "pairs _ = []"

definition names_published_problem :: "string \<Rightarrow> string \<Rightarrow> bool" where
  "names_published_problem title speech =
     (let text_words = spelled_words speech
      in if ''leetcode'' \<in> set text_words \<or> (''leet'', ''code'') \<in> set (pairs text_words) then True
         else let title_words = spelled_words title
              in if length title_words = 1 \<and> list_all is_ascii_alphabetic (utf8_chars title) then False
                 else list_ex (\<lambda>start. joins_to (concat title_words) [] (drop start text_words))
                        [0..<length text_words])"

section \<open>Every string of a field\<close>

fun visit_strings :: "json \<Rightarrow> string \<Rightarrow> (string \<times> string) list"
  and visit_items :: "json list \<Rightarrow> nat \<Rightarrow> string \<Rightarrow> (string \<times> string) list" where
  "visit_strings (JStr s) path = [(path, s)]"
| "visit_strings (JArr items) path = visit_items items 0 path"
| "visit_strings (JObj obj) path =
     concat (by_key (map (\<lambda>f. (fst f, visit_strings (snd f) (path @ ''.'' @ fst f))) obj))"
| "visit_strings _ path = []"
| "visit_items [] i path = []"
| "visit_items (item # items) i path =
     visit_strings item (path @ ''['' @ decimal i @ '']'') @ visit_items items (Suc i) path"

definition validate_published_problem_names :: "json \<Rightarrow> string \<Rightarrow> string \<Rightarrow> string list" where
  "validate_published_problem_names value path title =
     map (\<lambda>(path, s). path @ '': names the published problem'')
       (filter (\<lambda>(path, s). names_published_problem title s) (visit_strings value path))"

section \<open>Judgments\<close>

definition IMPROVEMENT_PATHS :: "string list" where
  "IMPROVEMENT_PATHS = [''$.codingFeedback.improvements'', ''$.communicationFeedback.improvements'',
     ''$.improvementPlan'', ''$.followUps'']"

definition MAX_ERROR_CHARS :: nat where "MAX_ERROR_CHARS = 240"

text \<open>A phrase is one of the program's own: printable ASCII without a quote, which \<open>{:?}\<close> quotes as it is.\<close>

definition debug_str :: "string \<Rightarrow> string" where
  "debug_str phrase = [CHR 0x22] @ phrase @ [CHR 0x22]"

definition naming :: "string \<Rightarrow> string \<Rightarrow> string list \<Rightarrow> nat \<Rightarrow> string" where
  "naming path reason quoted named =
     (let listed = join '', '' (take named quoted)
      in case length quoted - named of
           0 \<Rightarrow> path @ '': '' @ reason @ '' ('' @ listed @ '')''
         | Suc m \<Rightarrow> path @ '': '' @ reason @ '' ('' @ listed @ '', and '' @ decimal (Suc m) @ '' more)'')"

definition char_count :: "string \<Rightarrow> nat" where
  "char_count s = length (utf8_chars s)"

definition judgment_error :: "string \<Rightarrow> string \<Rightarrow> string list \<Rightarrow> string" where
  "judgment_error path reason phrases =
     (let quoted = map debug_str phrases
      in case List.find (\<lambda>error. char_count error \<le> MAX_ERROR_CHARS)
                (map (naming path reason quoted) (rev [2..<Suc (length quoted)])) of
           Some error \<Rightarrow> error
         | None \<Rightarrow> naming path reason quoted 1)"

definition improvement_path :: "string \<Rightarrow> bool" where
  "improvement_path path = list_ex (\<lambda>prefix. starts_with prefix path) IMPROVEMENT_PATHS"

definition validate_observable_judgments :: "json \<Rightarrow> string \<Rightarrow> string list" where
  "validate_observable_judgments value path =
     concat (map (\<lambda>(path, s). map (\<lambda>(reason, phrases). judgment_error path reason phrases)
         (refused_judgments s (improvement_path path)))
       (visit_strings value path))"

section \<open>Fields\<close>

definition exact_keys :: "(string \<times> json) list \<Rightarrow> string list \<Rightarrow> string \<Rightarrow> string list" where
  "exact_keys obj expected path =
     map (\<lambda>key. path @ ''.'' @ key @ '': required'') (filter (\<lambda>key. map_of obj key = None) expected)
   @ map (\<lambda>key. path @ ''.'' @ key @ '': unknown field'') (filter (\<lambda>key. key \<notin> set expected) (sort (map fst obj)))"

definition strict_integer :: "json option \<Rightarrow> int \<Rightarrow> int \<Rightarrow> string \<Rightarrow> int option \<times> string list" where
  "strict_integer value lo hi path =
     (case Option.bind value json_as_i64 of
        Some n \<Rightarrow> if lo \<le> n \<and> n \<le> hi then (Some n, [])
                  else (None, [path @ '': expected integer '' @ show_int lo @ ''..='' @ show_int hi])
      | None \<Rightarrow> (None, [path @ '': expected integer '' @ show_int lo @ ''..='' @ show_int hi]))"

definition strict_enum :: "json option \<Rightarrow> string list \<Rightarrow> string \<Rightarrow> string option \<times> string list" where
  "strict_enum value allowed path =
     (case Option.bind value json_as_str of
        Some s \<Rightarrow> if s \<in> set allowed then (Some s, []) else (None, [path @ '': invalid enum''])
      | None \<Rightarrow> (None, [path @ '': invalid enum'']))"

definition strict_text :: "json option \<Rightarrow> nat \<Rightarrow> string \<Rightarrow> string option \<times> string list" where
  "strict_text value most path =
     (let error = path @ '': expected non-empty string of at most '' @ decimal most @ '' characters''
      in case Option.bind value json_as_str of
           Some s \<Rightarrow> if str_trim s \<noteq> [] \<and> char_count s \<le> most then (Some (str_trim s), []) else (None, [error])
         | None \<Rightarrow> (None, [error]))"

fun distinct_texts :: "json list \<Rightarrow> nat \<Rightarrow> string \<Rightarrow> nat \<Rightarrow> string set \<Rightarrow> string list" where
  "distinct_texts [] text_max path index seen = []"
| "distinct_texts (item # items) text_max path index seen =
     (let at = path @ ''['' @ decimal index @ '']'';
          (speech, errors) = strict_text (Some item) text_max at
      in errors @ (case speech of
           None \<Rightarrow> distinct_texts items text_max path (Suc index) seen
         | Some t \<Rightarrow> (if t \<in> seen then [at @ '': duplicate''] else [])
                     @ distinct_texts items text_max path (Suc index) (insert t seen)))"

definition validate_string_array :: "json option \<Rightarrow> nat \<Rightarrow> nat \<Rightarrow> nat \<Rightarrow> string \<Rightarrow> string list" where
  "validate_string_array value least most text_max path =
     (case Option.bind value json_as_arr of
        None \<Rightarrow> [path @ '': expected array'']
      | Some items \<Rightarrow>
          (if least \<le> length items \<and> length items \<le> most then []
           else [path @ '': expected '' @ decimal least @ ''..='' @ decimal most @ '' items''])
          @ distinct_texts (take (Suc most) items) text_max path 0 {})"

definition validate_feedback :: "json option \<Rightarrow> string \<Rightarrow> nat \<Rightarrow> nat \<Rightarrow> string list" where
  "validate_feedback value path strengths_min improvements_min =
     (case Option.bind value json_as_object of
        None \<Rightarrow> [path @ '': expected object'']
      | Some obj \<Rightarrow>
          exact_keys obj [''strengths'', ''improvements''] path
          @ validate_string_array (map_of obj ''strengths'') strengths_min 4 400 (path @ ''.strengths'')
          @ validate_string_array (map_of obj ''improvements'') improvements_min 4 400 (path @ ''.improvements''))"

definition IMPROVEMENT_PHASES :: "string list" where
  "IMPROVEMENT_PHASES = [''Repeat'', ''Example'', ''Algorithm'', ''Coding'', ''Test'', ''Optimizations'',
     ''Situation'', ''Task'', ''Action'', ''Result'']"

definition PLAN_KEYS :: "string list" where
  "PLAN_KEYS = [''phase'', ''weakness'', ''impact'', ''frequency'', ''drill'', ''durationMin'',
     ''successCriterion'', ''selfReview'']"

text \<open>The body of the loop over the plan: one item, the weakness it names and the errors before and after
  the weakness is looked up among those seen.\<close>

definition plan_item_errors :: "(string \<times> json) list \<Rightarrow> string list \<Rightarrow> string set \<Rightarrow> string \<Rightarrow> string list" where
  "plan_item_errors obj weaknesses seen path =
     exact_keys obj PLAN_KEYS path
     @ snd (strict_enum (map_of obj ''phase'') IMPROVEMENT_PHASES (path @ ''.phase''))
     @ (let (weakness, errors) = strict_text (map_of obj ''weakness'') 400 (path @ ''.weakness'')
        in errors @ (case weakness of None \<Rightarrow> []
             | Some w \<Rightarrow> (if w \<notin> set weaknesses
                          then [path @ ''.weakness: must exactly reference a feedback improvement''] else [])
                         @ (if w \<in> seen then [path @ ''.weakness: duplicate''] else [])))
     @ snd (strict_enum (map_of obj ''impact'') [''high'', ''medium'', ''low''] (path @ ''.impact''))
     @ snd (strict_integer (map_of obj ''frequency'') 1 99 (path @ ''.frequency''))
     @ snd (strict_text (map_of obj ''drill'') 400 (path @ ''.drill''))
     @ snd (strict_integer (map_of obj ''durationMin'') 1 30 (path @ ''.durationMin''))
     @ snd (strict_text (map_of obj ''successCriterion'') 400 (path @ ''.successCriterion''))
     @ validate_string_array (map_of obj ''selfReview'') 1 4 240 (path @ ''.selfReview'')"

definition plan_weakness :: "json \<Rightarrow> string option" where
  "plan_weakness item = (case json_as_object item of None \<Rightarrow> None
     | Some obj \<Rightarrow> fst (strict_text (map_of obj ''weakness'') 400 []))"

definition plan_errors :: "json \<Rightarrow> string list \<Rightarrow> string set \<Rightarrow> string \<Rightarrow> string list" where
  "plan_errors item weaknesses seen path =
     (case json_as_object item of
        None \<Rightarrow> [path @ '': expected object'']
      | Some obj \<Rightarrow> plan_item_errors obj weaknesses seen path)"

fun plan_items :: "json list \<Rightarrow> string list \<Rightarrow> nat \<Rightarrow> string set \<Rightarrow> string list \<times> string set" where
  "plan_items [] weaknesses index seen = ([], seen)"
| "plan_items (item # items) weaknesses index seen =
     (let errors = plan_errors item weaknesses seen (''$.improvementPlan['' @ decimal index @ '']'');
          seen' = (case plan_weakness item of None \<Rightarrow> seen | Some w \<Rightarrow> insert w seen);
          later = plan_items items weaknesses (Suc index) seen'
      in (errors @ fst later, snd later))"

definition validate_improvement_plan :: "json option \<Rightarrow> string list \<Rightarrow> string list" where
  "validate_improvement_plan value weaknesses =
     (case Option.bind value json_as_arr of
        None \<Rightarrow> [''$.improvementPlan: expected array'']
      | Some items \<Rightarrow>
          let (errors, seen) = plan_items (take 9 items) weaknesses 0 {}
          in (if length items > 8 then [''$.improvementPlan: expected at most 8 items''] else [])
             @ errors
             @ (if seen \<noteq> set weaknesses
                then [''$.improvementPlan: must contain exactly one item for every feedback improvement'']
                else []))"

definition RUBRIC_VERSION :: int where "RUBRIC_VERSION = 1"

definition validate_phase_row :: "json option \<Rightarrow> string \<Rightarrow> string \<Rightarrow> string list" where
  "validate_phase_row row expected_phase path =
     (case Option.bind row json_as_object of
        None \<Rightarrow> [path @ '': expected object'']
      | Some obj \<Rightarrow>
          let row = filter (\<lambda>f. fst f \<noteq> ''weaknessTags'') obj
          in exact_keys row [''phase'', ''score''] path
             @ (if Option.bind (map_of row ''phase'') json_as_str \<noteq> Some expected_phase
                then [path @ ''.phase: expected '' @ expected_phase] else [])
             @ (if map_of row ''score'' \<noteq> Some JNull
                then snd (strict_integer (map_of row ''score'') 0 100 (path @ ''.score'')) else []))"

definition nth_opt :: "'a list \<Rightarrow> nat \<Rightarrow> 'a option" where
  "nth_opt xs i = (if i < length xs then Some (xs ! i) else None)"

definition validate_framework_assessment :: "json option \<Rightarrow> string list" where
  "validate_framework_assessment value =
     (case Option.bind value json_as_object of
        None \<Rightarrow> [''$.frameworkAssessment: expected object'']
      | Some obj \<Rightarrow>
          exact_keys obj [''rubricVersion'', ''phases''] ''$.frameworkAssessment''
          @ snd (strict_integer (map_of obj ''rubricVersion'') RUBRIC_VERSION RUBRIC_VERSION
                   ''$.frameworkAssessment.rubricVersion'')
          @ (case Option.bind (map_of obj ''phases'') json_as_arr of
               None \<Rightarrow> [''$.frameworkAssessment.phases: expected array'']
             | Some rows \<Rightarrow>
                 (if length rows \<noteq> length IMPROVEMENT_PHASES
                  then [''$.frameworkAssessment.phases: expected exactly 10 ordered phases''] else [])
                 @ concat (map (\<lambda>i. validate_phase_row (nth_opt rows i) (IMPROVEMENT_PHASES ! i)
                       (''$.frameworkAssessment.phases['' @ decimal i @ '']''))
                     [0..<length IMPROVEMENT_PHASES])))"

section \<open>Changing a value in place\<close>

text \<open>\<open>get_mut\<close> of one key, and \<open>as_array_mut\<close> of an array, with what is done to what they reach.\<close>

fun fields_update :: "string \<Rightarrow> (json \<Rightarrow> json) \<Rightarrow> (string \<times> json) list \<Rightarrow> (string \<times> json) list" where
  "fields_update key f [] = []"
| "fields_update key f ((k, x) # obj) = (if k = key then (k, f x) # obj else (k, x) # fields_update key f obj)"

fun json_update :: "string \<Rightarrow> (json \<Rightarrow> json) \<Rightarrow> json \<Rightarrow> json" where
  "json_update key f (JObj obj) = JObj (fields_update key f obj)"
| "json_update key f other = other"

fun arr_update :: "(json list \<Rightarrow> json list) \<Rightarrow> json \<Rightarrow> json" where
  "arr_update f (JArr items) = JArr (f items)"
| "arr_update f other = other"

fun json_insert :: "string \<Rightarrow> json \<Rightarrow> json \<Rightarrow> json" where
  "json_insert key x (JObj obj) = JObj (json_extend obj [(key, x)])"
| "json_insert key x other = other"

section \<open>What the server writes\<close>

definition MAX_WEAKNESS_TAGS :: nat where "MAX_WEAKNESS_TAGS = 4"

definition plan_of :: "json \<Rightarrow> json list" where
  "plan_of report = (case Option.bind (json_get report ''improvementPlan'') json_as_arr of
     Some items \<Rightarrow> items | None \<Rightarrow> [])"

definition phase_tags :: "json \<Rightarrow> string \<Rightarrow> json list" where
  "phase_tags report phase =
     take MAX_WEAKNESS_TAGS
       (List.map_filter (\<lambda>item. json_get item ''weakness'')
         (filter (\<lambda>item. Option.bind (json_get item ''phase'') json_as_str = Some phase) (plan_of report)))"

fun tag_rows :: "json list \<Rightarrow> json list list \<Rightarrow> json list" where
  "tag_rows (row # rows) (tags # derived) = json_insert ''weaknessTags'' (JArr tags) row # tag_rows rows derived"
| "tag_rows rows _ = rows"

definition apply_weakness_tags :: "json \<Rightarrow> json" where
  "apply_weakness_tags report =
     (let derived = map (phase_tags report) IMPROVEMENT_PHASES
      in json_update ''frameworkAssessment'' (json_update ''phases'' (arr_update (\<lambda>rows. tag_rows rows derived))) report)"

definition plan_rank :: "json \<Rightarrow> int" where
  "plan_rank item = (case Option.bind (json_get item ''impact'') json_as_str of
     Some impact \<Rightarrow> if impact = ''high'' then 3 else if impact = ''medium'' then 2 else 1
   | None \<Rightarrow> 1)"

definition plan_frequency :: "json \<Rightarrow> int" where
  "plan_frequency item = (case Option.bind (json_get item ''frequency'') json_as_i64 of Some n \<Rightarrow> n | None \<Rightarrow> 0)"

text \<open>\<open>Reverse((rank, frequency))\<close> as a key of the stable sort.\<close>

definition plan_key :: "json \<Rightarrow> int \<times> int" where
  "plan_key item = (- plan_rank item, - plan_frequency item)"

definition sort_improvement_plan :: "json \<Rightarrow> json" where
  "sort_improvement_plan = json_update ''improvementPlan'' (arr_update (sort_key plan_key))"

fun flatten_opt :: "'a list option \<Rightarrow> 'a list" where
  "flatten_opt None = []"
| "flatten_opt (Some xs) = xs"

definition feedback_items :: "json \<Rightarrow> string \<Rightarrow> json list" where
  "feedback_items report key =
     flatten_opt (Option.bind (Option.bind (json_get report key) (\<lambda>feedback. json_get feedback ''improvements'')) json_as_arr)"

definition improvements_of :: "json \<Rightarrow> string list" where
  "improvements_of report =
     map str_trim (List.map_filter json_as_str
       (feedback_items report ''codingFeedback'' @ feedback_items report ''communicationFeedback''))"

definition trim_end_dots :: "string \<Rightarrow> string" where
  "trim_end_dots s = rev (dropWhile (\<lambda>c. c = CHR ''.'') (rev s))"

definition words_of :: "string \<Rightarrow> string list" where
  "words_of s = filter (\<lambda>w. w \<noteq> []) (str_split is_whitespace s)"

definition normal_text :: "(string \<Rightarrow> string) \<Rightarrow> string \<Rightarrow> string" where
  "normal_text lower s = lower (trim_end_dots (join '' '' (words_of s)))"

definition snap_item :: "(string \<Rightarrow> string) \<Rightarrow> string list \<Rightarrow> json \<Rightarrow> json" where
  "snap_item lower improvements item =
     (case Option.bind (json_get item ''weakness'') json_as_str of
        None \<Rightarrow> item
      | Some weakness \<Rightarrow>
          if str_trim weakness \<in> set improvements then item
          else case filter (\<lambda>i. normal_text lower i = normal_text lower weakness) improvements of
                 [only] \<Rightarrow> json_insert ''weakness'' (JStr only) item
               | _ \<Rightarrow> item)"

definition snap_plan_weaknesses :: "(string \<Rightarrow> string) \<Rightarrow> json \<Rightarrow> json" where
  "snap_plan_weaknesses lower raw =
     json_update ''improvementPlan'' (arr_update (map (snap_item lower (improvements_of raw)))) raw"

section \<open>Follow-ups\<close>

definition MAX_FOLLOW_UPS :: nat where "MAX_FOLLOW_UPS = 3"
definition MAX_FOLLOW_UP_TEXT :: nat where "MAX_FOLLOW_UP_TEXT = 600"

definition kept_entry :: "nat \<Rightarrow> bool \<Rightarrow> json \<Rightarrow> json" where
  "kept_entry index raised entry =
     (let assessment = (case Option.bind (json_get entry ''assessment'') json_as_str of
            None \<Rightarrow> None
          | Some s \<Rightarrow> if raised \<and> str_trim s \<noteq> [] then Some (str_trim s) else None)
      in JObj [(''index'', JInt (int index)), (''raised'', JBool raised), (''assessment'', opt_str_json assessment)])"

fun kept_loop :: "nat \<Rightarrow> nat \<Rightarrow> nat set \<Rightarrow> json list \<Rightarrow> (nat \<times> json) list" where
  "kept_loop judged position seen [] = []"
| "kept_loop judged position seen (entry # entries) =
     (case Option.bind (json_get entry ''index'') json_as_u64 of
        None \<Rightarrow> kept_loop judged (Suc position) seen entries
      | Some index \<Rightarrow>
          if \<not> (1 \<le> index \<and> index \<le> judged) then kept_loop judged (Suc position) seen entries
          else case Option.bind (json_get entry ''raised'') json_as_bool of
            None \<Rightarrow> kept_loop judged (Suc position) seen entries
          | Some raised \<Rightarrow>
              if index \<in> seen then kept_loop judged (Suc position) seen entries
              else (position, kept_entry index raised entry)
                   # kept_loop judged (Suc position) (insert index seen) entries)"

definition kept_follow_ups :: "json \<Rightarrow> nat \<Rightarrow> (nat \<times> json) list" where
  "kept_follow_ups entries judged = kept_loop judged 0 {} (flatten_opt (json_as_arr entries))"

definition follow_up_errors :: "string \<Rightarrow> nat \<times> json \<Rightarrow> string list" where
  "follow_up_errors title kept =
     (let path = ''$.followUps['' @ decimal (fst kept) @ '']''
      in (case json_as_str (json_index (snd kept) ''assessment'') of
            None \<Rightarrow> []
          | Some s \<Rightarrow> if char_count s > MAX_FOLLOW_UP_TEXT
                      then [path @ ''.assessment: expected non-empty string of at most ''
                              @ decimal MAX_FOLLOW_UP_TEXT @ '' characters''] else [])
         @ validate_observable_judgments (snd kept) path
         @ validate_published_problem_names (snd kept) path title)"

section \<open>The report of a coding round\<close>

definition MAX_SUMMARY_TEXT :: nat where "MAX_SUMMARY_TEXT = 1200"

definition REPORT_KEYS :: "string list" where
  "REPORT_KEYS = [''codingScore'', ''communicationScore'', ''decision'', ''summary'', ''codingFeedback'',
     ''communicationFeedback'', ''improvementPlan'', ''frameworkAssessment'']"

definition unassessed_feedback :: "(string \<times> json) list \<Rightarrow> string list" where
  "unassessed_feedback obj =
     concat (map (\<lambda>key. case Option.bind (Option.bind (map_of obj ''communicationFeedback'')
           (\<lambda>feedback. json_get feedback key)) json_as_arr of
         None \<Rightarrow> []
       | Some items \<Rightarrow> if items \<noteq> []
           then [''$.communicationFeedback.'' @ key
             @ '': expected an empty array because the transcript has zero candidate turns''] else [])
       [''strengths'', ''improvements''])"

text \<open>Everything \<open>validate_report_judging\<close> pushes onto its errors, for a report that is an object.\<close>

definition report_errors :: "(string \<times> json) list \<Rightarrow> string \<Rightarrow> nat \<Rightarrow> bool \<Rightarrow> string list" where
  "report_errors obj title judged communication_assessed =
     exact_keys obj (REPORT_KEYS @ (if map_of obj ''followUps'' \<noteq> None then [''followUps''] else [])) ''$''
     @ snd (strict_integer (map_of obj ''codingScore'') 0 100 ''$.codingScore'')
     @ (if communication_assessed
        then snd (strict_integer (map_of obj ''communicationScore'') 0 100 ''$.communicationScore'')
        else if map_of obj ''communicationScore'' \<noteq> Some JNull
        then [''$.communicationScore: expected null because the transcript has zero candidate turns''] else [])
     @ snd (strict_enum (map_of obj ''decision'') [''HIRE'', ''NO_HIRE''] ''$.decision'')
     @ snd (strict_text (map_of obj ''summary'') MAX_SUMMARY_TEXT ''$.summary'')
     @ validate_feedback (map_of obj ''codingFeedback'') ''$.codingFeedback'' 2 2
     @ validate_feedback (map_of obj ''communicationFeedback'') ''$.communicationFeedback''
         (if communication_assessed then 2 else 0) (if communication_assessed then 2 else 0)
     @ (if communication_assessed then [] else unassessed_feedback obj)
     @ validate_improvement_plan (map_of obj ''improvementPlan'') (improvements_of (JObj obj))
     @ validate_framework_assessment (map_of obj ''frameworkAssessment'')
     @ concat (map (\<lambda>key. case map_of obj key of None \<Rightarrow> []
          | Some value \<Rightarrow> validate_observable_judgments value (''$.'' @ key)
                        @ validate_published_problem_names value (''$.'' @ key) title)
         [''summary'', ''codingFeedback'', ''communicationFeedback'', ''improvementPlan''])
     @ (case map_of obj ''followUps'' of None \<Rightarrow> []
        | Some entries \<Rightarrow> concat (map (follow_up_errors title) (kept_follow_ups entries judged)))"

definition source_title_or_empty :: "problem \<Rightarrow> problem_variant \<Rightarrow> string" where
  "source_title_or_empty p v = (case source_title p v of Some title \<Rightarrow> title | None \<Rightarrow> [])"

text \<open>The accepted copy, with the fields the server owns.\<close>

definition settle_report :: "json \<Rightarrow> nat \<Rightarrow> json" where
  "settle_report raw judged =
     (let report = apply_weakness_tags (sort_improvement_plan raw)
      in case json_get raw ''followUps'' of
           None \<Rightarrow> report
         | Some entries \<Rightarrow> json_insert ''followUps'' (JArr (map snd (kept_follow_ups entries judged))) report)"

definition validate_report_judging ::
  "(string \<Rightarrow> string) \<Rightarrow> json \<Rightarrow> problem \<Rightarrow> problem_variant \<Rightarrow> nat \<Rightarrow> bool \<Rightarrow> string list + json" where
  "validate_report_judging lower raw p v judged communication_assessed =
     (let raw = snap_plan_weaknesses lower raw
      in case json_as_object raw of
           None \<Rightarrow> Inl [''$: expected object'']
         | Some obj \<Rightarrow>
             let errors = report_errors obj (source_title_or_empty p v) judged communication_assessed
             in if errors \<noteq> [] then Inl errors else Inr (settle_report raw judged))"

definition validate_report_candidate ::
  "(string \<Rightarrow> string) \<Rightarrow> json \<Rightarrow> problem \<Rightarrow> problem_variant \<Rightarrow> string list + json" where
  "validate_report_candidate lower raw p v =
     validate_report_judging lower raw p v (length (pv_follow_ups v)) True"

section \<open>Example drawings\<close>

definition VISUAL_WORDS :: "string list" where
  "VISUAL_WORDS = [''drawing'', ''drawings'', ''diagram'', ''diagrams'', ''sketch'', ''sketches'',
     ''picture'', ''pictures'', ''whiteboard'']"

definition last_opt :: "'a list \<Rightarrow> 'a option" where
  "last_opt xs = (if xs = [] then None else Some (last xs))"

text \<open>Whether the word at \<open>index\<close> refers to a drawing the candidate made.\<close>

definition visual_reference_at :: "string list \<Rightarrow> string list \<Rightarrow> nat \<Rightarrow> bool" where
  "visual_reference_at problem_words words index =
     (let word = words ! index; earlier_words = take index words; later_words = drop (Suc index) words
      in if word \<in> set problem_words then False
         else if word \<in> {''picture'', ''pictures'', ''diagram'', ''diagrams''}
            \<and> last_opt earlier_words \<in> {Some ''input'', Some ''source''} then False
         else if word \<notin> set VISUAL_WORDS then False
         else if word = ''picture'' \<and> last_opt earlier_words = Some ''big''
            \<or> word = ''sketch'' \<and> nth_opt later_words 0 = Some ''out''
            \<or> word = ''drawing'' \<and> nth_opt later_words 0 = Some ''on''
              \<and> nth_opt later_words 1 \<in> Some ` {''prior'', ''previous'', ''past'', ''experience''}
         then False
         else let owned = last_opt earlier_words = Some ''your'' \<or> take 2 later_words = [''you'', ''drew''];
                  produced = list_ex (\<lambda>w. w \<in> {''provided'', ''providing'', ''uploaded'', ''drew''})
                    (take 4 (rev earlier_words));
                  recommendation = (nth_opt words 0 = Some ''draw'')
              in owned \<or> produced \<or> recommendation)"

definition drawing_refused :: "string list \<Rightarrow> string \<Rightarrow> bool" where
  "drawing_refused problem_words speech =
     (let words = spelled_words speech;
          normalized = '' '' @ join '' '' words @ '' ''
      in list_ex (visual_reference_at problem_words words) [0..<length words]
         \<or> list_ex (\<lambda>phrase. str_contains ('' '' @ phrase @ '' '') normalized)
             [''your image'', ''provided an image'', ''uploaded an image''])"

definition problem_words :: "problem \<Rightarrow> problem_variant \<Rightarrow> string list" where
  "problem_words p v = spelled_words (join '' ''
     [pb_title p, pb_summary p, pv_title v, brief_text v, pv_contract v, join '' '' (pv_constraints v)])"

definition DRAWING_ERROR :: string where
  "DRAWING_ERROR = '': example drawings are outside coding and communication assessment; remove the visual reference and any credit or deduction based on it. Use only code, tests or the candidate'' @ [CHR 0x27]
     @ ''s actual conversation under the original rubric, never the interviewer'' @ [CHR 0x27] @ ''s interpretation of a picture''"

definition example_drawing_judgments ::
  "json \<Rightarrow> problem \<Rightarrow> problem_variant \<Rightarrow> interview_mode \<Rightarrow> bool \<Rightarrow> string list" where
  "example_drawing_judgments raw p v mode drawing_received =
     (if is_whiteboard mode \<or> \<not> drawing_received then []
      else concat (map (\<lambda>key. case json_get raw key of None \<Rightarrow> []
           | Some value \<Rightarrow> map (\<lambda>(path, s). path @ DRAWING_ERROR)
               (filter (\<lambda>(path, s). drawing_refused (problem_words p v) s) (visit_strings value (''$.'' @ key))))
         [''summary'', ''codingFeedback'', ''communicationFeedback'', ''improvementPlan'', ''followUps'']))"

section \<open>Rounds\<close>

record report_rounds =
  rr_behavioral_opened :: bool
  rr_follow_ups_released :: bool
  rr_candidate_turns :: nat

definition communication_assessed :: "report_rounds \<Rightarrow> bool" where
  "communication_assessed r \<longleftrightarrow> rr_candidate_turns r > 0"

definition is_star :: "string \<Rightarrow> bool" where
  "is_star phase \<longleftrightarrow> phase \<in> {''Situation'', ''Task'', ''Action'', ''Result''}"

definition item_phase :: "json \<Rightarrow> string option" where
  "item_phase item = Option.bind (json_get item ''phase'') json_as_str"

fun unopened_loop :: "nat \<Rightarrow> json list \<Rightarrow> string list" where
  "unopened_loop index [] = []"
| "unopened_loop index (item # items) =
     (case item_phase item of
        None \<Rightarrow> []
      | Some phase \<Rightarrow> if is_star phase
          then [''$.improvementPlan['' @ decimal index @ ''].phase: the behavioral round never opened, so no improvement may address ''
                @ phase @ ''; replace this item and the feedback improvement it copies with one grounded in the coding round'']
          else [])
     @ unopened_loop (Suc index) items"

definition unopened_round_errors :: "json \<Rightarrow> string list" where
  "unopened_round_errors raw = unopened_loop 0 (plan_of raw)"

definition clear_star_scores :: "json \<Rightarrow> json" where
  "clear_star_scores = json_update ''frameworkAssessment'' (json_update ''phases'' (arr_update (map (\<lambda>row.
     case item_phase row of
       None \<Rightarrow> row
     | Some phase \<Rightarrow> if is_star phase then json_insert ''score'' JNull row else row))))"

definition validate_report_for_round ::
  "(string \<Rightarrow> string) \<Rightarrow> json \<Rightarrow> problem \<Rightarrow> problem_variant \<Rightarrow> report_rounds \<Rightarrow> interview_mode \<Rightarrow> bool \<Rightarrow> string list + json"
where
  "validate_report_for_round lower raw p v rounds mode drawing_received =
     (let judged = (if rr_follow_ups_released rounds then length (pv_follow_ups v) else 0);
          report = (case validate_report_judging lower raw p v judged (communication_assessed rounds) of
             Inl errors \<Rightarrow> Inl errors
           | Inr report \<Rightarrow>
               let errors = example_drawing_judgments report p v mode drawing_received
               in if errors = [] then Inr report else Inl errors)
      in if rr_behavioral_opened rounds then report
         else let unopened = unopened_round_errors raw
              in case report of
                   Inr report \<Rightarrow> if unopened = [] then Inr (clear_star_scores report) else Inl unopened
                 | Inl errors \<Rightarrow> Inl (errors @ unopened))"

section \<open>The report, or what stands in for it\<close>

definition trim_end :: "string \<Rightarrow> string" where
  "trim_end s = concat (rev (dropWhile is_whitespace (rev (utf8_chars s))))"

definition fallback_report :: "nat \<Rightarrow> string \<Rightarrow> json" where
  "fallback_report hints_used note =
     (let note = trim_end_dots (trim_end (concat (take 600 (utf8_chars note))))
      in JObj [(''incomplete'', JBool True),
           (''summary'', JStr (''The automatic evaluation could not be completed: '' @ note
              @ ''. Your session ran end-to-end, but no scores were produced, so nothing here is an assessment of your work. Try the interview again later; if this keeps happening, whoever runs this server can find the cause in the agent logs.'')),
           (''improvementPlan'', JArr []), (''frameworkAssessment'', JNull),
           (''hintsUsed'', JInt (int hints_used))])"

definition final_report ::
  "(string \<Rightarrow> string) \<Rightarrow> json option \<Rightarrow> nat \<Rightarrow> string option \<Rightarrow> problem \<Rightarrow> problem_variant
     \<Rightarrow> report_rounds \<Rightarrow> interview_mode \<Rightarrow> bool \<Rightarrow> json" where
  "final_report lower raw_report hints_used error_note p v rounds mode drawing_received =
     (let missing = fallback_report hints_used
            (case error_note of Some note \<Rightarrow> note | None \<Rightarrow> ''report generation failed'')
      in case (raw_report, error_note) of
           (Some raw, None) \<Rightarrow>
             (case validate_report_for_round lower raw p v rounds mode drawing_received of
                Inr report \<Rightarrow> json_insert ''hintsUsed'' (JInt (int hints_used)) report
              | Inl errors \<Rightarrow> fallback_report hints_used ''report schema validation failed'')
         | _ \<Rightarrow> missing)"

section \<open>Salvaging a report\<close>

definition SELF_REVIEW_REPLACEMENT :: string where
  "SELF_REVIEW_REPLACEMENT = ''Review this step against the interview evidence''"

definition SUCCESS_CRITERION_REPLACEMENT :: string where
  "SUCCESS_CRITERION_REPLACEMENT = ''Complete the drill again without the weakness above appearing''"

record sanitized =
  sz_drawings :: nat
  sz_checks :: nat
  sz_criteria :: nat
  sz_assessments :: nat

definition sanitized_default :: sanitized where
  "sanitized_default = \<lparr>sz_drawings = 0, sz_checks = 0, sz_criteria = 0, sz_assessments = 0\<rparr>"

definition sanitized_is_empty :: "sanitized \<Rightarrow> bool" where
  "sanitized_is_empty z \<longleftrightarrow> z = sanitized_default"

definition refused_text :: "json \<Rightarrow> bool" where
  "refused_text speech = (case json_as_str speech of Some s \<Rightarrow> refused_judgments s True \<noteq> [] | None \<Rightarrow> False)"

definition sanitize_criterion :: "json \<Rightarrow> json \<times> nat" where
  "sanitize_criterion item =
     (case json_get item ''successCriterion'' of
        Some criterion \<Rightarrow> if refused_text criterion
          then (json_update ''successCriterion'' (\<lambda>c. JStr SUCCESS_CRITERION_REPLACEMENT) item, 1) else (item, 0)
      | None \<Rightarrow> (item, 0))"

definition sanitize_checks :: "json \<Rightarrow> json \<times> nat" where
  "sanitize_checks item =
     (case Option.bind (json_get item ''selfReview'') json_as_arr of
        None \<Rightarrow> (item, 0)
      | Some checks \<Rightarrow>
          let kept = filter (\<lambda>check. \<not> refused_text check) checks;
              removed = length checks - length kept;
              kept = (if removed > 0 \<and> kept = [] then [JStr SELF_REVIEW_REPLACEMENT] else kept)
          in (json_update ''selfReview'' (\<lambda>c. JArr kept) item, removed))"

definition sanitize_item :: "json \<Rightarrow> json \<times> nat \<times> nat" where
  "sanitize_item item =
     (let (item, criteria) = sanitize_criterion item;
          (item, checks) = sanitize_checks item
      in (item, criteria, checks))"

definition sanitize_entry :: "json \<Rightarrow> json \<times> nat" where
  "sanitize_entry entry =
     (case json_get entry ''assessment'' of
        Some assessment \<Rightarrow> if refused_text assessment
          then (json_update ''assessment'' (\<lambda>a. JNull) entry, 1) else (entry, 0)
      | None \<Rightarrow> (entry, 0))"

definition follow_ups_of :: "json \<Rightarrow> json list" where
  "follow_ups_of report = flatten_opt (Option.bind (json_get report ''followUps'') json_as_arr)"

definition sanitize_report_candidate :: "json \<Rightarrow> json \<times> sanitized" where
  "sanitize_report_candidate report =
     (let items = map sanitize_item (plan_of report);
          entries = map sanitize_entry (follow_ups_of report)
      in (json_update ''followUps'' (arr_update (\<lambda>_. map fst entries))
            (json_update ''improvementPlan'' (arr_update (\<lambda>_. map fst items)) report),
          \<lparr>sz_drawings = 0, sz_checks = sum_list (map (snd \<circ> snd) items),
           sz_criteria = sum_list (map (fst \<circ> snd) items), sz_assessments = sum_list (map snd entries)\<rparr>))"

text \<open>
  \<open>sanitize_example_drawing_candidate\<close>: a text is cut into its sentences, those that refer to a
  drawing are dropped, and a text left empty is given a fixed one.
\<close>

fun split_inclusive :: "char set \<Rightarrow> string \<Rightarrow> string \<Rightarrow> string list" where
  "split_inclusive marks piece [] = (if piece = [] then [] else [piece])"
| "split_inclusive marks piece (c # cs) =
     (if c \<in> marks then (piece @ [c]) # split_inclusive marks [] cs
      else split_inclusive marks (piece @ [c]) cs)"

definition sentences :: "string \<Rightarrow> string list" where
  "sentences s = split_inclusive {CHR ''.'', CHR ''!'', CHR ''?''} [] s"

definition drawing_text_refused :: "problem \<Rightarrow> problem_variant \<Rightarrow> interview_mode \<Rightarrow> string \<Rightarrow> bool" where
  "drawing_text_refused p v mode s =
     list_ex (\<lambda>sentence. example_drawing_judgments (JObj [(''summary'', JStr sentence)]) p v mode True \<noteq> []) (sentences s)"

definition clean_text :: "(string \<Rightarrow> bool) \<Rightarrow> string \<Rightarrow> string \<Rightarrow> string" where
  "clean_text refused s fallback =
     (let kept = concat (filter (\<lambda>sentence. \<not> refused sentence) (sentences s))
      in if str_trim kept = [] then fallback else str_trim kept)"

text \<open>One text behind \<open>get_mut(key)\<close>, cleaned when it is refused.\<close>

definition clean_at :: "(string \<Rightarrow> bool) \<Rightarrow> string \<Rightarrow> string \<Rightarrow> json \<Rightarrow> json \<times> nat" where
  "clean_at refused key fallback value =
     (case Option.bind (json_get value key) json_as_str of
        None \<Rightarrow> (value, 0)
      | Some s \<Rightarrow> if refused s then (json_update key (\<lambda>x. JStr (clean_text refused s fallback)) value, 1)
                  else (value, 0))"

definition omitted_note :: "string \<Rightarrow> nat \<Rightarrow> string" where
  "omitted_note section_name index =
     ''Additional '' @ (if section_name = ''codingFeedback'' then ''implementation'' else ''conversation'')
     @ '' feedback item '' @ decimal (Suc index) @ '' was omitted from this report.''"

type_synonym replacements = "string \<rightharpoonup> string"

fun clean_feedback ::
  "(string \<Rightarrow> bool) \<Rightarrow> string \<Rightarrow> string \<Rightarrow> nat \<Rightarrow> json list \<Rightarrow> replacements \<Rightarrow> json list \<times> nat \<times> replacements"
where
  "clean_feedback refused section_name kind index [] repl = ([], 0, repl)"
| "clean_feedback refused section_name kind index (value # items) repl =
     (let (value, hit, repl) = (case json_as_str value of
            None \<Rightarrow> (value, 0, repl)
          | Some s \<Rightarrow>
              if refused s
              then let kept = clean_text refused s (omitted_note section_name index)
                   in (JStr kept, 1, if kind = ''improvements'' then repl(s \<mapsto> kept) else repl)
              else (value, 0, repl));
          (items, hits, repl) = clean_feedback refused section_name kind (Suc index) items repl
      in (value # items, hit + hits, repl))"

definition clean_list ::
  "(string \<Rightarrow> bool) \<Rightarrow> string \<times> string \<Rightarrow> json \<times> nat \<times> replacements \<Rightarrow> json \<times> nat \<times> replacements" where
  "clean_list refused = (\<lambda>(section_name, kind) (report, removed, repl).
     (case Option.bind (Option.bind (json_get report section_name) (\<lambda>v. json_get v kind)) json_as_arr of
        None \<Rightarrow> (report, removed, repl)
      | Some items \<Rightarrow>
          let (items, hits, repl) = clean_feedback refused section_name kind 0 items repl
          in (json_update section_name (json_update kind (\<lambda>x. JArr items)) report, removed + hits, repl)))"

definition clean_plan_item :: "(string \<Rightarrow> bool) \<Rightarrow> replacements \<Rightarrow> json \<Rightarrow> json \<times> nat" where
  "clean_plan_item refused repl item =
     (let (item, linked) = (case Option.bind (json_get item ''weakness'') json_as_str of
            None \<Rightarrow> (item, 0)
          | Some s \<Rightarrow> (case repl s of None \<Rightarrow> (item, 0)
                     | Some kept \<Rightarrow> (json_update ''weakness'' (\<lambda>x. JStr kept) item, 1)));
          (item, w) = clean_at refused ''weakness'' ''This feedback item was omitted from the assessment.'' item;
          (item, d) = clean_at refused ''drill''
             ''Review the retained code and explain one evidence-supported improvement.'' item;
          (item, c) = clean_at refused ''successCriterion''
             ''Support the improvement with code, tests or actual conversation.'' item;
          (item, r) = (case Option.bind (json_get item ''selfReview'') json_as_arr of
             None \<Rightarrow> (item, 0)
           | Some checks \<Rightarrow>
               let kept = filter (\<lambda>x. case json_as_str x of None \<Rightarrow> True | Some s \<Rightarrow> \<not> refused s) checks;
                   final = (if checks \<noteq> [] \<and> kept = [] then [JStr ''Uses retained assessment evidence.''] else kept)
               in (json_update ''selfReview'' (\<lambda>x. JArr final) item, length checks - length kept))
      in (item, linked + w + d + c + r))"

definition clean_assessment :: "(string \<Rightarrow> bool) \<Rightarrow> json \<Rightarrow> json \<times> nat" where
  "clean_assessment refused entry =
     (case Option.bind (json_get entry ''assessment'') json_as_str of
        None \<Rightarrow> (entry, 0)
      | Some s \<Rightarrow>
          if refused s
          then let kept = clean_text refused s []
               in (json_update ''assessment'' (\<lambda>x. if kept = [] then JNull else JStr kept) entry, 1)
          else (entry, 0))"

definition sanitize_example_drawing_candidate ::
  "json \<Rightarrow> problem \<Rightarrow> problem_variant \<Rightarrow> interview_mode \<Rightarrow> bool \<Rightarrow> json \<times> nat" where
  "sanitize_example_drawing_candidate report p v mode drawing_received =
     (if is_whiteboard mode \<or> \<not> drawing_received then (report, 0)
      else let refused = drawing_text_refused p v mode;
               (report, summary) = clean_at refused ''summary''
                  ''Assessment uses the retained code, tests and conversation evidence.'' report;
               (report, feedback, repl) = fold (clean_list refused)
                  [(''codingFeedback'', ''strengths''), (''codingFeedback'', ''improvements''),
                   (''communicationFeedback'', ''strengths''), (''communicationFeedback'', ''improvements'')]
                  (report, 0, Map.empty);
               items = map (clean_plan_item refused repl) (plan_of report);
               report = json_update ''improvementPlan'' (arr_update (\<lambda>_. map fst items)) report;
               entries = map (clean_assessment refused) (follow_ups_of report);
               report = json_update ''followUps'' (arr_update (\<lambda>_. map fst entries)) report
           in (report, summary + feedback + sum_list (map snd items) + sum_list (map snd entries)))"

text \<open>\<open>salvage_report\<close> of \<open>src/src/gemini/report_calls.rs\<close>: what is kept of an answer no repair mended.\<close>

record salvage =
  sv_report :: json
  sv_removed :: sanitized
  sv_attempt :: nat

definition salvage_report ::
  "(string \<Rightarrow> string) \<Rightarrow> json \<Rightarrow> nat \<Rightarrow> problem \<Rightarrow> problem_variant \<Rightarrow> report_rounds \<Rightarrow> interview_mode \<Rightarrow> bool \<Rightarrow> salvage option"
where
  "salvage_report lower raw attempt p v rounds mode drawing_received =
     (let (raw, drawings) = sanitize_example_drawing_candidate raw p v mode drawing_received;
          (clean, removed) = sanitize_report_candidate raw;
          removed = removed\<lparr>sz_drawings := drawings\<rparr>
      in if sanitized_is_empty removed then None
         else case validate_report_for_round lower clean p v rounds mode drawing_received of
                Inl errors \<Rightarrow> None
              | Inr report \<Rightarrow> Some \<lparr>sv_report = report, sv_removed = removed, sv_attempt = attempt\<rparr>)"

section \<open>The schema a report is asked for in\<close>

definition text_schema :: json where
  "text_schema = JObj [(''type'', JStr ''STRING'')]"

definition strings_schema :: "int \<Rightarrow> int \<Rightarrow> json" where
  "strings_schema least most = JObj [(''type'', JStr ''ARRAY''), (''minItems'', JInt least), (''maxItems'', JInt most),
     (''items'', JObj [(''type'', JStr ''STRING'')])]"

definition enum_schema :: "string list \<Rightarrow> json" where
  "enum_schema names = JObj [(''type'', JStr ''STRING''), (''enum'', JArr (map JStr names))]"

definition integer_schema :: "int \<Rightarrow> int \<Rightarrow> (string \<times> json) list \<Rightarrow> json" where
  "integer_schema least most further =
     JObj ([(''type'', JStr ''INTEGER''), (''minimum'', JInt least), (''maximum'', JInt most)] @ further)"

definition object_schema :: "(string \<times> json) list \<Rightarrow> json" where
  "object_schema props =
     (let keys = JArr (map (\<lambda>f. JStr (fst f)) props)
      in JObj [(''type'', JStr ''OBJECT''), (''propertyOrdering'', keys), (''properties'', JObj props), (''required'', keys)])"

definition feedback_schema :: "int \<Rightarrow> int \<Rightarrow> json" where
  "feedback_schema least most =
     object_schema [(''strengths'', strings_schema least most), (''improvements'', strings_schema least most)]"

definition plan_schema :: json where
  "plan_schema = object_schema [(''phase'', enum_schema IMPROVEMENT_PHASES), (''weakness'', text_schema),
     (''impact'', enum_schema [''high'', ''medium'', ''low'']), (''frequency'', integer_schema 1 99 []),
     (''drill'', text_schema), (''durationMin'', integer_schema 1 30 []), (''successCriterion'', text_schema),
     (''selfReview'', strings_schema 1 4)]"

definition row_schema :: json where
  "row_schema = object_schema [(''phase'', enum_schema IMPROVEMENT_PHASES),
     (''score'', integer_schema 0 100 [(''nullable'', JBool True)])]"

definition follow_up_schema :: json where
  "follow_up_schema = object_schema [(''index'', integer_schema 1 (int MAX_FOLLOW_UPS) []),
     (''raised'', JObj [(''type'', JStr ''BOOLEAN'')]),
     (''assessment'', JObj [(''type'', JStr ''STRING''), (''nullable'', JBool True)])]"

definition array_schema :: "int \<Rightarrow> int \<Rightarrow> json \<Rightarrow> json" where
  "array_schema least most items = JObj [(''type'', JStr ''ARRAY''), (''minItems'', JInt least),
     (''maxItems'', JInt most), (''items'', items)]"

definition report_response_schema :: "bool \<Rightarrow> json" where
  "report_response_schema assessed = object_schema
     [(''codingScore'', integer_schema 0 100 []),
      (''communicationScore'', if assessed then integer_schema 0 100 [] else integer_schema 0 100 [(''nullable'', JBool True)]),
      (''decision'', enum_schema [''HIRE'', ''NO_HIRE'']), (''summary'', text_schema),
      (''codingFeedback'', feedback_schema 2 4),
      (''communicationFeedback'', feedback_schema (if assessed then 2 else 0) (if assessed then 4 else 0)),
      (''improvementPlan'', array_schema 0 8 plan_schema),
      (''frameworkAssessment'', object_schema [(''rubricVersion'', integer_schema RUBRIC_VERSION RUBRIC_VERSION []),
         (''phases'', array_schema 10 10 row_schema)]),
      (''followUps'', array_schema 0 (int MAX_FOLLOW_UPS) follow_up_schema)]"

end
