(* ===== verification/Report_Checks.thy ===== *)
theory Report_Checks
  imports Report
begin

text \<open>
  What each validator of \<open>Report\<close> accepts, as a condition on the value instead of a list of errors.
  The conditions do not depend on the paths, and are collected in \<open>accepts\<close>.
\<close>

named_theorems accepts "a validator pushes no error exactly when its condition holds"

section \<open>Scalars and lists\<close>

definition has_keys :: "(string \<times> json) list \<Rightarrow> string list \<Rightarrow> bool" where
  "has_keys obj expected \<longleftrightarrow> fst ` set obj = set expected"

definition integer_in :: "json option \<Rightarrow> int \<Rightarrow> int \<Rightarrow> bool" where
  "integer_in value lo hi \<longleftrightarrow> (\<exists>n. value = Some (JInt n) \<and> json_as_i64 (JInt n) = Some n \<and> lo \<le> n \<and> n \<le> hi)"

definition named_in :: "json option \<Rightarrow> string list \<Rightarrow> bool" where
  "named_in value allowed \<longleftrightarrow> (\<exists>s \<in> set allowed. value = Some (JStr s))"

definition text_of :: "json option \<Rightarrow> nat \<Rightarrow> string option" where
  "text_of value most = fst (strict_text value most [])"

definition texts_in :: "json option \<Rightarrow> nat \<Rightarrow> nat \<Rightarrow> nat \<Rightarrow> bool" where
  "texts_in value least most text_max \<longleftrightarrow>
     (\<exists>items. value = Some (JArr items) \<and> least \<le> length items \<and> length items \<le> most
        \<and> (\<forall>item \<in> set items. text_of (Some item) text_max \<noteq> None)
        \<and> distinct (map (\<lambda>item. text_of (Some item) text_max) items))"

lemma bind_json_simps [simp]:
  "Option.bind value json_as_str = Some s \<longleftrightarrow> value = Some (JStr s)"
  "Option.bind value json_as_arr = Some items \<longleftrightarrow> value = Some (JArr items)"
  "Option.bind value json_as_object = Some obj \<longleftrightarrow> value = Some (JObj obj)"
  by (cases "value"; cases "the value"; simp)+

lemma map_of_missing: "map_of obj key = None \<longleftrightarrow> key \<notin> fst ` set obj"
  by (simp add: map_of_eq_None_iff)

lemma exact_keys_accepts [accepts]: "exact_keys obj expected path = [] \<longleftrightarrow> has_keys obj expected"
  by (auto simp: exact_keys_def has_keys_def filter_empty_conv map_of_missing)

lemma strict_integer_accepts [accepts]: "snd (strict_integer value lo hi path) = [] \<longleftrightarrow> integer_in value lo hi"
proof (cases "Option.bind value json_as_i64")
  case None
  then show ?thesis by (auto simp: strict_integer_def integer_in_def)
next
  case (Some n)
  then have "value = Some (JInt n)" by (cases "value"; cases "the value") (auto split: if_splits)
  with Some show ?thesis by (auto simp: strict_integer_def integer_in_def)
qed

lemma strict_enum_accepts [accepts]: "snd (strict_enum value allowed path) = [] \<longleftrightarrow> named_in value allowed"
  by (auto simp: strict_enum_def named_in_def split: option.splits)

lemma strict_text_fst: "fst (strict_text value most path) = text_of value most"
  by (simp add: text_of_def strict_text_def Let_def split: option.splits)

lemma strict_text_accepts [accepts]: "snd (strict_text value most path) = [] \<longleftrightarrow> text_of value most \<noteq> None"
  by (simp add: text_of_def strict_text_def Let_def split: option.splits)

lemma strict_text_cases:
  obtains (refused) e where "strict_text value most path = (None, [e])" "text_of value most = None"
  | (accepted) t where "strict_text value most path = (Some t, [])" "text_of value most = Some t"
  by (cases "text_of value most") (auto simp: text_of_def strict_text_def Let_def split: option.splits if_splits)

lemma text_of_Some: "text_of value most = Some t \<longleftrightarrow>
    (\<exists>s. value = Some (JStr s) \<and> str_trim s \<noteq> [] \<and> char_count s \<le> most \<and> t = str_trim s)"
  by (auto simp: text_of_def strict_text_def Let_def split: option.splits if_splits)

lemma distinct_texts_accepts [accepts]:
  "distinct_texts items text_max path index seen = [] \<longleftrightarrow>
     (\<forall>item \<in> set items. text_of (Some item) text_max \<noteq> None)
   \<and> distinct (map (\<lambda>item. text_of (Some item) text_max) items)
   \<and> Some ` seen \<inter> (\<lambda>item. text_of (Some item) text_max) ` set items = {}"
proof (induction items arbitrary: index seen)
  case (Cons item items)
  let ?at = "path @ ''['' @ decimal index @ '']''"
  show ?case
  proof (cases rule: strict_text_cases [of "Some item" text_max ?at])
    case (refused e)
    then show ?thesis by simp
  next
    case (accepted t)
    then show ?thesis by (simp add: Cons.IH) (auto simp: image_iff)
  qed
qed simp

lemma validate_string_array_accepts [accepts]:
  "validate_string_array value least most text_max path = [] \<longleftrightarrow> texts_in value least most text_max"
  by (auto simp: validate_string_array_def texts_in_def accepts split: option.splits)

definition feedback_ok :: "json option \<Rightarrow> nat \<Rightarrow> nat \<Rightarrow> bool" where
  "feedback_ok value strengths_min improvements_min \<longleftrightarrow>
     (\<exists>obj. value = Some (JObj obj) \<and> has_keys obj [''strengths'', ''improvements'']
        \<and> texts_in (map_of obj ''strengths'') strengths_min 4 400
        \<and> texts_in (map_of obj ''improvements'') improvements_min 4 400)"

lemma validate_feedback_accepts [accepts]:
  "validate_feedback value path strengths_min improvements_min = [] \<longleftrightarrow> feedback_ok value strengths_min improvements_min"
  by (auto simp: validate_feedback_def feedback_ok_def accepts split: option.splits)

section \<open>The plan\<close>

definition plan_item_ok :: "json \<Rightarrow> bool" where
  "plan_item_ok item \<longleftrightarrow>
     (\<exists>obj. item = JObj obj \<and> has_keys obj PLAN_KEYS
        \<and> named_in (map_of obj ''phase'') IMPROVEMENT_PHASES
        \<and> text_of (map_of obj ''weakness'') 400 \<noteq> None
        \<and> named_in (map_of obj ''impact'') [''high'', ''medium'', ''low'']
        \<and> integer_in (map_of obj ''frequency'') 1 99
        \<and> text_of (map_of obj ''drill'') 400 \<noteq> None
        \<and> integer_in (map_of obj ''durationMin'') 1 30
        \<and> text_of (map_of obj ''successCriterion'') 400 \<noteq> None
        \<and> texts_in (map_of obj ''selfReview'') 1 4 240)"

lemma plan_weakness_text: "plan_weakness (JObj obj) = text_of (map_of obj ''weakness'') 400"
  by (simp add: plan_weakness_def text_of_def)

lemma plan_item_accepts [accepts]:
  "plan_item_errors obj weaknesses seen path = [] \<longleftrightarrow>
     plan_item_ok (JObj obj) \<and> the (plan_weakness (JObj obj)) \<in> set weaknesses - seen"
  by (cases rule: strict_text_cases [of "map_of obj ''weakness''" 400 "path @ ''.weakness''"])
    (auto simp: plan_item_errors_def plan_item_ok_def plan_weakness_text accepts)

lemma plan_errors_accepts [accepts]:
  "plan_errors item weaknesses seen path = [] \<longleftrightarrow>
     plan_item_ok item \<and> the (plan_weakness item) \<in> set weaknesses - seen"
proof (cases "json_as_object item")
  case None
  then show ?thesis by (cases item) (auto simp: plan_errors_def plan_item_ok_def)
next
  case (Some obj)
  then have "item = JObj obj" by (cases item) auto
  then show ?thesis by (simp add: plan_errors_def accepts)
qed

lemma plan_item_okD:
  assumes "plan_item_ok item"
  shows "\<exists>w. plan_weakness item = Some w" and "\<exists>phase \<in> set IMPROVEMENT_PHASES. item_phase item = Some phase"
  using assms by (auto simp: plan_item_ok_def plan_weakness_text named_in_def item_phase_def)

definition weakness_list :: "json list \<Rightarrow> string list" where
  "weakness_list items = map (the \<circ> plan_weakness) items"

lemma plan_items_step:
  "fst (plan_items (item # items) weaknesses index seen) = [] \<longleftrightarrow>
     plan_item_ok item \<and> the (plan_weakness item) \<in> set weaknesses - seen
     \<and> fst (plan_items items weaknesses (Suc index) (insert (the (plan_weakness item)) seen)) = []"
  "plan_item_ok item \<Longrightarrow> snd (plan_items (item # items) weaknesses index seen)
     = snd (plan_items items weaknesses (Suc index) (insert (the (plan_weakness item)) seen))"
  using plan_item_okD(1) [of item] by (auto simp: Let_def accepts)

lemma plan_items_accepts:
  shows "fst (plan_items items weaknesses index seen) = [] \<longleftrightarrow>
     (\<forall>item \<in> set items. plan_item_ok item) \<and> distinct (weakness_list items)
     \<and> set (weakness_list items) \<subseteq> set weaknesses - seen"
  and "fst (plan_items items weaknesses index seen) = [] \<Longrightarrow>
     snd (plan_items items weaknesses index seen) = seen \<union> set (weakness_list items)"
proof (induction items arbitrary: index seen)
  case (Cons item items)
  let ?w = "the (plan_weakness item)"
  {
    case 1
    show ?case
      unfolding plan_items_step(1) Cons.IH(1) by (simp add: weakness_list_def) blast
  next
    case 2
    then have "plan_item_ok item" and "fst (plan_items items weaknesses (Suc index) (insert ?w seen)) = []"
      unfolding plan_items_step(1) by blast+
    then show ?case using Cons.IH(2) plan_items_step(2) by (auto simp: weakness_list_def)
  }
qed (simp_all add: weakness_list_def)

definition plan_ok :: "json option \<Rightarrow> string list \<Rightarrow> bool" where
  "plan_ok value weaknesses \<longleftrightarrow>
     (\<exists>items. value = Some (JArr items) \<and> length items \<le> 8 \<and> (\<forall>item \<in> set items. plan_item_ok item)
        \<and> distinct (weakness_list items) \<and> set (weakness_list items) = set weaknesses)"

lemma validate_improvement_plan_accepts [accepts]:
  "validate_improvement_plan value weaknesses = [] \<longleftrightarrow> plan_ok value weaknesses"
proof (cases "Option.bind value json_as_arr")
  case None
  then show ?thesis by (auto simp: validate_improvement_plan_def plan_ok_def)
next
  case (Some items)
  then have v: "value = Some (JArr items)" by simp
  show ?thesis
  proof (cases "length items \<le> 8")
    case True
    then have all: "take 9 items = items" by simp
    show ?thesis
      using plan_items_accepts(1) [of items weaknesses 0 "{}"] plan_items_accepts(2) [of items weaknesses 0 "{}"] True
      by (cases "fst (plan_items items weaknesses 0 {}) = []")
        (auto simp: validate_improvement_plan_def plan_ok_def v all case_prod_beta simp del: plan_items.simps)
  next
    case False
    then show ?thesis by (simp add: validate_improvement_plan_def plan_ok_def v case_prod_beta)
  qed
qed

section \<open>The phase rows\<close>

definition untagged :: "(string \<times> json) list \<Rightarrow> (string \<times> json) list" where
  "untagged obj = filter (\<lambda>f. fst f \<noteq> ''weaknessTags'') obj"

definition row_ok :: "json \<Rightarrow> string \<Rightarrow> bool" where
  "row_ok row phase \<longleftrightarrow>
     (\<exists>obj. row = JObj obj \<and> has_keys (untagged obj) [''phase'', ''score'']
        \<and> map_of obj ''phase'' = Some (JStr phase)
        \<and> (map_of obj ''score'' = Some JNull \<or> integer_in (map_of obj ''score'') 0 100))"

lemma map_of_untagged: "k \<noteq> ''weaknessTags'' \<Longrightarrow> map_of (untagged obj) k = map_of obj k"
  unfolding untagged_def by (induction obj) auto

lemma validate_phase_row_accepts [accepts]:
  "validate_phase_row row phase path = [] \<longleftrightarrow> (\<exists>r. row = Some r \<and> row_ok r phase)"
  using map_of_untagged [of "''phase''"] map_of_untagged [of "''score''"]
  by (auto simp: validate_phase_row_def row_ok_def Let_def accepts untagged_def [symmetric] split: option.splits)

definition framework_ok :: "json option \<Rightarrow> bool" where
  "framework_ok value \<longleftrightarrow>
     (\<exists>obj rows. value = Some (JObj obj) \<and> has_keys obj [''rubricVersion'', ''phases'']
        \<and> integer_in (map_of obj ''rubricVersion'') RUBRIC_VERSION RUBRIC_VERSION
        \<and> map_of obj ''phases'' = Some (JArr rows) \<and> list_all2 row_ok rows IMPROVEMENT_PHASES)"

lemma phase_rows_accepts:
  "length rows = length phases \<Longrightarrow>
     (\<forall>i < length phases. validate_phase_row (nth_opt rows i) (phases ! i) (path i) = []) \<longleftrightarrow> list_all2 row_ok rows phases"
  by (auto simp: accepts nth_opt_def list_all2_conv_all_nth)

lemma validate_framework_assessment_accepts [accepts]:
  "validate_framework_assessment value = [] \<longleftrightarrow> framework_ok value"
proof (cases "Option.bind value json_as_object")
  case None
  then show ?thesis by (auto simp: validate_framework_assessment_def framework_ok_def)
next
  case (Some obj)
  then have v: "value = Some (JObj obj)" by simp
  show ?thesis
  proof (cases "Option.bind (map_of obj ''phases'') json_as_arr")
    case None
    then have "map_of obj ''phases'' \<noteq> Some (JArr rows)" for rows by (metis bind_json_simps(2) option.distinct(1))
    with None show ?thesis by (simp add: validate_framework_assessment_def framework_ok_def v)
  next
    case (Some rows)
    then have rows: "map_of obj ''phases'' = Some (JArr rows)" by simp
    have "framework_ok value \<longleftrightarrow> has_keys obj [''rubricVersion'', ''phases'']
        \<and> integer_in (map_of obj ''rubricVersion'') RUBRIC_VERSION RUBRIC_VERSION
        \<and> length rows = length IMPROVEMENT_PHASES \<and> list_all2 row_ok rows IMPROVEMENT_PHASES"
      by (auto simp: framework_ok_def v rows dest: list_all2_lengthD)
    moreover have "validate_framework_assessment value = [] \<longleftrightarrow> has_keys obj [''rubricVersion'', ''phases'']
        \<and> integer_in (map_of obj ''rubricVersion'') RUBRIC_VERSION RUBRIC_VERSION
        \<and> length rows = length IMPROVEMENT_PHASES
        \<and> (\<forall>i < length IMPROVEMENT_PHASES. validate_phase_row (nth_opt rows i) (IMPROVEMENT_PHASES ! i)
              (''$.frameworkAssessment.phases['' @ decimal i @ '']'') = [])"
      unfolding validate_framework_assessment_def v
      using Some by (simp add: accepts(1,2) rows list_all_iff) (auto simp: accepts rows)
    ultimately show ?thesis
      using phase_rows_accepts [of rows IMPROVEMENT_PHASES "\<lambda>i. ''$.frameworkAssessment.phases['' @ decimal i @ '']''"]
      by metis
  qed
qed

section \<open>What the strings say\<close>

fun strings_of :: "json \<Rightarrow> string set" where
  "strings_of (JStr s) = {s}"
| "strings_of (JArr items) = (\<Union>item \<in> set items. strings_of item)"
| "strings_of (JObj obj) = (\<Union>f \<in> set obj. strings_of (snd f))"
| "strings_of _ = {}"

lemma visit_strings_all:
  "snd ` set (visit_strings value path) = strings_of value"
  "snd ` set (visit_items items i path) = (\<Union>item \<in> set items. strings_of item)"
proof (induction "value" path and items i path rule: visit_strings_visit_items.induct)
  case (3 obj path)
  have "snd ` set (visit_strings (JObj obj) path)
      = (\<Union>f \<in> set obj. snd ` set (visit_strings (snd f) (path @ ''.'' @ fst f)))"
    by (auto simp: image_iff)
  also have "\<dots> = (\<Union>f \<in> set obj. strings_of (snd f))" using 3 by simp
  finally show ?case by simp
qed (simp_all add: image_Un)

lemma visit_strings_paths:
  "q \<in> fst ` set (visit_strings value path) \<Longrightarrow> \<exists>r. q = path @ r"
  "q \<in> fst ` set (visit_items items i path) \<Longrightarrow> \<exists>r. q = path @ r"
proof (induction "value" path and items i path rule: visit_strings_visit_items.induct)
  case (3 obj path)
  then obtain f where "f \<in> set obj" "q \<in> fst ` set (visit_strings (snd f) (path @ ''.'' @ fst f))"
    by (auto simp: image_iff)
  with 3(1) [of f] obtain r where "q = (path @ ''.'' @ fst f) @ r" by auto
  then show ?case by simp
qed (auto simp: image_Un)

definition unnamed :: "string \<Rightarrow> json \<Rightarrow> bool" where
  "unnamed title value \<longleftrightarrow> (\<forall>s \<in> strings_of value. \<not> names_published_problem title s)"

lemma published_names_accept [accepts]:
  "validate_published_problem_names value path title = [] \<longleftrightarrow> unnamed title value"
proof -
  have "validate_published_problem_names value path title = [] \<longleftrightarrow>
      (\<forall>s \<in> snd ` set (visit_strings value path). \<not> names_published_problem title s)"
    by (auto simp: validate_published_problem_names_def filter_empty_conv)
  then show ?thesis by (simp add: visit_strings_all unnamed_def)
qed

text \<open>In a field that is nothing but improvements, the path does not matter.\<close>

definition advice_ok :: "json \<Rightarrow> bool" where
  "advice_ok value \<longleftrightarrow> (\<forall>s \<in> strings_of value. refused_judgments s True = [])"

lemma judgments_concat:
  "validate_observable_judgments value path = [] \<longleftrightarrow>
     (\<forall>(q, s) \<in> set (visit_strings value path). refused_judgments s (improvement_path q) = [])"
  by (auto simp: validate_observable_judgments_def case_prod_beta)

lemma improvement_path_extends: "improvement_path path \<Longrightarrow> improvement_path (path @ r)"
  by (fastforce simp: improvement_path_def list_ex_iff starts_with_iff)

lemma advice_accepts:
  assumes "improvement_path path"
  shows "validate_observable_judgments value path = [] \<longleftrightarrow> advice_ok value"
proof -
  have "improvement_path q" if "(q, s) \<in> set (visit_strings value path)" for q s
    using visit_strings_paths(1) [of q "value" path] that improvement_path_extends [OF assms] by (force simp: image_iff)
  then have "validate_observable_judgments value path = [] \<longleftrightarrow>
      (\<forall>s \<in> snd ` set (visit_strings value path). refused_judgments s True = [])"
    unfolding judgments_concat by fastforce
  then show ?thesis by (simp add: visit_strings_all advice_ok_def)
qed

end
