(* ===== verification/Report_Correct.thy ===== *)
theory Report_Correct
  imports Report_Checks "HOL-Library.Multiset"
begin

text \<open>
  What an accepted report is: everything the validators ask for holds of the copy the server keeps,
  the fields the server owns follow from the rest, and validating that copy again changes nothing.
\<close>

section \<open>Trimming\<close>

definition chunked :: "string list \<Rightarrow> bool" where
  "chunked cs \<longleftrightarrow> (\<forall>c \<in> set cs. c \<noteq> [] \<and> list_all is_cont (tl c)) \<and> (\<forall>c \<in> set (tl cs). \<not> is_cont (hd c))"

lemma chunked_utf8: "chunked (utf8_chars s)"
proof (induction s rule: utf8_chars.induct)
  case (2 c cs)
  have "\<not> is_cont (hd d)" if "d \<in> set (utf8_chars (dropWhile is_cont cs))" for d
  proof (cases "dropWhile is_cont cs")
    case Nil
    with that show ?thesis by simp
  next
    case (Cons e es)
    then have "\<not> is_cont e" using hd_dropWhile [of is_cont cs] by simp
    with that 2 Cons show ?thesis by (auto simp: chunked_def)
  qed
  with 2 show ?case by (auto simp: chunked_def list_all_iff dest: set_takeWhileD)
qed (simp add: chunked_def)

lemma utf8_concat: "chunked cs \<Longrightarrow> utf8_chars (concat cs) = cs"
proof (induction cs)
  case (Cons c cs)
  then obtain b bs where c: "c = b # bs" and bs: "list_all is_cont bs" by (cases c) (auto simp: chunked_def)
  have "chunked cs" using Cons.prems by (cases cs) (auto simp: chunked_def)
  moreover have "concat cs = [] \<or> \<not> is_cont (hd (concat cs))"
    using Cons.prems by (cases cs; cases "hd cs") (auto simp: chunked_def)
  then have "takeWhile is_cont (bs @ concat cs) = bs \<and> dropWhile is_cont (bs @ concat cs) = concat cs"
    using bs by (cases "concat cs") (auto simp: list_all_iff takeWhile_append2 dropWhile_append2 simp del: concat_eq_Nil_conv)
  ultimately show ?case using Cons.IH by (simp add: c)
qed simp

lemma set_tl_drop: "set (tl (drop n cs)) \<subseteq> set (tl cs)"
  by (metis drop_Suc set_drop_subset tl_drop)

lemma chunked_drop: "chunked cs \<Longrightarrow> chunked (drop n cs)"
  using set_tl_drop [of n cs] by (auto simp: chunked_def dest: in_set_dropD)

lemma chunked_take: "chunked cs \<Longrightarrow> chunked (take n cs)"
  by (cases n; cases cs) (auto simp: chunked_def dest: in_set_takeD)

lemma dropWhile_drop: "\<exists>n. dropWhile P xs = drop n xs"
  by (metis dropWhile_eq_drop)

lemma trim_chars:
  "\<exists>m n. utf8_chars (str_trim s) = take m (drop n (utf8_chars s))
     \<and> utf8_chars (str_trim s) = rev (dropWhile is_whitespace (rev (dropWhile is_whitespace (utf8_chars s))))"
proof -
  let ?d = "dropWhile is_whitespace (utf8_chars s)"
  let ?t = "rev (dropWhile is_whitespace (rev ?d))"
  obtain n where n: "?d = drop n (utf8_chars s)" using dropWhile_drop by blast
  obtain k where "dropWhile is_whitespace (rev ?d) = drop k (rev ?d)" using dropWhile_drop by blast
  then have t: "?t = take (length ?d - k) (drop n (utf8_chars s))" by (simp add: drop_rev n)
  then have "chunked ?t" using chunked_utf8 chunked_drop chunked_take by metis
  then have "utf8_chars (str_trim s) = ?t" unfolding str_trim_def by (rule utf8_concat)
  with t show ?thesis by metis
qed

lemma trim_trim [simp]: "str_trim (str_trim s) = str_trim s"
proof -
  let ?d = "dropWhile is_whitespace (utf8_chars s)"
  let ?t = "rev (dropWhile is_whitespace (rev ?d))"
  have "dropWhile is_whitespace ?t = ?t"
  proof (cases ?t)
    case (Cons a as)
    have "?t = take (length ?t) ?d" using dropWhile_drop [of is_whitespace "rev ?d"] by (auto simp: drop_rev)
    then have "a = hd ?d" using Cons by (metis hd_take length_greater_0_conv list.distinct(1) list.sel(1))
    moreover have "?d \<noteq> []" using Cons by (metis dropWhile.simps(1) list.distinct(1) rev.simps(1))
    ultimately have "\<not> is_whitespace a" using hd_dropWhile by metis
    then show ?thesis unfolding Cons by simp
  next
    case Nil
    show ?thesis unfolding Nil by simp
  qed
  moreover have "dropWhile is_whitespace (rev ?t) = rev ?t" by (simp add: dropWhile_idem)
  ultimately show ?thesis using trim_chars [of s] unfolding str_trim_def [of "str_trim s"] by (metis str_trim_def rev_rev_ident)
qed

section \<open>Updating fields\<close>

lemma fields_update_get: "map_of (fields_update k f obj) j = (if j = k then map_option f (map_of obj j) else map_of obj j)"
  by (induction k f obj rule: fields_update.induct) auto

lemma fields_update_keys [simp]: "map fst (fields_update k f obj) = map fst obj" "fst ` set (fields_update k f obj) = fst ` set obj"
  by (induction k f obj rule: fields_update.induct) auto

lemma fields_update_same: "(\<And>x. map_of obj k = Some x \<Longrightarrow> f x = x) \<Longrightarrow> fields_update k f obj = obj"
  by (induction k f obj rule: fields_update.induct) (auto split: if_splits)

lemma fields_update_twice: "fields_update k f (fields_update k g obj) = fields_update k (f \<circ> g) obj"
  by (induction k g obj rule: fields_update.induct) auto

lemma fields_update_commute: "j \<noteq> k \<Longrightarrow> fields_update j f (fields_update k g obj) = fields_update k g (fields_update j f obj)"
  by (induction k g obj rule: fields_update.induct) auto

lemma fields_update_cong: "(\<And>x. map_of obj k = Some x \<Longrightarrow> f x = g x) \<Longrightarrow> fields_update k f obj = fields_update k g obj"
  by (induction k f obj rule: fields_update.induct) (auto split: if_splits)

definition overwrite :: "string \<Rightarrow> json \<Rightarrow> (string \<times> json) list \<Rightarrow> (string \<times> json) list" where
  "overwrite k v obj = map (\<lambda>f. if fst f = k then (k, v) else f) obj"

lemma overwrite_facts:
  "fst ` set (overwrite k v obj) = fst ` set obj"
  "k \<notin> fst ` set obj \<Longrightarrow> overwrite k v obj = obj"
  "overwrite k w (overwrite k v obj) = overwrite k w obj"
  "overwrite k v (obj @ obj') = overwrite k v obj @ overwrite k v obj'"
  "j \<noteq> k \<Longrightarrow> fields_update k f (overwrite j v obj) = overwrite j v (fields_update k f obj)"
  "j \<noteq> k \<Longrightarrow> overwrite k w (overwrite j v obj) = overwrite j v (overwrite k w obj)"
  by (induction obj) (auto simp: overwrite_def)

lemma fields_update_missing: "k \<notin> fst ` set obj \<Longrightarrow> fields_update k f obj = obj"
  by (induction obj) auto

lemma fields_update_append:
  "k \<notin> fst ` set obj' \<Longrightarrow> fields_update k f (obj @ obj') = fields_update k f obj @ obj'"
  by (induction obj) (auto simp: fields_update_missing)

lemma json_extend_one:
  "json_extend obj [(k, v)] = (if k \<in> fst ` set obj then overwrite k v obj else obj @ [(k, v)])"
  by (simp add: overwrite_def)

lemma overwrite_single: "overwrite k v [(j, x)] = [(j, if j = k then v else x)]"
  by (simp add: overwrite_def)

lemma extend_one:
  "map_of (json_extend obj [(k, v)]) j = (if j = k then Some v else map_of obj j)"
  "fst ` set (json_extend obj [(k, v)]) = insert k (fst ` set obj)"
  "json_extend (json_extend obj [(k, v)]) [(k, w)] = json_extend obj [(k, w)]"
proof -
  show "map_of (json_extend obj [(k, v)]) j = (if j = k then Some v else map_of obj j)"
    using json_extend_get [of "[(k, v)]" obj j] by (simp del: json_extend.simps split: if_splits)
  show "fst ` set (json_extend obj [(k, v)]) = insert k (fst ` set obj)"
    unfolding json_extend_one using overwrite_facts(1) [of k v obj] by auto
  show "json_extend (json_extend obj [(k, v)]) [(k, w)] = json_extend obj [(k, w)]"
    unfolding json_extend_one using overwrite_facts(1-4) [of k] by (auto simp: overwrite_single)
qed

lemma extend_update_commute:
  "j \<noteq> k \<Longrightarrow> fields_update k f (json_extend obj [(j, v)]) = json_extend (fields_update k f obj) [(j, v)]"
  unfolding json_extend_one by (simp add: overwrite_facts(5) fields_update_append)

lemma extend_commute:
  "j \<noteq> k \<Longrightarrow> k \<in> fst ` set obj \<Longrightarrow>
     json_extend (json_extend obj [(j, v)]) [(k, w)] = json_extend (json_extend obj [(k, w)]) [(j, v)]"
  unfolding json_extend_one
  using overwrite_facts(1) [of j v obj] overwrite_facts(1) [of k w obj] overwrite_facts(6) [of j k w v obj]
  by (auto simp: overwrite_facts(4) overwrite_single)

section \<open>The condition on a report\<close>

definition entry_ok :: "string \<Rightarrow> json \<Rightarrow> bool" where
  "entry_ok title entry \<longleftrightarrow>
     (\<forall>s. json_index entry ''assessment'' = JStr s \<longrightarrow> char_count s \<le> MAX_FOLLOW_UP_TEXT)
   \<and> advice_ok entry \<and> unnamed title entry"

lemma improvement_fields: "improvement_path ''$.improvementPlan''" "improvement_path (''$.followUps['' @ r)"
proof -
  have "improvement_path ''$.improvementPlan''" "improvement_path ''$.followUps''" by code_simp+
  then show "improvement_path ''$.improvementPlan''" "improvement_path (''$.followUps['' @ r)"
    using improvement_path_extends [of "''$.followUps''" "''['' @ r"] by simp_all
qed

lemma follow_up_errors_accepts [accepts]: "follow_up_errors title kept = [] \<longleftrightarrow> entry_ok title (snd kept)"
proof -
  have "improvement_path (''$.followUps['' @ decimal (fst kept) @ '']'')" by (rule improvement_fields)
  then show ?thesis
    unfolding follow_up_errors_def entry_ok_def Let_def
    by (cases "json_index (snd kept) ''assessment''") (auto simp: accepts advice_accepts)
qed

definition field_ok :: "string \<Rightarrow> string \<Rightarrow> json option \<Rightarrow> bool" where
  "field_ok title key value \<longleftrightarrow>
     (\<forall>v. value = Some v \<longrightarrow> validate_observable_judgments v (''$.'' @ key) = [] \<and> unnamed title v)"

definition scanned :: "string list" where
  "scanned = [''summary'', ''codingFeedback'', ''communicationFeedback'', ''improvementPlan'']"

definition report_ok :: "(string \<times> json) list \<Rightarrow> string \<Rightarrow> nat \<Rightarrow> bool \<Rightarrow> bool" where
  "report_ok obj title judged assessed \<longleftrightarrow>
     has_keys obj (REPORT_KEYS @ (if map_of obj ''followUps'' \<noteq> None then [''followUps''] else []))
   \<and> integer_in (map_of obj ''codingScore'') 0 100
   \<and> (if assessed then integer_in (map_of obj ''communicationScore'') 0 100
      else map_of obj ''communicationScore'' = Some JNull)
   \<and> named_in (map_of obj ''decision'') [''HIRE'', ''NO_HIRE'']
   \<and> text_of (map_of obj ''summary'') MAX_SUMMARY_TEXT \<noteq> None
   \<and> feedback_ok (map_of obj ''codingFeedback'') 2 2
   \<and> feedback_ok (map_of obj ''communicationFeedback'') (if assessed then 2 else 0) (if assessed then 2 else 0)
   \<and> (\<not> assessed \<longrightarrow> unassessed_feedback obj = [])
   \<and> plan_ok (map_of obj ''improvementPlan'') (improvements_of (JObj obj))
   \<and> framework_ok (map_of obj ''frameworkAssessment'')
   \<and> (\<forall>key \<in> set scanned. field_ok title key (map_of obj key))
   \<and> (\<forall>entries. map_of obj ''followUps'' = Some entries \<longrightarrow>
        (\<forall>kept \<in> set (kept_follow_ups entries judged). entry_ok title (snd kept)))"

lemma scanned_accepts:
  "concat (map (\<lambda>key. case map_of obj key of None \<Rightarrow> []
      | Some v \<Rightarrow> validate_observable_judgments v (''$.'' @ key) @ validate_published_problem_names v (''$.'' @ key) title) keys) = []
   \<longleftrightarrow> (\<forall>key \<in> set keys. field_ok title key (map_of obj key))"
  by (auto simp: field_ok_def accepts split: option.splits)

lemma follow_ups_accept:
  "(case map_of obj ''followUps'' of None \<Rightarrow> []
      | Some entries \<Rightarrow> concat (map (follow_up_errors title) (kept_follow_ups entries judged))) = []
   \<longleftrightarrow> (\<forall>entries. map_of obj ''followUps'' = Some entries \<longrightarrow>
        (\<forall>kept \<in> set (kept_follow_ups entries judged). entry_ok title (snd kept)))"
  by (auto simp: accepts split: option.splits)

lemma report_errors_accepts [accepts]: "report_errors obj title judged assessed = [] \<longleftrightarrow> report_ok obj title judged assessed"
  unfolding report_errors_def append_is_Nil_conv scanned_accepts follow_ups_accept accepts
    report_ok_def scanned_def
  by (cases assessed) (simp_all add: accepts)

section \<open>Settling a report\<close>

definition tagging :: "json list list \<Rightarrow> json \<Rightarrow> json" where
  "tagging derived = json_update ''phases'' (arr_update (\<lambda>rows. tag_rows rows derived))"

definition plan_sorted :: "(string \<times> json) list \<Rightarrow> (string \<times> json) list" where
  "plan_sorted = fields_update ''improvementPlan'' (arr_update (sort_key plan_key))"

definition all_tags :: "json \<Rightarrow> json list list" where
  "all_tags report = map (phase_tags report) IMPROVEMENT_PHASES"

definition kept_json :: "json \<Rightarrow> nat \<Rightarrow> json" where
  "kept_json entries judged = JArr (map snd (kept_follow_ups entries judged))"

definition settled_fields :: "(string \<times> json) list \<Rightarrow> nat \<Rightarrow> (string \<times> json) list" where
  "settled_fields obj judged =
     (let tagged = fields_update ''frameworkAssessment'' (tagging (all_tags (JObj (plan_sorted obj)))) (plan_sorted obj)
      in case map_of obj ''followUps'' of None \<Rightarrow> tagged
         | Some entries \<Rightarrow> json_extend tagged [(''followUps'', kept_json entries judged)])"

lemma settle_fields: "settle_report (JObj obj) judged = JObj (settled_fields obj judged)"
  by (simp add: settle_report_def settled_fields_def apply_weakness_tags_def sort_improvement_plan_def
      tagging_def plan_sorted_def all_tags_def kept_json_def Let_def del: json_extend.simps split: option.splits)

lemma settled_get:
  "map_of (settled_fields obj judged) k =
     (if k = ''improvementPlan'' then map_option (arr_update (sort_key plan_key)) (map_of obj k)
      else if k = ''frameworkAssessment'' then map_option (tagging (all_tags (JObj (plan_sorted obj)))) (map_of obj k)
      else if k = ''followUps'' then map_option (\<lambda>entries. kept_json entries judged) (map_of obj k)
      else map_of obj k)"
  by (simp add: settled_fields_def Let_def plan_sorted_def extend_one(1) fields_update_get
      del: json_extend.simps split: option.splits)

lemma settled_keys: "fst ` set (settled_fields obj judged) = fst ` set obj"
proof -
  have "map_of obj ''followUps'' = Some e \<Longrightarrow> ''followUps'' \<in> fst ` set obj" for e
    by (metis map_of_missing option.distinct(1))
  then show ?thesis
    by (auto simp: settled_fields_def Let_def plan_sorted_def extend_one(2) del: json_extend.simps split: option.splits
        simp del: json_extend.simps)
qed

lemma plan_of_fields: "plan_of (JObj obj) = (case Option.bind (map_of obj ''improvementPlan'') json_as_arr of Some items \<Rightarrow> items | None \<Rightarrow> [])"
  by (simp add: plan_of_def)

lemma plan_of_sorted: "plan_of (JObj (plan_sorted obj)) = sort_key plan_key (plan_of (JObj obj))"
proof (cases "map_of obj ''improvementPlan''")
  case (Some v)
  then show ?thesis by (cases v) (simp_all add: plan_of_fields plan_sorted_def fields_update_get)
qed (simp add: plan_of_fields plan_sorted_def fields_update_get)

lemma plan_of_settled: "plan_of (JObj (settled_fields obj judged)) = sort_key plan_key (plan_of (JObj obj))"
  unfolding plan_of_sorted [symmetric] by (simp add: plan_of_fields settled_get plan_sorted_def fields_update_get)

lemma all_tags_plan: "plan_of a = plan_of b \<Longrightarrow> all_tags a = all_tags b"
  by (simp add: all_tags_def phase_tags_def)

lemma improvements_of_cong:
  "json_get a ''codingFeedback'' = json_get b ''codingFeedback'' \<Longrightarrow>
     json_get a ''communicationFeedback'' = json_get b ''communicationFeedback'' \<Longrightarrow> improvements_of a = improvements_of b"
  by (simp add: improvements_of_def feedback_items_def)

lemma json_insert_twice: "json_insert k w (json_insert k v row) = json_insert k w row"
  by (cases row) (simp_all add: extend_one(3) del: json_extend.simps)

lemma tag_rows_twice: "tag_rows (tag_rows rows derived) derived = tag_rows rows derived"
  by (induction rows derived rule: tag_rows.induct) (simp_all add: json_insert_twice)

lemma update_twice: "(\<And>x. f (f x) = f x) \<Longrightarrow> json_update k f (json_update k f v) = json_update k f v"
  by (cases v) (simp_all add: fields_update_twice comp_def)

lemma arr_update_twice: "(\<And>x. f (f x) = f x) \<Longrightarrow> arr_update f (arr_update f v) = arr_update f v"
  by (cases v) simp_all

lemma tagging_twice: "tagging derived (tagging derived v) = tagging derived v"
  unfolding tagging_def by (intro update_twice arr_update_twice tag_rows_twice)

subsection \<open>Follow-ups kept once are kept again\<close>

lemma kept_entry_again:
  "json_get (kept_entry index raised entry) ''index'' = Some (JInt (int index))"
  "json_get (kept_entry index raised entry) ''raised'' = Some (JBool raised)"
  "kept_entry index raised (kept_entry index raised entry) = kept_entry index raised entry"
  by (auto simp: kept_entry_def Let_def opt_str_json_def split: option.splits)

lemma kept_loop_again:
  "map snd (kept_loop judged p' seen (map snd (kept_loop judged p seen entries))) = map snd (kept_loop judged p seen entries)"
proof (induction judged p seen entries arbitrary: p' rule: kept_loop.induct)
  case (2 judged position seen entry entries)
  then show ?case by (auto simp: kept_entry_again split: option.splits if_splits)
qed simp

lemma kept_json_again: "kept_json (kept_json entries judged) judged = kept_json entries judged"
  by (simp add: kept_json_def kept_follow_ups_def kept_loop_again)

text \<open>A report the server has settled stays as it is when it is settled again.\<close>

lemma settle_settled:
  assumes "obj' = settled_fields obj judged"
  shows "settled_fields obj' judged = obj'"
proof -
  have sorted: "plan_sorted obj' = obj'"
    unfolding plan_sorted_def
    by (rule fields_update_same) (auto simp: assms settled_get intro!: arr_update_twice sort_key_id_if_sorted)
  have tags: "all_tags (JObj (plan_sorted obj)) = all_tags (JObj obj')"
    by (rule all_tags_plan) (simp only: plan_of_sorted assms plan_of_settled)
  have tagged: "fields_update ''frameworkAssessment'' (tagging (all_tags (JObj obj'))) obj' = obj'"
    by (rule fields_update_same) (auto simp: assms settled_get tagging_twice tags [unfolded assms])
  have "map_of obj' ''followUps'' = Some e \<Longrightarrow> json_extend obj' [(''followUps'', kept_json e judged)] = obj'" for e
  proof -
    assume e: "map_of obj' ''followUps'' = Some e"
    then obtain entries where "map_of obj ''followUps'' = Some entries" "e = kept_json entries judged"
      by (auto simp: assms settled_get)
    then show "json_extend obj' [(''followUps'', kept_json e judged)] = obj'"
      by (simp add: assms settled_fields_def Let_def extend_one(3) kept_json_again del: json_extend.simps)
  qed
  then show ?thesis
    unfolding settled_fields_def [of obj'] Let_def sorted tagged by (simp split: option.splits)
qed

subsection \<open>A settled report passes the checks it passed\<close>

lemma integer_in_cases: "integer_in v lo hi \<Longrightarrow> \<exists>n. v = Some (JInt n)" by (auto simp: integer_in_def)

lemma weakness_list_sorted:
  "set (weakness_list (sort_key k items)) = set (weakness_list items)"
  "distinct (weakness_list (sort_key k items)) \<longleftrightarrow> distinct (weakness_list items)"
proof -
  have "mset (weakness_list (sort_key k items)) = mset (weakness_list items)" by (simp only: weakness_list_def mset_map mset_sort)
  then show "set (weakness_list (sort_key k items)) = set (weakness_list items)"
    "distinct (weakness_list (sort_key k items)) \<longleftrightarrow> distinct (weakness_list items)"
    by (metis set_mset_mset, metis mset_eq_imp_distinct_iff)
qed

lemma plan_ok_sorted: "plan_ok v ws \<Longrightarrow> plan_ok (map_option (arr_update (sort_key plan_key)) v) ws"
  by (auto simp: plan_ok_def weakness_list_sorted)

lemma untagged_tagged: "untagged (json_extend obj [(''weaknessTags'', x)]) = untagged obj"
  by (auto simp: untagged_def json_extend_one overwrite_def filter_map comp_def
      simp del: json_extend.simps intro!: filter_cong map_idI)

lemma row_ok_tagged: "row_ok row phase \<Longrightarrow> row_ok (json_insert ''weaknessTags'' x row) phase"
  by (auto simp: row_ok_def untagged_tagged extend_one(1) simp del: json_extend.simps)

lemma rows_ok_tagged: "list_all2 row_ok rows phases \<Longrightarrow> list_all2 row_ok (tag_rows rows derived) phases"
  by (induction rows derived arbitrary: phases rule: tag_rows.induct)
    (auto simp: row_ok_tagged list_all2_Cons1)

lemma framework_okE:
  assumes "framework_ok v"
  obtains obj rows where "v = Some (JObj obj)" "map_of obj ''phases'' = Some (JArr rows)"
    "list_all2 row_ok rows IMPROVEMENT_PHASES" "has_keys obj [''rubricVersion'', ''phases'']"
    "integer_in (map_of obj ''rubricVersion'') RUBRIC_VERSION RUBRIC_VERSION"
  using assms by (auto simp: framework_ok_def)

lemma framework_ok_rows:
  assumes "framework_ok v"
    and "\<And>rows. list_all2 row_ok rows IMPROVEMENT_PHASES \<Longrightarrow> list_all2 row_ok (f rows) IMPROVEMENT_PHASES"
  shows "framework_ok (map_option (json_update ''phases'' (arr_update f)) v)"
  using assms(1) by (rule framework_okE) (auto simp: framework_ok_def fields_update_get has_keys_def assms(2))

lemma framework_ok_tagged: "framework_ok v \<Longrightarrow> framework_ok (map_option (tagging derived) v)"
  unfolding tagging_def by (erule framework_ok_rows) (rule rows_ok_tagged)

lemma field_ok_sorted:
  "field_ok title ''improvementPlan'' v \<Longrightarrow> field_ok title ''improvementPlan'' (map_option (arr_update (sort_key k)) v)"
proof -
  have "strings_of (arr_update (sort_key k) w) = strings_of w" for w by (cases w) simp_all
  then show "field_ok title ''improvementPlan'' v \<Longrightarrow> field_ok title ''improvementPlan'' (map_option (arr_update (sort_key k)) v)"
    using improvement_fields(1) by (auto simp: field_ok_def advice_accepts advice_ok_def unnamed_def)
qed

lemma kept_entries: "snd ` set (kept_follow_ups (kept_json entries judged) judged) = snd ` set (kept_follow_ups entries judged)"
proof -
  have "set (map snd (kept_follow_ups (kept_json entries judged) judged)) = set (map snd (kept_follow_ups entries judged))"
    using kept_json_again [of entries judged] by (simp add: kept_json_def)
  then show ?thesis by simp
qed

lemma report_ok_settled:
  assumes "report_ok obj title judged assessed"
  shows "report_ok (settled_fields obj judged) title judged assessed"
proof -
  note ok = assms [unfolded report_ok_def]
  let ?obj = "settled_fields obj judged"
  have keys: "has_keys ?obj (REPORT_KEYS @ (if map_of ?obj ''followUps'' \<noteq> None then [''followUps''] else []))"
    using ok by (simp add: has_keys_def settled_keys settled_get split: if_splits)
  have improvements: "improvements_of (JObj ?obj) = improvements_of (JObj obj)"
    by (rule improvements_of_cong) (simp_all add: settled_get)
  have plan: "plan_ok (map_of ?obj ''improvementPlan'') (improvements_of (JObj ?obj))"
    unfolding improvements using ok by (simp add: settled_get plan_ok_sorted)
  have framework: "framework_ok (map_of ?obj ''frameworkAssessment'')"
    using ok by (simp add: settled_get framework_ok_tagged)
  have fields: "\<forall>key \<in> set scanned. field_ok title key (map_of ?obj key)"
    using ok field_ok_sorted by (auto simp: scanned_def settled_get)
  have entries: "\<forall>e. map_of ?obj ''followUps'' = Some e \<longrightarrow>
      (\<forall>kept \<in> set (kept_follow_ups e judged). entry_ok title (snd kept))"
  proof (intro allI impI ballI)
    fix e kept assume "map_of ?obj ''followUps'' = Some e" and kept: "kept \<in> set (kept_follow_ups e judged)"
    then obtain given where given: "map_of obj ''followUps'' = Some given" "e = kept_json given judged"
      by (auto simp: settled_get)
    have "snd kept \<in> snd ` set (kept_follow_ups given judged)"
      using kept kept_entries [of given judged] given(2) by blast
    then show "entry_ok title (snd kept)" using ok given(1) by auto
  qed
  have "unassessed_feedback ?obj = unassessed_feedback obj"
    by (simp add: unassessed_feedback_def settled_get)
  then show ?thesis
    unfolding report_ok_def using ok keys plan framework fields entries by (simp add: settled_get)
qed

subsection \<open>Snapping and clearing leave a settled report alone\<close>

lemma plan_item_weakness:
  assumes "plan_item_ok item" and "the (plan_weakness item) \<in> set improvements"
  shows "snap_item lower improvements item = item"
proof -
  obtain obj t where obj: "item = JObj obj" and t: "text_of (map_of obj ''weakness'') 400 = Some t"
    using assms(1) by (auto simp: plan_item_ok_def)
  then obtain s where "map_of obj ''weakness'' = Some (JStr s)" "t = str_trim s" by (auto simp: text_of_Some)
  moreover have "t \<in> set improvements" using assms(2) t by (simp add: obj plan_weakness_text)
  ultimately show ?thesis by (simp add: snap_item_def obj)
qed

lemma snap_ok: "report_ok obj title judged assessed \<Longrightarrow> snap_plan_weaknesses lower (JObj obj) = JObj obj"
proof -
  assume "report_ok obj title judged assessed"
  then obtain items where v: "map_of obj ''improvementPlan'' = Some (JArr items)"
    and items: "\<forall>item \<in> set items. plan_item_ok item" "set (weakness_list items) = set (improvements_of (JObj obj))"
    by (auto simp: report_ok_def plan_ok_def)
  have "snap_item lower (improvements_of (JObj obj)) item = item" if "item \<in> set items" for item
    using items that by (intro plan_item_weakness) (auto simp: weakness_list_def)
  then have "map (snap_item lower (improvements_of (JObj obj))) items = items" by (simp add: map_idI)
  then have "fields_update ''improvementPlan'' (arr_update (map (snap_item lower (improvements_of (JObj obj))))) obj = obj"
    by (intro fields_update_same) (auto simp: v)
  then show ?thesis by (simp add: snap_plan_weaknesses_def)
qed

definition clear_row :: "json \<Rightarrow> json" where
  "clear_row row = (case item_phase row of
     None \<Rightarrow> row | Some phase \<Rightarrow> if is_star phase then json_insert ''score'' JNull row else row)"

definition clearing :: "json \<Rightarrow> json" where
  "clearing = json_update ''phases'' (arr_update (map clear_row))"

definition clear_fields :: "(string \<times> json) list \<Rightarrow> (string \<times> json) list" where
  "clear_fields = fields_update ''frameworkAssessment'' clearing"

lemma clear_star_fields: "clear_star_scores (JObj obj) = JObj (clear_fields obj)"
  by (simp add: clear_star_scores_def clear_fields_def clearing_def clear_row_def [abs_def])

lemma untagged_keys: "fst ` set (untagged obj) = fst ` set obj - {''weaknessTags''}"
  by (auto simp: untagged_def)

lemma row_okE:
  assumes "row_ok row phase"
  obtains obj where "row = JObj obj" "map_of obj ''phase'' = Some (JStr phase)" "''score'' \<in> fst ` set obj"
    "fst ` set obj - {''weaknessTags''} = {''phase'', ''score''}"
    "map_of obj ''score'' = Some JNull \<or> integer_in (map_of obj ''score'') 0 100"
proof -
  obtain obj where obj: "row = JObj obj" "map_of obj ''phase'' = Some (JStr phase)"
    and keys: "fst ` set obj - {''weaknessTags''} = {''phase'', ''score''}"
    and score: "map_of obj ''score'' = Some JNull \<or> integer_in (map_of obj ''score'') 0 100"
    using assms by (auto simp: row_ok_def has_keys_def untagged_keys)
  have "''score'' \<in> fst ` set obj" using keys by blast
  then show ?thesis using that obj keys score by blast
qed

lemma row_ok_cleared: "row_ok row phase \<Longrightarrow> row_ok (clear_row row) phase"
proof -
  assume ok: "row_ok row phase"
  then show ?thesis
  proof (cases "is_star phase")
    case True
    from ok obtain obj where obj: "row = JObj obj" "map_of obj ''phase'' = Some (JStr phase)" "''score'' \<in> fst ` set obj"
      "fst ` set obj - {''weaknessTags''} = {''phase'', ''score''}" by (rule row_okE)
    have "clear_row row = JObj (json_extend obj [(''score'', JNull)])"
      using True obj by (simp add: clear_row_def item_phase_def)
    moreover have "fst ` set (untagged (json_extend obj [(''score'', JNull)])) = {''phase'', ''score''}"
      unfolding untagged_keys extend_one(2) insert_absorb [OF obj(3)] by (rule obj(4))
    ultimately show ?thesis
      using obj(2) by (simp add: row_ok_def has_keys_def extend_one(1) del: json_extend.simps)
  next
    case False
    with ok have "clear_row row = row" by (auto simp: clear_row_def item_phase_def row_ok_def)
    with ok show ?thesis by simp
  qed
qed

lemma rows_ok_cleared: "list_all2 row_ok rows phases \<Longrightarrow> list_all2 row_ok (map clear_row rows) phases"
  by (simp add: list_all2_map1 row_ok_cleared list_all2_mono)

lemma framework_ok_cleared: "framework_ok v \<Longrightarrow> framework_ok (map_option clearing v)"
  unfolding clearing_def by (erule framework_ok_rows) (rule rows_ok_cleared)

lemma clear_tagged:
  "row_ok row phase \<Longrightarrow> json_insert ''weaknessTags'' x (clear_row row) = clear_row (json_insert ''weaknessTags'' x row)"
proof -
  assume "row_ok row phase"
  then obtain obj where obj: "row = JObj obj" "map_of obj ''phase'' = Some (JStr phase)" and score: "''score'' \<in> fst ` set obj"
    by (rule row_okE)
  show ?thesis
    using extend_commute [of "''weaknessTags''" "''score''", OF _ score] obj(2)
    by (auto simp: obj(1) clear_row_def item_phase_def extend_one(1) simp del: json_extend.simps)
qed

lemma rows_tagged_cleared:
  "list_all2 row_ok rows phases \<Longrightarrow> tag_rows (map clear_row rows) derived = map clear_row (tag_rows rows derived)"
  by (induction rows derived arbitrary: phases rule: tag_rows.induct) (auto simp: clear_tagged list_all2_Cons1)

lemma tagging_clearing:
  assumes "framework_ok (Some v)"
  shows "tagging derived (clearing v) = clearing (tagging derived v)"
proof -
  obtain obj rows where "v = JObj obj" "map_of obj ''phases'' = Some (JArr rows)" "list_all2 row_ok rows IMPROVEMENT_PHASES"
    using framework_okE [OF assms] by (metis option.inject)
  then show ?thesis
    by (simp add: tagging_def clearing_def fields_update_twice)
      (rule fields_update_cong, simp add: rows_tagged_cleared)
qed

lemma clear_row_twice: "clear_row (clear_row row) = clear_row row"
proof (cases "item_phase row")
  case (Some phase)
  then obtain obj where obj: "row = JObj obj" by (cases row) (auto simp: item_phase_def)
  show ?thesis
    using Some by (simp add: obj clear_row_def item_phase_def extend_one(1,3) del: json_extend.simps)
qed (simp add: clear_row_def)

lemma clear_twice: "clear_fields (clear_fields obj) = clear_fields obj"
proof -
  have "clearing (clearing v) = clearing v" for v
    unfolding clearing_def by (intro update_twice arr_update_twice) (simp add: clear_row_twice comp_def)
  then show ?thesis by (simp add: clear_fields_def fields_update_twice comp_def)
qed

lemma plan_of_clear: "plan_of (JObj (clear_fields obj)) = plan_of (JObj obj)"
  by (simp add: plan_of_fields clear_fields_def fields_update_get)

lemma settled_clear:
  assumes "framework_ok (map_of obj ''frameworkAssessment'')"
  shows "settled_fields (clear_fields obj) judged = clear_fields (settled_fields obj judged)"
proof -
  have sorted: "plan_sorted (clear_fields obj) = clear_fields (plan_sorted obj)"
    unfolding plan_sorted_def clear_fields_def by (rule fields_update_commute) simp
  have tags: "all_tags (JObj (clear_fields (plan_sorted obj))) = all_tags (JObj (plan_sorted obj))"
    by (rule all_tags_plan) (rule plan_of_clear)
  have framework: "framework_ok (map_of (plan_sorted obj) ''frameworkAssessment'')"
    using assms by (simp add: plan_sorted_def fields_update_get)
  have "fields_update ''frameworkAssessment'' (tagging derived) (clear_fields (plan_sorted obj))
      = clear_fields (fields_update ''frameworkAssessment'' (tagging derived) (plan_sorted obj))" for derived
    unfolding clear_fields_def fields_update_twice
    by (rule fields_update_cong) (use framework tagging_clearing in auto)
  moreover have "map_of (clear_fields obj) ''followUps'' = map_of obj ''followUps''"
    by (simp add: clear_fields_def fields_update_get)
  moreover have "json_extend (clear_fields x) [(''followUps'', y)] = clear_fields (json_extend x [(''followUps'', y)])" for x y
    unfolding clear_fields_def by (simp add: extend_update_commute del: json_extend.simps)
  ultimately show ?thesis
    unfolding settled_fields_def [of "clear_fields obj"] settled_fields_def [of obj] Let_def sorted tags
    by (simp split: option.splits del: json_extend.simps)
qed

lemma report_ok_clear:
  assumes "report_ok obj title judged assessed"
  shows "report_ok (clear_fields obj) title judged assessed"
proof -
  note ok = assms [unfolded report_ok_def]
  have get: "map_of (clear_fields obj) k
      = (if k = ''frameworkAssessment'' then map_option clearing (map_of obj k) else map_of obj k)" for k
    by (simp add: clear_fields_def fields_update_get)
  have improvements: "improvements_of (JObj (clear_fields obj)) = improvements_of (JObj obj)"
    by (rule improvements_of_cong) (simp_all add: get)
  have "unassessed_feedback (clear_fields obj) = unassessed_feedback obj"
    by (simp add: unassessed_feedback_def get)
  moreover have "fst ` set (clear_fields obj) = fst ` set obj" by (simp add: clear_fields_def)
  ultimately show ?thesis
    unfolding report_ok_def improvements using ok framework_ok_cleared
    by (auto simp: get has_keys_def scanned_def)
qed

section \<open>Accepted reports\<close>

lemma judging_Inr:
  "validate_report_judging lower raw p v judged assessed = Inr report \<longleftrightarrow>
     (\<exists>obj. snap_plan_weaknesses lower raw = JObj obj \<and> report_ok obj (source_title_or_empty p v) judged assessed
        \<and> report = JObj (settled_fields obj judged))"
proof (cases "snap_plan_weaknesses lower raw")
  case (JObj obj)
  then show ?thesis
    by (auto simp: validate_report_judging_def Let_def accepts settle_fields split: if_splits)
qed (simp_all add: validate_report_judging_def)

text \<open>The four things that make a report one the validator accepts and gives back unchanged.\<close>

definition accepted_fields ::
  "(string \<times> json) list \<Rightarrow> problem \<Rightarrow> problem_variant \<Rightarrow> report_rounds \<Rightarrow> interview_mode \<Rightarrow> bool \<Rightarrow> nat \<Rightarrow> bool" where
  "accepted_fields obj p v rounds mode drawing judged \<longleftrightarrow>
     report_ok obj (source_title_or_empty p v) judged (communication_assessed rounds)
   \<and> settled_fields obj judged = obj
   \<and> example_drawing_judgments (JObj obj) p v mode drawing = []
   \<and> (\<not> rr_behavioral_opened rounds \<longrightarrow> unopened_round_errors (JObj obj) = [] \<and> clear_fields obj = obj)"

definition judged_count :: "problem_variant \<Rightarrow> report_rounds \<Rightarrow> nat" where
  "judged_count v rounds = (if rr_follow_ups_released rounds then length (pv_follow_ups v) else 0)"

lemma accepted_revalidates:
  assumes "accepted_fields obj p v rounds mode drawing (judged_count v rounds)"
  shows "validate_report_for_round lower (JObj obj) p v rounds mode drawing = Inr (JObj obj)"
proof -
  note a = assms [unfolded accepted_fields_def]
  have "snap_plan_weaknesses lower (JObj obj) = JObj obj" using a snap_ok by blast
  then have "validate_report_judging lower (JObj obj) p v (judged_count v rounds) (communication_assessed rounds) = Inr (JObj obj)"
    using a by (auto simp: judging_Inr)
  then show ?thesis
    using a by (auto simp: validate_report_for_round_def judged_count_def [symmetric] Let_def clear_star_fields)
qed

lemma unopened_loop_empty: "unopened_loop i items = [] \<longleftrightarrow>
    (\<forall>item \<in> set items. \<forall>phase. item_phase item = Some phase \<longrightarrow> \<not> is_star phase)"
  by (induction i items rule: unopened_loop.induct) (auto split: option.splits)

lemma item_phase_snapped: "item_phase (snap_item lower improvements item) = item_phase item"
  by (cases item) (auto simp: snap_item_def item_phase_def extend_one(1) simp del: json_extend.simps split: option.splits list.splits)

lemma plan_of_snapped:
  "plan_of (snap_plan_weaknesses lower raw) = map (snap_item lower (improvements_of raw)) (plan_of raw)"
proof (cases raw)
  case (JObj obj)
  show ?thesis
  proof (cases "map_of obj ''improvementPlan''")
    case (Some x)
    then show ?thesis by (cases x) (simp_all add: snap_plan_weaknesses_def JObj plan_of_fields fields_update_get)
  qed (simp add: snap_plan_weaknesses_def JObj plan_of_fields fields_update_get)
qed (simp_all add: snap_plan_weaknesses_def plan_of_def)

lemma unopened_settled:
  assumes "snap_plan_weaknesses lower raw = JObj obj" and "unopened_round_errors raw = []"
  shows "unopened_round_errors (JObj (settled_fields obj judged)) = []"
  using assms(2) plan_of_snapped [of lower raw]
  by (auto simp: unopened_round_errors_def unopened_loop_empty plan_of_settled assms(1) item_phase_snapped)

lemma drawing_ignores_scores:
  "example_drawing_judgments (JObj (clear_fields obj)) p v mode drawing = example_drawing_judgments (JObj obj) p v mode drawing"
  by (simp add: example_drawing_judgments_def clear_fields_def fields_update_get)

lemma accepted_settled:
  assumes "validate_report_for_round lower raw p v rounds mode drawing = Inr report"
  shows "\<exists>obj. report = JObj obj \<and> accepted_fields obj p v rounds mode drawing (judged_count v rounds)"
proof -
  let ?j = "judged_count v rounds"
  obtain r where r: "validate_report_judging lower raw p v ?j (communication_assessed rounds) = Inr r"
    and drawing: "example_drawing_judgments r p v mode drawing = []"
    and result: "if rr_behavioral_opened rounds then report = r
      else unopened_round_errors raw = [] \<and> report = clear_star_scores r"
    using assms
    by (auto simp: validate_report_for_round_def judged_count_def [symmetric] Let_def split: sum.splits if_splits)
  obtain given where given: "snap_plan_weaknesses lower raw = JObj given"
    "report_ok given (source_title_or_empty p v) ?j (communication_assessed rounds)"
    "r = JObj (settled_fields given ?j)"
    using r by (auto simp: judging_Inr)
  define obj where "obj = settled_fields given ?j"
  have ok: "report_ok obj (source_title_or_empty p v) ?j (communication_assessed rounds)"
    using report_ok_settled [OF given(2)] by (simp add: obj_def)
  have same: "settled_fields obj ?j = obj" using settle_settled obj_def by blast
  have d: "example_drawing_judgments (JObj obj) p v mode drawing = []" using drawing given(3) by (simp add: obj_def)
  show ?thesis
  proof (cases "rr_behavioral_opened rounds")
    case True
    then show ?thesis using result given(3) ok same d by (simp add: accepted_fields_def obj_def)
  next
    case False
    have "framework_ok (map_of obj ''frameworkAssessment'')" using ok by (simp add: report_ok_def)
    then have "settled_fields (clear_fields obj) ?j = clear_fields obj" using settled_clear same by metis
    moreover have "unopened_round_errors (JObj (clear_fields obj)) = []"
      using unopened_settled [OF given(1)] result False
      by (simp add: unopened_round_errors_def plan_of_clear obj_def)
    ultimately have "accepted_fields (clear_fields obj) p v rounds mode drawing ?j"
      using report_ok_clear [OF ok] d by (simp add: accepted_fields_def drawing_ignores_scores clear_twice)
    then show ?thesis using result False given(3) by (auto simp: clear_star_fields obj_def)
  qed
qed

text \<open>Of the fields of an answer, validation changes three.\<close>

lemma update_get: "json_get (json_update k f v) j = (if j = k then map_option f (json_get v j) else json_get v j)"
  by (cases v) (simp_all add: fields_update_get)

lemma update_same: "(\<And>x. json_get v k = Some x \<Longrightarrow> f x = x) \<Longrightarrow> json_update k f v = v"
  by (cases v) (simp_all add: fields_update_same)

lemma snap_get: "k \<noteq> ''improvementPlan'' \<Longrightarrow> json_get (snap_plan_weaknesses lower raw) k = json_get raw k"
  by (simp add: snap_plan_weaknesses_def update_get)

lemma validation_keeps:
  assumes "validate_report_for_round lower raw p v rounds mode drawing = Inr report"
    and "k \<noteq> ''improvementPlan''" and "k \<noteq> ''frameworkAssessment''"
  shows "json_get report k = (if k = ''followUps''
     then map_option (\<lambda>e. kept_json e (judged_count v rounds)) (json_get raw k) else json_get raw k)"
proof -
  let ?j = "judged_count v rounds"
  obtain r where r: "validate_report_judging lower raw p v ?j (communication_assessed rounds) = Inr r"
    and report: "report = r \<or> report = clear_star_scores r"
    using assms(1) by (auto simp: validate_report_for_round_def judged_count_def [symmetric] Let_def split: sum.splits if_splits)
  obtain obj where obj: "snap_plan_weaknesses lower raw = JObj obj" "r = JObj (settled_fields obj ?j)"
    using r by (auto simp: judging_Inr)
  have "json_get (clear_star_scores r) k = json_get r k" using assms(3) by (simp add: clear_star_scores_def update_get)
  then have "json_get report k = json_get r k" using report by auto
  then show ?thesis
    using snap_get [OF assms(2), of lower raw] assms(2,3) by (cases "k = ''followUps''") (simp_all add: obj settled_get)
qed

lemma accepted_reportE:
  assumes "validate_report_for_round lower raw p v rounds mode drawing = Inr report"
  obtains obj where "report = JObj obj" "report_ok obj (source_title_or_empty p v) (judged_count v rounds) (communication_assessed rounds)"
    "settled_fields obj (judged_count v rounds) = obj"
    "\<not> rr_behavioral_opened rounds \<Longrightarrow> unopened_round_errors (JObj obj) = []"
    "\<not> rr_behavioral_opened rounds \<Longrightarrow> clear_fields obj = obj"
  using accepted_settled [OF assms] unfolding accepted_fields_def by blast

lemma accepted_plan:
  assumes "report_ok obj title judged assessed" and "settled_fields obj judged = obj"
  obtains items where "map_of obj ''improvementPlan'' = Some (JArr items)" "plan_of (JObj obj) = items"
    "length items \<le> 8" "sorted (map plan_key items)" "\<forall>item \<in> set items. plan_item_ok item"
    "distinct (weakness_list items)" "set (weakness_list items) = set (improvements_of (JObj obj))"
proof -
  obtain items where items: "map_of obj ''improvementPlan'' = Some (JArr items)" "length items \<le> 8"
    "\<forall>item \<in> set items. plan_item_ok item" "distinct (weakness_list items)"
    "set (weakness_list items) = set (improvements_of (JObj obj))"
    using assms(1) by (auto simp: report_ok_def plan_ok_def)
  then have plan: "plan_of (JObj obj) = items" by (simp add: plan_of_fields)
  have "sort_key plan_key items = items" using plan_of_settled [of obj judged] assms(2) plan by simp
  then have "sorted (map plan_key items)" by (metis sorted_sort_key)
  with items plan that show ?thesis by blast
qed

lemma accepted_rows:
  assumes "report_ok obj title judged assessed" and "settled_fields obj judged = obj"
  obtains framework rows where "map_of obj ''frameworkAssessment'' = Some (JObj framework)"
    "map_of framework ''phases'' = Some (JArr rows)" "list_all2 row_ok rows IMPROVEMENT_PHASES"
    "tag_rows rows (all_tags (JObj obj)) = rows"
proof -
  have "framework_ok (map_of obj ''frameworkAssessment'')" using assms(1) by (simp add: report_ok_def)
  then obtain framework rows where f: "map_of obj ''frameworkAssessment'' = Some (JObj framework)"
    "map_of framework ''phases'' = Some (JArr rows)" "list_all2 row_ok rows IMPROVEMENT_PHASES"
    by (auto elim: framework_okE)
  have "all_tags (JObj (plan_sorted obj)) = all_tags (JObj obj)"
    by (rule all_tags_plan) (metis assms(2) plan_of_settled plan_of_sorted)
  then have "map_of obj ''frameworkAssessment'' = Some (tagging (all_tags (JObj obj)) (JObj framework))"
    using settled_get [of obj judged "''frameworkAssessment''"] assms(2) f(1) by simp
  then have "tagging (all_tags (JObj obj)) (JObj framework) = JObj framework" using f(1) by simp
  then have "fields_update ''phases'' (arr_update (\<lambda>rows. tag_rows rows (all_tags (JObj obj)))) framework = framework"
    by (simp add: tagging_def)
  from arg_cong [OF this, of "\<lambda>m. map_of m ''phases''"] have "tag_rows rows (all_tags (JObj obj)) = rows"
    using f(2) by (simp add: fields_update_get)
  with f that show ?thesis by blast
qed

lemma tag_rows_nth:
  "length rows = length derived \<Longrightarrow> i < length rows \<Longrightarrow>
     tag_rows rows derived ! i = json_insert ''weaknessTags'' (JArr (derived ! i)) (rows ! i)"
  by (induction rows derived arbitrary: i rule: tag_rows.induct) (auto simp: nth_Cons split: nat.splits)

text \<open>
  C19. An accepted report is a fixed point: validating it again - as the publish boundary does with
  what the provider already validated - accepts it and changes nothing.  Snapping, the sorted plan,
  the weakness tags, the mended follow-ups and the cleared scores have all settled the first time.
\<close>

theorem accepted_report_is_settled:
  assumes "validate_report_for_round lower raw p v rounds mode drawing = Inr report"
  shows "validate_report_for_round lower' report p v rounds mode drawing = Inr report"
  using accepted_settled [OF assms] accepted_revalidates by blast

end
