(* ===== verification/Report_Example.thy ===== *)
theory Report_Example
  imports Report Task_Example
begin

text \<open>A small report that is accepted, used to show the theorems about reports on concrete data.\<close>

definition example_problem :: problem where
  "example_problem = \<lparr>pb_id = ''two-sum'', pb_title = ''Two Sum'', pb_source = None, pb_difficulty = ''Easy'',
     pb_summary = ''Find two entries.'', pb_optimal = ''O(n)'', pb_pitfalls = ''''\<rparr>"

definition example_variant :: problem_variant where
  "example_variant = \<lparr>pv_title = ''Gift Cards'', pv_page = ''gift-cards'', pv_brief = [''Two cards add up.''],
     pv_examples = [], pv_contract = ''Return two indices.'', pv_constraints = [], pv_clarifications = [],
     pv_follow_ups = [''What if the list is sorted?''], pv_hints = [], pv_starters = []\<rparr>"

definition plan_json :: "string \<Rightarrow> string \<Rightarrow> string \<Rightarrow> json" where
  "plan_json phase weakness impact = JObj [(''phase'', JStr phase), (''weakness'', JStr weakness),
     (''impact'', JStr impact), (''frequency'', JInt 1), (''drill'', JStr ''d''), (''durationMin'', JInt 10),
     (''successCriterion'', JStr ''e''), (''selfReview'', JArr [JStr ''f''])]"

definition example_report :: json where
  "example_report = JObj [(''codingScore'', JInt 70), (''communicationScore'', JNull), (''decision'', JStr ''HIRE''),
     (''summary'', JStr ''s''),
     (''codingFeedback'', JObj [(''strengths'', JArr [JStr ''a'', JStr ''b'']),
        (''improvements'', JArr [JStr ''x.'', JStr ''y''])]),
     (''communicationFeedback'', JObj [(''strengths'', JArr []), (''improvements'', JArr [])]),
     (''improvementPlan'', JArr [plan_json ''Test'' ''X'' ''low'', plan_json ''Coding'' ''y'' ''high'']),
     (''frameworkAssessment'', JObj [(''rubricVersion'', JInt 1),
        (''phases'', JArr (map (\<lambda>phase. JObj [(''phase'', JStr phase), (''score'', JInt 50)]) IMPROVEMENT_PHASES))]),
     (''followUps'', JArr [JObj [(''index'', JInt 1), (''raised'', JBool True), (''assessment'', JStr '' z '')],
        JObj [(''index'', JInt 9), (''raised'', JBool True)]])]"

definition example_rounds :: report_rounds where
  "example_rounds = \<lparr>rr_behavioral_opened = False, rr_follow_ups_released = True, rr_candidate_turns = 0\<rparr>"

text \<open>Lower case of ASCII letters, in the place of \<open>str::to_lowercase\<close>.\<close>

definition example_lower :: "string \<Rightarrow> string" where
  "example_lower s = concat (map to_ascii_lowercase (utf8_chars s))"

definition example_outcome :: "string list + json" where
  "example_outcome = validate_report_for_round example_lower example_report example_problem example_variant
     example_rounds Coding True"

definition example_accepted :: json where
  "example_accepted = (case example_outcome of Inr report \<Rightarrow> report | Inl errors \<Rightarrow> JNull)"

lemma example_is_accepted: "case example_outcome of Inl errors \<Rightarrow> False | Inr report \<Rightarrow> True"
  by code_simp

lemma example_valid:
  "validate_report_for_round example_lower example_report example_problem example_variant example_rounds Coding True
     = Inr example_accepted"
  using example_is_accepted by (auto simp: example_accepted_def example_outcome_def split: sum.splits)

text \<open>Where there can be no example drawing, the same report is accepted.\<close>

lemma example_valid_whiteboard:
  "validate_report_for_round example_lower example_report example_problem example_variant example_rounds Whiteboard True
     = Inr example_accepted"
proof -
  have none: "example_drawing_judgments r p v Whiteboard True = []" for r p v
    by (simp add: example_drawing_judgments_def is_whiteboard_def)
  from example_valid show ?thesis
    unfolding validate_report_for_round_def Let_def none by (auto split: sum.splits if_splits)
qed

end
