(* ===== verification/Report_Properties.thy ===== *)
theory Report_Properties
  imports Report_Correct Report_Example
begin

text \<open>
  What the candidate's page and the server can rely on in a report that was accepted, in one that
  could not be produced, and in one that was salvaged.
\<close>

theorem accepted_report_is_settled_witness:
  "validate_report_for_round (\<lambda>s. s) example_accepted example_problem example_variant example_rounds Coding True
     = Inr example_accepted"
  by (rule accepted_report_is_settled [OF example_valid])

section \<open>What an accepted report says\<close>


text \<open>
  C20. The plan answers the feedback: an accepted report's plan has at most eight items, one for every
  improvement named in its feedback and nothing else, in descending order of impact and then of
  frequency; and its ten phase rows are in the fixed order, each tagged with the first four
  weaknesses of its own phase in that order of the plan.
\<close>

theorem accepted_plan_answers_feedback:
  assumes "validate_report_for_round lower raw p v rounds mode drawing = Inr report"
  shows "\<exists>items rows. json_get report ''improvementPlan'' = Some (JArr items)
    \<and> length items \<le> 8
    \<and> sorted_wrt (\<lambda>a b. plan_rank b < plan_rank a \<or> plan_rank a = plan_rank b \<and> plan_frequency b \<le> plan_frequency a) items
    \<and> distinct (weakness_list items) \<and> set (weakness_list items) = set (improvements_of report)
    \<and> json_index (json_index report ''frameworkAssessment'') ''phases'' = JArr rows
    \<and> map item_phase rows = map Some IMPROVEMENT_PHASES
    \<and> (\<forall>i < length rows. json_get (rows ! i) ''weaknessTags'' = Some (JArr (phase_tags report (IMPROVEMENT_PHASES ! i))))"
proof -
  obtain obj where obj: "report = JObj obj"
    "report_ok obj (source_title_or_empty p v) (judged_count v rounds) (communication_assessed rounds)"
    "settled_fields obj (judged_count v rounds) = obj"
    by (rule accepted_reportE [OF assms]) blast
  obtain items where items: "map_of obj ''improvementPlan'' = Some (JArr items)" "length items \<le> 8"
    "sorted (map plan_key items)" "distinct (weakness_list items)"
    "set (weakness_list items) = set (improvements_of (JObj obj))"
    by (rule accepted_plan [OF obj(2,3)]) blast
  have order: "sorted_wrt (\<lambda>a b. plan_rank b < plan_rank a \<or> plan_rank a = plan_rank b \<and> plan_frequency b \<le> plan_frequency a) items"
    using items(3) by (auto simp: sorted_map plan_key_def elim!: sorted_wrt_mono_rel [rotated])
  obtain framework rows where rows: "map_of obj ''frameworkAssessment'' = Some (JObj framework)"
    "map_of framework ''phases'' = Some (JArr rows)" "list_all2 row_ok rows IMPROVEMENT_PHASES"
    "tag_rows rows (all_tags (JObj obj)) = rows"
    by (rule accepted_rows [OF obj(2,3)]) blast
  have phases: "map item_phase rows = map Some IMPROVEMENT_PHASES"
    using rows(3) by (auto simp: list_eq_iff_nth_eq list_all2_conv_all_nth row_ok_def item_phase_def)
  have "json_get (rows ! i) ''weaknessTags'' = Some (JArr (phase_tags report (IMPROVEMENT_PHASES ! i)))"
    if i: "i < length rows" for i
  proof -
    have len: "length rows = length (all_tags (JObj obj))"
      using rows(3) by (simp add: all_tags_def list_all2_lengthD)
    have ok: "row_ok (rows ! i) (IMPROVEMENT_PHASES ! i)" using rows(3) i by (simp add: list_all2_conv_all_nth)
    then obtain o1 where "rows ! i = JObj o1" by (rule row_okE)
    moreover have "rows ! i = json_insert ''weaknessTags'' (JArr (phase_tags report (IMPROVEMENT_PHASES ! i))) (rows ! i)"
      using tag_rows_nth [OF len i] rows(4) len i by (simp add: all_tags_def obj(1))
    ultimately show ?thesis by (metis extend_one(1) json_get.simps(1) json_insert.simps(1))
  qed
  with items order rows(1,2) phases show ?thesis by (simp add: obj(1) json_index_def)
qed

theorem accepted_plan_answers_feedback_witness:
  "\<exists>items. json_get example_accepted ''improvementPlan'' = Some (JArr items)
     \<and> set (weakness_list items) = set (improvements_of example_accepted)"
  using accepted_plan_answers_feedback [OF example_valid] by blast





end
