(* ===== verification/Report_Text.thy ===== *)
theory Report_Text
  imports Report
begin

text \<open>
  The two searches \<open>Report\<close> makes in a text, against what they are meant to find: the run of words
  that spells a published title, and the longest list of phrases an error has room for.
\<close>

section \<open>A title spelled by a run of words\<close>

lemma joins_to_iff:
  assumes "list_all plain_word ws"
  shows "joins_to target joined ws \<longleftrightarrow> (\<exists>n. 0 < n \<and> n \<le> length ws \<and> joined @ concat (take n ws) = target)"
  using assms
proof (induction target joined ws rule: joins_to.induct)
  case (2 target joined word ws)
  have words: "word \<noteq> []" "list_all plain_word ws" using 2(2) by (auto simp: plain_word_def [of word])
  have split: "(\<exists>n. 0 < n \<and> n \<le> length (word # ws) \<and> joined @ concat (take n (word # ws)) = target) \<longleftrightarrow>
      joined @ word = target \<or> (\<exists>n. 0 < n \<and> n \<le> length ws \<and> (joined @ word) @ concat (take n ws) = target)"
  proof
    assume "\<exists>n. 0 < n \<and> n \<le> length (word # ws) \<and> joined @ concat (take n (word # ws)) = target"
    then obtain n where "n \<le> length ws" "joined @ word @ concat (take n ws) = target"
      by (metis append.assoc concat.simps(2) gr0_implies_Suc length_Cons not_less_eq_eq take_Suc_Cons)
    then show "joined @ word = target \<or> (\<exists>n. 0 < n \<and> n \<le> length ws \<and> (joined @ word) @ concat (take n ws) = target)"
      by (cases n) auto
  next
    assume "joined @ word = target \<or> (\<exists>n. 0 < n \<and> n \<le> length ws \<and> (joined @ word) @ concat (take n ws) = target)"
    then show "\<exists>n. 0 < n \<and> n \<le> length (word # ws) \<and> joined @ concat (take n (word # ws)) = target"
    proof (elim disjE exE conjE)
      assume "joined @ word = target"
      then show ?thesis by (intro exI [of _ 1]) simp
    next
      fix n assume "0 < n" "n \<le> length ws" "(joined @ word) @ concat (take n ws) = target"
      then show ?thesis by (intro exI [of _ "Suc n"]) simp
    qed
  qed
  show ?case
  proof (cases "joined @ word \<noteq> target \<and> length (joined @ word) \<ge> length target")
    case True
    have longer: "(joined @ word) @ concat (take n ws) \<noteq> target" if "0 < n" "n \<le> length ws" for n
    proof
      assume eq: "(joined @ word) @ concat (take n ws) = target"
      then have "concat (take n ws) = []" using True by (metis append_eq_append_conv append_Nil2 le_antisym length_append le_add1)
      moreover have "take n ws \<noteq> []" using that by auto
      moreover have "\<forall>w \<in> set (take n ws). w \<noteq> []"
        using words(2) by (auto simp: list_all_iff plain_word_def dest: in_set_takeD)
      ultimately show False by (cases "take n ws") auto
    qed
    then show ?thesis unfolding split using True by auto
  next
    case False
    then show ?thesis unfolding split using 2(1) words(2) by (auto simp: Let_def)
  qed
qed simp

lemma pairs_iff: "(a, b) \<in> set (pairs xs) \<longleftrightarrow> (\<exists>us vs. xs = us @ a # b # vs)"
proof (induction xs rule: pairs.induct)
  case (1 x y zs)
  then show ?case by (auto simp: Cons_eq_append_conv)
qed (auto simp: Cons_eq_append_conv)

definition single_word_title :: "string \<Rightarrow> bool" where
  "single_word_title title \<longleftrightarrow> length (spelled_words title) = 1 \<and> list_all is_ascii_alphabetic (utf8_chars title)"

text \<open>
  A text names the published problem exactly when it says "leetcode", or "leet" and "code" in a
  row, or - unless the title is one plain word a scenario may use itself - when some run of its words,
  put end to end, spells the title: however the title is spaced, hyphenated or cased, and never by
  part of a word.
\<close>

theorem published_title_is_a_run_of_words:
  "names_published_problem title speech \<longleftrightarrow>
     ''leetcode'' \<in> set (spelled_words speech)
   \<or> (\<exists>us vs. spelled_words speech = us @ ''leet'' # ''code'' # vs)
   \<or> (\<not> single_word_title title \<and> (\<exists>us run vs. spelled_words speech = us @ run @ vs \<and> run \<noteq> []
        \<and> concat run = concat (spelled_words title)))"
proof -
  let ?ws = "spelled_words speech" and ?t = "concat (spelled_words title)"
  have plain: "list_all plain_word ?ws" using spell_plain [of "[]"] by (auto simp: spelled_words_def list_all_iff)
  have "(\<exists>start < length ?ws. joins_to ?t [] (drop start ?ws)) \<longleftrightarrow>
      (\<exists>us run vs. ?ws = us @ run @ vs \<and> run \<noteq> [] \<and> concat run = ?t)"
  proof
    assume "\<exists>start < length ?ws. joins_to ?t [] (drop start ?ws)"
    then obtain start where start: "start < length ?ws" "joins_to ?t [] (drop start ?ws)" by blast
    have "list_all plain_word (drop start ?ws)" using plain by (auto simp: list_all_iff dest: in_set_dropD)
    then obtain n where n: "0 < n" "n \<le> length (drop start ?ws)" "concat (take n (drop start ?ws)) = ?t"
      using start(2) by (auto simp: joins_to_iff)
    have "?ws = take start ?ws @ take n (drop start ?ws) @ drop n (drop start ?ws)" by (metis append_take_drop_id)
    moreover have "take n (drop start ?ws) \<noteq> []" using n start(1) by auto
    ultimately show "\<exists>us run vs. ?ws = us @ run @ vs \<and> run \<noteq> [] \<and> concat run = ?t" using n(3) by blast
  next
    assume "\<exists>us run vs. ?ws = us @ run @ vs \<and> run \<noteq> [] \<and> concat run = ?t"
    then obtain us run vs where r: "?ws = us @ run @ vs" "run \<noteq> []" "concat run = ?t" by blast
    have drop_plain: "list_all plain_word (drop (length us) ?ws)" using plain by (auto simp: list_all_iff dest: in_set_dropD)
    have "joins_to ?t [] (drop (length us) ?ws)"
      unfolding joins_to_iff [OF drop_plain] by (intro exI [of _ "length run"]) (use r in auto)
    moreover have "length us < length ?ws" using r by (cases run) simp_all
    ultimately show "\<exists>start < length ?ws. joins_to ?t [] (drop start ?ws)" by blast
  qed
  then show ?thesis
    by (auto simp: names_published_problem_def Let_def pairs_iff single_word_title_def list_ex_iff)
qed

section \<open>As many phrases as fit\<close>

lemma find_last_that_fits:
  assumes "List.find P (map f (rev [2..<Suc k])) = Some e"
  shows "\<exists>n. 2 \<le> n \<and> n \<le> k \<and> e = f n \<and> P (f n) \<and> (\<forall>m. n < m \<and> m \<le> k \<longrightarrow> \<not> P (f m))"
  using assms
proof (induction k)
  case (Suc k)
  show ?case
  proof (cases "P (f (Suc k)) \<and> 2 \<le> Suc k")
    case True
    with Suc.prems have "e = f (Suc k)" by (auto simp: upt_Suc split: if_splits)
    with True show ?thesis by (intro exI [of _ "Suc k"]) auto
  next
    case False
    then have "List.find P (map f (rev [2..<Suc k])) = Some e" using Suc.prems by (auto simp: upt_Suc split: if_splits)
    from Suc.IH [OF this] obtain n where "2 \<le> n" "n \<le> k" "e = f n" "P (f n)" "\<forall>m. n < m \<and> m \<le> k \<longrightarrow> \<not> P (f m)" by blast
    with False show ?thesis by (intro exI [of _ n]) (auto simp: le_Suc_eq)
  qed
qed simp

text \<open>
  A judgment error names as many phrases as fit: it is the error that names some number of them,
  it is within 240 characters unless it names only one, and naming any more of them would not fit.
\<close>

theorem judgment_error_names_what_fits:
  "\<exists>n. 1 \<le> n \<and> judgment_error path reason phrases = naming path reason (map debug_str phrases) n
     \<and> (n = 1 \<or> n \<le> length phrases \<and> char_count (judgment_error path reason phrases) \<le> MAX_ERROR_CHARS)
     \<and> (\<forall>m. n < m \<and> m \<le> length phrases \<longrightarrow>
          MAX_ERROR_CHARS < char_count (naming path reason (map debug_str phrases) m))"
proof (cases "List.find (\<lambda>error. char_count error \<le> MAX_ERROR_CHARS)
    (map (naming path reason (map debug_str phrases)) (rev [2..<Suc (length phrases)]))")
  case None
  then have "MAX_ERROR_CHARS < char_count (naming path reason (map debug_str phrases) m)"
    if "1 < m" "m \<le> length phrases" for m
    using None that by (auto simp: find_None_iff not_le simp del: upt_Suc)
  then show ?thesis
    using None by (intro exI [of _ 1]) (simp add: judgment_error_def del: upt_Suc)
next
  case (Some e)
  from find_last_that_fits [OF this] obtain n where
    "2 \<le> n" "n \<le> length phrases" "e = naming path reason (map debug_str phrases) n"
    "char_count e \<le> MAX_ERROR_CHARS"
    "\<forall>m. n < m \<and> m \<le> length phrases \<longrightarrow> MAX_ERROR_CHARS < char_count (naming path reason (map debug_str phrases) m)"
    by (auto simp: not_le)
  moreover have "judgment_error path reason phrases = e" using Some by (simp add: judgment_error_def del: upt_Suc)
  ultimately show ?thesis by (intro exI [of _ n]) simp
qed

theorem judgment_error_names_what_fits_witness:
  "\<exists>n. judgment_error ''$'' ''r'' [''a'', ''b''] = naming ''$'' ''r'' (map debug_str [''a'', ''b'']) n"
  using judgment_error_names_what_fits by blast

end
