(* ===== verification/Report_Salvage.thy ===== *)
theory Report_Salvage
  imports Report_Correct Report_Example
begin

text \<open>
  What becomes of a report that could not be accepted as it was: the fallback that is no verdict, the
  filter that takes out what the rules refuse, and the salvage that validates what is left.
\<close>

section \<open>No report\<close>

lemma insert_get: "json_get (json_insert k x (JObj obj)) j = (if j = k then Some x else map_of obj j)"
  by (simp add: extend_one(1) del: json_extend.simps)


section \<open>Taking out what the rules refuse\<close>

definition item_permitted :: "json \<Rightarrow> bool" where
  "item_permitted item \<longleftrightarrow>
     (\<forall>c. json_get item ''successCriterion'' = Some c \<longrightarrow> \<not> refused_text c)
   \<and> (\<forall>checks. json_get item ''selfReview'' = Some (JArr checks) \<longrightarrow> (\<forall>c \<in> set checks. \<not> refused_text c))"

definition entry_permitted :: "json \<Rightarrow> bool" where
  "entry_permitted entry \<longleftrightarrow> (\<forall>a. json_get entry ''assessment'' = Some a \<longrightarrow> \<not> refused_text a)"

lemma replacements_permitted:
  "\<not> refused_text (JStr SUCCESS_CRITERION_REPLACEMENT)" "\<not> refused_text (JStr SELF_REVIEW_REPLACEMENT)"
  "\<not> refused_text JNull"
  by code_simp+

lemma criterion_permitted:
  "\<forall>c. json_get (fst (sanitize_criterion item)) ''successCriterion'' = Some c \<longrightarrow> \<not> refused_text c"
  by (auto simp: sanitize_criterion_def update_get replacements_permitted split: option.splits)

lemma criterion_keeps: "k \<noteq> ''successCriterion'' \<Longrightarrow> json_get (fst (sanitize_criterion item)) k = json_get item k"
  by (auto simp: sanitize_criterion_def update_get split: option.splits)

lemma checks_permitted:
  "json_get (fst (sanitize_checks item)) ''selfReview'' = Some (JArr checks) \<Longrightarrow> \<forall>c \<in> set checks. \<not> refused_text c"
  by (auto simp: sanitize_checks_def update_get replacements_permitted Let_def split: option.splits if_splits)

lemma checks_keep: "k \<noteq> ''selfReview'' \<Longrightarrow> json_get (fst (sanitize_checks item)) k = json_get item k"
  by (auto simp: sanitize_checks_def update_get Let_def split: option.splits)

lemma sanitize_item_permitted: "item_permitted (fst (sanitize_item item))"
  using criterion_permitted [of item] checks_permitted [of "fst (sanitize_criterion item)"]
    checks_keep [of "''successCriterion''" "fst (sanitize_criterion item)"]
  by (simp add: item_permitted_def sanitize_item_def case_prod_beta)

lemma sanitize_permitted_item:
  assumes "item_permitted item"
  shows "sanitize_item item = (item, 0, 0)"
proof -
  have "sanitize_criterion item = (item, 0)"
    using assms by (auto simp: item_permitted_def sanitize_criterion_def split: option.splits)
  moreover have "sanitize_checks item = (item, 0)"
  proof (cases "Option.bind (json_get item ''selfReview'') json_as_arr")
    case (Some checks)
    then have "filter (\<lambda>c. \<not> refused_text c) checks = checks"
      using assms by (auto simp: item_permitted_def filter_id_conv)
    then show ?thesis using Some by (auto simp: sanitize_checks_def Let_def intro: update_same)
  qed (simp add: sanitize_checks_def)
  ultimately show ?thesis by (simp add: sanitize_item_def)
qed

lemma sanitize_entry_permitted: "entry_permitted (fst (sanitize_entry entry))"
  by (auto simp: entry_permitted_def sanitize_entry_def update_get replacements_permitted split: option.splits)

lemma sanitize_permitted_entry: "entry_permitted entry \<Longrightarrow> sanitize_entry entry = (entry, 0)"
  by (auto simp: entry_permitted_def sanitize_entry_def split: option.splits)

lemma plan_of_get: "plan_of report = flatten_opt (Option.bind (json_get report ''improvementPlan'') json_as_arr)"
  by (simp add: plan_of_def split: option.splits)

lemma flatten_update:
  assumes "xs = [] \<or> flatten_opt (Option.bind v json_as_arr) \<noteq> []"
  shows "flatten_opt (Option.bind (map_option (arr_update (\<lambda>_. xs)) v) json_as_arr) = xs"
  using assms by (cases v; cases "the v") auto

lemma sanitized_parts:
  "plan_of (fst (sanitize_report_candidate report)) = map (fst \<circ> sanitize_item) (plan_of report)"
  "follow_ups_of (fst (sanitize_report_candidate report)) = map (fst \<circ> sanitize_entry) (follow_ups_of report)"
  by (simp_all add: sanitize_report_candidate_def Let_def plan_of_get follow_ups_of_def update_get
      option.map_comp comp_def flatten_update)

lemma sanitize_permitted:
  assumes "\<forall>item \<in> set (plan_of report). item_permitted item"
    and "\<forall>entry \<in> set (follow_ups_of report). entry_permitted entry"
  shows "sanitize_report_candidate report = (report, sanitized_default)"
proof -
  have items: "map sanitize_item (plan_of report) = map (\<lambda>item. (item, 0, 0)) (plan_of report)"
    using assms(1) sanitize_permitted_item by simp
  have entries: "map sanitize_entry (follow_ups_of report) = map (\<lambda>entry. (entry, 0)) (follow_ups_of report)"
    using assms(2) sanitize_permitted_entry by simp
  have "arr_update (\<lambda>_. plan_of report) x = x" if "json_get report ''improvementPlan'' = Some x" for x
    using that by (cases x) (simp_all add: plan_of_get)
  then have "json_update ''improvementPlan'' (arr_update (\<lambda>_. plan_of report)) report = report"
    by (rule update_same)
  moreover have "arr_update (\<lambda>_. follow_ups_of report) x = x" if "json_get report ''followUps'' = Some x" for x
    using that by (cases x) (simp_all add: follow_ups_of_def)
  then have "json_update ''followUps'' (arr_update (\<lambda>_. follow_ups_of report)) report = report"
    by (rule update_same)
  ultimately show ?thesis
    unfolding sanitize_report_candidate_def Let_def items entries
    by (simp add: comp_def sanitized_default_def)
qed

text \<open>
  The filter leaves nothing the rules refuse where it looks - no success criterion, no
  self-review check, no follow-up assessment - so filtering again takes out nothing, and a report it
  counts nothing for is the report it was given.
\<close>

theorem sanitizing_leaves_nothing_refused:
  "(\<forall>item \<in> set (plan_of (fst (sanitize_report_candidate report))). item_permitted item)
   \<and> (\<forall>entry \<in> set (follow_ups_of (fst (sanitize_report_candidate report))). entry_permitted entry)
   \<and> sanitize_report_candidate (fst (sanitize_report_candidate report))
       = (fst (sanitize_report_candidate report), sanitized_default)"
proof -
  have "\<forall>item \<in> set (plan_of (fst (sanitize_report_candidate report))). item_permitted item"
    and "\<forall>entry \<in> set (follow_ups_of (fst (sanitize_report_candidate report))). entry_permitted entry"
    by (auto simp: sanitized_parts sanitize_item_permitted sanitize_entry_permitted)
  then show ?thesis using sanitize_permitted by blast
qed

theorem sanitizing_leaves_nothing_refused_witness:
  "sanitize_report_candidate (fst (sanitize_report_candidate example_report))
     = (fst (sanitize_report_candidate example_report), sanitized_default)"
  using sanitizing_leaves_nothing_refused by blast

section \<open>A salvaged report\<close>

definition verdict :: "string list" where
  "verdict = [''codingScore'', ''communicationScore'', ''decision'']"

lemma validation_keeps_verdict:
  assumes "validate_report_for_round lower raw p v rounds mode drawing = Inr report" and "k \<in> set verdict"
  shows "json_get report k = json_get raw k"
  using validation_keeps [OF assms(1), of k] assms(2) by (auto simp: verdict_def)

lemma sanitize_keeps_verdict: "k \<in> set verdict \<Longrightarrow> json_get (fst (sanitize_report_candidate raw)) k = json_get raw k"
  by (auto simp: sanitize_report_candidate_def Let_def update_get verdict_def)

lemma clean_at_get: "j \<noteq> k \<Longrightarrow> json_get (fst (clean_at refused k fallback v)) j = json_get v j"
  by (auto simp: clean_at_def update_get split: option.splits)

lemma clean_list_get: "j \<noteq> fst sk \<Longrightarrow> json_get (fst (clean_list refused sk acc)) j = json_get (fst acc) j"
  by (cases sk; cases acc) (auto simp: clean_list_def update_get case_prod_beta split: option.splits)

lemma clean_lists_get: "k \<notin> fst ` set sks \<Longrightarrow> json_get (fst (fold (clean_list refused) sks acc)) k = json_get (fst acc) k"
  by (induction sks arbitrary: acc) (auto simp: clean_list_get)

lemma summary_not_verdict: "k \<in> set verdict \<Longrightarrow> k \<noteq> ''summary''"
  by (auto simp: verdict_def)

lemma drawings_keep_verdict:
  "k \<in> set verdict \<Longrightarrow> json_get (fst (sanitize_example_drawing_candidate raw p v mode drawing)) k = json_get raw k"
proof (cases "is_whiteboard mode \<or> \<not> drawing")
  case True
  then show ?thesis by (simp add: sanitize_example_drawing_candidate_def)
next
  case False
  assume k: "k \<in> set verdict"
  let ?refused = "drawing_text_refused p v mode"
  obtain r1 n1 where r1: "clean_at ?refused ''summary''
      ''Assessment uses the retained code, tests and conversation evidence.'' raw = (r1, n1)" by fastforce
  let ?lists = "[(''codingFeedback'', ''strengths''), (''codingFeedback'', ''improvements''),
    (''communicationFeedback'', ''strengths''), (''communicationFeedback'', ''improvements'')]"
  obtain r2 n2 repl where r2: "fold (clean_list ?refused) ?lists (r1, 0, Map.empty) = (r2, n2, repl)"
    by (metis prod.collapse)
  have "json_get (fst (sanitize_example_drawing_candidate raw p v mode drawing)) k = json_get r2 k"
    using k False unfolding sanitize_example_drawing_candidate_def Let_def r1 prod.case r2
    by (auto simp: update_get verdict_def)
  also have "\<dots> = json_get r1 k"
  proof -
    have "k \<notin> fst ` set ?lists" using k by (auto simp: verdict_def)
    from clean_lists_get [OF this, of ?refused "(r1, 0, Map.empty)", unfolded r2] show ?thesis by simp
  qed
  also have "\<dots> = json_get raw k"
    using clean_at_get [of k "''summary''" ?refused _ raw] summary_not_verdict [OF k] r1 by (metis fst_conv)
  finally show ?thesis .
qed

text \<open>
  C25. A salvage is an accepted report and keeps the verdict: something was taken out of the answer,
  what is left passes the whole validation unchanged, and the two scores and the decision are the
  ones the model gave.
\<close>

theorem salvage_keeps_the_verdict:
  assumes "salvage_report lower raw attempt p v rounds mode drawing = Some s"
  shows "validate_report_for_round lower (sv_report s) p v rounds mode drawing = Inr (sv_report s)
    \<and> sv_removed s \<noteq> sanitized_default \<and> sv_attempt s = attempt
    \<and> map (json_get (sv_report s)) verdict = map (json_get raw) verdict"
proof -
  let ?drawn = "fst (sanitize_example_drawing_candidate raw p v mode drawing)"
  let ?clean = "fst (sanitize_report_candidate ?drawn)"
  have valid: "validate_report_for_round lower ?clean p v rounds mode drawing = Inr (sv_report s)"
    and rest: "sv_removed s \<noteq> sanitized_default" "sv_attempt s = attempt"
    using assms by (auto simp: salvage_report_def case_prod_beta sanitized_is_empty_def Let_def split: if_splits sum.splits)
  have "json_get (sv_report s) k = json_get raw k" if "k \<in> set verdict" for k
    using validation_keeps_verdict [OF valid that] sanitize_keeps_verdict [OF that] drawings_keep_verdict [OF that] by simp
  moreover have "validate_report_for_round lower (sv_report s) p v rounds mode drawing = Inr (sv_report s)"
    using accepted_settled [OF valid] accepted_revalidates by metis
  ultimately show ?thesis using rest by simp
qed

text \<open>The example with one more check, which the rules refuse.\<close>

definition refused_report :: json where
  "refused_report = json_update ''improvementPlan'' (arr_update (map (json_update ''selfReview''
     (\<lambda>_. JArr [JStr ''f'', JStr ''No accent'']))) ) example_report"

lemma refused_report_sanitized:
  "sanitize_report_candidate refused_report = (example_report, sanitized_default\<lparr>sz_checks := 2\<rparr>)"
  by code_simp

lemma example_salvaged:
  "salvage_report example_lower refused_report 2 example_problem example_variant example_rounds Whiteboard True
     = Some \<lparr>sv_report = example_accepted, sv_removed = sanitized_default\<lparr>sz_checks := 2\<rparr>, sv_attempt = 2\<rparr>"
  by (simp add: salvage_report_def sanitize_example_drawing_candidate_def is_whiteboard_def refused_report_sanitized
      example_valid_whiteboard sanitized_is_empty_def sanitized_default_def)

theorem salvage_keeps_the_verdict_witness:
  "map (json_get example_accepted) verdict = map (json_get refused_report) verdict"
  using salvage_keeps_the_verdict [OF example_salvaged] by simp

section \<open>Where the two views of a drawing differ\<close>

text \<open>
  Validation reads a text as one sequence of words, the salvage sentence by sentence.  A reference
  whose two halves lie in two sentences is refused by the first and not seen by the second, so no
  salvage is made of a report that has one.
\<close>

definition two_sentences :: string where
  "two_sentences = ''Good inputs were provided. The diagram was small.''"

lemma drawing_across_sentences:
  "drawing_refused (problem_words example_problem example_variant) two_sentences"
  "\<not> drawing_text_refused example_problem example_variant Coding two_sentences"
  by code_simp+

end
