(* ===== verification/Report_Schema.thy ===== *)
theory Report_Schema
  imports Report_Correct Report_Example
begin

text \<open>
  The schema the model is asked to answer in and the validator that reads the answer are written
  apart.  \<open>conforms\<close> reads the part of JSON Schema the provider takes, and an accepted report, which
  the validator's rules describe, satisfies the schema that was sent.
\<close>

text \<open>The depth bounds how far a schema may nest; the report's nests five deep.\<close>

fun conforms :: "nat \<Rightarrow> json \<Rightarrow> json \<Rightarrow> bool" where
  "conforms 0 schema v = False"
| "conforms (Suc n) schema v =
     ((json_index schema ''nullable'' = JBool True \<and> v = JNull)
      \<or> (case json_index schema ''type'' of
           JStr t \<Rightarrow>
             if t = ''STRING'' then
               (case v of JStr s \<Rightarrow> (case json_get schema ''enum'' of Some (JArr names) \<Rightarrow> v \<in> set names | _ \<Rightarrow> True) | _ \<Rightarrow> False)
             else if t = ''INTEGER'' then
               (case (v, json_index schema ''minimum'', json_index schema ''maximum'') of
                  (JInt i, JInt lo, JInt hi) \<Rightarrow> lo \<le> i \<and> i \<le> hi | _ \<Rightarrow> False)
             else if t = ''BOOLEAN'' then (case v of JBool b \<Rightarrow> True | _ \<Rightarrow> False)
             else if t = ''ARRAY'' then
               (case (v, json_index schema ''minItems'', json_index schema ''maxItems'') of
                  (JArr items, JInt lo, JInt hi) \<Rightarrow> lo \<le> int (length items) \<and> int (length items) \<le> hi
                     \<and> list_all (conforms n (json_index schema ''items'')) items | _ \<Rightarrow> False)
             else if t = ''OBJECT'' then
               (case (v, json_index schema ''properties'', json_index schema ''required'') of
                  (JObj obj, JObj props, JArr keys) \<Rightarrow>
                    list_all (\<lambda>k. case k of JStr key \<Rightarrow> map_of obj key \<noteq> None | _ \<Rightarrow> False) keys
                  \<and> list_all (\<lambda>(key, sub). case map_of obj key of None \<Rightarrow> True | Some x \<Rightarrow> conforms n sub x) props
                | _ \<Rightarrow> False)
             else False
         | _ \<Rightarrow> False))"

named_theorems schemas "what a schema built by the code asks for"

lemma conforms_text [schemas]: "conforms (Suc n) text_schema v \<longleftrightarrow> (\<exists>s. v = JStr s)"
  by (cases v) (simp_all add: text_schema_def json_index_def)

lemma conforms_enum [schemas]: "conforms (Suc n) (enum_schema names) v \<longleftrightarrow> (\<exists>s \<in> set names. v = JStr s)"
  by (cases v) (auto simp: enum_schema_def json_index_def)

lemma conforms_integer [schemas]:
  "conforms (Suc n) (integer_schema lo hi []) v \<longleftrightarrow> (\<exists>i. v = JInt i \<and> lo \<le> i \<and> i \<le> hi)"
  "conforms (Suc n) (integer_schema lo hi [(''nullable'', JBool True)]) v \<longleftrightarrow>
     v = JNull \<or> (\<exists>i. v = JInt i \<and> lo \<le> i \<and> i \<le> hi)"
  by (cases v; simp add: integer_schema_def json_index_def)+

lemma conforms_array [schemas]:
  "conforms (Suc n) (array_schema lo hi sub) v \<longleftrightarrow>
     (\<exists>items. v = JArr items \<and> lo \<le> int (length items) \<and> int (length items) \<le> hi \<and> (\<forall>item \<in> set items. conforms n sub item))"
  by (cases v) (simp_all add: array_schema_def json_index_def list_all_iff)

lemma strings_array [schemas]: "strings_schema lo hi = array_schema lo hi text_schema"
  by (simp add: strings_schema_def array_schema_def text_schema_def)

lemma conforms_object [schemas]:
  "conforms (Suc n) (object_schema props) v \<longleftrightarrow>
     (\<exists>obj. v = JObj obj \<and> (\<forall>(key, sub) \<in> set props. \<exists>x. map_of obj key = Some x \<and> conforms n sub x))"
  by (cases v) (fastforce simp: object_schema_def json_index_def list_all_iff Let_def split: option.splits)+

lemma bool_schema: "conforms (Suc n) (JObj [(''type'', JStr ''BOOLEAN'')]) (JBool b)"
  by (simp add: json_index_def)

lemma nullable_text_schema:
  "conforms (Suc n) (JObj [(''type'', JStr ''STRING''), (''nullable'', JBool True)]) v \<longleftrightarrow> v = JNull \<or> (\<exists>s. v = JStr s)"
  by (cases v) (simp_all add: json_index_def)

declare conforms.simps [simp del]

section \<open>The validator asks for at least the schema\<close>

lemma texts_conform:
  "texts_in v least most text_max \<Longrightarrow> \<exists>x. v = Some x \<and> conforms (Suc (Suc n)) (strings_schema (int least) (int most)) x"
  unfolding texts_in_def schemas by (fastforce simp: text_of_Some)

lemma feedback_conforms:
  assumes "feedback_ok v least least"
  shows "\<exists>x. v = Some x \<and> conforms (Suc (Suc (Suc n))) (feedback_schema (int least) 4) x"
proof -
  obtain obj where obj: "v = Some (JObj obj)" "texts_in (map_of obj ''strengths'') least 4 400"
    "texts_in (map_of obj ''improvements'') least 4 400"
    using assms by (auto simp: feedback_ok_def)
  from texts_conform [OF obj(2), of n] texts_conform [OF obj(3), of n] show ?thesis
    by (simp add: feedback_schema_def conforms_object obj(1))
qed

lemma text_conforms: "text_of v most \<noteq> None \<Longrightarrow> \<exists>x. v = Some x \<and> conforms (Suc n) text_schema x"
  by (auto simp: schemas text_of_Some)

lemma named_conforms: "named_in v names \<Longrightarrow> \<exists>x. v = Some x \<and> conforms (Suc n) (enum_schema names) x"
  by (auto simp: schemas named_in_def)

lemma integer_conforms: "integer_in v lo hi \<Longrightarrow> \<exists>x. v = Some x \<and> conforms (Suc n) (integer_schema lo hi []) x"
  by (auto simp: schemas integer_in_def)

lemma plan_item_conforms:
  assumes "plan_item_ok item"
  shows "conforms (Suc (Suc (Suc n))) plan_schema item"
proof -
  obtain obj where obj: "item = JObj obj" "named_in (map_of obj ''phase'') IMPROVEMENT_PHASES"
    "text_of (map_of obj ''weakness'') 400 \<noteq> None" "named_in (map_of obj ''impact'') [''high'', ''medium'', ''low'']"
    "integer_in (map_of obj ''frequency'') 1 99" "text_of (map_of obj ''drill'') 400 \<noteq> None"
    "integer_in (map_of obj ''durationMin'') 1 30" "text_of (map_of obj ''successCriterion'') 400 \<noteq> None"
    "texts_in (map_of obj ''selfReview'') 1 4 240"
    using assms unfolding plan_item_ok_def by blast
  show ?thesis
    using named_conforms [OF obj(2), of "Suc n"] text_conforms [OF obj(3), of "Suc n"] named_conforms [OF obj(4), of "Suc n"]
      integer_conforms [OF obj(5), of "Suc n"] text_conforms [OF obj(6), of "Suc n"] integer_conforms [OF obj(7), of "Suc n"]
      text_conforms [OF obj(8), of "Suc n"] texts_conform [OF obj(9), of n]
    by (simp add: plan_schema_def conforms_object obj(1))
qed

lemma row_conforms: "row_ok row phase \<Longrightarrow> phase \<in> set IMPROVEMENT_PHASES \<Longrightarrow> conforms (Suc (Suc n)) row_schema row"
  by (auto simp: row_ok_def row_schema_def schemas integer_in_def)

lemma framework_conforms:
  assumes "framework_ok v"
  shows "\<exists>x. v = Some x \<and> conforms (Suc (Suc (Suc (Suc n))))
     (object_schema [(''rubricVersion'', integer_schema RUBRIC_VERSION RUBRIC_VERSION []), (''phases'', array_schema 10 10 row_schema)]) x"
proof -
  obtain obj rows where f: "v = Some (JObj obj)" "map_of obj ''phases'' = Some (JArr rows)"
    "list_all2 row_ok rows IMPROVEMENT_PHASES" "integer_in (map_of obj ''rubricVersion'') RUBRIC_VERSION RUBRIC_VERSION"
    using assms by (rule framework_okE)
  have "\<forall>row \<in> set rows. conforms (Suc (Suc n)) row_schema row"
    using f(3) row_conforms by (metis in_set_conv_nth list_all2_conv_all_nth nth_mem)
  moreover have "length rows = 10" using list_all2_lengthD [OF f(3)] by (simp add: IMPROVEMENT_PHASES_def)
  ultimately show ?thesis
    using integer_conforms [OF f(4), of "Suc (Suc n)"] by (simp add: conforms_object conforms_array f(1,2))
qed

lemma kept_loop_short:
  "finite seen \<Longrightarrow> seen \<subseteq> {1..judged} \<Longrightarrow> length (kept_loop judged position seen entries) + card seen \<le> judged"
proof (induction judged position seen entries rule: kept_loop.induct)
  case (1 judged position seen)
  then show ?case using card_mono [of "{1..judged}" seen] by simp
next
  case (2 judged position seen entry entries)
  then show ?case by (auto split: option.splits if_splits)
qed

lemma kept_entry_conforms:
  assumes "1 \<le> index" and "index \<le> MAX_FOLLOW_UPS"
  shows "conforms (Suc (Suc n)) follow_up_schema (kept_entry index raised entry)"
  using assms
  by (simp add: follow_up_schema_def conforms_object conforms_integer bool_schema nullable_text_schema kept_entry_def
      Let_def opt_str_json_def split: option.splits)

lemma kept_loop_conform:
  "judged \<le> MAX_FOLLOW_UPS \<Longrightarrow> kept \<in> set (kept_loop judged position seen entries) \<Longrightarrow>
     conforms (Suc (Suc n)) follow_up_schema (snd kept)"
proof (induction judged position seen entries rule: kept_loop.induct)
  case (2 judged position seen entry entries)
  then show ?case using kept_entry_conforms [of _ n] by (auto split: option.splits if_splits)
qed simp

text \<open>
  C23. What the validator accepts satisfies the schema that was sent: an accepted report that answers
  the follow-ups conforms to the response schema of its interview, the one with candidate turns or
  the one without, for an exercise with at most three follow-ups.
\<close>

theorem accepted_report_conforms:
  assumes "validate_report_for_round lower raw p v rounds mode drawing = Inr report"
    and "json_get report ''followUps'' \<noteq> None" and "length (pv_follow_ups v) \<le> MAX_FOLLOW_UPS"
  shows "conforms 6 (report_response_schema (communication_assessed rounds)) report"
proof -
  let ?j = "judged_count v rounds" and ?a = "communication_assessed rounds"
  obtain obj where obj: "report = JObj obj" "report_ok obj (source_title_or_empty p v) ?j ?a" "settled_fields obj ?j = obj"
    by (rule accepted_reportE [OF assms(1)]) blast
  note ok = obj(2) [unfolded report_ok_def]
  have six: "(6 :: nat) = Suc (Suc (Suc (Suc (Suc (Suc 0)))))" by simp
  have score: "\<exists>x. map_of obj ''codingScore'' = Some x \<and> conforms (Suc n) (integer_schema 0 100 []) x" for n
    using ok integer_conforms by blast
  have communication: "\<exists>x. map_of obj ''communicationScore'' = Some x \<and> conforms (Suc n)
      (if ?a then integer_schema 0 100 [] else integer_schema 0 100 [(''nullable'', JBool True)]) x" for n
    using ok integer_conforms by (cases ?a) (auto simp: schemas)
  have decision: "\<exists>x. map_of obj ''decision'' = Some x \<and> conforms (Suc n) (enum_schema [''HIRE'', ''NO_HIRE'']) x" for n
    using ok named_conforms by blast
  have summary: "\<exists>x. map_of obj ''summary'' = Some x \<and> conforms (Suc n) text_schema x" for n
    using ok text_conforms by blast
  have coding: "\<exists>x. map_of obj ''codingFeedback'' = Some x \<and> conforms (Suc (Suc (Suc n))) (feedback_schema 2 4) x" for n
    using ok feedback_conforms [of _ 2] by simp
  have feedback: "\<exists>x. map_of obj ''communicationFeedback'' = Some x
      \<and> conforms (Suc (Suc (Suc n))) (feedback_schema (if ?a then 2 else 0) (if ?a then 4 else 0)) x" for n
  proof (cases ?a)
    case True
    then show ?thesis using ok feedback_conforms [of _ 2] by simp
  next
    case False
    then show ?thesis
      using ok by (auto simp: feedback_ok_def texts_in_def unassessed_feedback_def feedback_schema_def schemas
          split: if_splits)
  qed
  have plan: "\<exists>x. map_of obj ''improvementPlan'' = Some x \<and> conforms (Suc (Suc (Suc (Suc n)))) (array_schema 0 8 plan_schema) x" for n
    using ok plan_item_conforms by (auto simp: plan_ok_def conforms_array)
  have follow: "\<exists>x. map_of obj ''followUps'' = Some x
      \<and> conforms (Suc (Suc (Suc n))) (array_schema 0 (int MAX_FOLLOW_UPS) follow_up_schema) x" for n
  proof -
    obtain e where e: "map_of obj ''followUps'' = Some e" using assms(2) by (auto simp: obj(1))
    then have kept: "e = kept_json e ?j" using settled_get [of obj ?j "''followUps''"] obj(3) by simp
    have j: "?j \<le> MAX_FOLLOW_UPS" using assms(3) by (simp add: judged_count_def)
    have "length (kept_follow_ups e ?j) \<le> MAX_FOLLOW_UPS"
      using kept_loop_short [of "{}" ?j 0] j by (simp add: kept_follow_ups_def) (meson le_trans)
    moreover have "\<forall>item \<in> set (map snd (kept_follow_ups e ?j)). conforms (Suc (Suc n)) follow_up_schema item"
      using kept_loop_conform [OF j] by (auto simp: kept_follow_ups_def)
    ultimately have "conforms (Suc (Suc (Suc n))) (array_schema 0 (int MAX_FOLLOW_UPS) follow_up_schema) (kept_json e ?j)"
      by (simp add: conforms_array kept_json_def)
    then show ?thesis using e kept by simp
  qed
  show ?thesis
    unfolding six report_response_schema_def conforms_object obj(1)
    using score communication decision summary coding feedback plan framework_conforms ok follow
    by (simp)
qed

theorem accepted_report_conforms_witness:
  "conforms 6 (report_response_schema False) example_accepted"
proof -
  have "json_get example_accepted ''followUps'' \<noteq> None"
    using validation_keeps [OF example_valid, of "''followUps''"] by (simp add: example_report_def)
  moreover have "length (pv_follow_ups example_variant) \<le> MAX_FOLLOW_UPS" by code_simp
  ultimately show ?thesis
    using accepted_report_conforms [OF example_valid] by (simp add: example_rounds_def communication_assessed_def)
qed

end
