(* ===== verification/Floor.thy ===== *)
theory Floor
  imports Prelude
begin

text \<open>
  \<open>src/src/livekit/floor.rs\<close>: what the room observes of who has the floor.  A record is opened when
  the candidate pauses or speaks over the interviewer and emitted once, when it settles or is given
  up.  An \<open>Instant\<close> is a number of nanoseconds; the emitted records are the list \<open>observe\<close> returns.
\<close>

definition CUT_OFF_MS :: nat where "CUT_OFF_MS = 1500"
definition FALSE_STOP_MS :: nat where "FALSE_STOP_MS = 600"
definition MISSED_BARGE_IN_MS :: nat where "MISSED_BARGE_IN_MS = 1500"

datatype floor_event =
    Start bool nat
  | End
  | Output bool
  | Complete bool
  | Drained
  | Interruption
  | ActivityLost
  | Reset

record floor_record =
  fr_seq :: nat
  fr_opened_at :: nat
  fr_resolved_at :: "nat option"
  fr_activity_end_at :: "nat option"
  fr_kind :: string
  fr_outcome :: string
  fr_gap_ms :: "nat option"
  fr_overlap_ms :: "nat option"
  fr_playout_ahead_ms :: "nat option"
  fr_suspect :: "string option"

definition show_ms :: "nat option \<Rightarrow> string" where
  "show_ms ms = (case ms of None \<Rightarrow> ''unknown'' | Some n \<Rightarrow> decimal n)"

definition floor_log_line :: "floor_record \<Rightarrow> string \<Rightarrow> nat \<Rightarrow> nat \<Rightarrow> string \<Rightarrow> string" where
  "floor_log_line r room session socket clock =
     ''codetrial floor room='' @ room @ '' session='' @ decimal session @ '' socket='' @ decimal socket
     @ '' seq='' @ decimal (fr_seq r) @ '' kind='' @ fr_kind r @ '' outcome='' @ fr_outcome r @ '' at='' @ clock
     @ '' gap_ms='' @ show_ms (fr_gap_ms r) @ '' overlap_ms='' @ show_ms (fr_overlap_ms r)
     @ '' playout_ahead_ms='' @ show_ms (fr_playout_ahead_ms r)
     @ '' suspect='' @ (case fr_suspect r of None \<Rightarrow> ''unknown'' | Some s \<Rightarrow> s)"

record floor_pause =
  fp_record :: floor_record
  fp_start :: nat
  fp_audio :: "nat option"
  fp_audio_generation_open :: bool

record floor_overlap =
  fo_record :: floor_record
  fo_start :: nat
  fo_ended :: "nat option"
  fo_drained :: "nat option"

record floor_tracker =
  ft_sequence :: nat
  ft_active :: bool
  ft_output_started :: bool
  ft_pause :: "floor_pause option"
  ft_overlap :: "floor_overlap option"

definition floor_new :: floor_tracker where
  "floor_new = \<lparr>ft_sequence = 0, ft_active = False, ft_output_started = False, ft_pause = None, ft_overlap = None\<rparr>"

definition ms_since :: "nat \<Rightarrow> nat \<Rightarrow> nat option" where
  "ms_since now from = (if from \<le> now then Some ((now - from) div 1000000) else None)"

definition unresolved :: string where "unresolved = ''unresolved''"

definition new_record :: "nat \<Rightarrow> string \<Rightarrow> nat \<Rightarrow> floor_record" where
  "new_record seq kind now = \<lparr>fr_seq = seq, fr_opened_at = now, fr_resolved_at = None, fr_activity_end_at = None,
     fr_kind = kind, fr_outcome = unresolved, fr_gap_ms = None, fr_overlap_ms = None,
     fr_playout_ahead_ms = None, fr_suspect = None\<rparr>"

definition talked_over :: "floor_overlap \<Rightarrow> nat option" where
  "talked_over o1 = (case fo_ended o1 of None \<Rightarrow> None
     | Some end_at \<Rightarrow> ms_since (case fo_drained o1 of None \<Rightarrow> end_at | Some drained \<Rightarrow> min drained end_at) (fo_start o1))"

definition overlap_suspect :: "floor_overlap \<Rightarrow> string option" where
  "overlap_suspect o1 =
     (let r = fo_record o1
      in if fr_outcome r = ''interrupted'' \<and> (case fr_overlap_ms r of None \<Rightarrow> False | Some ms \<Rightarrow> ms < FALSE_STOP_MS)
         then Some ''false_stop''
         else if fr_outcome r = ''continued'' \<and> (case talked_over o1 of None \<Rightarrow> False | Some ms \<Rightarrow> ms \<ge> MISSED_BARGE_IN_MS)
         then Some ''missed_barge_in''
         else None)"

definition finish_overlap :: "floor_tracker \<Rightarrow> floor_tracker \<times> floor_record list" where
  "finish_overlap t =
     (case ft_overlap t of
        Some o1 \<Rightarrow>
          if fo_ended o1 \<noteq> None \<and> fr_outcome (fo_record o1) \<noteq> unresolved
          then (t\<lparr>ft_overlap := None\<rparr>, [(fo_record o1)\<lparr>fr_suspect := overlap_suspect o1\<rparr>])
          else (t, [])
      | None \<Rightarrow> (t, []))"

section \<open>One arm for each event\<close>

definition pause_at_start :: "floor_pause \<Rightarrow> nat \<Rightarrow> floor_record" where
  "pause_at_start p now =
     (let r = fp_record p
      in if fr_outcome r = unresolved
         then r\<lparr>fr_outcome := ''continue'', fr_resolved_at := Some now, fr_gap_ms := ms_since now (fp_start p)\<rparr>
         else if (case Option.bind (fp_audio p) (ms_since now) of None \<Rightarrow> False | Some gap \<Rightarrow> gap \<le> CUT_OFF_MS)
         then r\<lparr>fr_suspect := Some ''cut_off''\<rparr>
         else r)"

definition emitted :: "('a \<Rightarrow> floor_record) \<Rightarrow> 'a option \<Rightarrow> floor_record list" where
  "emitted f x = (case x of None \<Rightarrow> [] | Some y \<Rightarrow> [f y])"

definition observe_start :: "bool \<Rightarrow> nat \<Rightarrow> nat \<Rightarrow> floor_tracker \<Rightarrow> floor_tracker \<times> floor_record list" where
  "observe_start generating ahead now t =
     (if ft_active t then (t, [])
      else let emits = emitted (\<lambda>p. pause_at_start p now) (ft_pause t) @ emitted fo_record (ft_overlap t);
               t = t\<lparr>ft_active := True, ft_pause := None, ft_overlap := None\<rparr>
           in if generating \<or> ahead \<noteq> 0
              then let seq = ft_sequence t + 1
                   in (t\<lparr>ft_sequence := seq, ft_overlap := Some \<lparr>fo_record =
                          (new_record seq ''overlap'' now)\<lparr>fr_playout_ahead_ms := Some (ahead div 1000000)\<rparr>,
                        fo_start = now, fo_ended = None, fo_drained = None\<rparr>\<rparr>, emits)
              else (t, emits))"

definition end_overlap :: "nat \<Rightarrow> floor_overlap \<Rightarrow> floor_overlap" where
  "end_overlap now o1 =
     (if fo_ended o1 = None
      then o1\<lparr>fo_ended := Some now, fo_record := (fo_record o1)\<lparr>fr_activity_end_at := Some now,
                fr_overlap_ms := ms_since now (fo_start o1)\<rparr>\<rparr>
      else o1)"

definition pause_unresolved :: "floor_tracker \<Rightarrow> bool" where
  "pause_unresolved t = (case ft_pause t of None \<Rightarrow> False | Some p \<Rightarrow> fr_outcome (fp_record p) = unresolved)"

definition observe_end :: "nat \<Rightarrow> floor_tracker \<Rightarrow> floor_tracker \<times> floor_record list" where
  "observe_end now t =
     (let (t, settled) = finish_overlap (t\<lparr>ft_overlap := map_option (end_overlap now) (ft_overlap t)\<rparr>)
      in if \<not> ft_active t \<and> pause_unresolved t then (t, settled)
         else let seq = ft_sequence t + 1
              in (t\<lparr>ft_active := False, ft_sequence := seq,
                    ft_pause := Some \<lparr>fp_record = new_record seq ''pause'' now, fp_start = now, fp_audio = None,
                      fp_audio_generation_open = True\<rparr>\<rparr>,
                  settled @ emitted fp_record (ft_pause t)))"

definition pause_output :: "bool \<Rightarrow> bool \<Rightarrow> nat \<Rightarrow> floor_pause \<Rightarrow> floor_pause" where
  "pause_output first_output audio now p =
     (let r = fp_record p;
          r = (if first_output \<and> fr_outcome r = unresolved
               then r\<lparr>fr_outcome := ''respond'', fr_resolved_at := Some now, fr_gap_ms := ms_since now (fp_start p)\<rparr>
               else r)
      in p\<lparr>fp_record := r,
           fp_audio := (if audio \<and> fr_outcome r = ''respond'' \<and> fp_audio_generation_open p \<and> fp_audio p = None
                        then Some now else fp_audio p)\<rparr>)"

definition observe_output :: "bool \<Rightarrow> nat \<Rightarrow> floor_tracker \<Rightarrow> floor_tracker \<times> floor_record list" where
  "observe_output audio now t =
     (t\<lparr>ft_output_started := True,
        ft_pause := map_option (pause_output (\<not> ft_output_started t) audio now) (ft_pause t)\<rparr>, [])"

definition settle_overlap :: "string \<Rightarrow> nat \<Rightarrow> bool \<Rightarrow> floor_overlap \<Rightarrow> floor_overlap" where
  "settle_overlap outcome now drained o1 =
     (if fr_outcome (fo_record o1) = unresolved
      then o1\<lparr>fo_record := (fo_record o1)\<lparr>fr_outcome := outcome, fr_resolved_at := Some now\<rparr>,
              fo_drained := (if drained then Some now else fo_drained o1)\<rparr>
      else o1)"

definition observe_interrupted :: "nat \<Rightarrow> floor_tracker \<Rightarrow> floor_tracker \<times> floor_record list" where
  "observe_interrupted now t =
     finish_overlap (t\<lparr>ft_overlap := map_option (settle_overlap ''interrupted'' now False) (ft_overlap t)\<rparr>)"

definition observe_drained :: "nat \<Rightarrow> floor_tracker \<Rightarrow> floor_tracker \<times> floor_record list" where
  "observe_drained now t =
     finish_overlap (t\<lparr>ft_overlap := map_option (settle_overlap ''continued'' now True) (ft_overlap t)\<rparr>)"

definition observe_complete :: "bool \<Rightarrow> nat \<Rightarrow> floor_tracker \<Rightarrow> floor_tracker \<times> floor_record list" where
  "observe_complete playing now t =
     (let given_up = (if pause_unresolved t then emitted fp_record (ft_pause t) else []);
          t = t\<lparr>ft_output_started := False,
                ft_pause := (if pause_unresolved t then None
                             else map_option (\<lambda>p. p\<lparr>fp_audio_generation_open := False\<rparr>) (ft_pause t))\<rparr>
      in if playing then (t, given_up)
         else let (t, settled) = observe_drained now t in (t, given_up @ settled))"

definition observe_activity_lost :: "floor_tracker \<Rightarrow> floor_tracker \<times> floor_record list" where
  "observe_activity_lost t =
     (if ft_active t
      then (t\<lparr>ft_active := False, ft_overlap := None\<rparr>,
            emitted (\<lambda>o1. (fo_record o1)\<lparr>fr_outcome := unresolved, fr_resolved_at := None, fr_overlap_ms := None\<rparr>)
              (ft_overlap t))
      else (t, []))"

definition observe_reset :: "floor_tracker \<Rightarrow> floor_tracker \<times> floor_record list" where
  "observe_reset t =
     (t\<lparr>ft_active := False, ft_output_started := False, ft_pause := None, ft_overlap := None\<rparr>,
      emitted fp_record (ft_pause t)
      @ emitted (\<lambda>o1. (fo_record o1)\<lparr>fr_outcome := unresolved, fr_resolved_at := None\<rparr>) (ft_overlap t))"

fun observe :: "floor_event \<Rightarrow> nat \<Rightarrow> floor_tracker \<Rightarrow> floor_tracker \<times> floor_record list" where
  "observe (Start generating ahead) now t = observe_start generating ahead now t"
| "observe End now t = observe_end now t"
| "observe (Output audio) now t = observe_output audio now t"
| "observe (Complete playing) now t = observe_complete playing now t"
| "observe Drained now t = observe_drained now t"
| "observe Interruption now t = observe_interrupted now t"
| "observe ActivityLost now t = observe_activity_lost t"
| "observe Reset now t = observe_reset t"

definition observe_at :: "floor_event \<times> nat \<Rightarrow> floor_tracker \<Rightarrow> floor_tracker \<times> floor_record list" where
  "observe_at = (\<lambda>(e, now). observe e now)"

abbreviation observe_all :: "(floor_event \<times> nat) list \<Rightarrow> floor_tracker \<Rightarrow> floor_tracker \<times> floor_record list" where
  "observe_all \<equiv> emit_run observe_at"

section \<open>No observation is lost or told twice\<close>

definition open_seqs :: "floor_tracker \<Rightarrow> nat list" where
  "open_seqs t = (case ft_pause t of None \<Rightarrow> [] | Some p \<Rightarrow> [fr_seq (fp_record p)])
     @ (case ft_overlap t of None \<Rightarrow> [] | Some o1 \<Rightarrow> [fr_seq (fo_record o1)])"

definition accounts :: "floor_tracker \<Rightarrow> floor_tracker \<times> floor_record list \<Rightarrow> bool" where
  "accounts t r \<longleftrightarrow> ft_sequence t \<le> ft_sequence (fst r)
     \<and> (\<forall>n. count_list (map fr_seq (snd r) @ open_seqs (fst r)) n
          = count_list (open_seqs t) n + (if ft_sequence t < n \<and> n \<le> ft_sequence (fst r) then 1 else 0))"

lemma emitted_seqs: "map fr_seq (emitted f x) = (case x of None \<Rightarrow> [] | Some y \<Rightarrow> [fr_seq (f y)])"
  by (simp add: emitted_def split: option.splits)

lemma seq_kept [simp]:
  "fr_seq (pause_at_start p now) = fr_seq (fp_record p)"
  "fr_seq (fo_record (end_overlap now o1)) = fr_seq (fo_record o1)"
  "fr_seq (fp_record (pause_output first_output audio now p)) = fr_seq (fp_record p)"
  "fr_seq (fo_record (settle_overlap outcome now drained o1)) = fr_seq (fo_record o1)"
  "fr_seq (new_record seq kind now) = seq"
  by (simp_all add: pause_at_start_def end_overlap_def pause_output_def settle_overlap_def new_record_def Let_def)

lemma finish_accounts: "accounts t (finish_overlap t)"
  by (auto simp: accounts_def finish_overlap_def open_seqs_def split: option.splits)

lemma observe_accounts: "accounts t (observe e now t)"
  by (cases e) (auto simp: accounts_def observe_start_def observe_end_def observe_output_def observe_complete_def
      observe_drained_def observe_interrupted_def observe_activity_lost_def observe_reset_def finish_overlap_def
      open_seqs_def emitted_seqs Let_def map_option_case split: option.splits if_splits prod.splits)

lemma observe_all_accounts: "accounts t (observe_all es t)"
proof (induction es arbitrary: t)
  case (Cons e es)
  obtain u emits where u: "observe_at e t = (u, emits)" by (cases "observe_at e t")
  obtain w later where w: "observe_all es u = (w, later)" by (cases "observe_all es u")
  have "accounts t (u, emits)" using observe_accounts [of t "fst e" "snd e"] u by (simp add: observe_at_def case_prod_beta)
  moreover have "accounts u (w, later)" using Cons.IH [of u] w by simp
  ultimately show ?case by (auto simp: u w accounts_def)
qed (simp add: accounts_def)

lemma open_seqs_new: "open_seqs floor_new = []" "ft_sequence floor_new = 0"
  by (simp_all add: open_seqs_def floor_new_def)

lemma open_seqs_few: "length (open_seqs t) \<le> 2"
  by (simp add: open_seqs_def split: option.splits)

lemma reset_closes: "open_seqs (fst (observe Reset now t)) = []"
  by (simp add: observe_reset_def open_seqs_def)

text \<open>
  C31. No observation of the floor is lost or told twice: whatever the provider reports and in
  whatever order, every record that was ever opened - numbered from 1 - has been emitted exactly once
  or is one of the at most two still open, and a reset emits those.
\<close>

theorem floor_records_are_told_once:
  "count_list (map fr_seq (snd (observe_all es floor_new)) @ open_seqs (fst (observe_all es floor_new))) n
     = (if 1 \<le> n \<and> n \<le> ft_sequence (fst (observe_all es floor_new)) then 1 else 0)
   \<and> length (open_seqs (fst (observe_all es floor_new))) \<le> 2
   \<and> open_seqs (fst (observe Reset now (fst (observe_all es floor_new)))) = []"
  using observe_all_accounts [of floor_new es] open_seqs_few reset_closes
  unfolding accounts_def open_seqs_new by (simp add: Suc_le_eq)

section \<open>What an emitted record says\<close>

definition pause_says :: "floor_record \<Rightarrow> bool" where
  "pause_says r \<longleftrightarrow> fr_kind r = ''pause'' \<and> fr_outcome r \<in> {unresolved, ''continue'', ''respond''}
     \<and> fr_suspect r \<in> {None, Some ''cut_off''} \<and> (fr_suspect r = Some ''cut_off'' \<longrightarrow> fr_outcome r = ''respond'')"

definition overlap_says :: "floor_record \<Rightarrow> bool" where
  "overlap_says r \<longleftrightarrow> fr_kind r = ''overlap'' \<and> fr_outcome r \<in> {unresolved, ''interrupted'', ''continued''}
     \<and> fr_suspect r \<in> {None, Some ''false_stop'', Some ''missed_barge_in''}
     \<and> (fr_suspect r = Some ''false_stop'' \<longrightarrow> fr_outcome r = ''interrupted''
          \<and> (\<exists>ms < FALSE_STOP_MS. fr_overlap_ms r = Some ms))
     \<and> (fr_suspect r = Some ''missed_barge_in'' \<longrightarrow> fr_outcome r = ''continued''
          \<and> (\<exists>ms \<ge> MISSED_BARGE_IN_MS. fr_overlap_ms r = Some ms))"

definition record_consistent :: "floor_record \<Rightarrow> bool" where
  "record_consistent r \<longleftrightarrow> (fr_outcome r = unresolved \<longrightarrow> fr_resolved_at r = None) \<and> (pause_says r \<or> overlap_says r)"

definition pause_consistent :: "floor_pause \<Rightarrow> bool" where
  "pause_consistent p \<longleftrightarrow> (fr_outcome (fp_record p) = unresolved \<longrightarrow> fr_resolved_at (fp_record p) = None)
     \<and> fr_kind (fp_record p) = ''pause'' \<and> fr_suspect (fp_record p) = None
     \<and> fr_outcome (fp_record p) \<in> {unresolved, ''respond''} \<and> (fp_audio p \<noteq> None \<longrightarrow> fr_outcome (fp_record p) = ''respond'')"

definition overlap_consistent :: "floor_overlap \<Rightarrow> bool" where
  "overlap_consistent o1 \<longleftrightarrow> (fr_outcome (fo_record o1) = unresolved \<longrightarrow> fr_resolved_at (fo_record o1) = None)
     \<and> fr_kind (fo_record o1) = ''overlap'' \<and> fr_suspect (fo_record o1) = None
     \<and> fr_outcome (fo_record o1) \<in> {unresolved, ''interrupted'', ''continued''}
     \<and> (\<forall>end_at. fo_ended o1 = Some end_at \<longrightarrow> fr_overlap_ms (fo_record o1) = ms_since end_at (fo_start o1))"

definition tracker_consistent :: "floor_tracker \<Rightarrow> bool" where
  "tracker_consistent t \<longleftrightarrow> pred_option pause_consistent (ft_pause t) \<and> pred_option overlap_consistent (ft_overlap t)"

lemma outcomes_differ [simp]:
  "unresolved \<noteq> ''respond''" "unresolved \<noteq> ''continue''" "unresolved \<noteq> ''interrupted''" "unresolved \<noteq> ''continued''"
  "''respond'' \<noteq> unresolved" "''continue'' \<noteq> unresolved" "''interrupted'' \<noteq> unresolved" "''continued'' \<noteq> unresolved"
  by (simp_all add: unresolved_def)

lemma held_records:
  "pause_consistent p \<Longrightarrow> record_consistent (fp_record p)"
  "pause_consistent p \<Longrightarrow> record_consistent (pause_at_start p now)"
  "overlap_consistent o1 \<Longrightarrow> record_consistent (fo_record o1)"
  by (auto simp: pause_consistent_def overlap_consistent_def record_consistent_def pause_says_def overlap_says_def
      pause_at_start_def Let_def)

lemma ms_since_mono: "ms_since u from = Some ms \<Longrightarrow> u \<le> v \<Longrightarrow> \<exists>ns \<ge> ms. ms_since v from = Some ns"
  by (auto simp: ms_since_def div_le_mono split: if_splits)

lemma talked_within:
  assumes "overlap_consistent o1" and "talked_over o1 = Some ms"
  shows "\<exists>ns \<ge> ms. fr_overlap_ms (fo_record o1) = Some ns"
proof -
  obtain end_at where e: "fo_ended o1 = Some end_at"
    and u: "ms_since (case fo_drained o1 of None \<Rightarrow> end_at | Some drained \<Rightarrow> min drained end_at) (fo_start o1) = Some ms"
    using assms(2) by (auto simp: talked_over_def split: option.splits)
  have "\<exists>ns \<ge> ms. ms_since end_at (fo_start o1) = Some ns"
    by (rule ms_since_mono [OF u]) (simp split: option.splits)
  with assms(1) e show ?thesis by (simp add: overlap_consistent_def)
qed

lemma settled_record:
  assumes "overlap_consistent o1"
  shows "record_consistent ((fo_record o1)\<lparr>fr_suspect := overlap_suspect o1\<rparr>)"
proof -
  have "\<exists>ms \<ge> MISSED_BARGE_IN_MS. fr_overlap_ms (fo_record o1) = Some ms"
    if "talked_over o1 = Some n" and "MISSED_BARGE_IN_MS \<le> n" for n
    using talked_within [OF assms that(1)] that(2) order_trans by blast
  with assms show ?thesis
    by (auto simp: overlap_consistent_def record_consistent_def overlap_says_def overlap_suspect_def Let_def
        split: option.splits)
qed

lemma lost_records:
  "overlap_consistent o1 \<Longrightarrow>
     record_consistent ((fo_record o1)\<lparr>fr_outcome := unresolved, fr_resolved_at := None, fr_overlap_ms := None\<rparr>)"
  "overlap_consistent o1 \<Longrightarrow> record_consistent ((fo_record o1)\<lparr>fr_outcome := unresolved, fr_resolved_at := None\<rparr>)"
  by (auto simp: overlap_consistent_def record_consistent_def overlap_says_def)

lemma held_steps:
  "overlap_consistent o1 \<Longrightarrow> overlap_consistent (end_overlap now o1)"
  "overlap_consistent o1 \<Longrightarrow> outcome \<in> {''interrupted'', ''continued''} \<Longrightarrow> overlap_consistent (settle_overlap outcome now d o1)"
  "pause_consistent p \<Longrightarrow> pause_consistent (pause_output first_output audio now p)"
  by (auto simp: overlap_consistent_def pause_consistent_def end_overlap_def settle_overlap_def pause_output_def Let_def)

lemma new_held:
  "pause_consistent \<lparr>fp_record = new_record seq ''pause'' now, fp_start = now, fp_audio = None, fp_audio_generation_open = b\<rparr>"
  "overlap_consistent \<lparr>fo_record = (new_record seq ''overlap'' now)\<lparr>fr_playout_ahead_ms := x\<rparr>, fo_start = now,
     fo_ended = None, fo_drained = None\<rparr>"
  by (simp_all add: pause_consistent_def overlap_consistent_def new_record_def)

lemma pause_closed: "pause_consistent p \<Longrightarrow> pause_consistent (p\<lparr>fp_audio_generation_open := b\<rparr>)"
  by (simp add: pause_consistent_def)

lemma finish_consistent:
  assumes "tracker_consistent t"
  shows "tracker_consistent (fst (finish_overlap t))" and "list_all record_consistent (snd (finish_overlap t))"
  using assms settled_record by (auto simp: tracker_consistent_def finish_overlap_def split: option.splits)

lemma finish_keeps: "ft_pause (fst (finish_overlap t)) = ft_pause t" "ft_active (fst (finish_overlap t)) = ft_active t"
  by (simp_all add: finish_overlap_def split: option.splits)

lemma emitted_consistent:
  "(\<And>x. v = Some x \<Longrightarrow> record_consistent (f x)) \<Longrightarrow> list_all record_consistent (emitted f v)"
  by (simp add: emitted_def split: option.splits)

lemma tracker_parts:
  "tracker_consistent t \<Longrightarrow> ft_pause t = Some p \<Longrightarrow> pause_consistent p"
  "tracker_consistent t \<Longrightarrow> ft_overlap t = Some o1 \<Longrightarrow> overlap_consistent o1"
  by (simp_all add: tracker_consistent_def)

lemma overlap_moved:
  assumes "tracker_consistent t" and "\<And>o1. overlap_consistent o1 \<Longrightarrow> overlap_consistent (f o1)"
  shows "tracker_consistent (t\<lparr>ft_overlap := map_option f (ft_overlap t)\<rparr>)"
  using assms by (cases "ft_overlap t") (auto simp: tracker_consistent_def)

lemma drained_consistent:
  assumes "tracker_consistent t"
  shows "tracker_consistent (fst (observe_drained now t))" and "list_all record_consistent (snd (observe_drained now t))"
  unfolding observe_drained_def
  using finish_consistent [OF overlap_moved [OF assms], of "settle_overlap ''continued'' now True"] held_steps(2) by auto

lemma interrupted_consistent:
  assumes "tracker_consistent t"
  shows "tracker_consistent (fst (observe_interrupted now t))" and "list_all record_consistent (snd (observe_interrupted now t))"
  unfolding observe_interrupted_def
  using finish_consistent [OF overlap_moved [OF assms], of "settle_overlap ''interrupted'' now False"] held_steps(2) by auto

lemma end_consistent:
  assumes "tracker_consistent t"
  shows "tracker_consistent (fst (observe_end now t))" and "list_all record_consistent (snd (observe_end now t))"
proof -
  obtain u settled where f: "finish_overlap (t\<lparr>ft_overlap := map_option (end_overlap now) (ft_overlap t)\<rparr>) = (u, settled)"
    by (cases "finish_overlap (t\<lparr>ft_overlap := map_option (end_overlap now) (ft_overlap t)\<rparr>)")
  have u: "tracker_consistent u" "list_all record_consistent settled"
    using finish_consistent [OF overlap_moved [OF assms], of "end_overlap now"] held_steps(1) by (auto simp: f)
  have "list_all record_consistent (emitted fp_record (ft_pause u))"
    by (rule emitted_consistent) (use tracker_parts(1) [OF u(1)] held_records(1) in blast)
  then show "tracker_consistent (fst (observe_end now t))" "list_all record_consistent (snd (observe_end now t))"
    unfolding observe_end_def f using u new_held(1) by (auto simp: tracker_consistent_def Let_def)
qed

lemma start_consistent:
  assumes "tracker_consistent t"
  shows "tracker_consistent (fst (observe_start generating ahead now t))"
    and "list_all record_consistent (snd (observe_start generating ahead now t))"
proof -
  have "list_all record_consistent (emitted (\<lambda>p. pause_at_start p now) (ft_pause t))"
    "list_all record_consistent (emitted fo_record (ft_overlap t))"
    by (rule emitted_consistent, use tracker_parts [OF assms] held_records in blast)+
  then show "tracker_consistent (fst (observe_start generating ahead now t))"
    "list_all record_consistent (snd (observe_start generating ahead now t))"
    using assms new_held(2) by (auto simp: observe_start_def tracker_consistent_def Let_def)
qed

lemma complete_consistent:
  assumes "tracker_consistent t"
  shows "tracker_consistent (fst (observe_complete playing now t))"
    and "list_all record_consistent (snd (observe_complete playing now t))"
proof -
  define u where "u = t\<lparr>ft_output_started := False,
     ft_pause := (if pause_unresolved t then None else map_option (\<lambda>p. p\<lparr>fp_audio_generation_open := False\<rparr>) (ft_pause t))\<rparr>"
  define given_up where "given_up = (if pause_unresolved t then emitted fp_record (ft_pause t) else [])"
  have u: "tracker_consistent u"
    using assms pause_closed by (cases "ft_pause t") (auto simp: u_def tracker_consistent_def)
  have "list_all record_consistent (emitted fp_record (ft_pause t))"
    by (rule emitted_consistent) (use tracker_parts(1) [OF assms] held_records(1) in blast)
  then have given_up: "list_all record_consistent given_up" by (simp add: given_up_def)
  have "observe_complete playing now t
      = (if playing then (u, given_up) else (fst (observe_drained now u), given_up @ snd (observe_drained now u)))"
    by (simp add: observe_complete_def u_def given_up_def Let_def case_prod_beta)
  then show "tracker_consistent (fst (observe_complete playing now t))"
    "list_all record_consistent (snd (observe_complete playing now t))"
    using u given_up drained_consistent [OF u, of now] by auto
qed

lemma rest_consistent:
  assumes "tracker_consistent t"
  shows "tracker_consistent (fst (observe_output audio now t))" "list_all record_consistent (snd (observe_output audio now t))"
    "tracker_consistent (fst (observe_activity_lost t))" "list_all record_consistent (snd (observe_activity_lost t))"
    "tracker_consistent (fst (observe_reset t))" "list_all record_consistent (snd (observe_reset t))"
proof -
  show "tracker_consistent (fst (observe_output audio now t))"
    using assms held_steps(3) by (cases "ft_pause t") (auto simp: observe_output_def tracker_consistent_def)
  show "list_all record_consistent (snd (observe_output audio now t))" by (simp add: observe_output_def)
  show "tracker_consistent (fst (observe_activity_lost t))" "tracker_consistent (fst (observe_reset t))"
    using assms by (auto simp: observe_activity_lost_def observe_reset_def tracker_consistent_def)
  have "list_all record_consistent (emitted fp_record (ft_pause t))"
    by (rule emitted_consistent) (use tracker_parts(1) [OF assms] held_records(1) in blast)
  moreover have "list_all record_consistent (emitted (\<lambda>o1. (fo_record o1)\<lparr>fr_outcome := unresolved, fr_resolved_at := None\<rparr>) (ft_overlap t))"
    "list_all record_consistent (emitted (\<lambda>o1. (fo_record o1)\<lparr>fr_outcome := unresolved, fr_resolved_at := None,
        fr_overlap_ms := None\<rparr>) (ft_overlap t))"
    by (rule emitted_consistent, use tracker_parts(2) [OF assms] lost_records in blast)+
  ultimately show "list_all record_consistent (snd (observe_activity_lost t))" "list_all record_consistent (snd (observe_reset t))"
    by (auto simp: observe_activity_lost_def observe_reset_def)
qed

interpretation floor: emitting_system observe_at tracker_consistent record_consistent
proof unfold_locales
  fix t and e :: "floor_event \<times> nat"
  assume t: "tracker_consistent t"
  show "tracker_consistent (fst (observe_at e t))" "list_all record_consistent (snd (observe_at e t))"
    using drained_consistent [OF t] interrupted_consistent [OF t] end_consistent [OF t] start_consistent [OF t]
      complete_consistent [OF t] rest_consistent [OF t]
    by (cases e; cases "fst e"; simp add: observe_at_def)+
qed

text \<open>
  Every record the floor log prints is consistent: an unresolved one has no time of resolution; a
  pause ends in a continuation or a response and only a response is suspected of cutting the
  candidate off; an overlap is suspected of a false stop only when it was interrupted within the
  bound, and of a missed barge-in only when the interviewer talked on for at least its bound.
\<close>

theorem floor_records_are_consistent:
  "list_all record_consistent (snd (observe_all es floor_new))"
proof -
  have "tracker_consistent floor_new" by (simp add: tracker_consistent_def floor_new_def)
  from floor.run_ok [OF this] show ?thesis by blast
qed

end
