(* ===== verification/Ledger.thy ===== *)
theory Ledger
  imports Json
begin

text \<open>
  The evidence ledger of \<open>src/src/agent/evidence.rs\<close>: the reducers that fold what the interview
  observes into one bounded state, and the lines of it a prompt is shown.

  \<open>sha\<close> is \<open>crate::sha256_hex\<close>, which feeds its slices one after the other to the digest, so it is a
  function of their concatenation.  The \<open>u32\<close> and \<open>u64\<close> counters grow by one an event and are natural
  numbers; the two differences a test run is given are clamped to \<open>i32\<close> as in the code.
\<close>

section \<open>Data\<close>

definition LEDGER_VERSION :: nat where "LEDGER_VERSION = 1"
definition MAX_LEDGER_ENTRIES :: nat where "MAX_LEDGER_ENTRIES = 256"
definition MAX_CONVERSATION_SEQUENCE :: nat where "MAX_CONVERSATION_SEQUENCE = 16"
definition MAX_CODE_DIGEST_HISTORY :: nat where "MAX_CODE_DIGEST_HISTORY = 16"

datatype provenance = BrowserClaim | ServerObservation | Derived

datatype observation_family =
    Code | Test | Diagnostic | InterviewerTurn | CandidateTurn | Hint | Lifecycle

datatype code_observation = ParserUnavailable | SyntaxInvalid | Parsed

datatype code_change_class =
    FormattingOnly | CommentOnly | IdentifierOnly | Expression | ControlFlow | DataStructure | FunctionInterface

fun coarse :: "code_change_class \<Rightarrow> string" where
  "coarse FormattingOnly = ''formatting''"
| "coarse CommentOnly = ''comment''"
| "coarse IdentifierOnly = ''identifier''"
| "coarse Expression = ''code''"
| "coarse ControlFlow = ''code''"
| "coarse DataStructure = ''code''"
| "coarse FunctionInterface = ''code''"

record code_analysis =
  ca_observation :: code_observation
  ca_classification :: "code_change_class option"
  ca_semantic_change :: bool
  ca_changed_nodes :: "string list"

definition analysis_observed :: "code_observation \<Rightarrow> code_analysis" where
  "analysis_observed ob = \<lparr>ca_observation = ob, ca_classification = None, ca_semantic_change = False,
     ca_changed_nodes = []\<rparr>"

record evidence_entry =
  ee_sequence :: nat
  ee_family :: observation_family
  ee_provenance :: provenance
  ee_source_timestamp_ms :: "nat option"
  ee_receipt_timestamp_ms :: nat
  ee_observation :: json

record code_state =
  co_language :: string
  co_revision :: nat
  co_candidate_edits :: nat
  co_semantic_revision :: nat
  co_substantive_revision :: nat
  co_parser_observation :: "code_observation option"
  co_latest_digest :: string
  co_digest_history :: "string list"
  co_last_analysis :: "code_analysis option"

record test_state =
  te_total :: nat
  te_passed :: nat
  te_failed :: nat
  te_newly_passed :: int
  te_newly_failed :: int
  te_follows_executed_run :: bool
  te_regression :: bool
  te_consecutive_identical_failures :: nat
  te_failure_signature :: "string option"
  te_source_timestamp_ms :: "nat option"

datatype diagnostic_category = Syntax | Type | Linker | RuntimeSignal | Timeout | Warning | Other

text \<open>The derived reading of a category: the variants in snake case, nothing else.\<close>

definition from_wire :: "string \<Rightarrow> diagnostic_category option" where
  "from_wire category = map_of
     [(''syntax'', Syntax), (''type'', Type), (''linker'', Linker), (''runtime_signal'', RuntimeSignal),
      (''timeout'', Timeout), (''warning'', Warning), (''other'', Other)] category"

fun category_wire :: "diagnostic_category \<Rightarrow> string" where
  "category_wire Syntax = ''syntax''"
| "category_wire Type = ''type''"
| "category_wire Linker = ''linker''"
| "category_wire RuntimeSignal = ''runtime_signal''"
| "category_wire Timeout = ''timeout''"
| "category_wire Warning = ''warning''"
| "category_wire Other = ''other''"

fun category_debug :: "diagnostic_category \<Rightarrow> string" where
  "category_debug Syntax = ''Syntax''"
| "category_debug Type = ''Type''"
| "category_debug Linker = ''Linker''"
| "category_debug RuntimeSignal = ''RuntimeSignal''"
| "category_debug Timeout = ''Timeout''"
| "category_debug Warning = ''Warning''"
| "category_debug Other = ''Other''"

record diagnostic_state =
  dg_syntax :: nat
  dg_type_errors :: nat
  dg_linker :: nat
  dg_runtime_signal :: nat
  dg_timeout :: nat
  dg_warnings :: nat
  dg_other :: nat
  dg_latest_signature :: "string option"

record interview_progress =
  ip_first_edit_ms :: "nat option"
  ip_runner_attempted :: bool
  ip_tested :: bool
  ip_test_progress :: bool
  ip_all_tests_passed_once :: bool

record stuck_signals =
  sk_repeated_failure_count :: nat
  sk_compile_or_runner_failure_count :: nat
  sk_edit_test_cycles :: nat
  sk_undo_redo_cycles :: nat
  sk_last_meaningful_change_ms :: "nat option"
  sk_last_test_progress_ms :: "nat option"
  sk_test_progress_latency_ms :: "nat option"

record evidence_metrics =
  em_raw_events_received :: nat
  em_code_events_emitted :: nat
  em_live_setup_count :: nat
  em_live_setup_bytes :: nat
  em_watch_prompt_count :: nat
  em_watch_prompt_bytes :: nat
  em_turn_prompt_count :: nat
  em_turn_prompt_bytes :: nat
  em_interim_prompt_count :: nat
  em_interim_prompt_bytes :: nat
  em_final_report_prompt_count :: nat
  em_final_report_prompt_bytes :: nat
  em_read_editor_calls :: nat
  em_read_editor_bytes :: nat
  em_tool_response_count :: nat
  em_tool_response_bytes :: nat
  em_model_input_digest :: string

datatype model_input_kind = LiveSetup | Watch | Turn | Interim | FinalReport | ReadEditor | ToolResponse

fun kind_debug :: "model_input_kind \<Rightarrow> string" where
  "kind_debug LiveSetup = ''LiveSetup''"
| "kind_debug Watch = ''Watch''"
| "kind_debug Turn = ''Turn''"
| "kind_debug Interim = ''Interim''"
| "kind_debug FinalReport = ''FinalReport''"
| "kind_debug ReadEditor = ''ReadEditor''"
| "kind_debug ToolResponse = ''ToolResponse''"

record hint_state =
  hi_current_level :: nat
  hi_requested :: nat
  hi_volunteered :: nat
  hi_withheld :: nat
  hi_last_hint_sequence :: "nat option"

record lifecycle_state =
  lc_ended :: bool
  lc_behavioral_round_started :: bool
  lc_transitions :: nat

datatype lifecycle_transition = BehavioralStarted | ThinkingStarted | ThinkingEnded | Ended

fun transition_wire :: "lifecycle_transition \<Rightarrow> string" where
  "transition_wire BehavioralStarted = ''behavioral_started''"
| "transition_wire ThinkingStarted = ''thinking_started''"
| "transition_wire ThinkingEnded = ''thinking_ended''"
| "transition_wire Ended = ''ended''"

record coverage_state =
  cv_covered :: "string list"
  cv_uncovered :: "string list"

record conversation_state =
  cn_interviewer_turns :: nat
  cn_candidate_turns :: nat
  cn_recent_sequence :: "string list"

record evidence_ledger =
  lg_version :: nat
  lg_next_sequence :: nat
  lg_candidate_edits_at_last_test :: nat
  lg_entries :: "evidence_entry list"
  lg_code :: code_state
  lg_tests :: test_state
  lg_diagnostics :: diagnostic_state
  lg_progress :: interview_progress
  lg_stuck :: stuck_signals
  lg_hints :: hint_state
  lg_lifecycle :: lifecycle_state
  lg_coverage :: coverage_state
  lg_conversation :: conversation_state
  lg_metrics :: evidence_metrics

subsection \<open>The default of each\<close>

definition code_state_default :: code_state where
  "code_state_default = \<lparr>co_language = '''', co_revision = 0, co_candidate_edits = 0, co_semantic_revision = 0,
     co_substantive_revision = 0, co_parser_observation = None, co_latest_digest = '''', co_digest_history = [],
     co_last_analysis = None\<rparr>"

definition test_state_default :: test_state where
  "test_state_default = \<lparr>te_total = 0, te_passed = 0, te_failed = 0, te_newly_passed = 0, te_newly_failed = 0,
     te_follows_executed_run = False, te_regression = False, te_consecutive_identical_failures = 0,
     te_failure_signature = None, te_source_timestamp_ms = None\<rparr>"

definition diagnostic_state_default :: diagnostic_state where
  "diagnostic_state_default = \<lparr>dg_syntax = 0, dg_type_errors = 0, dg_linker = 0, dg_runtime_signal = 0,
     dg_timeout = 0, dg_warnings = 0, dg_other = 0, dg_latest_signature = None\<rparr>"

definition interview_progress_default :: interview_progress where
  "interview_progress_default = \<lparr>ip_first_edit_ms = None, ip_runner_attempted = False, ip_tested = False,
     ip_test_progress = False, ip_all_tests_passed_once = False\<rparr>"

definition stuck_signals_default :: stuck_signals where
  "stuck_signals_default = \<lparr>sk_repeated_failure_count = 0, sk_compile_or_runner_failure_count = 0,
     sk_edit_test_cycles = 0, sk_undo_redo_cycles = 0, sk_last_meaningful_change_ms = None,
     sk_last_test_progress_ms = None, sk_test_progress_latency_ms = None\<rparr>"

definition evidence_metrics_default :: evidence_metrics where
  "evidence_metrics_default = \<lparr>em_raw_events_received = 0, em_code_events_emitted = 0, em_live_setup_count = 0,
     em_live_setup_bytes = 0, em_watch_prompt_count = 0, em_watch_prompt_bytes = 0, em_turn_prompt_count = 0,
     em_turn_prompt_bytes = 0, em_interim_prompt_count = 0, em_interim_prompt_bytes = 0,
     em_final_report_prompt_count = 0, em_final_report_prompt_bytes = 0, em_read_editor_calls = 0,
     em_read_editor_bytes = 0, em_tool_response_count = 0, em_tool_response_bytes = 0,
     em_model_input_digest = ''''\<rparr>"

definition ledger_default :: evidence_ledger where
  "ledger_default = \<lparr>lg_version = LEDGER_VERSION, lg_next_sequence = 1, lg_candidate_edits_at_last_test = 0,
     lg_entries = [], lg_code = code_state_default, lg_tests = test_state_default,
     lg_diagnostics = diagnostic_state_default, lg_progress = interview_progress_default,
     lg_stuck = stuck_signals_default,
     lg_hints = \<lparr>hi_current_level = 0, hi_requested = 0, hi_volunteered = 0, hi_withheld = 0,
       hi_last_hint_sequence = None\<rparr>,
     lg_lifecycle = \<lparr>lc_ended = False, lc_behavioral_round_started = False, lc_transitions = 0\<rparr>,
     lg_coverage = \<lparr>cv_covered = [], cv_uncovered = []\<rparr>,
     lg_conversation = \<lparr>cn_interviewer_turns = 0, cn_candidate_turns = 0, cn_recent_sequence = []\<rparr>,
     lg_metrics = evidence_metrics_default\<rparr>"

section \<open>Appending\<close>

text \<open>A list that forgets its oldest item when it is full.\<close>

definition push_bounded :: "nat \<Rightarrow> 'a \<Rightarrow> 'a list \<Rightarrow> 'a list" where
  "push_bounded limit x xs = (if length xs \<ge> limit then tl xs else xs) @ [x]"

definition ledger_append ::
  "observation_family \<Rightarrow> provenance \<Rightarrow> nat option \<Rightarrow> nat \<Rightarrow> json \<Rightarrow> evidence_ledger \<Rightarrow> evidence_ledger" where
  "ledger_append family prov source_ts receipt ob s =
     s\<lparr>lg_next_sequence := lg_next_sequence s + 1,
       lg_entries := push_bounded MAX_LEDGER_ENTRIES
         \<lparr>ee_sequence = lg_next_sequence s, ee_family = family, ee_provenance = prov,
          ee_source_timestamp_ms = source_ts, ee_receipt_timestamp_ms = receipt, ee_observation = ob\<rparr>
         (lg_entries s)\<rparr>"

definition record_sequence :: "string \<Rightarrow> evidence_ledger \<Rightarrow> evidence_ledger" where
  "record_sequence event s =
     s\<lparr>lg_conversation := (lg_conversation s)\<lparr>cn_recent_sequence :=
         push_bounded MAX_CONVERSATION_SEQUENCE event (cn_recent_sequence (lg_conversation s))\<rparr>\<rparr>"

definition record_received_event :: "evidence_ledger \<Rightarrow> evidence_ledger" where
  "record_received_event s =
     s\<lparr>lg_metrics := (lg_metrics s)\<lparr>em_raw_events_received := em_raw_events_received (lg_metrics s) + 1\<rparr>\<rparr>"

section \<open>What the model is handed\<close>

fun count_input :: "model_input_kind \<Rightarrow> nat \<Rightarrow> evidence_metrics \<Rightarrow> evidence_metrics" where
  "count_input LiveSetup bytes m = m\<lparr>em_live_setup_count := em_live_setup_count m + 1,
     em_live_setup_bytes := em_live_setup_bytes m + bytes\<rparr>"
| "count_input Watch bytes m = m\<lparr>em_watch_prompt_count := em_watch_prompt_count m + 1,
     em_watch_prompt_bytes := em_watch_prompt_bytes m + bytes\<rparr>"
| "count_input Turn bytes m = m\<lparr>em_turn_prompt_count := em_turn_prompt_count m + 1,
     em_turn_prompt_bytes := em_turn_prompt_bytes m + bytes\<rparr>"
| "count_input Interim bytes m = m\<lparr>em_interim_prompt_count := em_interim_prompt_count m + 1,
     em_interim_prompt_bytes := em_interim_prompt_bytes m + bytes\<rparr>"
| "count_input FinalReport bytes m = m\<lparr>em_final_report_prompt_count := em_final_report_prompt_count m + 1,
     em_final_report_prompt_bytes := em_final_report_prompt_bytes m + bytes\<rparr>"
| "count_input ReadEditor bytes m = m\<lparr>em_read_editor_calls := em_read_editor_calls m + 1,
     em_read_editor_bytes := em_read_editor_bytes m + bytes\<rparr>"
| "count_input ToolResponse bytes m = m\<lparr>em_tool_response_count := em_tool_response_count m + 1,
     em_tool_response_bytes := em_tool_response_bytes m + bytes\<rparr>"

definition u64_le_bytes :: "nat \<Rightarrow> string" where
  "u64_le_bytes n = map (\<lambda>i. char_of (n div 256 ^ i)) [0..<8]"

definition input_digest :: "(string \<Rightarrow> string) \<Rightarrow> model_input_kind \<Rightarrow> string \<Rightarrow> string \<Rightarrow> string" where
  "input_digest sha kind t prior = sha (prior @ kind_debug kind @ u64_le_bytes (length t) @ t)"

definition record_model_input ::
  "(string \<Rightarrow> string) \<Rightarrow> model_input_kind \<Rightarrow> string \<Rightarrow> evidence_ledger \<Rightarrow> evidence_ledger" where
  "record_model_input sha kind t s =
     (let m = count_input kind (length t) (lg_metrics s)
      in s\<lparr>lg_metrics := m\<lparr>em_model_input_digest := input_digest sha kind t (em_model_input_digest m)\<rparr>\<rparr>)"

definition cost_total :: "evidence_metrics \<Rightarrow> nat" where
  "cost_total m = em_live_setup_bytes m + em_watch_prompt_bytes m + em_turn_prompt_bytes m
     + em_interim_prompt_bytes m + em_final_report_prompt_bytes m + em_read_editor_bytes m + em_tool_response_bytes m"

definition cost_line :: "evidence_metrics \<Rightarrow> string" where
  "cost_line m =
     ''codetrial model_input_bytes total='' @ decimal (cost_total m)
     @ '' setup='' @ decimal (em_live_setup_bytes m) @ ''/'' @ decimal (em_live_setup_count m)
     @ '' watch='' @ decimal (em_watch_prompt_bytes m) @ ''/'' @ decimal (em_watch_prompt_count m)
     @ '' turn='' @ decimal (em_turn_prompt_bytes m) @ ''/'' @ decimal (em_turn_prompt_count m)
     @ '' interim='' @ decimal (em_interim_prompt_bytes m) @ ''/'' @ decimal (em_interim_prompt_count m)
     @ '' report='' @ decimal (em_final_report_prompt_bytes m) @ ''/'' @ decimal (em_final_report_prompt_count m)
     @ '' read_editor='' @ decimal (em_read_editor_bytes m) @ ''/'' @ decimal (em_read_editor_calls m)
     @ '' tool='' @ decimal (em_tool_response_bytes m) @ ''/'' @ decimal (em_tool_response_count m)
     @ '' events_received='' @ decimal (em_raw_events_received m)
     @ '' code_events='' @ decimal (em_code_events_emitted m)"

section \<open>Code\<close>

fun code_observation_wire :: "code_observation \<Rightarrow> string" where
  "code_observation_wire ParserUnavailable = ''parser_unavailable''"
| "code_observation_wire SyntaxInvalid = ''syntax_invalid''"
| "code_observation_wire Parsed = ''parsed''"

fun change_class_wire :: "code_change_class \<Rightarrow> string" where
  "change_class_wire FormattingOnly = ''formatting_only''"
| "change_class_wire CommentOnly = ''comment_only''"
| "change_class_wire IdentifierOnly = ''identifier_only''"
| "change_class_wire Expression = ''expression''"
| "change_class_wire ControlFlow = ''control_flow''"
| "change_class_wire DataStructure = ''data_structure''"
| "change_class_wire FunctionInterface = ''function_interface''"

definition json_opt :: "('a \<Rightarrow> json) \<Rightarrow> 'a option \<Rightarrow> json" where
  "json_opt f x = (case x of None \<Rightarrow> JNull | Some y \<Rightarrow> f y)"

definition state_digest :: "(string \<Rightarrow> string) \<Rightarrow> string \<Rightarrow> string \<Rightarrow> string" where
  "state_digest sha language code = sha (u64_le_bytes (length language) @ language @ code)"

definition revisits_prior_state :: "(string \<Rightarrow> string) \<Rightarrow> string \<Rightarrow> string \<Rightarrow> bool \<Rightarrow> code_state \<Rightarrow> bool" where
  "revisits_prior_state sha language code candidate_edit c \<longleftrightarrow>
     candidate_edit \<and> sha code \<noteq> co_latest_digest c \<and> state_digest sha language code \<in> set (co_digest_history c)"

definition next_code :: "(string \<Rightarrow> string) \<Rightarrow> string \<Rightarrow> string \<Rightarrow> bool \<Rightarrow> code_analysis \<Rightarrow> code_state \<Rightarrow> code_state" where
  "next_code sha language code candidate_edit analysis c =
     \<lparr>co_language = language,
      co_revision = co_revision c + 1,
      co_candidate_edits = co_candidate_edits c + (if candidate_edit then 1 else 0),
      co_semantic_revision = co_semantic_revision c + (if candidate_edit \<and> ca_semantic_change analysis then 1 else 0),
      co_substantive_revision = co_substantive_revision c
        + (if candidate_edit \<and> ca_semantic_change analysis \<and> ca_classification analysis \<noteq> Some IdentifierOnly then 1 else 0),
      co_parser_observation = Some (ca_observation analysis),
      co_latest_digest = sha code,
      co_digest_history = push_bounded MAX_CODE_DIGEST_HISTORY (state_digest sha language code) (co_digest_history c),
      co_last_analysis = Some (if candidate_edit then analysis else analysis_observed (ca_observation analysis))\<rparr>"

definition code_json :: "code_state \<Rightarrow> code_analysis \<Rightarrow> json" where
  "code_json c seen = JObj
     [(''language'', JStr (co_language c)),
      (''revision'', JInt (int (co_revision c))),
      (''semanticRevision'', JInt (int (co_semantic_revision c))),
      (''digest'', JStr (co_latest_digest c)),
      (''parser'', JStr (code_observation_wire (ca_observation seen))),
      (''classification'', json_opt (\<lambda>k. JStr (change_class_wire k)) (ca_classification seen)),
      (''semanticChange'', JBool (ca_semantic_change seen)),
      (''changedNodes'', JArr (map JStr (ca_changed_nodes seen)))]"

definition record_code_with_analysis ::
  "(string \<Rightarrow> string) \<Rightarrow> nat option \<Rightarrow> nat \<Rightarrow> string \<Rightarrow> string \<Rightarrow> bool \<Rightarrow> code_analysis \<Rightarrow> evidence_ledger \<Rightarrow> evidence_ledger"
where
  "record_code_with_analysis sha source_ts receipt language code candidate_edit analysis s =
     (if co_latest_digest (lg_code s) = sha code \<and> co_language (lg_code s) = language then s
      else
        let revisits = revisits_prior_state sha language code candidate_edit (lg_code s);
            c = next_code sha language code candidate_edit analysis (lg_code s);
            seen = (if candidate_edit then analysis else analysis_observed (ca_observation analysis));
            k = lg_stuck s;
            k = (if candidate_edit \<and> ca_semantic_change analysis
                 then k\<lparr>sk_last_meaningful_change_ms := Some receipt\<rparr> else k);
            k = (if revisits then k\<lparr>sk_undo_redo_cycles := sk_undo_redo_cycles k + 1\<rparr> else k);
            s = s\<lparr>lg_code := c, lg_stuck := k,
                  lg_metrics := (lg_metrics s)\<lparr>em_code_events_emitted := em_code_events_emitted (lg_metrics s) + 1\<rparr>\<rparr>;
            s = (if candidate_edit then record_sequence ''edit'' s else s);
            s = (if candidate_edit \<and> ip_first_edit_ms (lg_progress s) = None
                 then s\<lparr>lg_progress := (lg_progress s)\<lparr>ip_first_edit_ms := Some receipt\<rparr>\<rparr> else s)
        in ledger_append Code Derived source_ts receipt (code_json c seen) s)"

section \<open>Tests\<close>

definition u32_max :: nat where "u32_max = 4294967295"

definition i32_clamp :: "int \<Rightarrow> int" where
  "i32_clamp n = max (- 2147483648) (min n 2147483647)"

definition delta :: "nat \<Rightarrow> nat \<Rightarrow> int" where
  "delta current previous = i32_clamp (int current - int previous)"

definition payload_count :: "json \<Rightarrow> string \<Rightarrow> nat" where
  "payload_count payload key = (case Option.bind (json_get payload key) json_as_u64 of None \<Rightarrow> 0 | Some n \<Rightarrow> n)"

definition run_failed_to_start :: "json \<Rightarrow> bool" where
  "run_failed_to_start payload \<longleftrightarrow>
     (case Option.bind (json_get payload ''setupError'') json_as_str of None \<Rightarrow> False | Some t \<Rightarrow> t \<noteq> '''')"

definition unit_separator :: char where "unit_separator = CHR 0x1F"
definition record_separator :: char where "record_separator = CHR 0x1E"

definition failure_material :: "json \<Rightarrow> string" where
  "failure_material failure =
     concat (map (\<lambda>key. case Option.bind (json_get failure key) json_as_str of
                   None \<Rightarrow> [] | Some v \<Rightarrow> key @ [unit_separator] @ v @ [unit_separator])
              [''label'', ''error'', ''expected'', ''got''])
     @ [record_separator]"

definition failure_signature :: "(string \<Rightarrow> string) \<Rightarrow> json \<Rightarrow> string option" where
  "failure_signature sha payload =
     (case json_get payload ''failures'' of
        Some (JArr failures) \<Rightarrow>
          if failures = [] then None else Some (sha (concat (map failure_material failures)))
      | _ \<Rightarrow> None)"

definition diagnostic_of :: "json \<Rightarrow> (diagnostic_category \<times> string) option" where
  "diagnostic_of payload =
     (let structured = Option.bind (Option.bind (Option.bind (json_get payload ''diagnostic'')
            (\<lambda>v. json_get v ''category'')) json_as_str) from_wire;
          setup_error = (case Option.bind (json_get payload ''setupError'') json_as_str of
            Some t \<Rightarrow> if t \<noteq> '''' then Some t else None | None \<Rightarrow> None);
          category = (case structured of Some c \<Rightarrow> c | None \<Rightarrow> Other);
          material = (case setup_error of
            Some t \<Rightarrow> Some (concat (take 400 (utf8_chars t)))
          | None \<Rightarrow> map_option (\<lambda>_. ''structured:'' @ category_debug category) structured)
      in map_option (\<lambda>m. (category, m)) material)"

fun count_diagnostic :: "diagnostic_category \<Rightarrow> diagnostic_state \<Rightarrow> diagnostic_state" where
  "count_diagnostic Syntax d = d\<lparr>dg_syntax := dg_syntax d + 1\<rparr>"
| "count_diagnostic Type d = d\<lparr>dg_type_errors := dg_type_errors d + 1\<rparr>"
| "count_diagnostic Linker d = d\<lparr>dg_linker := dg_linker d + 1\<rparr>"
| "count_diagnostic RuntimeSignal d = d\<lparr>dg_runtime_signal := dg_runtime_signal d + 1\<rparr>"
| "count_diagnostic Timeout d = d\<lparr>dg_timeout := dg_timeout d + 1\<rparr>"
| "count_diagnostic Warning d = d\<lparr>dg_warnings := dg_warnings d + 1\<rparr>"
| "count_diagnostic Other d = d\<lparr>dg_other := dg_other d + 1\<rparr>"

definition record_diagnostic ::
  "(string \<Rightarrow> string) \<Rightarrow> nat option \<Rightarrow> nat \<Rightarrow> diagnostic_category \<Rightarrow> string \<Rightarrow> evidence_ledger \<Rightarrow> evidence_ledger" where
  "record_diagnostic sha source_ts receipt category diagnostic s =
     (let signature = sha diagnostic;
          s = s\<lparr>lg_diagnostics := (count_diagnostic category (lg_diagnostics s))\<lparr>dg_latest_signature := Some signature\<rparr>,
                lg_stuck := (if category \<noteq> Warning
                  then (lg_stuck s)\<lparr>sk_compile_or_runner_failure_count := sk_compile_or_runner_failure_count (lg_stuck s) + 1\<rparr>
                  else lg_stuck s)\<rparr>
      in ledger_append Diagnostic BrowserClaim source_ts receipt
           (JObj [(''category'', JStr (category_wire category)), (''signature'', JStr signature)]) s)"

definition identical_failures :: "nat \<Rightarrow> string option \<Rightarrow> int \<Rightarrow> test_state \<Rightarrow> nat" where
  "identical_failures failed signature newly_passed previous =
     (if failed > 0
      then (if signature \<noteq> None \<and> newly_passed \<le> 0 \<and> signature = te_failure_signature previous
            then te_consecutive_identical_failures previous + 1 else 1)
      else 0)"

definition executed_tests :: "nat \<Rightarrow> nat \<Rightarrow> string option \<Rightarrow> nat option \<Rightarrow> test_state \<Rightarrow> test_state" where
  "executed_tests cases passed signature source_ts previous =
     (let failed = cases - passed;
          newly_passed = delta passed (te_passed previous)
      in \<lparr>te_total = cases, te_passed = passed, te_failed = failed,
          te_newly_passed = newly_passed, te_newly_failed = delta failed (te_failed previous),
          te_follows_executed_run = te_total previous > 0,
          te_regression = passed < te_passed previous,
          te_consecutive_identical_failures = identical_failures failed signature newly_passed previous,
          te_failure_signature = signature, te_source_timestamp_ms = source_ts\<rparr>)"

definition record_executed :: "nat \<Rightarrow> nat \<Rightarrow> string option \<Rightarrow> nat option \<Rightarrow> nat \<Rightarrow> evidence_ledger \<Rightarrow> evidence_ledger" where
  "record_executed cases passed signature source_ts receipt s =
     (let t = executed_tests cases passed signature source_ts (lg_tests s);
          gained = te_newly_passed t > 0;
          p = lg_progress s;
          k = lg_stuck s;
          k = (if gained then k\<lparr>sk_last_test_progress_ms := Some receipt,
                  sk_test_progress_latency_ms := map_option (\<lambda>at. receipt - at) (sk_last_meaningful_change_ms k)\<rparr> else k)
      in s\<lparr>lg_tests := t,
           lg_progress := p\<lparr>ip_tested := True, ip_test_progress := ip_test_progress p \<or> gained,
             ip_all_tests_passed_once := ip_all_tests_passed_once p \<or> passed = cases\<rparr>,
           lg_stuck := k\<lparr>sk_repeated_failure_count := te_consecutive_identical_failures t\<rparr>\<rparr>)"

definition count_cycle :: "evidence_ledger \<Rightarrow> evidence_ledger" where
  "count_cycle s =
     s\<lparr>lg_stuck := (if co_candidate_edits (lg_code s) > lg_candidate_edits_at_last_test s
          then (lg_stuck s)\<lparr>sk_edit_test_cycles := sk_edit_test_cycles (lg_stuck s) + 1\<rparr> else lg_stuck s),
       lg_candidate_edits_at_last_test := co_candidate_edits (lg_code s)\<rparr>"

definition test_json :: "bool \<Rightarrow> nat \<Rightarrow> nat \<Rightarrow> string option \<Rightarrow> test_state \<Rightarrow> json" where
  "test_json executed cases passed signature t = JObj
     [(''executed'', JBool executed),
      (''total'', JInt (int cases)),
      (''passed'', JInt (int passed)),
      (''failed'', JInt (if executed then int (cases - passed) else 0)),
      (''newlyPassed'', JInt (if executed then te_newly_passed t else 0)),
      (''newlyFailed'', JInt (if executed then te_newly_failed t else 0)),
      (''regression'', JBool (executed \<and> te_regression t)),
      (''consecutiveIdenticalFailures'', JInt (if executed then int (te_consecutive_identical_failures t) else 0)),
      (''failureSignature'', json_opt JStr signature)]"

definition run_total :: "json \<Rightarrow> nat" where
  "run_total payload = min (payload_count payload ''total'') u32_max"

definition run_passed :: "json \<Rightarrow> nat" where
  "run_passed payload = min (payload_count payload ''passed'') (run_total payload)"

definition run_executed :: "json \<Rightarrow> bool" where
  "run_executed payload \<longleftrightarrow> run_total payload > 0 \<and> \<not> run_failed_to_start payload"

definition record_test ::
  "(string \<Rightarrow> string) \<Rightarrow> nat option \<Rightarrow> nat \<Rightarrow> json \<Rightarrow> evidence_ledger \<Rightarrow> evidence_ledger" where
  "record_test sha source_ts receipt payload s =
     (let cases = run_total payload; passed = run_passed payload; executed = run_executed payload;
          signature = failure_signature sha payload;
          s = s\<lparr>lg_progress := (lg_progress s)\<lparr>ip_runner_attempted := True\<rparr>\<rparr>;
          s = record_sequence ''test'' s;
          s = (if executed then record_executed cases passed signature source_ts receipt s else s);
          s = count_cycle s;
          s = (case diagnostic_of payload of None \<Rightarrow> s
               | Some (category, diagnostic) \<Rightarrow> record_diagnostic sha source_ts receipt category diagnostic s)
      in ledger_append Test BrowserClaim source_ts receipt (test_json executed cases passed signature (lg_tests s)) s)"

section \<open>Hints, the life of the session, coverage and turns\<close>

definition record_hint :: "nat \<Rightarrow> bool \<Rightarrow> bool \<Rightarrow> evidence_ledger \<Rightarrow> evidence_ledger" where
  "record_hint receipt requested delivered s =
     (let s = (if requested then record_sequence ''hint_request'' s else s);
          h = lg_hints s;
          h = (if requested then h\<lparr>hi_requested := hi_requested h + 1\<rparr> else h\<lparr>hi_volunteered := hi_volunteered h + 1\<rparr>);
          h = (if delivered
               then h\<lparr>hi_current_level := hi_current_level h + (if requested then 1 else 0),
                      hi_last_hint_sequence := Some (lg_next_sequence s)\<rparr>
               else h\<lparr>hi_withheld := hi_withheld h + 1\<rparr>)
      in ledger_append Hint ServerObservation None receipt
           (JObj [(''requested'', JBool requested), (''delivered'', JBool delivered),
                  (''level'', JInt (int (hi_current_level h)))])
           (s\<lparr>lg_hints := h\<rparr>))"

definition record_lifecycle :: "nat \<Rightarrow> lifecycle_transition \<Rightarrow> evidence_ledger \<Rightarrow> evidence_ledger" where
  "record_lifecycle receipt transition s =
     (let l = lg_lifecycle s;
          l = (case transition of BehavioralStarted \<Rightarrow> l\<lparr>lc_behavioral_round_started := True\<rparr>
               | Ended \<Rightarrow> l\<lparr>lc_ended := True\<rparr> | ThinkingStarted \<Rightarrow> l | ThinkingEnded \<Rightarrow> l)
      in ledger_append Lifecycle ServerObservation None receipt
           (JObj [(''transition'', JStr (transition_wire transition))])
           (s\<lparr>lg_lifecycle := l\<lparr>lc_transitions := lc_transitions l + 1\<rparr>\<rparr>))"

definition record_coverage :: "nat \<Rightarrow> string \<Rightarrow> evidence_ledger \<Rightarrow> evidence_ledger" where
  "record_coverage receipt phase s =
     (if phase \<in> set (cv_covered (lg_coverage s)) then s
      else ledger_append Lifecycle Derived None receipt (JObj [(''coverage'', JStr phase)])
             (s\<lparr>lg_coverage := \<lparr>cv_covered = sort (cv_covered (lg_coverage s) @ [phase]),
                  cv_uncovered = filter (\<lambda>u. u \<noteq> phase) (cv_uncovered (lg_coverage s))\<rparr>\<rparr>))"

definition set_uncovered_coverage :: "string list \<Rightarrow> evidence_ledger \<Rightarrow> evidence_ledger" where
  "set_uncovered_coverage phases s = s\<lparr>lg_coverage := (lg_coverage s)\<lparr>cv_uncovered := sort phases\<rparr>\<rparr>"

definition turn_taken :: "observation_family \<Rightarrow> nat \<Rightarrow> string \<Rightarrow> conversation_state \<Rightarrow> evidence_ledger \<Rightarrow> evidence_ledger" where
  "turn_taken family receipt speaker c s =
     ledger_append family ServerObservation None receipt (JObj [(''turn'', JStr speaker)])
       (record_sequence speaker (s\<lparr>lg_conversation := c\<rparr>))"

definition record_conversation_turn :: "nat \<Rightarrow> string \<Rightarrow> evidence_ledger \<Rightarrow> evidence_ledger" where
  "record_conversation_turn receipt speaker s =
     (let c = lg_conversation s
      in if speaker = ''interviewer''
         then turn_taken InterviewerTurn receipt speaker (c\<lparr>cn_interviewer_turns := cn_interviewer_turns c + 1\<rparr>) s
         else if speaker = ''candidate''
         then turn_taken CandidateTurn receipt speaker (c\<lparr>cn_candidate_turns := cn_candidate_turns c + 1\<rparr>) s
         else s)"

section \<open>What a prompt is shown\<close>

datatype view_for = ViewWatch | ViewInterim | ViewReport

definition code_line :: "evidence_ledger \<Rightarrow> string option" where
  "code_line s =
     (let c = lg_code s
      in if co_revision c = 0 then None
         else Some (''code: '' @ co_language c @ '', '' @ decimal (co_candidate_edits c) @ '' candidate edits, ''
           @ decimal (co_semantic_revision c) @ '' changed the program, ''
           @ (case co_parser_observation c of
                Some Parsed \<Rightarrow> ''parses'' | Some SyntaxInvalid \<Rightarrow> ''does not parse'' | _ \<Rightarrow> ''not parsed'')
           @ (case Option.bind (co_last_analysis c) ca_classification of None \<Rightarrow> ''''
              | Some class \<Rightarrow> '', last edit '' @ coarse class)
           @ (if sk_undo_redo_cycles (lg_stuck s) > 0
              then '', returned to an earlier buffer '' @ decimal (sk_undo_redo_cycles (lg_stuck s)) @ '' times'' else '''')))"

definition show_signed :: "int \<Rightarrow> string" where
  "show_signed n = (if n < 0 then show_int n else CHR ''+'' # show_int n)"

definition tests_line :: "bool \<Rightarrow> evidence_ledger \<Rightarrow> string option" where
  "tests_line counts s =
     (if \<not> ip_runner_attempted (lg_progress s) then (if counts then Some ''tests: not run'' else None)
      else let t = lg_tests s; k = lg_stuck s
           in Some (''tests: browser-reported claims (unverified): '' @ join '', ''
             ((if counts then [decimal (te_passed t) @ '' of '' @ decimal (te_total t) @ '' passing''] else [])
              @ (if te_follows_executed_run t \<and> (te_newly_passed t \<noteq> 0 \<or> te_newly_failed t \<noteq> 0)
                 then [show_signed (te_newly_passed t) @ '' passing and '' @ show_signed (te_newly_failed t)
                       @ '' failing since the run before''] else [])
              @ (if te_regression t then [''a regression''] else [])
              @ (if te_consecutive_identical_failures t > 1
                 then [''the same failure '' @ decimal (te_consecutive_identical_failures t) @ '' runs in a row''] else [])
              @ (if ip_all_tests_passed_once (lg_progress s) then [''all passed at least once''] else [])
              @ (if sk_compile_or_runner_failure_count k > 0
                 then [decimal (sk_compile_or_runner_failure_count k) @ '' runs failed to start''] else [])
              @ [decimal (sk_edit_test_cycles k) @ '' edit-and-run cycles''])))"

definition diagnostics_line :: "evidence_ledger \<Rightarrow> string option" where
  "diagnostics_line s =
     (let d = lg_diagnostics s;
          counted = map (\<lambda>(name, count). name @ '' '' @ decimal count)
            (filter (\<lambda>(name, count). count > 0)
              [(''syntax'', dg_syntax d), (''type'', dg_type_errors d), (''linker'', dg_linker d),
               (''runtime signal'', dg_runtime_signal d), (''timeout'', dg_timeout d),
               (''warning'', dg_warnings d), (''other'', dg_other d)])
      in if counted = [] then None
         else Some (''diagnostics: browser-reported claims (unverified): '' @ join '', '' counted))"

definition change_line :: "evidence_ledger \<Rightarrow> string option" where
  "change_line s =
     (case sk_last_meaningful_change_ms (lg_stuck s) of None \<Rightarrow> None
      | Some meaningful \<Rightarrow>
          if lg_entries s = [] then None
          else Some (''last program change: ''
            @ decimal ((ee_receipt_timestamp_ms (last (lg_entries s)) - meaningful) div 1000)
            @ '' s before the latest event''))"

definition hints_line :: "evidence_ledger \<Rightarrow> string option" where
  "hints_line s =
     (let h = lg_hints s
      in if hi_requested h + hi_volunteered h + hi_withheld h > 0
         then Some (''hints: '' @ decimal (hi_requested h) @ '' requested, '' @ decimal (hi_volunteered h)
           @ '' volunteered, '' @ decimal (hi_withheld h) @ '' withheld, ladder at rung '' @ decimal (hi_current_level h))
         else None)"

definition phases_line :: "evidence_ledger \<Rightarrow> string option" where
  "phases_line s =
     (let c = lg_coverage s; listed = (\<lambda>phases. if phases = [] then ''none'' else join '', '' phases)
      in if cv_covered c = [] \<and> cv_uncovered c = [] then None
         else Some (''phases covered: '' @ listed (cv_covered c) @ ''; not yet: '' @ listed (cv_uncovered c)))"

definition session_line :: "evidence_ledger \<Rightarrow> string option" where
  "session_line s =
     (let flags = (if lc_ended (lg_lifecycle s) then [''ended''] else [])
            @ (if lc_behavioral_round_started (lg_lifecycle s) then [''behavioral round started''] else [])
      in if flags = [] then None else Some (''session: '' @ join '', '' flags))"

definition view_lines :: "evidence_ledger \<Rightarrow> view_for \<Rightarrow> string option list" where
  "view_lines s purpose =
     (case purpose of
        ViewWatch \<Rightarrow> [tests_line True s, diagnostics_line s, hints_line s, phases_line s, session_line s]
      | ViewInterim \<Rightarrow> [code_line s, tests_line True s, diagnostics_line s, change_line s, hints_line s, session_line s]
      | ViewReport \<Rightarrow> [code_line s, tests_line False s, diagnostics_line s, session_line s])"

definition prompt_view :: "evidence_ledger \<Rightarrow> view_for \<Rightarrow> string list" where
  "prompt_view s purpose = List.map_filter (\<lambda>line. line) (view_lines s purpose)"

section \<open>The ledger as a machine\<close>

datatype ledger_event =
    ReceivedEvent
  | ModelInput model_input_kind string
  | CodeSeen "nat option" nat string string bool code_analysis
  | TestRun "nat option" nat json
  | HintGiven nat bool bool
  | LifecycleMoved nat lifecycle_transition
  | PhaseCovered nat string
  | PhasesUncovered "string list"
  | TurnTaken nat string

fun ledger_step :: "(string \<Rightarrow> string) \<Rightarrow> ledger_event \<Rightarrow> evidence_ledger \<Rightarrow> evidence_ledger" where
  "ledger_step sha ReceivedEvent s = record_received_event s"
| "ledger_step sha (ModelInput kind t) s = record_model_input sha kind t s"
| "ledger_step sha (CodeSeen source_ts receipt language code candidate_edit analysis) s =
     record_code_with_analysis sha source_ts receipt language code candidate_edit analysis s"
| "ledger_step sha (TestRun source_ts receipt payload) s = record_test sha source_ts receipt payload s"
| "ledger_step sha (HintGiven receipt requested delivered) s = record_hint receipt requested delivered s"
| "ledger_step sha (LifecycleMoved receipt transition) s = record_lifecycle receipt transition s"
| "ledger_step sha (PhaseCovered receipt phase) s = record_coverage receipt phase s"
| "ledger_step sha (PhasesUncovered phases) s = set_uncovered_coverage phases s"
| "ledger_step sha (TurnTaken receipt speaker) s = record_conversation_turn receipt speaker s"

abbreviation ledger_run :: "(string \<Rightarrow> string) \<Rightarrow> ledger_event list \<Rightarrow> evidence_ledger" where
  "ledger_run sha es \<equiv> fold (ledger_step sha) es ledger_default"

end
