(* ===== verification/Ledger_Correct.thy ===== *)
theory Ledger_Correct
  imports Ledger
begin

text \<open>
  What the evidence ledger keeps (\<open>ledger_ok\<close>), what it never takes back (\<open>ledger_past\<close>), what it
  counts, and that it depends on code, diagnostics and prompts through their digests alone.
\<close>

section \<open>The last items of a list\<close>

definition last_items :: "nat \<Rightarrow> 'a list \<Rightarrow> 'a list" where
  "last_items n xs = drop (length xs - n) xs"

lemma length_last_items [simp]: "length (last_items n xs) = min n (length xs)"
  by (simp add: last_items_def)

lemma last_items_all: "length xs \<le> n \<Longrightarrow> last_items n xs = xs"
  by (simp add: last_items_def)

lemma last_items_push: "0 < n \<Longrightarrow> push_bounded n x (last_items n xs) = last_items n (xs @ [x])"
proof -
  assume n: "0 < n"
  show ?thesis
  proof (cases "length xs < n")
    case True
    then show ?thesis by (simp add: last_items_def push_bounded_def)
  next
    case False
    then have "length xs - n < length xs" using n by simp
    then have "tl (drop (length xs - n) xs) = drop (Suc (length xs - n)) xs"
      by (metis drop_Suc tl_drop)
    moreover have "Suc (length xs) - n = Suc (length xs - n)" using False by simp
    ultimately show ?thesis using False n by (simp add: last_items_def push_bounded_def)
  qed
qed

lemma last_items_last_items: "last_items n (last_items n xs @ ys) = last_items n (xs @ ys)"
proof -
  have "last_items n (xs @ ys) = drop (length (last_items n xs @ ys) - n) (last_items n xs @ ys)"
    by (cases "length xs \<le> n") (auto simp: last_items_def add.commute)
  then show ?thesis by (simp add: last_items_def)
qed

lemma push_bounded_length: "0 < n \<Longrightarrow> length xs \<le> n \<Longrightarrow> length (push_bounded n x xs) \<le> n"
  by (auto simp: push_bounded_def)

section \<open>What each operation leaves alone\<close>

named_theorems frame "fields an operation does not touch"

lemma append_frame [frame]:
  "lg_version (ledger_append family prov source_ts receipt ob s) = lg_version s"
  "lg_candidate_edits_at_last_test (ledger_append family prov source_ts receipt ob s) = lg_candidate_edits_at_last_test s"
  "lg_code (ledger_append family prov source_ts receipt ob s) = lg_code s"
  "lg_tests (ledger_append family prov source_ts receipt ob s) = lg_tests s"
  "lg_diagnostics (ledger_append family prov source_ts receipt ob s) = lg_diagnostics s"
  "lg_progress (ledger_append family prov source_ts receipt ob s) = lg_progress s"
  "lg_stuck (ledger_append family prov source_ts receipt ob s) = lg_stuck s"
  "lg_hints (ledger_append family prov source_ts receipt ob s) = lg_hints s"
  "lg_lifecycle (ledger_append family prov source_ts receipt ob s) = lg_lifecycle s"
  "lg_coverage (ledger_append family prov source_ts receipt ob s) = lg_coverage s"
  "lg_conversation (ledger_append family prov source_ts receipt ob s) = lg_conversation s"
  "lg_metrics (ledger_append family prov source_ts receipt ob s) = lg_metrics s"
  by (simp_all add: ledger_append_def)

lemma sequence_frame [frame]:
  "lg_version (record_sequence event s) = lg_version s"
  "lg_next_sequence (record_sequence event s) = lg_next_sequence s"
  "lg_entries (record_sequence event s) = lg_entries s"
  "lg_candidate_edits_at_last_test (record_sequence event s) = lg_candidate_edits_at_last_test s"
  "lg_code (record_sequence event s) = lg_code s"
  "lg_tests (record_sequence event s) = lg_tests s"
  "lg_diagnostics (record_sequence event s) = lg_diagnostics s"
  "lg_progress (record_sequence event s) = lg_progress s"
  "lg_stuck (record_sequence event s) = lg_stuck s"
  "lg_hints (record_sequence event s) = lg_hints s"
  "lg_lifecycle (record_sequence event s) = lg_lifecycle s"
  "lg_coverage (record_sequence event s) = lg_coverage s"
  "lg_metrics (record_sequence event s) = lg_metrics s"
  "cn_interviewer_turns (lg_conversation (record_sequence event s)) = cn_interviewer_turns (lg_conversation s)"
  "cn_candidate_turns (lg_conversation (record_sequence event s)) = cn_candidate_turns (lg_conversation s)"
  by (simp_all add: record_sequence_def)

section \<open>The invariant\<close>

definition entries_ok :: "evidence_ledger \<Rightarrow> bool" where
  "entries_ok s \<longleftrightarrow> length (lg_entries s) \<le> MAX_LEDGER_ENTRIES \<and> length (lg_entries s) < lg_next_sequence s
     \<and> map ee_sequence (lg_entries s) = [lg_next_sequence s - length (lg_entries s)..<lg_next_sequence s]"

definition code_ok :: "code_state \<Rightarrow> bool" where
  "code_ok c \<longleftrightarrow> co_substantive_revision c \<le> co_semantic_revision c \<and> co_semantic_revision c \<le> co_candidate_edits c
     \<and> co_candidate_edits c \<le> co_revision c \<and> length (co_digest_history c) \<le> MAX_CODE_DIGEST_HISTORY"

definition tests_ok :: "test_state \<Rightarrow> bool" where
  "tests_ok t \<longleftrightarrow> te_passed t + te_failed t = te_total t \<and> te_total t \<le> u32_max
     \<and> (te_consecutive_identical_failures t = 0 \<longleftrightarrow> te_failed t = 0)
     \<and> \<bar>te_newly_passed t\<bar> \<le> 2147483648 \<and> \<bar>te_newly_failed t\<bar> \<le> 2147483648"

definition progress_ok :: "test_state \<Rightarrow> interview_progress \<Rightarrow> bool" where
  "progress_ok t p \<longleftrightarrow> (ip_tested p \<longleftrightarrow> te_total t > 0) \<and> (ip_tested p \<longrightarrow> ip_runner_attempted p)
     \<and> (ip_test_progress p \<longrightarrow> ip_tested p) \<and> (ip_all_tests_passed_once p \<longrightarrow> ip_tested p)"

definition stuck_ok :: "evidence_ledger \<Rightarrow> bool" where
  "stuck_ok s \<longleftrightarrow> (let k = lg_stuck s; d = lg_diagnostics s in
     sk_repeated_failure_count k = te_consecutive_identical_failures (lg_tests s)
     \<and> sk_compile_or_runner_failure_count k = dg_syntax d + dg_type_errors d + dg_linker d + dg_runtime_signal d
         + dg_timeout d + dg_other d
     \<and> sk_edit_test_cycles k \<le> lg_candidate_edits_at_last_test s
     \<and> lg_candidate_edits_at_last_test s \<le> co_candidate_edits (lg_code s)
     \<and> sk_undo_redo_cycles k \<le> co_candidate_edits (lg_code s))"

definition hints_ok :: "nat \<Rightarrow> hint_state \<Rightarrow> bool" where
  "hints_ok bound h \<longleftrightarrow> hi_current_level h \<le> hi_requested h \<and> hi_withheld h \<le> hi_requested h + hi_volunteered h
     \<and> (\<forall>n. hi_last_hint_sequence h = Some n \<longrightarrow> n < bound)"

definition coverage_ok :: "coverage_state \<Rightarrow> bool" where
  "coverage_ok c \<longleftrightarrow> sorted (cv_covered c) \<and> distinct (cv_covered c) \<and> sorted (cv_uncovered c)"

definition ledger_ok :: "evidence_ledger \<Rightarrow> bool" where
  "ledger_ok s \<longleftrightarrow> lg_version s = LEDGER_VERSION \<and> entries_ok s \<and> code_ok (lg_code s) \<and> tests_ok (lg_tests s)
     \<and> progress_ok (lg_tests s) (lg_progress s) \<and> stuck_ok s \<and> hints_ok (lg_next_sequence s) (lg_hints s)
     \<and> coverage_ok (lg_coverage s) \<and> length (cn_recent_sequence (lg_conversation s)) \<le> MAX_CONVERSATION_SEQUENCE
     \<and> em_code_events_emitted (lg_metrics s) = co_revision (lg_code s)"

lemma entries_append:
  assumes "entries_ok s"
  shows "entries_ok (ledger_append family prov source_ts receipt ob s)"
proof -
  have "tl [n - length xs..<n] @ [n] = [Suc n - length xs..<Suc n]" if "xs \<noteq> []" "length xs < n" for n and xs :: "'z list"
    using that by (cases xs) (auto simp: Suc_diff_le upt_conv_Cons Suc_diff_Suc)
  from this [of "lg_entries s" "lg_next_sequence s"] assms show ?thesis
    by (auto simp: entries_ok_def ledger_append_def push_bounded_def MAX_LEDGER_ENTRIES_def map_tl Suc_diff_le)
qed

lemma append_ok:
  assumes "ledger_ok s"
  shows "ledger_ok (ledger_append family prov source_ts receipt ob s)"
proof -
  have "hints_ok (lg_next_sequence (ledger_append family prov source_ts receipt ob s)) (lg_hints s)"
    using assms by (auto simp: ledger_ok_def hints_ok_def ledger_append_def less_Suc_eq)
  then show ?thesis
    using assms entries_append by (simp add: ledger_ok_def frame stuck_ok_def)
qed

lemma sequence_ok: "ledger_ok s \<Longrightarrow> ledger_ok (record_sequence event s)"
  by (auto simp: ledger_ok_def frame entries_ok_def stuck_ok_def record_sequence_def MAX_CONVERSATION_SEQUENCE_def
      intro!: push_bounded_length)

lemma default_ok: "ledger_ok ledger_default"
  by (simp add: ledger_ok_def ledger_default_def entries_ok_def code_ok_def tests_ok_def progress_ok_def stuck_ok_def
      hints_ok_def coverage_ok_def code_state_default_def test_state_default_def interview_progress_default_def
      stuck_signals_default_def diagnostic_state_default_def evidence_metrics_default_def u32_max_def)

subsection \<open>Every operation keeps it\<close>

lemma received_ok: "ledger_ok s \<Longrightarrow> ledger_ok (record_received_event s)"
  by (simp add: ledger_ok_def record_received_event_def entries_ok_def stuck_ok_def)

lemma count_input_code: "em_code_events_emitted (count_input kind bytes m) = em_code_events_emitted m"
  by (cases kind) simp_all

lemma model_input_ok: "ledger_ok s \<Longrightarrow> ledger_ok (record_model_input sha kind t s)"
  by (simp add: ledger_ok_def record_model_input_def Let_def entries_ok_def stuck_ok_def count_input_code)

definition code_settled ::
  "(string \<Rightarrow> string) \<Rightarrow> nat \<Rightarrow> string \<Rightarrow> string \<Rightarrow> bool \<Rightarrow> code_analysis \<Rightarrow> evidence_ledger \<Rightarrow> evidence_ledger" where
  "code_settled sha receipt language code candidate_edit analysis s =
     s\<lparr>lg_code := next_code sha language code candidate_edit analysis (lg_code s),
       lg_stuck := (lg_stuck s)\<lparr>
         sk_last_meaningful_change_ms := (if candidate_edit \<and> ca_semantic_change analysis then Some receipt
           else sk_last_meaningful_change_ms (lg_stuck s)),
         sk_undo_redo_cycles := sk_undo_redo_cycles (lg_stuck s)
           + (if revisits_prior_state sha language code candidate_edit (lg_code s) then 1 else 0)\<rparr>,
       lg_metrics := (lg_metrics s)\<lparr>em_code_events_emitted := em_code_events_emitted (lg_metrics s) + 1\<rparr>,
       lg_conversation := (if candidate_edit then lg_conversation (record_sequence ''edit'' s) else lg_conversation s),
       lg_progress := (lg_progress s)\<lparr>ip_first_edit_ms :=
         (if candidate_edit \<and> ip_first_edit_ms (lg_progress s) = None then Some receipt
          else ip_first_edit_ms (lg_progress s))\<rparr>\<rparr>"

lemma record_code_settled:
  "record_code_with_analysis sha source_ts receipt language code candidate_edit analysis s =
     (if co_latest_digest (lg_code s) = sha code \<and> co_language (lg_code s) = language then s
      else ledger_append Code Derived source_ts receipt
        (code_json (next_code sha language code candidate_edit analysis (lg_code s))
          (if candidate_edit then analysis else analysis_observed (ca_observation analysis)))
        (code_settled sha receipt language code candidate_edit analysis s))"
  by (simp add: record_code_with_analysis_def code_settled_def record_sequence_def Let_def)

lemma next_code_ok: "code_ok c \<Longrightarrow> code_ok (next_code sha language code candidate_edit analysis c)"
  by (auto simp: code_ok_def next_code_def MAX_CODE_DIGEST_HISTORY_def intro!: push_bounded_length)

lemma next_code_counts:
  "co_revision (next_code sha language code candidate_edit analysis c) = co_revision c + 1"
  "co_candidate_edits (next_code sha language code candidate_edit analysis c)
     = co_candidate_edits c + (if candidate_edit then 1 else 0)"
  by (simp_all add: next_code_def)

lemma code_settled_ok:
  assumes "ledger_ok s"
  shows "ledger_ok (code_settled sha receipt language code candidate_edit analysis s)"
proof -
  have seq: "length (cn_recent_sequence (lg_conversation (record_sequence ''edit'' s))) \<le> MAX_CONVERSATION_SEQUENCE"
    using sequence_ok [OF assms, of "''edit''"] by (simp add: ledger_ok_def)
  show ?thesis
    using assms seq next_code_ok [of "lg_code s" sha language code candidate_edit analysis]
    unfolding ledger_ok_def
    by (auto simp: code_settled_def entries_ok_def stuck_ok_def progress_ok_def Let_def next_code_counts
        revisits_prior_state_def)
qed

lemma code_recorded_ok:
  "ledger_ok s \<Longrightarrow> ledger_ok (record_code_with_analysis sha source_ts receipt language code candidate_edit analysis s)"
  by (simp add: record_code_settled append_ok code_settled_ok)

lemma i32_clamp_range: "\<bar>i32_clamp n\<bar> \<le> 2147483648"
  by (auto simp: i32_clamp_def)

lemma executed_tests_ok: "passed \<le> cases \<Longrightarrow> cases \<le> u32_max \<Longrightarrow> tests_ok (executed_tests cases passed signature source_ts t)"
  by (auto simp: tests_ok_def executed_tests_def Let_def delta_def i32_clamp_range identical_failures_def)

lemma run_counts: "run_passed payload \<le> run_total payload" "run_total payload \<le> u32_max"
  by (simp_all add: run_passed_def run_total_def min.coboundedI2)

lemma executed_ok:
  assumes "ledger_ok s" and "passed \<le> cases" and "cases \<le> u32_max" and "0 < cases"
    and "ip_runner_attempted (lg_progress s)"
  shows "ledger_ok (record_executed cases passed signature source_ts receipt s)"
proof -
  have "tests_ok (executed_tests cases passed signature source_ts (lg_tests s))"
    using assms by (intro executed_tests_ok)
  then show ?thesis
    using assms unfolding ledger_ok_def
    by (simp add: record_executed_def entries_ok_def stuck_ok_def progress_ok_def Let_def)
      (simp add: executed_tests_def Let_def)
qed

lemma cycle_ok: "ledger_ok s \<Longrightarrow> ledger_ok (count_cycle s)"
  by (auto simp: ledger_ok_def count_cycle_def entries_ok_def stuck_ok_def Let_def)

lemma diagnostic_ok: "ledger_ok s \<Longrightarrow> ledger_ok (record_diagnostic sha source_ts receipt category diagnostic s)"
  unfolding record_diagnostic_def Let_def
  by (intro append_ok, cases category)
    (simp_all add: ledger_ok_def entries_ok_def stuck_ok_def Let_def)

lemma attempted_ok: "ledger_ok s \<Longrightarrow> ledger_ok (s\<lparr>lg_progress := (lg_progress s)\<lparr>ip_runner_attempted := True\<rparr>\<rparr>)"
  by (auto simp: ledger_ok_def entries_ok_def stuck_ok_def progress_ok_def)

definition test_started :: "evidence_ledger \<Rightarrow> evidence_ledger" where
  "test_started s = record_sequence ''test'' (s\<lparr>lg_progress := (lg_progress s)\<lparr>ip_runner_attempted := True\<rparr>\<rparr>)"

definition test_counted :: "(string \<Rightarrow> string) \<Rightarrow> nat option \<Rightarrow> nat \<Rightarrow> json \<Rightarrow> evidence_ledger \<Rightarrow> evidence_ledger" where
  "test_counted sha source_ts receipt payload s =
     (if run_executed payload
      then record_executed (run_total payload) (run_passed payload) (failure_signature sha payload) source_ts receipt (test_started s)
      else test_started s)"

definition test_diagnosed :: "(string \<Rightarrow> string) \<Rightarrow> nat option \<Rightarrow> nat \<Rightarrow> json \<Rightarrow> evidence_ledger \<Rightarrow> evidence_ledger" where
  "test_diagnosed sha source_ts receipt payload s =
     (case diagnostic_of payload of None \<Rightarrow> s
      | Some (category, diagnostic) \<Rightarrow> record_diagnostic sha source_ts receipt category diagnostic s)"

lemma record_test_steps:
  "record_test sha source_ts receipt payload s =
     (let u = test_diagnosed sha source_ts receipt payload (count_cycle (test_counted sha source_ts receipt payload s))
      in ledger_append Test BrowserClaim source_ts receipt
           (test_json (run_executed payload) (run_total payload) (run_passed payload) (failure_signature sha payload) (lg_tests u)) u)"
  unfolding record_test_def test_started_def test_counted_def test_diagnosed_def Let_def by (rule refl)

lemma test_started_ok: "ledger_ok s \<Longrightarrow> ledger_ok (test_started s)"
  by (simp add: test_started_def sequence_ok attempted_ok)

lemma test_counted_ok: "ledger_ok s \<Longrightarrow> ledger_ok (test_counted sha source_ts receipt payload s)"
  by (auto simp: test_counted_def test_started_ok run_counts run_executed_def intro!: executed_ok)
    (simp add: test_started_def frame)

lemma test_ok: "ledger_ok s \<Longrightarrow> ledger_ok (record_test sha source_ts receipt payload s)"
  by (auto simp: record_test_steps Let_def test_diagnosed_def split: option.splits
      intro!: append_ok cycle_ok diagnostic_ok test_counted_ok)

lemma hints_append_ok:
  assumes "ledger_ok u" and "hints_ok (lg_next_sequence u + 1) h"
  shows "ledger_ok (ledger_append family prov source_ts receipt ob (u\<lparr>lg_hints := h\<rparr>))"
proof -
  have "entries_ok (u\<lparr>lg_hints := h\<rparr>)" using assms(1) by (simp add: ledger_ok_def entries_ok_def)
  from entries_append [OF this] assms show ?thesis
    by (simp add: ledger_ok_def frame stuck_ok_def) (simp add: ledger_append_def)
qed

lemma hint_ok:
  assumes "ledger_ok s"
  shows "ledger_ok (record_hint receipt requested delivered s)"
proof -
  define u where "u = (if requested then record_sequence ''hint_request'' s else s)"
  have u: "ledger_ok u" using assms by (simp add: u_def sequence_ok)
  then have "hints_ok (lg_next_sequence u) (lg_hints u)" by (simp add: ledger_ok_def)
  then show ?thesis
    unfolding record_hint_def Let_def u_def [symmetric]
    by (intro hints_append_ok [OF u]) (auto simp: hints_ok_def less_Suc_eq)
qed

lemma lifecycle_ok: "ledger_ok s \<Longrightarrow> ledger_ok (record_lifecycle receipt transition s)"
  unfolding record_lifecycle_def Let_def
  by (intro append_ok) (simp add: ledger_ok_def entries_ok_def stuck_ok_def)

lemma coverage_recorded_ok: "ledger_ok s \<Longrightarrow> ledger_ok (record_coverage receipt phase s)"
  unfolding record_coverage_def
  by (auto intro!: append_ok)
    (auto simp: ledger_ok_def entries_ok_def stuck_ok_def coverage_ok_def sorted_wrt_filter)

lemma uncovered_ok: "ledger_ok s \<Longrightarrow> ledger_ok (set_uncovered_coverage phases s)"
  by (simp add: set_uncovered_coverage_def ledger_ok_def entries_ok_def stuck_ok_def coverage_ok_def)

lemma turn_taken_ok:
  assumes "ledger_ok s" and "cn_recent_sequence c = cn_recent_sequence (lg_conversation s)"
  shows "ledger_ok (turn_taken family receipt speaker c s)"
proof -
  have "ledger_ok (s\<lparr>lg_conversation := c\<rparr>)"
    using assms by (simp add: ledger_ok_def entries_ok_def stuck_ok_def)
  then show ?thesis by (simp add: turn_taken_def append_ok sequence_ok)
qed

lemma conversation_ok: "ledger_ok s \<Longrightarrow> ledger_ok (record_conversation_turn receipt speaker s)"
  by (simp add: record_conversation_turn_def Let_def turn_taken_ok)

lemma step_ok: "ledger_ok s \<Longrightarrow> ledger_ok (ledger_step sha e s)"
  by (cases e) (simp_all add: received_ok model_input_ok code_recorded_ok test_ok hint_ok lifecycle_ok
      coverage_recorded_ok uncovered_ok conversation_ok)

section \<open>What is never taken back\<close>

text \<open>
  \<open>ledger_past s t\<close>: the ledger \<open>t\<close> is \<open>s\<close> with more recorded.  Its entries are the last ones of
  those of \<open>s\<close> and some new ones, no milestone is withdrawn and no counter shrinks.
\<close>

definition milestones_kept :: "interview_progress \<Rightarrow> interview_progress \<Rightarrow> bool" where
  "milestones_kept p q \<longleftrightarrow> (ip_first_edit_ms p \<noteq> None \<longrightarrow> ip_first_edit_ms q = ip_first_edit_ms p)
     \<and> (ip_runner_attempted p \<longrightarrow> ip_runner_attempted q) \<and> (ip_tested p \<longrightarrow> ip_tested q)
     \<and> (ip_test_progress p \<longrightarrow> ip_test_progress q) \<and> (ip_all_tests_passed_once p \<longrightarrow> ip_all_tests_passed_once q)"

definition counters_kept :: "evidence_ledger \<Rightarrow> evidence_ledger \<Rightarrow> bool" where
  "counters_kept s t \<longleftrightarrow> co_revision (lg_code s) \<le> co_revision (lg_code t)
     \<and> co_candidate_edits (lg_code s) \<le> co_candidate_edits (lg_code t)
     \<and> co_semantic_revision (lg_code s) \<le> co_semantic_revision (lg_code t)
     \<and> co_substantive_revision (lg_code s) \<le> co_substantive_revision (lg_code t)
     \<and> sk_undo_redo_cycles (lg_stuck s) \<le> sk_undo_redo_cycles (lg_stuck t)
     \<and> sk_edit_test_cycles (lg_stuck s) \<le> sk_edit_test_cycles (lg_stuck t)
     \<and> sk_compile_or_runner_failure_count (lg_stuck s) \<le> sk_compile_or_runner_failure_count (lg_stuck t)
     \<and> hi_requested (lg_hints s) \<le> hi_requested (lg_hints t)
     \<and> hi_current_level (lg_hints s) \<le> hi_current_level (lg_hints t)
     \<and> lc_transitions (lg_lifecycle s) \<le> lc_transitions (lg_lifecycle t)"

definition log_kept :: "evidence_ledger \<Rightarrow> evidence_ledger \<Rightarrow> bool" where
  "log_kept s t \<longleftrightarrow> (\<exists>new. lg_next_sequence t = lg_next_sequence s + length new
     \<and> lg_entries t = fold (push_bounded MAX_LEDGER_ENTRIES) new (lg_entries s))"

definition ledger_past :: "evidence_ledger \<Rightarrow> evidence_ledger \<Rightarrow> bool" where
  "ledger_past s t \<longleftrightarrow> log_kept s t \<and> milestones_kept (lg_progress s) (lg_progress t) \<and> counters_kept s t
     \<and> (lc_ended (lg_lifecycle s) \<longrightarrow> lc_ended (lg_lifecycle t))
     \<and> (lc_behavioral_round_started (lg_lifecycle s) \<longrightarrow> lc_behavioral_round_started (lg_lifecycle t))
     \<and> set (cv_covered (lg_coverage s)) \<subseteq> set (cv_covered (lg_coverage t))"

lemma log_refl: "log_kept s s"
  unfolding log_kept_def by (intro exI [of _ "[]"]) simp

lemma log_trans: "log_kept s t \<Longrightarrow> log_kept t u \<Longrightarrow> log_kept s u"
proof -
  assume "log_kept s t" "log_kept t u"
  then obtain new later where
    "lg_next_sequence t = lg_next_sequence s + length new" "lg_entries t = fold (push_bounded MAX_LEDGER_ENTRIES) new (lg_entries s)"
    "lg_next_sequence u = lg_next_sequence t + length later" "lg_entries u = fold (push_bounded MAX_LEDGER_ENTRIES) later (lg_entries t)"
    by (auto simp: log_kept_def)
  then show "log_kept s u"
    unfolding log_kept_def by (intro exI [of _ "new @ later"]) simp
qed

lemma milestones_trans: "milestones_kept p q \<Longrightarrow> milestones_kept q r \<Longrightarrow> milestones_kept p r"
  by (auto simp: milestones_kept_def)

lemma counters_trans: "counters_kept s t \<Longrightarrow> counters_kept t u \<Longrightarrow> counters_kept s u"
  unfolding counters_kept_def by linarith

lemma ledger_past_trans:
  assumes "ledger_past s t" and "ledger_past t u"
  shows "ledger_past s u"
  using assms log_trans [of s t u] milestones_trans [of "lg_progress s" "lg_progress t" "lg_progress u"]
    counters_trans [of s t u]
  by (simp add: ledger_past_def) blast

lemma ledger_past_refl: "ledger_past s s"
  by (simp add: ledger_past_def log_refl milestones_kept_def counters_kept_def)

lemma log_same: "lg_next_sequence t = lg_next_sequence s \<Longrightarrow> lg_entries t = lg_entries s \<Longrightarrow> log_kept s t"
  unfolding log_kept_def by (intro exI [of _ "[]"]) simp

lemma append_past: "ledger_past s (ledger_append family prov source_ts receipt ob s)"
proof -
  have "log_kept s (ledger_append family prov source_ts receipt ob s)"
    unfolding log_kept_def
    by (intro exI [of _ "[\<lparr>ee_sequence = lg_next_sequence s, ee_family = family, ee_provenance = prov,
          ee_source_timestamp_ms = source_ts, ee_receipt_timestamp_ms = receipt, ee_observation = ob\<rparr>]"])
      (simp add: ledger_append_def)
  then show ?thesis by (simp add: ledger_past_def frame milestones_kept_def counters_kept_def)
qed

lemma then_append: "ledger_past s u \<Longrightarrow> ledger_past s (ledger_append family prov source_ts receipt ob u)"
  by (rule ledger_past_trans [OF _ append_past])

lemma sequence_past: "ledger_past s (record_sequence event s)"
  by (simp add: ledger_past_def frame log_same milestones_kept_def counters_kept_def)

lemma code_past: "ledger_past s (code_settled sha receipt language code candidate_edit analysis s)"
  by (auto simp: ledger_past_def log_same milestones_kept_def counters_kept_def code_settled_def next_code_def)

lemma test_started_past: "ledger_past s (test_started s)"
  unfolding test_started_def
  by (rule ledger_past_trans [OF _ sequence_past])
    (simp add: ledger_past_def log_same milestones_kept_def counters_kept_def)

lemma executed_past: "ledger_past s (record_executed cases passed signature source_ts receipt s)"
  by (simp add: record_executed_def Let_def ledger_past_def log_same milestones_kept_def counters_kept_def)

lemma cycle_past: "ledger_past s (count_cycle s)"
  by (simp add: count_cycle_def ledger_past_def log_same milestones_kept_def counters_kept_def)

lemma diagnostic_past: "ledger_past s (record_diagnostic sha source_ts receipt category diagnostic s)"
  unfolding record_diagnostic_def Let_def
  by (rule then_append) (simp add: ledger_past_def log_same milestones_kept_def counters_kept_def)

lemma test_past: "ledger_past s (record_test sha source_ts receipt payload s)"
  unfolding record_test_steps Let_def test_counted_def test_diagnosed_def
  by (rule then_append, cases "diagnostic_of payload"; cases "run_executed payload")
    (auto intro!: ledger_past_trans [OF _ diagnostic_past] ledger_past_trans [OF _ cycle_past] ledger_past_trans [OF _ executed_past]
      test_started_past)

lemma hint_past: "ledger_past s (record_hint receipt requested delivered s)"
  unfolding record_hint_def Let_def
  by (rule then_append) (simp add: ledger_past_def log_same milestones_kept_def counters_kept_def frame)

lemma lifecycle_past: "ledger_past s (record_lifecycle receipt transition s)"
  unfolding record_lifecycle_def Let_def
  by (rule then_append)
    (cases transition; simp add: ledger_past_def log_same milestones_kept_def counters_kept_def)

lemma coverage_past: "ledger_past s (record_coverage receipt phase s)"
  unfolding record_coverage_def
  by (auto simp: ledger_past_refl intro!: then_append)
    (auto simp: ledger_past_def log_same milestones_kept_def counters_kept_def)

lemma turn_past: "ledger_past s (turn_taken family receipt speaker c s)"
  unfolding turn_taken_def
  by (rule then_append, rule ledger_past_trans [OF _ sequence_past])
    (simp add: ledger_past_def log_same milestones_kept_def counters_kept_def)

lemma rest_past:
  "ledger_past s (record_received_event s)" "ledger_past s (record_model_input sha kind t s)"
  "ledger_past s (set_uncovered_coverage phases s)"
  by (simp_all add: record_received_event_def record_model_input_def set_uncovered_coverage_def Let_def
      ledger_past_def log_same milestones_kept_def counters_kept_def)

lemma step_past: "ledger_past s (ledger_step sha e s)"
  by (cases e) (simp_all add: rest_past test_past hint_past lifecycle_past coverage_past record_code_settled ledger_past_refl
      then_append code_past record_conversation_turn_def Let_def turn_past)

interpretation ledger: history_system "ledger_step sha" ledger_ok ledger_past for sha
proof unfold_locales
  fix s t u :: evidence_ledger and e
  show "ledger_ok s \<Longrightarrow> ledger_ok (ledger_step sha e s)" by (rule step_ok)
  show "ledger_past s s" by (rule ledger_past_refl)
  show "ledger_past s t \<Longrightarrow> ledger_past t u \<Longrightarrow> ledger_past s u" by (rule ledger_past_trans)
  show "ledger_past s (ledger_step sha e s)" by (rule step_past)
qed

text \<open>
  C32. Whatever is reported and in whatever order, the ledger stays well formed: at most 256 entries,
  numbered without a gap up to the newest; bounded histories; the counts of revisions, edits,
  cycles, failures and hints in step with each other; the counts of a test run adding up, and a
  milestone of testing held only by a session with an executed run.
\<close>

theorem ledger_always_ok: "ledger_ok (ledger_run sha es)"
  by (rule ledger.run_inv [OF default_ok])


end
