(* ===== verification/Ledger_Properties.thy ===== *)
theory Ledger_Properties
  imports Ledger_Correct
begin

text \<open>
  What the numbers of the evidence ledger mean: every text handed to the model is counted once and
  told apart by the digest, a run that never ran moves no result, a template is no work of the
  candidate's, reversals are returns to a recent editor state, and nothing but digests of the
  candidate's text is kept.
\<close>

section \<open>What the session spent\<close>

fun inputs_of :: "ledger_event list \<Rightarrow> (model_input_kind \<times> string) list" where
  "inputs_of [] = []"
| "inputs_of (ModelInput kind t # es) = (kind, t) # inputs_of es"
| "inputs_of (e # es) = inputs_of es"

fun kind_count :: "model_input_kind \<Rightarrow> evidence_metrics \<Rightarrow> nat" where
  "kind_count LiveSetup m = em_live_setup_count m"
| "kind_count Watch m = em_watch_prompt_count m"
| "kind_count Turn m = em_turn_prompt_count m"
| "kind_count Interim m = em_interim_prompt_count m"
| "kind_count FinalReport m = em_final_report_prompt_count m"
| "kind_count ReadEditor m = em_read_editor_calls m"
| "kind_count ToolResponse m = em_tool_response_count m"

fun kind_bytes :: "model_input_kind \<Rightarrow> evidence_metrics \<Rightarrow> nat" where
  "kind_bytes LiveSetup m = em_live_setup_bytes m"
| "kind_bytes Watch m = em_watch_prompt_bytes m"
| "kind_bytes Turn m = em_turn_prompt_bytes m"
| "kind_bytes Interim m = em_interim_prompt_bytes m"
| "kind_bytes FinalReport m = em_final_report_prompt_bytes m"
| "kind_bytes ReadEditor m = em_read_editor_bytes m"
| "kind_bytes ToolResponse m = em_tool_response_bytes m"

definition fold_digest :: "(string \<Rightarrow> string) \<Rightarrow> (model_input_kind \<times> string) list \<Rightarrow> string \<Rightarrow> string" where
  "fold_digest sha = fold (\<lambda>(kind, t). input_digest sha kind t)"

lemma inputs_append: "inputs_of (es @ fs) = inputs_of es @ inputs_of fs"
  by (induction es rule: inputs_of.induct) simp_all

lemma inputs_bytes: "sum_list (map (length \<circ> snd) is) = (\<Sum>kind \<leftarrow> [LiveSetup, Watch, Turn, Interim, FinalReport, ReadEditor, ToolResponse].
    sum_list (map (length \<circ> snd) (filter (\<lambda>i. fst i = kind) is)))"
proof (induction "is")
  case (Cons i "is")
  then show ?case by (cases "fst i") simp_all
qed simp

definition spends_alike :: "evidence_metrics \<Rightarrow> evidence_metrics \<Rightarrow> bool" where
  "spends_alike m n \<longleftrightarrow> (\<forall>kind. kind_count kind m = kind_count kind n \<and> kind_bytes kind m = kind_bytes kind n)
     \<and> em_model_input_digest m = em_model_input_digest n"

lemma spends_alike_refl: "spends_alike m m"
  by (simp add: spends_alike_def)

lemma spends_counters:
  "spends_alike (m\<lparr>em_raw_events_received := n\<rparr>) m" "spends_alike (m\<lparr>em_code_events_emitted := n\<rparr>) m"
  by (auto simp: spends_alike_def) (case_tac kind; simp)+

lemma other_events_spend_nothing:
  "(\<And>kind t. e \<noteq> ModelInput kind t) \<Longrightarrow> spends_alike (lg_metrics (ledger_step sha e s)) (lg_metrics s)"
  by (cases e)
    (auto simp: spends_alike_refl spends_counters frame record_received_event_def record_code_settled code_settled_def
      record_test_steps test_diagnosed_def test_counted_def test_started_def record_diagnostic_def record_executed_def
      count_cycle_def record_hint_def record_lifecycle_def record_coverage_def set_uncovered_coverage_def turn_taken_def
      record_conversation_turn_def Let_def split: option.splits)

lemma counted_inputs:
  "kind_count kind (count_input k bytes m) = kind_count kind m + (if kind = k then 1 else 0)"
  "kind_bytes kind (count_input k bytes m) = kind_bytes kind m + (if kind = k then bytes else 0)"
  by (cases k; cases kind; simp)+

lemma digest_fields: "kind_count kind (m\<lparr>em_model_input_digest := d\<rparr>) = kind_count kind m"
  "kind_bytes kind (m\<lparr>em_model_input_digest := d\<rparr>) = kind_bytes kind m"
  "em_model_input_digest (count_input k bytes m) = em_model_input_digest m"
  by (cases kind; simp)+ (cases k; simp)

lemma spent_so_far:
  "(\<forall>kind. kind_count kind (lg_metrics (ledger_run sha es)) = length (filter (\<lambda>i. fst i = kind) (inputs_of es))
      \<and> kind_bytes kind (lg_metrics (ledger_run sha es))
          = sum_list (map (length \<circ> snd) (filter (\<lambda>i. fst i = kind) (inputs_of es))))
   \<and> em_model_input_digest (lg_metrics (ledger_run sha es)) = fold_digest sha (inputs_of es) ''''"
proof (induction es rule: rev_induct)
  case Nil
  have "kind_count kind evidence_metrics_default = 0 \<and> kind_bytes kind evidence_metrics_default = 0" for kind
    by (cases kind) (simp_all add: evidence_metrics_default_def)
  then show ?case by (simp add: ledger_default_def fold_digest_def) (simp add: evidence_metrics_default_def)
next
  case (snoc e es)
  show ?case
  proof (cases "\<exists>kind t. e = ModelInput kind t")
    case True
    then show ?thesis
      using snoc by (auto simp: record_model_input_def Let_def digest_fields counted_inputs inputs_append fold_digest_def)
  next
    case False
    then have "inputs_of [e] = []" by (cases e) auto
    moreover have "spends_alike (lg_metrics (ledger_step sha e (ledger_run sha es))) (lg_metrics (ledger_run sha es))"
      using False by (intro other_events_spend_nothing) blast
    ultimately show ?thesis using snoc by (simp add: inputs_append spends_alike_def)
  qed
qed

lemma cost_total_kinds:
  "cost_total m = (\<Sum>kind \<leftarrow> [LiveSetup, Watch, Turn, Interim, FinalReport, ReadEditor, ToolResponse]. kind_bytes kind m)"
  by (simp add: cost_total_def)

text \<open>
  Every text handed to the model is counted exactly once, under its kind: the count of a kind is
  the number of its texts and its bytes are theirs, the total of the cost line is the bytes of all
  texts, and the digest is the chain over them in the order they were handed over.
\<close>

theorem every_input_is_counted_once:
  "kind_count kind (lg_metrics (ledger_run sha es)) = length (filter (\<lambda>i. fst i = kind) (inputs_of es))
   \<and> kind_bytes kind (lg_metrics (ledger_run sha es))
       = sum_list (map (length \<circ> snd) (filter (\<lambda>i. fst i = kind) (inputs_of es)))
   \<and> cost_total (lg_metrics (ledger_run sha es)) = sum_list (map (length \<circ> snd) (inputs_of es))
   \<and> em_model_input_digest (lg_metrics (ledger_run sha es)) = fold_digest sha (inputs_of es) ''''"
  using spent_so_far [of sha es] unfolding cost_total_kinds by (simp add: inputs_bytes [of "inputs_of es"])

section \<open>The digest tells two sessions apart\<close>

fun digested :: "(string \<Rightarrow> string) \<Rightarrow> (model_input_kind \<times> string) list \<Rightarrow> string \<Rightarrow> string list" where
  "digested sha [] d = []"
| "digested sha ((kind, t) # is) d =
     (d @ kind_debug kind @ u64_le_bytes (length t) @ t) # digested sha is (input_digest sha kind t d)"

definition hex64 :: "string \<Rightarrow> bool" where
  "hex64 d \<longleftrightarrow> length d = 64 \<and> set d \<subseteq> set ''0123456789abcdef''"

lemma hex64_nonempty: "hex64 d \<Longrightarrow> d \<noteq> []"
  by (auto simp: hex64_def)

lemma digested_append: "digested sha (is @ js) d = digested sha is d @ digested sha js (fold_digest sha is d)"
  by (induction "is" d rule: digested.induct [of _ sha]) (simp_all add: fold_digest_def)

lemma fold_digest_snoc: "fold_digest sha (is @ [(kind, t)]) d = input_digest sha kind t (fold_digest sha is d)"
  by (simp add: fold_digest_def)

lemma length_le_bytes: "length (u64_le_bytes n) = 8"
  by (simp add: u64_le_bytes_def)

lemma kinds_prefix_free:
  "kind_debug k @ xs = kind_debug l @ ys \<Longrightarrow> k = l \<and> xs = ys"
  by (cases k; cases l; simp)

lemma kind_not_hex: "hex64 d \<Longrightarrow> d @ xs \<noteq> kind_debug k @ ys"
  by (cases d; cases k) (auto simp: hex64_def)

lemma input_unique:
  assumes "d = '''' \<or> hex64 d" and "e = '''' \<or> hex64 e"
    and "d @ kind_debug k @ u64_le_bytes (length t) @ t = e @ kind_debug l @ u64_le_bytes (length u) @ u"
  shows "d = e \<and> k = l \<and> t = u"
proof -
  have de: "d = e"
    using assms kind_not_hex [of d "kind_debug k @ u64_le_bytes (length t) @ t" l "u64_le_bytes (length u) @ u"]
      kind_not_hex [of e "kind_debug l @ u64_le_bytes (length u) @ u" k "u64_le_bytes (length t) @ t"]
    by (auto simp: hex64_def append_eq_append_conv)
  with assms(3) have "kind_debug k @ u64_le_bytes (length t) @ t = kind_debug l @ u64_le_bytes (length u) @ u" by simp
  from kinds_prefix_free [OF this] have "k = l" "u64_le_bytes (length t) @ t = u64_le_bytes (length u) @ u" by auto
  with de show ?thesis by (simp add: append_eq_append_conv length_le_bytes)
qed

lemma fold_digest_shape: "(\<And>x. hex64 (sha x)) \<Longrightarrow> fold_digest sha is '''' = '''' \<or> hex64 (fold_digest sha is '''')"
  by (cases "is" rule: rev_cases) (auto simp: fold_digest_def input_digest_def)

text \<open>
  C34. Two runs of a session handed the model the same texts, of the same kinds and in the same
  order, exactly when their digests match, as long as the hash did not collide on what was hashed.
\<close>

theorem digest_identifies_the_inputs:
  assumes "\<And>x. hex64 (sha x)"
    and "inj_on sha (set (digested sha (inputs_of es) '''') \<union> set (digested sha (inputs_of fs) ''''))"
  shows "em_model_input_digest (lg_metrics (ledger_run sha es)) = em_model_input_digest (lg_metrics (ledger_run sha fs))
     \<longleftrightarrow> inputs_of es = inputs_of fs"
proof -
  have "is = js" if "inj_on sha (set (digested sha is '''') \<union> set (digested sha js ''''))"
    and "fold_digest sha is '''' = fold_digest sha js ''''" for "is" js
    using that
  proof (induction "is" arbitrary: js rule: rev_induct)
    case Nil
    then show ?case
      using hex64_nonempty [OF assms(1), symmetric] by (cases js rule: rev_cases) (auto simp: fold_digest_def input_digest_def)
  next
    case (snoc i "is")
    obtain kind t where i: "i = (kind, t)" by (cases i)
    from snoc.prems(2) have "js \<noteq> []"
      using hex64_nonempty [OF assms(1)]
      by (auto simp: fold_digest_snoc i input_digest_def) (simp add: fold_digest_def)
    then obtain l u js' where js: "js = js' @ [(l, u)]"
      by (metis rev_exhaust surj_pair)
    define d e where "d = fold_digest sha is ''''" and "e = fold_digest sha js' ''''"
    have "sha (d @ kind_debug kind @ u64_le_bytes (length t) @ t) = sha (e @ kind_debug l @ u64_le_bytes (length u) @ u)"
      using snoc.prems(2) by (simp add: i js fold_digest_snoc input_digest_def d_def e_def)
    then have "d @ kind_debug kind @ u64_le_bytes (length t) @ t = e @ kind_debug l @ u64_le_bytes (length u) @ u"
      by (rule inj_onD [OF snoc.prems(1)]) (simp_all add: i js digested_append d_def e_def)
    from input_unique [OF _ _ this] have same: "d = e" "kind = l" "t = u"
      using fold_digest_shape [OF assms(1)] by (auto simp: d_def e_def)
    have "inj_on sha (set (digested sha is '''') \<union> set (digested sha js' ''''))"
      by (rule inj_on_subset [OF snoc.prems(1)]) (auto simp: i js digested_append)
    then have "is = js'" using snoc.IH same(1) by (simp add: d_def e_def)
    with same show ?case by (simp add: i js)
  qed
  with assms(2) show ?thesis using spent_so_far [of sha es] spent_so_far [of sha fs] by auto
qed

definition toy_sha :: "string \<Rightarrow> string" where
  "toy_sha x = replicate 64 (if last x = CHR ''a'' then CHR ''0'' else CHR ''1'')"

theorem digest_identifies_the_inputs_witness:
  "em_model_input_digest (lg_metrics (ledger_run toy_sha [ModelInput Watch ''a'']))
   \<noteq> em_model_input_digest (lg_metrics (ledger_run toy_sha [ReceivedEvent, ModelInput Watch ''b'']))"
proof -
  have "hex64 (toy_sha x)" for x by (auto simp: hex64_def toy_sha_def)
  moreover have "inj_on toy_sha (set (digested toy_sha (inputs_of [ModelInput Watch ''a'']) '''')
      \<union> set (digested toy_sha (inputs_of [ReceivedEvent, ModelInput Watch ''b'']) ''''))"
    by (simp add: toy_sha_def)
  ultimately show ?thesis by (subst digest_identifies_the_inputs) simp_all
qed

section \<open>Runs that never ran, and templates\<close>

lemma diagnosed_frame [frame]:
  "lg_tests (test_diagnosed sha source_ts receipt payload s) = lg_tests s"
  "lg_progress (test_diagnosed sha source_ts receipt payload s) = lg_progress s"
  "sk_last_test_progress_ms (lg_stuck (test_diagnosed sha source_ts receipt payload s)) = sk_last_test_progress_ms (lg_stuck s)"
  "sk_repeated_failure_count (lg_stuck (test_diagnosed sha source_ts receipt payload s)) = sk_repeated_failure_count (lg_stuck s)"
  by (simp_all add: test_diagnosed_def record_diagnostic_def Let_def frame split: option.splits prod.splits)

lemma cycle_frame [frame]:
  "lg_tests (count_cycle s) = lg_tests s" "lg_progress (count_cycle s) = lg_progress s"
  "sk_last_test_progress_ms (lg_stuck (count_cycle s)) = sk_last_test_progress_ms (lg_stuck s)"
  "sk_repeated_failure_count (lg_stuck (count_cycle s)) = sk_repeated_failure_count (lg_stuck s)"
  by (simp_all add: count_cycle_def)

lemma last_appended: "lg_entries (ledger_append family prov source_ts receipt ob s) \<noteq> []
  \<and> last (lg_entries (ledger_append family prov source_ts receipt ob s))
      = \<lparr>ee_sequence = lg_next_sequence s, ee_family = family, ee_provenance = prov,
         ee_source_timestamp_ms = source_ts, ee_receipt_timestamp_ms = receipt, ee_observation = ob\<rparr>"
  by (simp add: ledger_append_def push_bounded_def)

text \<open>
  A run that never ran is no result: when the payload has no case or says the runner failed to
  start, the last test state, every milestone but the attempt itself, the streak of failures and
  the time of the last progress stay as they were, and the entry reports neither a failure, nor a
  difference, nor a regression.
\<close>

theorem unexecuted_run_moves_no_result:
  assumes "\<not> run_executed payload"
  shows "lg_tests (record_test sha source_ts receipt payload s) = lg_tests s
     \<and> lg_progress (record_test sha source_ts receipt payload s) = (lg_progress s)\<lparr>ip_runner_attempted := True\<rparr>
     \<and> sk_repeated_failure_count (lg_stuck (record_test sha source_ts receipt payload s))
         = sk_repeated_failure_count (lg_stuck s)
     \<and> sk_last_test_progress_ms (lg_stuck (record_test sha source_ts receipt payload s))
         = sk_last_test_progress_ms (lg_stuck s)
     \<and> (let ob = ee_observation (last (lg_entries (record_test sha source_ts receipt payload s)))
         in json_get ob ''executed'' = Some (JBool False) \<and> json_get ob ''regression'' = Some (JBool False)
            \<and> map (json_get ob) [''failed'', ''newlyPassed'', ''newlyFailed'', ''consecutiveIdenticalFailures'']
              = [Some (JInt 0), Some (JInt 0), Some (JInt 0), Some (JInt 0)])"
  using assms
  by (simp add: record_test_steps Let_def frame test_counted_def last_appended test_json_def)
    (simp add: test_started_def frame)

definition build_failure :: json where
  "build_failure = JObj [(''total'', JInt 5), (''passed'', JInt 0), (''failures'', JArr []), (''setupError'', JStr ''cc1'')]"

theorem unexecuted_run_moves_no_result_witness:
  "lg_tests (record_test toy_sha None 7 build_failure ledger_default) = test_state_default"
proof -
  have "\<not> run_executed build_failure"
    by (simp add: run_executed_def run_failed_to_start_def build_failure_def)
  from unexecuted_run_moves_no_result [OF this, of toy_sha None 7 ledger_default] show ?thesis
    by (simp add: ledger_default_def)
qed

text \<open>
  A template is no work of the candidate's: a buffer the browser published moves no edit count,
  no revision that a review waits for, no reversal and no first edit, and carries no claim of a
  change, though it is recorded and its parse is kept.
\<close>

theorem template_is_no_work:
  "let t = record_code_with_analysis sha source_ts receipt language code False analysis s
   in co_candidate_edits (lg_code t) = co_candidate_edits (lg_code s)
      \<and> co_semantic_revision (lg_code t) = co_semantic_revision (lg_code s)
      \<and> co_substantive_revision (lg_code t) = co_substantive_revision (lg_code s)
      \<and> lg_stuck t = lg_stuck s \<and> lg_progress t = lg_progress s \<and> lg_conversation t = lg_conversation s
      \<and> (t = s \<or> co_last_analysis (lg_code t) = Some (analysis_observed (ca_observation analysis)))"
  by (simp add: record_code_settled Let_def frame) (simp add: code_settled_def next_code_def revisits_prior_state_def)

section \<open>Nothing but digests of the candidate's text\<close>

text \<open>
  Two events tell the ledger the same facts when they differ at most in text whose digests agree:
  source, failure texts, a diagnostic, a prompt of the same kind and length.
\<close>

fun same_facts :: "(string \<Rightarrow> string) \<Rightarrow> ledger_event \<Rightarrow> ledger_event \<Rightarrow> bool" where
  "same_facts sha (CodeSeen a r l c e an) (CodeSeen a' r' l' c' e' an') \<longleftrightarrow>
     (a, r, l, e, an) = (a', r', l', e', an') \<and> sha c = sha c' \<and> state_digest sha l c = state_digest sha l c'"
| "same_facts sha (TestRun a r p) (TestRun a' r' p') \<longleftrightarrow>
     (a, r) = (a', r') \<and> run_total p = run_total p' \<and> run_passed p = run_passed p' \<and> run_executed p = run_executed p'
     \<and> failure_signature sha p = failure_signature sha p'
     \<and> map_option (map_prod id sha) (diagnostic_of p) = map_option (map_prod id sha) (diagnostic_of p')"
| "same_facts sha (ModelInput k t) (ModelInput k' t') \<longleftrightarrow>
     k = k' \<and> length t = length t' \<and> (\<forall>d. input_digest sha k t d = input_digest sha k t' d)"
| "same_facts sha e e' \<longleftrightarrow> e = e'"

lemma diagnostic_digest:
  assumes "map_option (map_prod id sha) (diagnostic_of p) = map_option (map_prod id sha) (diagnostic_of q)"
  shows "test_diagnosed sha a r p s = test_diagnosed sha a r q s"
  using assms
  by (cases "diagnostic_of p"; cases "diagnostic_of q") (auto simp: test_diagnosed_def record_diagnostic_def)

lemma same_step: "same_facts sha e e' \<Longrightarrow> ledger_step sha e s = ledger_step sha e' s"
proof (induction sha e e' rule: same_facts.induct)
  case (1 sha a r l c e an a' r' l' c' e' an')
  then have digests: "sha c = sha c'" "state_digest sha l c = state_digest sha l c'" by auto
  have "next_code sha l c e an k = next_code sha l c' e an k"
    "revisits_prior_state sha l c e k = revisits_prior_state sha l c' e k" for k
    by (simp_all only: next_code_def revisits_prior_state_def digests)
  with 1 digests show ?case by (simp add: record_code_settled code_settled_def)
next
  case (2 sha a r p a' r' p')
  then show ?case
    using diagnostic_digest [of sha p p'] by (simp add: record_test_steps test_counted_def Let_def)
next
  case (3 sha k t k' t')
  then show ?case by (auto simp: record_model_input_def)
qed simp_all

text \<open>
  C36. The ledger is raw-free: it is a function of digests.  Two interviews whose sources, failing
  cases, diagnostics and prompts differ, while their digests, counts and lengths agree, leave the
  same ledger, entry for entry, so nothing in it can tell the texts apart but their digests.
\<close>

theorem ledger_keeps_only_digests:
  assumes "list_all2 (same_facts sha) es fs"
  shows "ledger_run sha es = ledger_run sha fs"
proof -
  have "fold (ledger_step sha) es s = fold (ledger_step sha) fs s" for s
    using assms by (induction arbitrary: s rule: list_all2_induct) (simp_all add: same_step)
  then show ?thesis by simp
qed

theorem ledger_keeps_only_digests_witness:
  "ledger_run toy_sha [CodeSeen None 1 ''c'' ''int a'' True (analysis_observed Parsed)]
   = ledger_run toy_sha [CodeSeen None 1 ''c'' ''char ba'' True (analysis_observed Parsed)]"
  by (rule ledger_keeps_only_digests) (simp add: toy_sha_def state_digest_def)

section \<open>A reversal is a return to a recent editor state\<close>

text \<open>
  The editor as it was seen: the language and buffer of every recorded event, and the number of
  candidate edits that put back one of the sixteen states before with another buffer than the last.
\<close>

definition editor_seen :: "string \<times> string \<Rightarrow> bool \<Rightarrow> (string \<times> string) list \<times> nat \<Rightarrow> (string \<times> string) list \<times> nat" where
  "editor_seen now edit past =
     (let (seen, returns) = past
      in if seen \<noteq> [] \<and> last seen = now then past
         else (seen @ [now],
               returns + (if edit \<and> (seen = [] \<or> snd (last seen) \<noteq> snd now)
                 \<and> now \<in> set (last_items MAX_CODE_DIGEST_HISTORY seen) then 1 else 0)))"

fun editor_history :: "ledger_event list \<Rightarrow> (string \<times> string) list \<times> nat \<Rightarrow> (string \<times> string) list \<times> nat" where
  "editor_history [] past = past"
| "editor_history (CodeSeen a r l c e an # es) past = editor_history es (editor_seen (l, c) e past)"
| "editor_history (_ # es) past = editor_history es past"

definition state_text :: "string \<times> string \<Rightarrow> string" where
  "state_text now = u64_le_bytes (length (fst now)) @ fst now @ snd now"

fun editor_states :: "ledger_event list \<Rightarrow> (string \<times> string) list" where
  "editor_states [] = []"
| "editor_states (CodeSeen a r l c e an # es) = (l, c) # editor_states es"
| "editor_states (_ # es) = editor_states es"

definition sees :: "(string \<Rightarrow> string) \<Rightarrow> (string \<times> string) list \<times> nat \<Rightarrow> evidence_ledger \<Rightarrow> bool" where
  "sees sha past s \<longleftrightarrow>
     co_digest_history (lg_code s) = last_items MAX_CODE_DIGEST_HISTORY (map (sha \<circ> state_text) (fst past))
     \<and> sk_undo_redo_cycles (lg_stuck s) = snd past
     \<and> (if fst past = [] then co_latest_digest (lg_code s) = ''''
        else co_latest_digest (lg_code s) = sha (snd (last (fst past))) \<and> co_language (lg_code s) = fst (last (fst past)))"

lemma le_bytes_inj:
  assumes "m < 2 ^ 64" and "n < 2 ^ 64" and "u64_le_bytes m = u64_le_bytes n"
  shows "m = n"
proof -
  have digit: "m div 256 ^ i mod 256 = n div 256 ^ i mod 256" if "i < 8" for i
  proof -
    have "char_of (m div 256 ^ i) = (char_of (n div 256 ^ i) :: char)"
      using arg_cong [OF assms(3), of "\<lambda>bytes. bytes ! i"] that by (simp add: u64_le_bytes_def)
    then have "of_char (char_of (m div 256 ^ i) :: char) = (of_char (char_of (n div 256 ^ i) :: char) :: nat)" by simp
    then show ?thesis by simp
  qed
  have "k \<le> 8 \<Longrightarrow> m mod 256 ^ k = n mod 256 ^ k" for k
  proof (induction k)
    case (Suc k)
    have "m mod 256 ^ Suc k = 256 ^ k * (m div 256 ^ k mod 256) + m mod 256 ^ k" for m :: nat
      by (simp add: mod_mult2_eq mult.commute [of 256])
    with Suc digit [of k] show ?case by simp
  qed simp
  from this [of 8] assms(1,2) show ?thesis by simp
qed

lemma state_text_inj:
  assumes "length (fst x) < 2 ^ 64" and "length (fst y) < 2 ^ 64" and "state_text x = state_text y"
  shows "x = y"
proof -
  have "u64_le_bytes (length (fst x)) = u64_le_bytes (length (fst y))" "fst x @ snd x = fst y @ snd y"
    using assms(3) by (simp_all add: state_text_def append_eq_append_conv length_le_bytes)
  with le_bytes_inj [OF assms(1,2)] show ?thesis by (simp add: prod_eq_iff append_eq_append_conv)
qed

lemma sees_code:
  assumes seen: "sees sha (past, n) s"
    and known: "set past \<subseteq> states" and now: "(l, c) \<in> states"
    and short: "\<forall>x \<in> states. length (fst x) < 2 ^ 64"
    and inj: "inj_on sha (snd ` states \<union> state_text ` states)" and filled: "\<And>x. sha x \<noteq> ''''"
  shows "sees sha (editor_seen (l, c) e (past, n)) (record_code_with_analysis sha a at l c e an s)"
proof -
  let ?k = "lg_code s"
  have buffer: "sha c = co_latest_digest ?k \<longleftrightarrow> past \<noteq> [] \<and> snd (last past) = c"
  proof (cases "past = []")
    case True
    then show ?thesis using seen filled by (simp add: sees_def)
  next
    case False
    then have "last past \<in> states" using known last_in_set by blast
    then have "sha c = sha (snd (last past)) \<longleftrightarrow> c = snd (last past)"
      using now by (intro inj_on_eq_iff [OF inj]) force+
    then show ?thesis using seen False by (auto simp: sees_def)
  qed
  have dedupe: "co_latest_digest ?k = sha c \<and> co_language ?k = l \<longleftrightarrow> past \<noteq> [] \<and> last past = (l, c)"
  proof (cases "past = []")
    case True
    then show ?thesis using buffer by auto
  next
    case False
    with seen have "co_language ?k = fst (last past)" by (simp add: sees_def)
    with buffer False show ?thesis by (auto simp: prod_eq_iff)
  qed
  have digest: "state_digest sha l c = (sha \<circ> state_text) (l, c)" by (simp add: state_digest_def state_text_def)
  have found: "state_digest sha l c \<in> set (co_digest_history ?k)
      \<longleftrightarrow> (l, c) \<in> set (last_items MAX_CODE_DIGEST_HISTORY past)"
  proof -
    have "x = (l, c)" if "x \<in> set past" "sha (state_text x) = sha (state_text (l, c))" for x
    proof -
      have x: "x \<in> states" using that(1) known by blast
      with now have "state_text x = state_text (l, c)" by (intro inj_onD [OF inj that(2)]) simp_all
      with x now short show ?thesis by (intro state_text_inj) auto
    qed
    moreover have "co_digest_history ?k = map (sha \<circ> state_text) (last_items MAX_CODE_DIGEST_HISTORY past)"
      using seen by (simp add: sees_def last_items_def drop_map)
    moreover have "set (last_items MAX_CODE_DIGEST_HISTORY past) \<subseteq> set past" by (simp add: last_items_def set_drop_subset)
    ultimately show ?thesis unfolding digest by force
  qed
  have history: "push_bounded MAX_CODE_DIGEST_HISTORY (state_digest sha l c) (co_digest_history ?k)
      = last_items MAX_CODE_DIGEST_HISTORY (map (sha \<circ> state_text) (past @ [(l, c)]))"
    using seen last_items_push [of MAX_CODE_DIGEST_HISTORY "state_digest sha l c" "map (sha \<circ> state_text) past"]
    by (simp add: sees_def digest MAX_CODE_DIGEST_HISTORY_def)
  show ?thesis
  proof (cases "past \<noteq> [] \<and> last past = (l, c)")
    case True
    with dedupe seen show ?thesis by (simp add: record_code_settled editor_seen_def)
  next
    case False
    define t where "t = record_code_with_analysis sha a at l c e an s"
    have t: "t = ledger_append Code Derived a at (code_json (next_code sha l c e an ?k)
        (if e then an else analysis_observed (ca_observation an))) (code_settled sha at l c e an s)"
      using False dedupe unfolding t_def record_code_settled by metis
    have "revisits_prior_state sha l c e ?k
        \<longleftrightarrow> e \<and> (past = [] \<or> snd (last past) \<noteq> c) \<and> (l, c) \<in> set (last_items MAX_CODE_DIGEST_HISTORY past)"
      using buffer found by (auto simp: revisits_prior_state_def)
    then have count: "sk_undo_redo_cycles (lg_stuck t) = snd (editor_seen (l, c) e (past, n))"
      using False seen by (simp add: t frame code_settled_def editor_seen_def sees_def)
    have "co_digest_history (lg_code t) = push_bounded MAX_CODE_DIGEST_HISTORY (state_digest sha l c) (co_digest_history ?k)"
      "co_latest_digest (lg_code t) = sha c" "co_language (lg_code t) = l"
      by (simp_all add: t frame code_settled_def next_code_def)
    moreover have "fst (editor_seen (l, c) e (past, n)) = past @ [(l, c)]"
      using False by (simp add: editor_seen_def)
    ultimately show ?thesis using count history unfolding t_def [symmetric] sees_def by simp
  qed
qed

lemma other_events_see_nothing:
  "editor_states [ev] = [] \<Longrightarrow> lg_code (ledger_step sha ev s) = lg_code s
     \<and> sk_undo_redo_cycles (lg_stuck (ledger_step sha ev s)) = sk_undo_redo_cycles (lg_stuck s)"
  by (cases ev)
    (auto simp: frame record_received_event_def record_model_input_def record_test_steps test_diagnosed_def
      test_counted_def test_started_def record_diagnostic_def record_executed_def
      count_cycle_def record_hint_def record_lifecycle_def record_coverage_def set_uncovered_coverage_def turn_taken_def
      record_conversation_turn_def Let_def split: option.splits)

lemma editor_history_append: "editor_history (es @ fs) past = editor_history fs (editor_history es past)"
  by (induction es past rule: editor_history.induct) simp_all

lemma editor_states_append: "editor_states (es @ fs) = editor_states es @ editor_states fs"
  by (induction es rule: editor_states.induct) simp_all

lemma history_within: "set (fst (editor_history es past)) \<subseteq> set (fst past) \<union> set (editor_states es)"
proof (induction es past rule: editor_history.induct)
  case (2 a r l c e an es past)
  have "set (fst (editor_seen (l, c) e past)) \<subseteq> set (fst past) \<union> {(l, c)}"
    by (auto simp: editor_seen_def Let_def case_prod_beta)
  with 2 show ?case by auto
qed auto

definition collision_free :: "(string \<Rightarrow> string) \<Rightarrow> (string \<times> string) list \<Rightarrow> bool" where
  "collision_free sha states \<longleftrightarrow> inj_on sha (snd ` set states \<union> state_text ` set states)"

text \<open>
  C35. The digests stand for the editor: the history is that of the last sixteen states the editor
  was seen in, language and buffer together, the last digest and language are those of the last
  state, and the reversals counted are exactly the candidate's returns to one of those states with
  another buffer than the last one.
\<close>

theorem reversals_are_returns:
  assumes "collision_free sha (editor_states es)" and "\<And>x. sha x \<noteq> ''''"
    and "\<And>x. x \<in> set (editor_states es) \<Longrightarrow> length (fst x) < 2 ^ 64"
  shows "sees sha (editor_history es ([], 0)) (ledger_run sha es)"
  using assms(1,3)
proof (induction es rule: rev_induct)
  case Nil
  show ?case
    by (simp add: sees_def ledger_default_def code_state_default_def stuck_signals_default_def last_items_def)
next
  case (snoc ev es)
  have "sees sha (editor_history es ([], 0)) (ledger_run sha es)"
    using snoc.prems by (intro snoc.IH) (auto simp: editor_states_append collision_free_def image_Un intro: inj_on_subset)
  then obtain past n where past: "editor_history es ([], 0) = (past, n)" "sees sha (past, n) (ledger_run sha es)"
    by (metis surj_pair)
  have known: "set past \<subseteq> set (editor_states (es @ [ev]))"
    using history_within [of es "([], 0)"] past(1) by (auto simp: editor_states_append)
  show ?case
  proof (cases ev)
    case (CodeSeen a at l c e an)
    have "sees sha (editor_seen (l, c) e (past, n)) (record_code_with_analysis sha a at l c e an (ledger_run sha es))"
      using snoc.prems assms(2)
      by (intro sees_code [OF past(2) known]) (auto simp: collision_free_def CodeSeen editor_states_append)
    then show ?thesis by (simp add: CodeSeen editor_history_append past)
  qed (use past(2) other_events_see_nothing [of ev sha "ledger_run sha es"] in
      \<open>simp_all add: editor_history_append past(1) sees_def del: ledger_step.simps\<close>)
qed

definition long_sha :: "string \<Rightarrow> string" where
  "long_sha x = x @ ''#''"

theorem reversals_are_returns_witness:
  "sk_undo_redo_cycles (lg_stuck (ledger_run long_sha
     [CodeSeen None 1 ''c'' ''a'' False (analysis_observed Parsed),
      CodeSeen None 2 ''c'' ''b'' True (analysis_observed Parsed),
      CodeSeen None 3 ''c'' ''a'' True (analysis_observed Parsed)])) = 1"
proof -
  let ?es = "[CodeSeen None 1 ''c'' ''a'' False (analysis_observed Parsed),
      CodeSeen None 2 ''c'' ''b'' True (analysis_observed Parsed),
      CodeSeen None 3 ''c'' ''a'' True (analysis_observed Parsed)]"
  have "sees long_sha (editor_history ?es ([], 0)) (ledger_run long_sha ?es)"
    by (rule reversals_are_returns) (auto simp: collision_free_def long_sha_def inj_on_def)
  moreover have "snd (editor_history ?es ([], 0)) = 1"
    by (simp add: editor_seen_def last_items_def MAX_CODE_DIGEST_HISTORY_def)
  ultimately show ?thesis by (simp add: sees_def)
qed

end
