(* ===== verification/Syntax.thy ===== *)
theory Syntax
  imports Ledger
begin

text \<open>
  The analysis of an edit in \<open>src/src/agent/evidence.rs\<close>: two syntax trees are reduced to facts, and
  the facts say what kind of change lies between them.

  The trees come from the \<open>tree_sitter\<close> crate and are data here, as its nodes present them: a kind,
  whether the node is named, the field of its parent it hangs from, the source text it covers
  (\<open>None\<close> where the slice is no UTF-8) and its children in order.  Parsing itself is the parameter
  \<open>parse grammar source old\<close>, where \<open>old\<close> is an earlier tree with the edit that was applied to it.
\<close>

section \<open>Trees\<close>

datatype syntax_node =
  SNode (sn_kind: string) (sn_named: bool) (sn_field: "string option") (sn_text: "string option")
    (sn_children: "syntax_node list")

record parsed_tree =
  pt_root_node :: syntax_node
  pt_has_error :: bool

record input_edit =
  ie_start_byte :: nat
  ie_old_end_byte :: nat
  ie_new_end_byte :: nat
  ie_start_position :: "nat \<times> nat"
  ie_old_end_position :: "nat \<times> nat"
  ie_new_end_position :: "nat \<times> nat"

text \<open>Positions among the children: nodes are told apart by their place, as their ids tell them apart.\<close>

fun position_from :: "('a \<Rightarrow> bool) \<Rightarrow> nat \<Rightarrow> 'a list \<Rightarrow> nat option" where
  "position_from p i [] = None"
| "position_from p i (x # xs) = (if p x then Some i else position_from p (Suc i) xs)"

definition child_by_field_name :: "syntax_node \<Rightarrow> string \<Rightarrow> nat option" where
  "child_by_field_name node field = position_from (\<lambda>c. sn_field c = Some field) 0 (sn_children node)"

definition first_named_child :: "syntax_node \<Rightarrow> nat option" where
  "first_named_child node = position_from sn_named 0 (sn_children node)"

section \<open>Kinds of nodes\<close>

definition CLOSURE_PREFIX :: string where "CLOSURE_PREFIX = ''closure.''"
definition MAX_CHANGED_NODE_FACTS :: nat where "MAX_CHANGED_NODE_FACTS = 12"
definition MAX_PARSED_BYTES :: nat where "MAX_PARSED_BYTES = 64 * 1024"

definition loop_kind :: "string \<Rightarrow> bool" where
  "loop_kind kind \<longleftrightarrow> kind \<in> {''for_statement'', ''for_in_statement'', ''for_range_loop'', ''enhanced_for_statement''}"

definition control_kind :: "string \<Rightarrow> bool" where
  "control_kind kind \<longleftrightarrow> loop_kind kind \<or> kind \<in> {''if_statement'', ''elif_clause'', ''else_clause'', ''while_statement'',
     ''do_statement'', ''switch_statement'', ''switch_expression'', ''case_statement'', ''match_statement'',
     ''try_statement'', ''catch_clause'', ''finally_clause'', ''with_statement'', ''break_statement'',
     ''continue_statement''}"

definition comment_kind :: "string \<Rightarrow> bool" where
  "comment_kind kind \<longleftrightarrow> kind \<in> {''comment'', ''line_comment'', ''block_comment'', ''html_comment''}"

definition unnest :: "string \<Rightarrow> string" where
  "unnest kind = (case strip_prefix CLOSURE_PREFIX kind of Some inner \<Rightarrow> inner | None \<Rightarrow> kind)"

definition closure_kind :: "string \<Rightarrow> bool" where
  "closure_kind kind \<longleftrightarrow> kind \<in> {''lambda'', ''lambda_expression'', ''arrow_function'', ''function_expression''}"

definition data_structure_kind :: "string \<Rightarrow> bool" where
  "data_structure_kind kind \<longleftrightarrow>
     \<not> (str_contains ''pattern'' kind
        \<or> list_ex (\<lambda>grouping. str_contains grouping kind)
            [''argument_list'', ''parameter_list'', ''expression_list'', ''declaration_list'', ''enumerator_list'',
             ''type_list''])
     \<and> list_ex (\<lambda>w. str_contains w kind) [''array'', ''list'', ''dict'', ''object'', ''map'', ''set'']"

definition interface_kind :: "string \<Rightarrow> bool" where
  "interface_kind kind \<longleftrightarrow> kind \<in> {''function_definition'', ''function_declaration'', ''function_declarator'',
     ''method_declaration'', ''method_definition'', ''constructor_declaration'', ''class_definition'',
     ''class_declaration'', ''class_specifier'', ''struct_specifier'', ''interface_declaration'', ''enum_declaration'',
     ''parameters'', ''parameter_list'', ''parameter_declaration'', ''optional_parameter_declaration'',
     ''variadic_parameter_declaration'', ''formal_parameters'', ''formal_parameter'', ''spread_parameter'',
     ''default_parameter'', ''typed_parameter'', ''typed_default_parameter''}"

text \<open>What a node is to its parent: \<open>parent\<close> is the parent node and the place among its children.\<close>

definition in_field :: "syntax_node \<times> nat \<Rightarrow> string \<Rightarrow> bool" where
  "in_field parent field \<longleftrightarrow> child_by_field_name (fst parent) field = Some (snd parent)"

definition local_binding :: "(syntax_node \<times> nat) option \<Rightarrow> bool" where
  "local_binding parent = (case parent of None \<Rightarrow> False | Some p \<Rightarrow>
     let kind = sn_kind (fst p)
     in if kind \<in> {''parameters'', ''formal_parameters'', ''lambda_parameters''} then True
        else if kind \<in> {''assignment'', ''for_statement'', ''for_in_clause''} then in_field p ''left''
        else if kind \<in> {''variable_declarator'', ''formal_parameter'', ''catch_formal_parameter''} then in_field p ''name''
        else if kind \<in> {''init_declarator'', ''parameter_declaration''} then in_field p ''declarator''
        else if kind \<in> {''default_parameter'', ''typed_default_parameter''} then in_field p ''name''
        else if kind = ''typed_parameter'' then first_named_child (fst p) = Some (snd p)
        else False)"

definition local_reference :: "(syntax_node \<times> nat) option \<Rightarrow> bool" where
  "local_reference parent = (case parent of None \<Rightarrow> False | Some p \<Rightarrow>
     \<not> list_ex (in_field p) [''attribute'', ''field'', ''name'', ''alias'']
     \<and> sn_kind (fst p) \<notin> {''dotted_name'', ''global_statement'', ''nonlocal_statement'', ''method_reference''})"

section \<open>The facts of a tree\<close>

record syntax_facts =
  sf_node_counts :: "(string, nat) btree"
  sf_identifiers :: "string list"
  sf_identifier_scopes :: "nat option list"
  sf_local_bindings :: "(nat \<times> string) set"
  sf_scope_parents :: "nat option list"
  sf_class_scopes :: "nat set"
  sf_leaves :: "(string \<times> string) list"
  sf_comments :: "string list"
  sf_interface_leaves :: "(string \<times> string) option list"
  sf_shape :: "(string \<times> nat) list"
  sf_loop_bindings :: "string list"

record walk_frame =
  wf_node :: syntax_node
  wf_parent :: "(syntax_node \<times> nat) option"
  wf_in_parameters :: bool
  wf_in_closure :: bool
  wf_opaque_parameters :: bool
  wf_in_binding :: bool
  wf_depth :: nat
  wf_scope :: nat
  wf_ambiguous_references :: bool

definition no_facts :: syntax_facts where
  "no_facts = \<lparr>sf_node_counts = [], sf_identifiers = [], sf_identifier_scopes = [], sf_local_bindings = {},
     sf_scope_parents = [None], sf_class_scopes = {}, sf_leaves = [], sf_comments = [], sf_interface_leaves = [],
     sf_shape = [], sf_loop_bindings = []\<rparr>"

text \<open>
  \<open>next_scope\<close> of the code is the number of scopes opened so far, which is one less than the entries of
  \<open>scope_parents\<close>: both grow together.
\<close>

definition nested_block :: "string \<Rightarrow> string \<Rightarrow> (syntax_node \<times> nat) option \<Rightarrow> bool" where
  "nested_block grammar kind parent \<longleftrightarrow> grammar \<noteq> ''python''
     \<and> kind \<in> {''block'', ''statement_block'', ''compound_statement''}
     \<and> (case parent of None \<Rightarrow> False | Some p \<Rightarrow>
          sn_kind (fst p) \<notin> {''function_definition'', ''function_declaration'', ''method_declaration'',
            ''lambda_expression'', ''arrow_function'', ''function_expression''})"

definition scoped_statement :: "string \<Rightarrow> string \<Rightarrow> bool" where
  "scoped_statement grammar kind \<longleftrightarrow> grammar \<noteq> ''python''
     \<and> kind \<in> {''for_statement'', ''for_in_statement'', ''for_range_loop'', ''enhanced_for_statement'', ''catch_clause'',
          ''if_statement'', ''switch_statement'', ''while_statement''}"

definition opens_scope :: "string \<Rightarrow> walk_frame \<Rightarrow> bool" where
  "opens_scope grammar f \<longleftrightarrow> (let kind = sn_kind (wf_node f) in
     nested_block grammar kind (wf_parent f) \<or> scoped_statement grammar kind \<or> closure_kind kind
     \<or> kind \<in> {''function_definition'', ''function_declaration'', ''method_declaration'', ''class_definition'',
          ''class_declaration'', ''list_comprehension'', ''set_comprehension'', ''dictionary_comprehension'',
          ''generator_expression''})"

definition scope_of :: "string \<Rightarrow> walk_frame \<Rightarrow> syntax_facts \<Rightarrow> nat" where
  "scope_of grammar f a = (if opens_scope grammar f then length (sf_scope_parents a) else wf_scope f)"

definition enter_scope :: "string \<Rightarrow> walk_frame \<Rightarrow> syntax_facts \<Rightarrow> syntax_facts" where
  "enter_scope grammar f a =
     (if opens_scope grammar f
      then a\<lparr>sf_scope_parents := sf_scope_parents a @ [Some (wf_scope f)],
             sf_class_scopes := (if grammar = ''python'' \<and> sn_kind (wf_node f) = ''class_definition''
               then insert (length (sf_scope_parents a)) (sf_class_scopes a) else sf_class_scopes a)\<rparr>
      else a)"

definition bump :: "string \<Rightarrow> (string, nat) btree \<Rightarrow> (string, nat) btree" where
  "bump kind m = bt_insert kind (case map_of m kind of Some n \<Rightarrow> n + 1 | None \<Rightarrow> 1) m"

definition loop_target :: "syntax_node \<Rightarrow> nat option" where
  "loop_target node = (if loop_kind (sn_kind node)
     then (case child_by_field_name node ''left'' of Some i \<Rightarrow> Some i | None \<Rightarrow>
           (case child_by_field_name node ''declarator'' of Some i \<Rightarrow> Some i | None \<Rightarrow>
            child_by_field_name node ''name''))
     else None)"

definition note_shape :: "walk_frame \<Rightarrow> syntax_facts \<Rightarrow> syntax_facts" where
  "note_shape f a = (let kind = sn_kind (wf_node f) in
     if sn_named (wf_node f) \<and> \<not> comment_kind kind
     then a\<lparr>sf_shape := sf_shape a @ [(kind, wf_depth f)],
            sf_loop_bindings := sf_loop_bindings a @ (if wf_in_binding f then [kind] else [])\<rparr>
     else a)"

definition note_loop :: "walk_frame \<Rightarrow> syntax_facts \<Rightarrow> syntax_facts" where
  "note_loop f a = (if loop_kind (sn_kind (wf_node f))
     then a\<lparr>sf_loop_bindings := sf_loop_bindings a @ [sn_kind (wf_node f)]\<rparr> else a)"

definition note_kind :: "walk_frame \<Rightarrow> syntax_facts \<Rightarrow> syntax_facts" where
  "note_kind f a = (let kind = sn_kind (wf_node f) in
     if \<not> sn_named (wf_node f) then a
     else if comment_kind kind
     then (case sn_text (wf_node f) of Some t \<Rightarrow> a\<lparr>sf_comments := sf_comments a @ [t]\<rparr> | None \<Rightarrow> a)
     else a\<lparr>sf_node_counts := bump (if wf_in_closure f then CLOSURE_PREFIX @ kind else kind) (sf_node_counts a)\<rparr>)"

definition note_identifier :: "nat \<Rightarrow> walk_frame \<Rightarrow> syntax_facts \<Rightarrow> syntax_facts" where
  "note_identifier scope f a =
     (case sn_text (wf_node f) of None \<Rightarrow> a
      | Some t \<Rightarrow>
          if sn_named (wf_node f) \<and> sn_kind (wf_node f) = ''identifier''
          then let bound = local_binding (wf_parent f)
               in a\<lparr>sf_interface_leaves := sf_interface_leaves a @ (if wf_in_parameters f then [None] else []),
                    sf_local_bindings := (if bound then insert (scope, t) (sf_local_bindings a) else sf_local_bindings a),
                    sf_identifier_scopes := sf_identifier_scopes a
                      @ [if bound \<or> \<not> wf_ambiguous_references f \<and> local_reference (wf_parent f) then Some scope else None],
                    sf_identifiers := sf_identifiers a @ [t]\<rparr>
          else a)"

definition note_leaf :: "walk_frame \<Rightarrow> syntax_facts \<Rightarrow> syntax_facts" where
  "note_leaf f a = (let kind = sn_kind (wf_node f) in
     case sn_text (wf_node f) of None \<Rightarrow> a
     | Some t \<Rightarrow>
         if sn_children (wf_node f) = [] \<and> kind \<noteq> ''identifier'' \<and> \<not> comment_kind kind
         then a\<lparr>sf_interface_leaves := sf_interface_leaves a @ (if wf_in_parameters f then [Some (kind, t)] else []),
                sf_leaves := sf_leaves a @ [(kind, t)]\<rparr>
         else a)"

definition note_node :: "string \<Rightarrow> walk_frame \<Rightarrow> syntax_facts \<Rightarrow> syntax_facts" where
  "note_node grammar f a =
     (let scope = scope_of grammar f a; a = enter_scope grammar f a
      in if sn_kind (wf_node f) = ''line_continuation'' then a
         else note_leaf f (note_identifier scope f (note_kind f (note_loop f (note_shape f a)))))"

definition child_frame :: "walk_frame \<Rightarrow> nat \<Rightarrow> nat \<Rightarrow> syntax_node \<Rightarrow> walk_frame" where
  "child_frame f scope i child =
     (let kind = sn_kind (wf_node f);
          child_in_closure = wf_in_closure f \<or> closure_kind kind;
          child_opaque = wf_opaque_parameters f \<or> child_in_closure;
          opaque_now = child_opaque \<or> kind = ''catch_clause'' \<and> child_by_field_name (wf_node f) ''body'' \<noteq> Some i
      in \<lparr>wf_node = child, wf_parent = Some (wf_node f, i),
          wf_in_parameters = \<not> opaque_now \<and> (wf_in_parameters f \<or> str_contains ''parameter'' kind),
          wf_in_closure = child_in_closure, wf_opaque_parameters = opaque_now,
          wf_in_binding = wf_in_binding f \<or> loop_target (wf_node f) = Some i,
          wf_depth = wf_depth f + 1, wf_scope = scope,
          wf_ambiguous_references = wf_ambiguous_references f
            \<or> kind \<in> {''parameters'', ''formal_parameters'', ''parameter_list'', ''lambda_parameters'',
                 ''list_comprehension'', ''set_comprehension'', ''dictionary_comprehension'', ''generator_expression''}\<rparr>)"

fun child_frames :: "walk_frame \<Rightarrow> nat \<Rightarrow> nat \<Rightarrow> syntax_node list \<Rightarrow> walk_frame list" where
  "child_frames f scope i [] = []"
| "child_frames f scope i (c # cs) = child_frame f scope i c # child_frames f scope (Suc i) cs"

definition next_frames :: "string \<Rightarrow> walk_frame \<Rightarrow> syntax_facts \<Rightarrow> walk_frame list" where
  "next_frames grammar f a =
     (if sn_kind (wf_node f) = ''line_continuation'' then []
      else child_frames f (scope_of grammar f a) 0 (sn_children (wf_node f)))"

text \<open>The loop: the frame on top is taken off, and the frames of its children go on top in order.\<close>

definition frame_size :: "walk_frame \<Rightarrow> nat" where
  "frame_size f = size (wf_node f)"

lemma child_frames_nodes: "map wf_node (child_frames f scope i cs) = cs"
  by (induction cs arbitrary: i) (simp_all add: child_frame_def Let_def)

lemma child_frames_size: "sum_list (map frame_size (child_frames f scope i cs)) = sum_list (map size cs)"
  by (induction cs arbitrary: i) (simp_all add: frame_size_def child_frame_def Let_def)

lemma size_children: "sum_list (map size cs) < size (SNode kind named field t cs)"
proof -
  have "sum_list (map size cs) \<le> size_list size cs" by (induction cs) simp_all
  then show ?thesis by simp
qed

function walk :: "string \<Rightarrow> walk_frame list \<Rightarrow> syntax_facts \<Rightarrow> syntax_facts" where
  "walk grammar [] a = a"
| "walk grammar (f # stack) a = walk grammar (next_frames grammar f a @ stack) (note_node grammar f a)"
  by pat_completeness auto
termination
proof (relation "measure (\<lambda>(grammar, stack, a). sum_list (map frame_size stack))", goal_cases)
  case (2 grammar f stack a)
  obtain kind named field t cs where node: "wf_node f = SNode kind named field t cs" by (cases "wf_node f")
  then have "sum_list (map frame_size (next_frames grammar f a)) < frame_size f"
    using size_children [of cs kind named field t] by (simp add: next_frames_def child_frames_size frame_size_def)
  then show ?case by simp
qed simp

definition root_frame :: "syntax_node \<Rightarrow> walk_frame" where
  "root_frame root = \<lparr>wf_node = root, wf_parent = None, wf_in_parameters = False, wf_in_closure = False,
     wf_opaque_parameters = False, wf_in_binding = False, wf_depth = 0, wf_scope = 0, wf_ambiguous_references = False\<rparr>"

definition syntax_facts_of :: "syntax_node \<Rightarrow> string \<Rightarrow> syntax_facts" where
  "syntax_facts_of root grammar = walk grammar [root_frame root] no_facts"

end
