(* ===== verification/Code_Change.thy ===== *)
theory Code_Change
  imports Syntax
begin

text \<open>
  What kind of change lies between two buffers: the rest of the edit analysis in
  \<open>src/src/agent/evidence.rs\<close>.  \<open>parse grammar source old\<close> stands for the parser of the grammar, which
  may not exist or give up; \<open>old\<close> is an earlier tree and the edit applied to it, for parsing the
  change alone.
\<close>

section \<open>Renames\<close>

text \<open>
  \<open>SyntaxFacts::resolve\<close> follows the enclosing scopes outwards.  A scope's parent was numbered before
  it, so the walk has at most one step a scope and \<open>Suc scope\<close> is fuel enough.
\<close>

fun resolve_from :: "nat \<Rightarrow> syntax_facts \<Rightarrow> nat \<Rightarrow> nat \<Rightarrow> string \<Rightarrow> nat option" where
  "resolve_from 0 a scope current name = None"
| "resolve_from (Suc fuel) a scope current name =
     (if (current = scope \<or> current \<notin> sf_class_scopes a) \<and> (current, name) \<in> sf_local_bindings a then Some current
      else (case sf_scope_parents a ! current of None \<Rightarrow> None
            | Some parent \<Rightarrow> resolve_from fuel a scope parent name))"

definition resolve :: "syntax_facts \<Rightarrow> nat \<Rightarrow> string \<Rightarrow> nat option" where
  "resolve a scope name = resolve_from (Suc scope) a scope scope name"

definition same_binding :: "syntax_facts \<Rightarrow> syntax_facts \<Rightarrow> nat \<Rightarrow> string \<Rightarrow> string \<Rightarrow> bool" where
  "same_binding before after index old new \<longleftrightarrow>
     sf_identifier_scopes before ! index = sf_identifier_scopes after ! index
     \<and> (case sf_identifier_scopes before ! index of None \<Rightarrow> False
        | Some scope \<Rightarrow> resolve before scope old \<noteq> None \<and> resolve before scope old = resolve after scope new)"

fun rename_loop ::
  "syntax_facts \<Rightarrow> syntax_facts \<Rightarrow> nat \<Rightarrow> (string \<times> string) list \<Rightarrow> (string \<rightharpoonup> string) \<Rightarrow> (string \<rightharpoonup> string) \<Rightarrow> bool"
where
  "rename_loop before after index [] forward backward = True"
| "rename_loop before after index ((old, new) # pairs) forward backward =
     (let mapped = (case forward old of Some x \<Rightarrow> x | None \<Rightarrow> new);
          taken = (case backward new of Some x \<Rightarrow> x | None \<Rightarrow> old)
      in mapped = new \<and> taken = old \<and> (old = new \<or> same_binding before after index old new)
         \<and> rename_loop before after (Suc index) pairs (forward(old \<mapsto> mapped)) (backward(new \<mapsto> taken)))"

definition consistent_rename :: "syntax_facts \<Rightarrow> syntax_facts \<Rightarrow> bool" where
  "consistent_rename before after \<longleftrightarrow> length (sf_identifiers before) = length (sf_identifiers after)
     \<and> rename_loop before after 0 (zip (sf_identifiers before) (sf_identifiers after)) Map.empty Map.empty"

section \<open>Changed kinds\<close>

definition changed_node_facts :: "(string, nat) btree \<Rightarrow> (string, nat) btree \<Rightarrow> string list" where
  "changed_node_facts before after =
     List.map_filter (\<lambda>kind.
       let old = (case map_of before kind of Some n \<Rightarrow> n | None \<Rightarrow> 0);
           new = (case map_of after kind of Some n \<Rightarrow> n | None \<Rightarrow> 0)
       in if new > old then Some (kind @ '':added:'' @ decimal (new - old))
          else if new < old then Some (kind @ '':removed:'' @ decimal (old - new))
          else None)
     (sort (remdups (bt_keys before @ bt_keys after)))"

definition bounded_node_facts :: "string list \<Rightarrow> string list" where
  "bounded_node_facts facts =
     (if length facts \<le> MAX_CHANGED_NODE_FACTS then facts
      else take MAX_CHANGED_NODE_FACTS facts @ [''+'' @ decimal (length facts - MAX_CHANGED_NODE_FACTS) @ '' more''])"

definition fact_kind :: "string \<Rightarrow> string" where
  "fact_kind line = takeWhile (\<lambda>c. c \<noteq> CHR '':'') line"

section \<open>The class of a change\<close>

definition classify_with :: "string list \<Rightarrow> syntax_facts \<Rightarrow> syntax_facts \<Rightarrow> code_change_class" where
  "classify_with changed_kinds before after =
     (if sf_node_counts before = sf_node_counts after \<and> sf_identifiers before = sf_identifiers after
         \<and> sf_leaves before = sf_leaves after \<and> sf_shape before = sf_shape after
      then (if sf_comments before \<noteq> sf_comments after then CommentOnly else FormattingOnly)
      else if sf_interface_leaves before \<noteq> sf_interface_leaves after then FunctionInterface
      else if sf_loop_bindings before \<noteq> sf_loop_bindings after then ControlFlow
      else if sf_node_counts before = sf_node_counts after \<and> sf_leaves before = sf_leaves after
      then (if sf_shape before = sf_shape after \<and> sf_identifiers before \<noteq> sf_identifiers after
               \<and> sort (sf_identifiers before) \<noteq> sort (sf_identifiers after) \<and> consistent_rename before after
            then IdentifierOnly else Expression)
      else if sf_node_counts before = sf_node_counts after then Expression
      else if list_ex (\<lambda>kind. control_kind (unnest kind)) changed_kinds then ControlFlow
      else if list_ex (\<lambda>kind. data_structure_kind (unnest kind)) changed_kinds then DataStructure
      else if list_ex interface_kind changed_kinds then FunctionInterface
      else Expression)"

definition classify :: "syntax_facts \<Rightarrow> syntax_facts \<Rightarrow> code_change_class" where
  "classify before after =
     classify_with (map fact_kind (changed_node_facts (sf_node_counts before) (sf_node_counts after))) before after"

definition analysis_of_facts :: "syntax_facts \<Rightarrow> syntax_facts \<Rightarrow> code_analysis" where
  "analysis_of_facts before after =
     (let class = classify before after
      in \<lparr>ca_observation = Parsed, ca_classification = Some class,
          ca_semantic_change = (class \<noteq> FormattingOnly \<and> class \<noteq> CommentOnly),
          ca_changed_nodes = bounded_node_facts (changed_node_facts (sf_node_counts before) (sf_node_counts after))\<rparr>)"

section \<open>The edit between two buffers\<close>

definition is_char_boundary :: "string \<Rightarrow> nat \<Rightarrow> bool" where
  "is_char_boundary s i \<longleftrightarrow> i = 0 \<or> i = length s \<or> i < length s \<and> \<not> is_cont (s ! i)"

fun floor_char_boundary :: "string \<Rightarrow> nat \<Rightarrow> nat" where
  "floor_char_boundary s 0 = 0"
| "floor_char_boundary s (Suc i) =
     (if length s \<le> Suc i then length s
      else if is_char_boundary s (Suc i) then Suc i else floor_char_boundary s i)"

definition ceil_char_boundary :: "string \<Rightarrow> nat \<Rightarrow> nat" where
  "ceil_char_boundary s i = i + length (takeWhile is_cont (drop i s))"

fun common_prefix :: "string \<Rightarrow> string \<Rightarrow> nat" where
  "common_prefix (c # s) (d # t) = (if c = d then Suc (common_prefix s t) else 0)"
| "common_prefix s t = 0"

definition byte_point :: "string \<Rightarrow> nat \<Rightarrow> nat \<times> nat" where
  "byte_point t byte =
     (let before = take byte t;
          row = length (filter (\<lambda>c. c = CHR 0x0A) before);
          column = (if CHR 0x0A \<in> set before then length (takeWhile (\<lambda>c. c \<noteq> CHR 0x0A) (rev before)) else byte)
      in (row, column))"

definition input_edit_of :: "string \<Rightarrow> string \<Rightarrow> input_edit" where
  "input_edit_of old new =
     (let start = floor_char_boundary old (common_prefix old new);
          shared = common_prefix (rev (drop start old)) (rev (drop start new));
          tail = length old - ceil_char_boundary old (length old - shared)
      in \<lparr>ie_start_byte = start, ie_old_end_byte = length old - tail, ie_new_end_byte = length new - tail,
          ie_start_position = byte_point old start,
          ie_old_end_position = byte_point old (length old - tail),
          ie_new_end_position = byte_point new (length new - tail)\<rparr>)"

section \<open>Analysing an edit\<close>

type_synonym parser = "string \<Rightarrow> string \<Rightarrow> (parsed_tree \<times> input_edit) option \<Rightarrow> parsed_tree option"

type_synonym parse_cache = "(string \<times> string \<times> parsed_tree) option"

definition grammar_key :: "string \<Rightarrow> string option" where
  "grammar_key language =
     (if language \<in> {''c'', ''cpp'', ''java'', ''javascript'', ''python''} then Some language else None)"

definition tree_for :: "parse_cache \<Rightarrow> string \<Rightarrow> string \<Rightarrow> parsed_tree option" where
  "tree_for cache grammar source =
     (case cache of None \<Rightarrow> None
      | Some (cached, t, tree) \<Rightarrow> if cached = grammar \<and> t = source then Some tree else None)"

definition parser_unavailable :: code_analysis where
  "parser_unavailable = analysis_observed ParserUnavailable"

definition observed_alone :: "parsed_tree \<Rightarrow> code_observation" where
  "observed_alone tree = (if pt_has_error tree then SyntaxInvalid else Parsed)"

text \<open>The cache, if there is one, is returned as the analysis leaves it.\<close>

definition analyze_sides ::
  "parser \<Rightarrow> parse_cache option \<Rightarrow> string \<Rightarrow> string \<Rightarrow> string
     \<Rightarrow> (code_analysis \<times> code_observation) \<times> parse_cache option" where
  "analyze_sides parse cache language previous current =
     (let unavailable = ((parser_unavailable, ParserUnavailable), cache)
      in case grammar_key language of None \<Rightarrow> unavailable
      | Some grammar \<Rightarrow>
          if max (length previous) (length current) > MAX_PARSED_BYTES then unavailable
          else case (case Option.bind cache (\<lambda>c. tree_for c grammar previous) of
                       Some tree \<Rightarrow> Some tree | None \<Rightarrow> parse grammar previous None) of
            None \<Rightarrow> unavailable
          | Some previous_tree \<Rightarrow>
              (case parse grammar current (Some (previous_tree, input_edit_of previous current)) of
                 None \<Rightarrow> unavailable
               | Some current_tree \<Rightarrow>
                   (let cache = map_option (\<lambda>_. Some (grammar, current, current_tree)) cache
                    in if pt_has_error previous_tree \<or> observed_alone current_tree \<noteq> Parsed
                       then ((analysis_observed SyntaxInvalid, observed_alone current_tree), cache)
                       else ((analysis_of_facts (syntax_facts_of (pt_root_node previous_tree) grammar)
                               (syntax_facts_of (pt_root_node current_tree) grammar), Parsed), cache))))"

definition analyze_code :: "parser \<Rightarrow> string \<Rightarrow> string \<Rightarrow> string \<Rightarrow> code_analysis" where
  "analyze_code parse language previous current = fst (fst (analyze_sides parse None language previous current))"

definition analyze_code_cached ::
  "parser \<Rightarrow> parse_cache \<Rightarrow> string \<Rightarrow> string \<Rightarrow> string \<Rightarrow> (code_analysis \<times> code_observation) \<times> parse_cache" where
  "analyze_code_cached parse cache language previous current =
     (case analyze_sides parse (Some cache) language previous current of (result, Some c) \<Rightarrow> (result, c)
      | (result, None) \<Rightarrow> (result, cache))"

definition observe_with :: "parser \<Rightarrow> parse_cache option \<Rightarrow> string \<Rightarrow> string \<Rightarrow> code_analysis \<times> parse_cache option" where
  "observe_with parse cache language code =
     (case grammar_key language of None \<Rightarrow> (parser_unavailable, cache)
      | Some grammar \<Rightarrow>
          if length code > MAX_PARSED_BYTES then (parser_unavailable, cache)
          else case parse grammar code None of None \<Rightarrow> (parser_unavailable, cache)
          | Some tree \<Rightarrow> (analysis_observed (observed_alone tree), map_option (\<lambda>_. Some (grammar, code, tree)) cache))"

definition observe_code :: "parser \<Rightarrow> string \<Rightarrow> string \<Rightarrow> code_analysis" where
  "observe_code parse language code = fst (observe_with parse None language code)"

definition observe_code_cached :: "parser \<Rightarrow> parse_cache \<Rightarrow> string \<Rightarrow> string \<Rightarrow> code_analysis \<times> parse_cache" where
  "observe_code_cached parse cache language code =
     (case observe_with parse (Some cache) language code of (result, Some c) \<Rightarrow> (result, c)
      | (result, None) \<Rightarrow> (result, cache))"

end
