(* ===== verification/Code_Change_Correct.thy ===== *)
theory Code_Change_Correct
  imports Code_Change "HOL-Library.Multiset"
begin

text \<open>
  The walk with its stack against the tree in document order, what an edit must change to count as
  a change of the program, and what the analysis may leave to its cache.
\<close>

section \<open>The walk reads the tree in document order\<close>

text \<open>The nodes the walk looks at: all but what is inside a line continuation.\<close>

fun preorder :: "syntax_node \<Rightarrow> syntax_node list" where
  "preorder (SNode kind named field t cs) =
     (if kind = ''line_continuation'' then [] else SNode kind named field t cs # concat (map preorder cs))"

fun shape_of :: "nat \<Rightarrow> syntax_node \<Rightarrow> (string \<times> nat) list" where
  "shape_of depth (SNode kind named field t cs) =
     (if kind = ''line_continuation'' then []
      else (if named \<and> \<not> comment_kind kind then [(kind, depth)] else []) @ concat (map (shape_of (depth + 1)) cs))"

fun kinds_of :: "bool \<Rightarrow> syntax_node \<Rightarrow> string list" where
  "kinds_of in_closure (SNode kind named field t cs) =
     (if kind = ''line_continuation'' then []
      else (if named \<and> \<not> comment_kind kind then [if in_closure then CLOSURE_PREFIX @ kind else kind] else [])
        @ concat (map (kinds_of (in_closure \<or> closure_kind kind)) cs))"

definition node_identifiers :: "syntax_node \<Rightarrow> string list" where
  "node_identifiers node = (case sn_text node of
     Some t \<Rightarrow> if sn_named node \<and> sn_kind node = ''identifier'' then [t] else [] | None \<Rightarrow> [])"

definition node_leaves :: "syntax_node \<Rightarrow> (string \<times> string) list" where
  "node_leaves node = (case sn_text node of
     Some t \<Rightarrow> if sn_children node = [] \<and> sn_kind node \<noteq> ''identifier'' \<and> \<not> comment_kind (sn_kind node)
               then [(sn_kind node, t)] else [] | None \<Rightarrow> [])"

definition node_comments :: "syntax_node \<Rightarrow> string list" where
  "node_comments node = (case sn_text node of
     Some t \<Rightarrow> if sn_named node \<and> comment_kind (sn_kind node) then [t] else [] | None \<Rightarrow> [])"

definition in_order :: "(syntax_node \<Rightarrow> 'a list) \<Rightarrow> syntax_node \<Rightarrow> 'a list" where
  "in_order f root = concat (map f (preorder root))"

lemma in_order_node:
  "in_order g node = (if sn_kind node = ''line_continuation'' then []
     else g node @ concat (map (in_order g) (sn_children node)))"
proof -
  have "concat (map g (concat (map preorder cs))) = concat (map (in_order g) cs)" for cs
    by (induction cs) (simp_all add: in_order_def)
  then show ?thesis by (cases node) (simp add: in_order_def)
qed

lemma map_child_frames:
  "(\<And>i c. h (child_frame f scope i c) = k c) \<Longrightarrow> map h (child_frames f scope i cs) = map k cs"
  by (induction cs arbitrary: i) simp_all

text \<open>
  What the walk folds into one field, frame by frame, is what it reads off the trees of the stack, one
  after the other.
\<close>

lemma walk_reads:
  assumes "\<And>f a. sel (note_node grammar f a) = fold step (own f) (sel a)"
    and "\<And>f a. tree f = own f @ concat (map tree (next_frames grammar f a))"
  shows "sel (walk grammar fs a) = fold step (concat (map tree fs)) (sel a)"
proof (induction grammar\<equiv>grammar fs a rule: walk.induct)
  case (2 f stack a)
  then show ?case by (simp add: assms(1) assms(2) [of f a])
qed simp

lemma fold_push: "fold (\<lambda>x s. s @ [x]) xs s = s @ xs"
  by (induction xs arbitrary: s) simp_all

lemma next_in_order:
  "in_order g (wf_node f) = (if sn_kind (wf_node f) = ''line_continuation'' then [] else g (wf_node f))
     @ concat (map (\<lambda>f. in_order g (wf_node f)) (next_frames grammar f a))"
proof -
  have "map (\<lambda>f. in_order g (wf_node f)) (child_frames f scope 0 cs) = map (in_order g) cs" for scope cs
    by (rule map_child_frames) (simp add: child_frame_def Let_def)
  then show ?thesis by (simp add: in_order_node [of g "wf_node f"] next_frames_def)
qed

lemma enter_scope_keeps [simp]:
  "sf_node_counts (enter_scope grammar f a) = sf_node_counts a"
  "sf_identifiers (enter_scope grammar f a) = sf_identifiers a"
  "sf_leaves (enter_scope grammar f a) = sf_leaves a"
  "sf_comments (enter_scope grammar f a) = sf_comments a"
  "sf_shape (enter_scope grammar f a) = sf_shape a"
  "sf_identifier_scopes (enter_scope grammar f a) = sf_identifier_scopes a"
  by (simp_all add: enter_scope_def)

lemma note_leaf_fields:
  "sf_node_counts (note_leaf f a) = sf_node_counts a" "sf_identifiers (note_leaf f a) = sf_identifiers a"
  "sf_leaves (note_leaf f a) = sf_leaves a @ node_leaves (wf_node f)"
  "sf_comments (note_leaf f a) = sf_comments a" "sf_shape (note_leaf f a) = sf_shape a"
  by (cases "sn_text (wf_node f)"; simp add: note_leaf_def node_leaves_def Let_def)+

lemma note_identifier_fields:
  "sf_node_counts (note_identifier scope f a) = sf_node_counts a"
  "sf_identifiers (note_identifier scope f a) = sf_identifiers a @ node_identifiers (wf_node f)"
  "sf_leaves (note_identifier scope f a) = sf_leaves a" "sf_comments (note_identifier scope f a) = sf_comments a"
  "sf_shape (note_identifier scope f a) = sf_shape a"
  by (cases "sn_text (wf_node f)"; simp add: note_identifier_def node_identifiers_def Let_def)+

lemma note_kind_fields:
  "sf_node_counts (note_kind f a) =
     (if sn_named (wf_node f) \<and> \<not> comment_kind (sn_kind (wf_node f))
      then bump (if wf_in_closure f then CLOSURE_PREFIX @ sn_kind (wf_node f) else sn_kind (wf_node f)) (sf_node_counts a)
      else sf_node_counts a)"
  "sf_identifiers (note_kind f a) = sf_identifiers a" "sf_leaves (note_kind f a) = sf_leaves a"
  "sf_comments (note_kind f a) = sf_comments a @ node_comments (wf_node f)" "sf_shape (note_kind f a) = sf_shape a"
  by (cases "sn_text (wf_node f)"; simp add: note_kind_def node_comments_def Let_def)+

lemma note_loop_fields:
  "sf_node_counts (note_loop f a) = sf_node_counts a" "sf_identifiers (note_loop f a) = sf_identifiers a"
  "sf_leaves (note_loop f a) = sf_leaves a" "sf_comments (note_loop f a) = sf_comments a"
  "sf_shape (note_loop f a) = sf_shape a"
  by (simp_all add: note_loop_def)

lemma note_shape_fields:
  "sf_node_counts (note_shape f a) = sf_node_counts a" "sf_identifiers (note_shape f a) = sf_identifiers a"
  "sf_leaves (note_shape f a) = sf_leaves a" "sf_comments (note_shape f a) = sf_comments a"
  "sf_shape (note_shape f a) = sf_shape a
     @ (if sn_named (wf_node f) \<and> \<not> comment_kind (sn_kind (wf_node f)) then [(sn_kind (wf_node f), wf_depth f)] else [])"
  by (simp_all add: note_shape_def Let_def)

lemmas note_fields = note_leaf_fields note_identifier_fields note_kind_fields note_loop_fields note_shape_fields

lemma noted:
  "sf_identifiers (note_node grammar f a)
     = sf_identifiers a @ (if sn_kind (wf_node f) = ''line_continuation'' then [] else node_identifiers (wf_node f))"
  "sf_leaves (note_node grammar f a)
     = sf_leaves a @ (if sn_kind (wf_node f) = ''line_continuation'' then [] else node_leaves (wf_node f))"
  "sf_comments (note_node grammar f a)
     = sf_comments a @ (if sn_kind (wf_node f) = ''line_continuation'' then [] else node_comments (wf_node f))"
  by (simp_all add: note_node_def note_fields Let_def)

definition own_shape :: "walk_frame \<Rightarrow> (string \<times> nat) list" where
  "own_shape f = (let kind = sn_kind (wf_node f) in
     if kind \<noteq> ''line_continuation'' \<and> sn_named (wf_node f) \<and> \<not> comment_kind kind then [(kind, wf_depth f)] else [])"

definition own_kinds :: "walk_frame \<Rightarrow> string list" where
  "own_kinds f = (let kind = sn_kind (wf_node f) in
     if kind \<noteq> ''line_continuation'' \<and> sn_named (wf_node f) \<and> \<not> comment_kind kind
     then [if wf_in_closure f then CLOSURE_PREFIX @ kind else kind] else [])"

lemma noted_shape: "sf_shape (note_node grammar f a) = sf_shape a @ own_shape f"
  by (simp add: own_shape_def note_node_def note_fields Let_def)

lemma noted_counts: "sf_node_counts (note_node grammar f a) = fold bump (own_kinds f) (sf_node_counts a)"
  by (simp add: own_kinds_def note_node_def note_fields Let_def)

lemma next_shape:
  "shape_of (wf_depth f) (wf_node f)
     = own_shape f @ concat (map (\<lambda>f. shape_of (wf_depth f) (wf_node f)) (next_frames grammar f a))"
proof -
  have "map (\<lambda>f. shape_of (wf_depth f) (wf_node f)) (child_frames f scope 0 cs) = map (shape_of (wf_depth f + 1)) cs"
    for scope cs
    by (rule map_child_frames) (simp add: child_frame_def Let_def)
  then show ?thesis by (cases "wf_node f") (simp add: own_shape_def next_frames_def)
qed

lemma next_kinds:
  "kinds_of (wf_in_closure f) (wf_node f)
     = own_kinds f @ concat (map (\<lambda>f. kinds_of (wf_in_closure f) (wf_node f)) (next_frames grammar f a))"
proof -
  have "map (\<lambda>f. kinds_of (wf_in_closure f) (wf_node f)) (child_frames f scope 0 cs)
      = map (kinds_of (wf_in_closure f \<or> closure_kind (sn_kind (wf_node f)))) cs" for scope cs
    by (rule map_child_frames) (simp add: child_frame_def Let_def)
  then show ?thesis by (cases "wf_node f") (simp add: own_kinds_def next_frames_def)
qed

text \<open>
  The walk with its stack reads the tree in document order: the identifiers, leaves, comments and
  the outline of a buffer are those of its nodes from left to right, a node before its children, and
  a kind is counted once for every named node of it, closures apart, whatever the grammar.
\<close>

theorem facts_are_in_document_order:
  "sf_identifiers (syntax_facts_of root grammar) = in_order node_identifiers root
   \<and> sf_leaves (syntax_facts_of root grammar) = in_order node_leaves root
   \<and> sf_comments (syntax_facts_of root grammar) = in_order node_comments root
   \<and> sf_shape (syntax_facts_of root grammar) = shape_of 0 root
   \<and> sf_node_counts (syntax_facts_of root grammar) = fold bump (kinds_of False root) []"
proof (intro conjI)
  note push = noted noted_shape fold_push
  show "sf_identifiers (syntax_facts_of root grammar) = in_order node_identifiers root"
    unfolding syntax_facts_of_def
    by (subst walk_reads [where step = "\<lambda>x s. s @ [x]"], simp only: push, rule next_in_order)
      (simp add: fold_push root_frame_def no_facts_def)
  show "sf_leaves (syntax_facts_of root grammar) = in_order node_leaves root"
    unfolding syntax_facts_of_def
    by (subst walk_reads [where step = "\<lambda>x s. s @ [x]"], simp only: push, rule next_in_order)
      (simp add: fold_push root_frame_def no_facts_def)
  show "sf_comments (syntax_facts_of root grammar) = in_order node_comments root"
    unfolding syntax_facts_of_def
    by (subst walk_reads [where step = "\<lambda>x s. s @ [x]"], simp only: push, rule next_in_order)
      (simp add: fold_push root_frame_def no_facts_def)
  show "sf_shape (syntax_facts_of root grammar) = shape_of 0 root"
    unfolding syntax_facts_of_def
    by (subst walk_reads [where step = "\<lambda>x s. s @ [x]"], simp only: push, rule next_shape)
      (simp add: fold_push root_frame_def no_facts_def)
  show "sf_node_counts (syntax_facts_of root grammar) = fold bump (kinds_of False root) []"
    unfolding syntax_facts_of_def
    by (subst walk_reads [where step = bump], simp only: noted_counts, rule next_kinds)
      (simp add: root_frame_def no_facts_def)
qed

section \<open>Layout and comments\<close>

definition skippable :: "syntax_node \<Rightarrow> bool" where
  "skippable node \<longleftrightarrow> sn_kind node = ''line_continuation'' \<or> comment_kind (sn_kind node)"

lemma identifier_is_no_comment: "\<not> comment_kind ''identifier''"
  by (simp add: comment_kind_def)

text \<open>A tree without its comments and line continuations, and without the text an inner node spans.\<close>

fun bare :: "syntax_node \<Rightarrow> syntax_node" where
  "bare (SNode kind named field t cs) =
     SNode kind named None (if cs = [] \<or> kind = ''identifier'' then t else None)
       (map bare (filter (\<lambda>c. \<not> skippable c) cs))"

text \<open>
  A tree is solid when a comment has nothing beneath it and a node with children has one that is
  neither a comment nor a continuation.
\<close>

fun solid :: "syntax_node \<Rightarrow> bool" where
  "solid (SNode kind named field t cs) \<longleftrightarrow> (comment_kind kind \<longrightarrow> cs = [])
     \<and> (cs = [] \<or> (\<exists>c \<in> set cs. \<not> skippable c)) \<and> (\<forall>c \<in> set cs. solid c)"

lemma skipped_facts:
  assumes "solid node" and "skippable node"
  shows "in_order node_identifiers node = []" "in_order node_leaves node = []" "shape_of depth node = []"
    "kinds_of in_closure node = []"
  using assms identifier_is_no_comment
  by (cases node; cases "sn_text node"; auto simp: skippable_def in_order_node node_identifiers_def node_leaves_def)+

lemma concat_skipped:
  assumes "\<And>c. c \<in> set cs \<Longrightarrow> skippable c \<Longrightarrow> h c = []" and "\<And>c. c \<in> set cs \<Longrightarrow> \<not> skippable c \<Longrightarrow> h (bare c) = h c"
  shows "concat (map h (map bare (filter (\<lambda>c. \<not> skippable c) cs))) = concat (map h cs)"
  using assms by (induction cs) auto

lemma bare_kind [simp]: "sn_kind (bare node) = sn_kind node" "sn_named (bare node) = sn_named node"
  by (cases node; simp)+

definition reads_alike :: "syntax_node \<Rightarrow> syntax_node \<Rightarrow> bool" where
  "reads_alike s t \<longleftrightarrow> in_order node_identifiers s = in_order node_identifiers t
     \<and> in_order node_leaves s = in_order node_leaves t
     \<and> (\<forall>depth. shape_of depth s = shape_of depth t) \<and> (\<forall>in_closure. kinds_of in_closure s = kinds_of in_closure t)"

lemma bare_reads_alike: "solid node \<Longrightarrow> \<not> skippable node \<Longrightarrow> reads_alike (bare node) node"
proof (induction node)
  case (SNode kind named field t cs)
  have kept: "filter (\<lambda>c. \<not> skippable c) cs = [] \<longleftrightarrow> cs = []"
    using SNode.prems(1) by (auto simp: filter_empty_conv)
  have own: "node_identifiers (bare (SNode kind named field t cs)) = node_identifiers (SNode kind named field t cs)"
    "node_leaves (bare (SNode kind named field t cs)) = node_leaves (SNode kind named field t cs)"
    by (cases t; simp add: node_identifiers_def node_leaves_def kept)+
  have below: "c \<in> set cs \<Longrightarrow> solid c" "c \<in> set cs \<Longrightarrow> \<not> skippable c \<Longrightarrow> reads_alike (bare c) c" for c
    using SNode by auto
  have "concat (map (in_order node_identifiers) (map bare (filter (\<lambda>c. \<not> skippable c) cs)))
      = concat (map (in_order node_identifiers) cs)"
    "concat (map (in_order node_leaves) (map bare (filter (\<lambda>c. \<not> skippable c) cs))) = concat (map (in_order node_leaves) cs)"
    "concat (map (shape_of depth) (map bare (filter (\<lambda>c. \<not> skippable c) cs))) = concat (map (shape_of depth) cs)"
    "concat (map (kinds_of in_closure) (map bare (filter (\<lambda>c. \<not> skippable c) cs))) = concat (map (kinds_of in_closure) cs)"
    for depth in_closure
    by (rule concat_skipped; use below skipped_facts in \<open>force simp: reads_alike_def\<close>)+
  with own SNode.prems(2) show ?case by (simp add: reads_alike_def in_order_node skippable_def)
qed

lemma same_counts_no_facts: "changed_node_facts m m = []"
  by (simp add: changed_node_facts_def List.map_filter_def Let_def cong: filter_cong)

text \<open>
  Layout and comments are no change of the program: when two buffers have the same tree up to
  comments and line continuations, the edit is formatting, or a comment if the comments differ, it
  moves no revision a review waits for and lists no changed node.
\<close>

theorem comments_are_no_change:
  assumes "solid s" and "solid t" and "\<not> skippable s" and "\<not> skippable t" and "bare s = bare t"
  shows "analysis_of_facts (syntax_facts_of s grammar) (syntax_facts_of t grammar) =
     \<lparr>ca_observation = Parsed,
      ca_classification = Some (if in_order node_comments s \<noteq> in_order node_comments t then CommentOnly else FormattingOnly),
      ca_semantic_change = False, ca_changed_nodes = []\<rparr>"
proof -
  have "in_order node_identifiers s = in_order node_identifiers t" "in_order node_leaves s = in_order node_leaves t"
    "shape_of 0 s = shape_of 0 t" "kinds_of False s = kinds_of False t"
    using bare_reads_alike [OF assms(1,3)] bare_reads_alike [OF assms(2,4)] assms(5) by (simp_all add: reads_alike_def)
  then show ?thesis
    using facts_are_in_document_order [of s grammar] facts_are_in_document_order [of t grammar]
    by (simp add: analysis_of_facts_def classify_def classify_with_def same_counts_no_facts bounded_node_facts_def Let_def)
qed

definition one_line :: "syntax_node list \<Rightarrow> syntax_node" where
  "one_line comments = SNode ''module'' True None (Some ''x'')
     (SNode ''identifier'' True None (Some ''x'') [] # comments)"

definition one_comment :: syntax_node where
  "one_comment = SNode ''comment'' True None (Some ''# why'') []"

theorem comments_are_no_change_witness:
  "ca_classification (analysis_of_facts (syntax_facts_of (one_line []) ''python'')
     (syntax_facts_of (one_line [one_comment]) ''python'')) = Some CommentOnly"
proof -
  have "solid (one_line [])" "solid (one_line [one_comment])" "\<not> skippable (one_line [])" "\<not> skippable (one_line [one_comment])"
    "bare (one_line []) = bare (one_line [one_comment])"
    by (simp_all add: one_line_def one_comment_def skippable_def comment_kind_def)
  from comments_are_no_change [OF this, of "''python''"] show ?thesis
    by (simp add: one_line_def one_comment_def in_order_def node_comments_def comment_kind_def)
qed

text \<open>
  The trees must be solid.  A buffer with nothing in it is a root without children, which the walk
  counts as a leaf, and a buffer with only a comment is not: writing the first comment into an empty
  editor is read as a change of an expression.
\<close>

lemma comment_in_an_empty_buffer:
  "ca_classification (analysis_of_facts (syntax_facts_of (SNode ''module'' True None (Some '''') []) ''python'')
     (syntax_facts_of (SNode ''module'' True None (Some ''# why'') [one_comment]) ''python'')) = Some Expression"
proof -
  let ?empty = "SNode ''module'' True None (Some '''') []" and ?why = "SNode ''module'' True None (Some ''# why'') [one_comment]"
  have "sf_interface_leaves (syntax_facts_of ?empty ''python'') = []" "sf_loop_bindings (syntax_facts_of ?empty ''python'') = []"
    "sf_interface_leaves (syntax_facts_of ?why ''python'') = []" "sf_loop_bindings (syntax_facts_of ?why ''python'') = []"
    by (simp_all add: syntax_facts_of_def root_frame_def no_facts_def next_frames_def child_frame_def one_comment_def
        note_node_def note_leaf_def note_identifier_def note_kind_def note_loop_def note_shape_def scope_of_def
        enter_scope_def opens_scope_def nested_block_def scoped_statement_def closure_kind_def comment_kind_def
        loop_kind_def loop_target_def str_contains_def starts_with_def Let_def)
  then show ?thesis
    using facts_are_in_document_order [of ?empty "''python''"] facts_are_in_document_order [of ?why "''python''"]
    by (simp add: analysis_of_facts_def classify_def classify_with_def Let_def in_order_def one_comment_def
        node_identifiers_def node_leaves_def node_comments_def comment_kind_def closure_kind_def)
qed

section \<open>A rename is a renaming\<close>

definition one_to_one :: "('a \<times> 'b) set \<Rightarrow> bool" where
  "one_to_one r \<longleftrightarrow> (\<forall>x y x' y'. (x, y) \<in> r \<longrightarrow> (x', y') \<in> r \<longrightarrow> (x = x') = (y = y'))"

lemma rename_loop_maps:
  assumes "rename_loop before after index pairs f b" and "\<And>x y. f x = Some y \<longleftrightarrow> b y = Some x"
  shows "one_to_one (set pairs \<union> {(x, y). f x = Some y})"
    and "\<And>i. i < length pairs \<Longrightarrow> fst (pairs ! i) \<noteq> snd (pairs ! i)
         \<Longrightarrow> same_binding before after (index + i) (fst (pairs ! i)) (snd (pairs ! i))"
proof -
  have "one_to_one (set pairs \<union> {(x, y). f x = Some y})
      \<and> (\<forall>i < length pairs. fst (pairs ! i) \<noteq> snd (pairs ! i)
           \<longrightarrow> same_binding before after (index + i) (fst (pairs ! i)) (snd (pairs ! i)))"
    using assms
  proof (induction pairs arbitrary: index f b)
    case Nil
    then show ?case by (auto simp: one_to_one_def) (metis option.inject)+
  next
    case (Cons p pairs)
    obtain old new where p: "p = (old, new)" by (cases p)
    from Cons.prems(1) have old: "f old = None \<or> f old = Some new" and new: "b new = None \<or> b new = Some old"
      and bound: "old = new \<or> same_binding before after index old new"
      and rest: "rename_loop before after (Suc index) pairs (f(old \<mapsto> new)) (b(new \<mapsto> old))"
      by (auto simp: p Let_def split: option.splits)
    have "(f(old \<mapsto> new)) x = Some y \<longleftrightarrow> (b(new \<mapsto> old)) y = Some x" for x y
      using old new Cons.prems(2) [of old y] Cons.prems(2) [of x new] Cons.prems(2) [of x y] by (auto simp: fun_upd_apply)
    note IH = Cons.IH [OF rest this]
    have "set (p # pairs) \<union> {(x, y). f x = Some y} \<subseteq> set pairs \<union> {(x, y). (f(old \<mapsto> new)) x = Some y}"
      using old by (auto simp: p)
    with IH have "one_to_one (set (p # pairs) \<union> {(x, y). f x = Some y})"
      unfolding one_to_one_def by blast
    moreover have "same_binding before after (index + i) (fst ((p # pairs) ! i)) (snd ((p # pairs) ! i))"
      if "i < length (p # pairs)" "fst ((p # pairs) ! i) \<noteq> snd ((p # pairs) ! i)" for i
      using that IH bound by (cases i) (auto simp: p)
    ultimately show ?case by blast
  qed
  then show "one_to_one (set pairs \<union> {(x, y). f x = Some y})"
    "\<And>i. i < length pairs \<Longrightarrow> fst (pairs ! i) \<noteq> snd (pairs ! i)
         \<Longrightarrow> same_binding before after (index + i) (fst (pairs ! i)) (snd (pairs ! i))" by blast+
qed

lemma one_to_one_renaming:
  assumes "one_to_one (set (zip xs ys))" and "length xs = length ys"
  shows "\<exists>f. inj_on f (set xs) \<and> map f xs = ys"
proof -
  define f where "f = (\<lambda>x. SOME y. (x, y) \<in> set (zip xs ys))"
  have pick: "(x, y) \<in> set (zip xs ys) \<Longrightarrow> f x = y" for x y
    unfolding f_def using assms(1) by (intro some_equality) (auto simp: one_to_one_def)
  have map: "map f xs = ys"
  proof (rule nth_equalityI)
    fix i assume i: "i < length (map f xs)"
    then have "(xs ! i, ys ! i) \<in> set (zip xs ys)" using assms(2) by (auto simp: in_set_zip)
    with pick i show "map f xs ! i = ys ! i" by simp
  qed (simp add: assms(2))
  moreover have "inj_on f (set xs)"
  proof (rule inj_onI)
    fix x y assume xy: "x \<in> set xs" "y \<in> set xs" "f x = f y"
    have "\<exists>v. (u, v) \<in> set (zip xs ys)" if "u \<in> set xs" for u
      using that assms(2) by (metis in_set_impl_in_set_zip1 surj_pair)
    then obtain v w where "(x, v) \<in> set (zip xs ys)" "(y, w) \<in> set (zip xs ys)" using xy by blast
    moreover from this have "v = w" using pick xy(3) by metis
    ultimately show "x = y" using assms(1) by (auto simp: one_to_one_def)
  qed
  ultimately show ?thesis by blast
qed

text \<open>
  C37. An edit reported as identifiers only is a renaming: the outline, the tokens, the interface and
  the loops are what they were, the identifiers are the old ones under a one-to-one renaming that
  is no reordering of them, and each occurrence it changes reads, before and after, the binding of
  one and the same scope.
\<close>

theorem identifier_only_is_a_renaming:
  assumes "classify before after = IdentifierOnly"
  shows "(sf_node_counts after, sf_leaves after, sf_shape after, sf_interface_leaves after, sf_loop_bindings after)
      = (sf_node_counts before, sf_leaves before, sf_shape before, sf_interface_leaves before, sf_loop_bindings before)
    \<and> (\<exists>rename. inj_on rename (set (sf_identifiers before)) \<and> sf_identifiers after = map rename (sf_identifiers before)
         \<and> mset (sf_identifiers after) \<noteq> mset (sf_identifiers before))
    \<and> (\<forall>i < length (sf_identifiers before). sf_identifiers before ! i \<noteq> sf_identifiers after ! i
         \<longrightarrow> same_binding before after i (sf_identifiers before ! i) (sf_identifiers after ! i))"
proof -
  from assms have facts: "sf_node_counts before = sf_node_counts after" "sf_leaves before = sf_leaves after"
      "sf_shape before = sf_shape after" "sf_interface_leaves before = sf_interface_leaves after"
      "sf_loop_bindings before = sf_loop_bindings after"
    and moved: "sort (sf_identifiers before) \<noteq> sort (sf_identifiers after)"
    and rename: "consistent_rename before after"
    by (auto simp: classify_def classify_with_def split: if_splits)
  let ?pairs = "zip (sf_identifiers before) (sf_identifiers after)"
  from rename have len: "length (sf_identifiers before) = length (sf_identifiers after)"
    and loop: "rename_loop before after 0 ?pairs Map.empty Map.empty"
    by (simp_all add: consistent_rename_def)
  note maps = rename_loop_maps [OF loop]
  have "one_to_one (set ?pairs)" using maps(1) by simp
  from one_to_one_renaming [OF this len] obtain f where
    f: "inj_on f (set (sf_identifiers before))" "map f (sf_identifiers before) = sf_identifiers after" by blast
  have "mset (sf_identifiers after) \<noteq> mset (sf_identifiers before)"
    using moved by (metis mset_sort sorted_sort properties_for_sort)
  moreover have "same_binding before after i (sf_identifiers before ! i) (sf_identifiers after ! i)"
    if "i < length (sf_identifiers before)" "sf_identifiers before ! i \<noteq> sf_identifiers after ! i" for i
    using maps(2) [of i] that len by simp
  ultimately show ?thesis using facts f by metis
qed

text \<open>The facts of \<open>def f(): x = 1; return x\<close>, by the name of its variable.\<close>

definition renamed_facts :: "string \<Rightarrow> syntax_facts" where
  "renamed_facts name = no_facts\<lparr>sf_identifiers := [name, name], sf_identifier_scopes := [Some 1, Some 1],
     sf_local_bindings := {(1, name)}, sf_scope_parents := [None, Some 0]\<rparr>"

theorem identifier_only_is_a_renaming_witness:
  "\<exists>rename. inj_on rename {''x''} \<and> [''total'', ''total''] = map rename [''x'', ''x'']"
proof -
  have "classify (renamed_facts ''x'') (renamed_facts ''total'') = IdentifierOnly"
    by (simp add: classify_def classify_with_def changed_node_facts_def consistent_rename_def same_binding_def
        resolve_def renamed_facts_def no_facts_def)
  from identifier_only_is_a_renaming [OF this] show ?thesis
    by (auto simp: renamed_facts_def no_facts_def)
qed

section \<open>The edit given to the parser\<close>

lemma common_prefix_bounds: "common_prefix s t \<le> length s" "common_prefix s t \<le> length t"
  by (induction s t rule: common_prefix.induct) simp_all

lemma common_prefix_take: "k \<le> common_prefix s t \<Longrightarrow> take k s = take k t"
  by (induction s t arbitrary: k rule: common_prefix.induct) (auto simp: take_Cons split: nat.splits if_splits)

lemma floor_le: "i \<le> length s \<Longrightarrow> floor_char_boundary s i \<le> i"
  by (induction s i rule: floor_char_boundary.induct) (auto simp: le_Suc_eq)

lemma floor_is_boundary: "is_char_boundary s (floor_char_boundary s i)"
  by (induction s i rule: floor_char_boundary.induct) (auto simp: is_char_boundary_def)

lemma ceil_bounds: "i \<le> length s \<Longrightarrow> i \<le> ceil_char_boundary s i \<and> ceil_char_boundary s i \<le> length s"
  using length_takeWhile_le [of is_cont "drop i s"] by (simp add: ceil_char_boundary_def)

lemma ceil_is_boundary:
  assumes "i \<le> length s"
  shows "is_char_boundary s (ceil_char_boundary s i)"
proof (cases "ceil_char_boundary s i = length s")
  case False
  then have "length (takeWhile is_cont (drop i s)) < length (drop i s)"
    using ceil_bounds [OF assms] assms by (simp add: ceil_char_boundary_def)
  then have "\<not> is_cont (drop i s ! length (takeWhile is_cont (drop i s)))" by (rule nth_length_takeWhile)
  then show ?thesis
    using False ceil_bounds [OF assms] assms by (simp add: is_char_boundary_def ceil_char_boundary_def)
qed (simp add: is_char_boundary_def)

text \<open>
  C38. The edit handed to the parser turns the old buffer into the new one: what it keeps at the start
  and at the end is the same in both, what it replaces lies between, and it cuts the old buffer at
  character boundaries, so that applying it gives back the new buffer byte for byte.
\<close>

theorem input_edit_gives_the_new_buffer:
  "take (ie_start_byte (input_edit_of old new)) old
     @ take (ie_new_end_byte (input_edit_of old new) - ie_start_byte (input_edit_of old new))
         (drop (ie_start_byte (input_edit_of old new)) new)
     @ drop (ie_old_end_byte (input_edit_of old new)) old = new
   \<and> ie_start_byte (input_edit_of old new) \<le> ie_old_end_byte (input_edit_of old new)
   \<and> ie_old_end_byte (input_edit_of old new) \<le> length old
   \<and> ie_start_byte (input_edit_of old new) \<le> ie_new_end_byte (input_edit_of old new)
   \<and> ie_new_end_byte (input_edit_of old new) \<le> length new
   \<and> is_char_boundary old (ie_start_byte (input_edit_of old new))
   \<and> is_char_boundary old (ie_old_end_byte (input_edit_of old new))"
proof -
  define start where "start = floor_char_boundary old (common_prefix old new)"
  define shared where "shared = common_prefix (rev (drop start old)) (rev (drop start new))"
  define tail where "tail = length old - ceil_char_boundary old (length old - shared)"
  have e: "ie_start_byte (input_edit_of old new) = start" "ie_old_end_byte (input_edit_of old new) = length old - tail"
    "ie_new_end_byte (input_edit_of old new) = length new - tail"
    by (simp_all add: input_edit_of_def Let_def start_def shared_def tail_def)
  have start: "start \<le> common_prefix old new"
    unfolding start_def by (rule floor_le) (rule common_prefix_bounds)
  then have within: "start \<le> length old" "start \<le> length new"
    using common_prefix_bounds [of old new] by linarith+
  have shared: "shared \<le> length old - start" "shared \<le> length new - start"
    using common_prefix_bounds [of "rev (drop start old)" "rev (drop start new)"] by (simp_all add: shared_def)
  have ceil: "length old - shared \<le> ceil_char_boundary old (length old - shared)"
    "ceil_char_boundary old (length old - shared) \<le> length old"
    using ceil_bounds [of "length old - shared" old] by simp_all
  then have tail: "tail \<le> shared" by (simp add: tail_def)
  have "take tail (rev (drop start old)) = take tail (rev (drop start new))"
    using tail by (intro common_prefix_take) (simp add: shared_def)
  then have "drop (length (drop start old) - tail) (drop start old) = drop (length (drop start new) - tail) (drop start new)"
    by (simp add: take_rev)
  then have ends: "drop (length old - tail) old = drop (length new - tail) new"
    using tail shared within by (simp add: add.commute)
  have "take start old = take start new" using start by (rule common_prefix_take)
  moreover have "take start new @ take (length new - tail - start) (drop start new) @ drop (length new - tail) new = new"
  proof -
    have "start + (length new - tail - start) = length new - tail" using tail shared within by simp
    then have "take start new @ take (length new - tail - start) (drop start new) = take (length new - tail) new"
      by (metis take_add)
    then show ?thesis by (metis append.assoc append_take_drop_id)
  qed
  moreover have "is_char_boundary old (length old - tail)"
    using ceil ceil_is_boundary [of "length old - shared" old] by (simp add: tail_def)
  moreover have "is_char_boundary old start" unfolding start_def by (rule floor_is_boundary)
  moreover have "start \<le> length old - tail" using tail shared(1) within(1) by arith
  moreover have "start \<le> length new - tail" using tail shared(2) within(2) by arith
  ultimately show ?thesis by (simp add: e ends)
qed

section \<open>The cache changes nothing\<close>

definition cache_ok :: "parser \<Rightarrow> parse_cache \<Rightarrow> bool" where
  "cache_ok parse cache \<longleftrightarrow> (case cache of None \<Rightarrow> True
     | Some (grammar, source, tree) \<Rightarrow> parse grammar source None = Some tree)"

text \<open>
  What the code relies on: parsing the change from the previous tree, edited to match, gives the tree
  a fresh parse would.
\<close>

definition incremental :: "parser \<Rightarrow> bool" where
  "incremental parse \<longleftrightarrow> (\<forall>grammar previous current tree. parse grammar previous None = Some tree
     \<longrightarrow> parse grammar current (Some (tree, input_edit_of previous current)) = parse grammar current None)"

lemma tree_for_fresh: "cache_ok parse cache \<Longrightarrow> tree_for cache grammar source = Some tree \<Longrightarrow> parse grammar source None = Some tree"
  by (auto simp: cache_ok_def tree_for_def split: option.splits if_splits)

text \<open>
  C39. The parse cache is a cache: with a parser that parses a change to the tree a fresh parse gives,
  an analysis through the cache is the analysis without one, what it says of the current buffer is
  what looking at that buffer alone says, and the cache holds a fresh tree again.
\<close>

theorem cached_analysis_is_the_analysis:
  assumes "incremental parse" and "cache_ok parse cache"
  shows "fst (fst (analyze_code_cached parse cache language previous current)) = analyze_code parse language previous current
    \<and> cache_ok parse (snd (analyze_code_cached parse cache language previous current))
    \<and> (snd (fst (analyze_code_cached parse cache language previous current)) = ParserUnavailable
       \<or> analysis_observed (snd (fst (analyze_code_cached parse cache language previous current)))
          = observe_code parse language current)"
proof (cases "grammar_key language")
  case None
  then show ?thesis
    using assms(2) by (simp add: analyze_code_cached_def analyze_code_def analyze_sides_def)
next
  case (Some grammar)
  define before where "before = (case tree_for cache grammar previous of Some tree \<Rightarrow> Some tree
    | None \<Rightarrow> parse grammar previous None)"
  have fresh: "before = parse grammar previous None"
    using tree_for_fresh [OF assms(2)] by (auto simp: before_def split: option.splits)
  have "parse grammar current (Some (tree, input_edit_of previous current)) = parse grammar current None"
    if "parse grammar previous None = Some tree" for tree
    using assms(1) that by (simp add: incremental_def)
  then show ?thesis
    using assms(2) Some fresh
    by (cases "parse grammar previous None"; cases "parse grammar current None")
      (auto simp: analyze_code_cached_def analyze_code_def analyze_sides_def observe_code_def observe_with_def
        before_def cache_ok_def observed_alone_def Let_def)
qed

definition toy_parse :: parser where
  "toy_parse grammar source old = Some \<lparr>pt_root_node = SNode ''module'' True None (Some source) [], pt_has_error = False\<rparr>"

theorem cached_analysis_is_the_analysis_witness:
  "fst (fst (analyze_code_cached toy_parse None ''python'' ''a'' ''b'')) = analyze_code toy_parse ''python'' ''a'' ''b''"
proof -
  have "incremental toy_parse" "cache_ok toy_parse None" by (simp_all add: incremental_def toy_parse_def cache_ok_def)
  from cached_analysis_is_the_analysis [OF this] show ?thesis by blast
qed

section \<open>Scopes\<close>













end
