(* ===== verification/Timer.thy ===== *)
theory Timer
  imports Json
begin

text \<open>
  The clock a prompt carries, in \<open>src/src/agent.rs\<close>: the minutes the candidate's countdown reads, the
  sentence that says them, and taking the last such sentence off an event again.  The seconds of an
  interview are few enough for the quotient by sixty, and its half, to be exact in an \<open>f64\<close>, so
  \<open>round_ties_even\<close> is written out on integers.
\<close>

definition round_minutes :: "int \<Rightarrow> int" where
  "round_minutes seconds =
     (let q = seconds div 60; r = seconds mod 60
      in if r < 30 \<or> r = 30 \<and> even q then q else q + 1)"

definition spoken_minutes_from_remaining_seconds :: "int \<Rightarrow> int" where
  "spoken_minutes_from_remaining_seconds remaining = max (round_minutes remaining) 1"

definition minutes_left :: "nat \<Rightarrow> nat \<Rightarrow> nat \<Rightarrow> int" where
  "minutes_left coding_minutes behavioral_minutes elapsed_seconds =
     (let planned = int (coding_minutes + behavioral_minutes) * 60;
          remaining = planned - int elapsed_seconds
      in if remaining \<le> 0 then 0 else spoken_minutes_from_remaining_seconds remaining)"

definition TIMER_PREFIX :: string where "TIMER_PREFIX = ''TIMER: about ''"
definition TIMER_SUFFIX :: string where "TIMER_SUFFIX = '' minutes remain on the candidate'' @ [CHR 0x27] @ ''s countdown.''"

definition timer_line :: "int \<Rightarrow> string" where
  "timer_line minutes = TIMER_PREFIX @ show_int minutes @ TIMER_SUFFIX"

definition with_timer :: "int \<Rightarrow> string \<Rightarrow> string" where
  "with_timer minutes prompt = prompt @ '' '' @ timer_line minutes"

text \<open>\<open>str::rsplit_once\<close> of a pattern: what is before and after its last occurrence.\<close>

fun rsplit_once :: "string \<Rightarrow> string \<Rightarrow> (string \<times> string) option" where
  "rsplit_once p [] = (if p = [] then Some ([], []) else None)"
| "rsplit_once p (c # s) =
     (case rsplit_once p s of Some (before, after) \<Rightarrow> Some (c # before, after)
      | None \<Rightarrow> map_option (\<lambda>rest. ([], rest)) (strip_prefix p (c # s)))"

definition strip_suffix :: "string \<Rightarrow> string \<Rightarrow> string option" where
  "strip_suffix p s = map_option rev (strip_prefix (rev p) (rev s))"

text \<open>\<open>str::parse::<i64>\<close>: an optional sign and digits, in the range of the type.\<close>

definition parse_digits :: "string \<Rightarrow> int option" where
  "parse_digits ds = (if ds \<noteq> [] \<and> list_all is_ascii_digit ds then Some (int (read_decimal ds)) else None)"

definition parse_i64 :: "string \<Rightarrow> int option" where
  "parse_i64 s =
     (let signed = (case s of
            [] \<Rightarrow> None
          | c # ds \<Rightarrow> if c = CHR ''-'' then map_option uminus (parse_digits ds)
                       else if c = CHR ''+'' then parse_digits ds else parse_digits s)
      in case signed of Some n \<Rightarrow> if - (2 ^ 63) \<le> n \<and> n < 2 ^ 63 then Some n else None | None \<Rightarrow> None)"

definition unstamped_event :: "string \<Rightarrow> string" where
  "unstamped_event prompt =
     (case rsplit_once TIMER_PREFIX prompt of None \<Rightarrow> prompt
      | Some (before, clock) \<Rightarrow>
          (case (case strip_suffix '' '' before of Some event \<Rightarrow> Some event | None \<Rightarrow> strip_suffix newline before) of
             None \<Rightarrow> prompt
           | Some event \<Rightarrow>
               (case strip_suffix TIMER_SUFFIX clock of None \<Rightarrow> prompt
                | Some minutes \<Rightarrow>
                    (case parse_i64 minutes of None \<Rightarrow> prompt
                     | Some n \<Rightarrow> if show_int n = minutes then event else prompt))))"

definition OWED_REPLY :: string where
  "OWED_REPLY = ''Your reply to the candidate'' @ [CHR 0x27] @ ''s latest turn or the latest system event was lost with the connection. Give it now in one short turn, answering the newest unanswered item. Do not mention the interruption, apologize, or repeat anything you already said.''"

definition owed_reply :: "string option \<Rightarrow> string" where
  "owed_reply owed_prompt =
     (case owed_prompt of
        Some prompt \<Rightarrow> ''The system event whose reply was lost:'' @ newline @ ''BEGIN OWED EVENT'' @ newline
          @ unstamped_event prompt @ newline @ ''END OWED EVENT '' @ OWED_REPLY
      | None \<Rightarrow> OWED_REPLY)"

section \<open>The stamp comes off as it went on\<close>

lemma rsplit_once_last:
  assumes "strip_prefix p (p @ rest) = Some rest" and "\<And>k. 0 < k \<Longrightarrow> strip_prefix p (drop k (p @ rest)) = None" and "p \<noteq> []"
  shows "rsplit_once p (before @ p @ rest) = Some (before, rest)"
proof -
  have none: "rsplit_once p s = None" if "\<And>k. strip_prefix p (drop k s) = None" for s
    using that
  proof (induction s)
    case (Cons c s)
    have "strip_prefix p (drop k s) = None" for k using Cons.prems [of "Suc k"] by simp
    with Cons Cons.prems [of 0] show ?case by simp
  qed (use assms(3) in simp)
  have "rsplit_once p (p @ rest) = Some ([], rest)"
  proof (cases "p @ rest")
    case (Cons c s)
    have "rsplit_once p s = None"
      using assms(2) [of "Suc k" for k] by (intro none) (simp add: Cons)
    then show ?thesis using assms(1) by (simp add: Cons)
  qed (use assms(3) in simp)
  then show ?thesis by (induction before) simp_all
qed

lemma decimal_digits: "list_all is_ascii_digit (decimal n)"
proof (induction n rule: decimal.induct)
  case (1 n)
  have "is_ascii_digit (digit_char m)" if "m < 10" for m
    using that by (simp add: is_ascii_digit_def)
  with 1 show ?case by (subst decimal.simps) (simp add: list_all_iff)
qed

lemma digit_no_sign: "is_ascii_digit c \<Longrightarrow> c \<noteq> CHR ''-'' \<and> c \<noteq> CHR ''+'' \<and> c \<noteq> CHR ''T''"
  by (auto simp: is_ascii_digit_def)

lemma parse_show:
  assumes "- (2 ^ 63) \<le> n" and "n < 2 ^ 63"
  shows "parse_i64 (show_int n) = Some n"
proof (cases "n < 0")
  case True
  then show ?thesis
    using assms decimal_digits [of "nat (- n)"]
    by (simp add: parse_i64_def show_int_def parse_digits_def decimal_nonempty read_decimal_decimal Let_def)
next
  case False
  obtain c ds where d: "decimal (nat n) = c # ds" using decimal_nonempty by (cases "decimal (nat n)") auto
  have digits: "list_all is_ascii_digit (c # ds)" using decimal_digits [of "nat n"] d by simp
  then have "parse_digits (c # ds) = Some n"
    using False read_decimal_decimal [of "nat n"] d by (simp add: parse_digits_def)
  with False assms digits d show ?thesis
    using digit_no_sign [of c] by (simp add: parse_i64_def show_int_def Let_def)
qed

lemma show_int_no_T: "CHR ''T'' \<notin> set (show_int n)"
  using decimal_digits [of "nat n"] decimal_digits [of "nat (- n)"] digit_no_sign
  by (auto simp: show_int_def list_all_iff)

lemma strip_suffix_append: "strip_suffix p (s @ p) = Some s"
  by (simp add: strip_suffix_def)

text \<open>
  The clock comes off as it went on: an event that was stamped with any reading is given back
  exactly, even when the event itself ends in or contains such a sentence.
\<close>

theorem stamp_comes_off:
  assumes "- (2 ^ 63) \<le> minutes" and "minutes < 2 ^ 63"
  shows "unstamped_event (with_timer minutes event) = event"
proof -
  let ?rest = "show_int minutes @ TIMER_SUFFIX"
  have "CHR ''T'' \<notin> set (tl TIMER_PREFIX @ ?rest)"
    using show_int_no_T by (simp add: TIMER_PREFIX_def TIMER_SUFFIX_def)
  then have "strip_prefix TIMER_PREFIX (drop k (TIMER_PREFIX @ ?rest)) = None" if "0 < k" for k
  proof -
    obtain j where k: "k = Suc j" using \<open>0 < k\<close> by (cases k) auto
    have "drop k (TIMER_PREFIX @ ?rest) = drop j (tl TIMER_PREFIX @ ?rest)"
      by (simp add: k TIMER_PREFIX_def)
    moreover have "strip_prefix TIMER_PREFIX (drop j (tl TIMER_PREFIX @ ?rest)) = None"
    proof (rule ccontr)
      assume "strip_prefix TIMER_PREFIX (drop j (tl TIMER_PREFIX @ ?rest)) \<noteq> None"
      then obtain r where "drop j (tl TIMER_PREFIX @ ?rest) = TIMER_PREFIX @ r" by (auto simp: strip_prefix_Some)
      then have "CHR ''T'' \<in> set (drop j (tl TIMER_PREFIX @ ?rest))" by (simp add: TIMER_PREFIX_def)
      with \<open>CHR ''T'' \<notin> set (tl TIMER_PREFIX @ ?rest)\<close> show False by (meson in_set_dropD)
    qed
    ultimately show ?thesis by simp
  qed
  then have "rsplit_once TIMER_PREFIX ((event @ '' '') @ TIMER_PREFIX @ ?rest) = Some (event @ '' '', ?rest)"
    by (intro rsplit_once_last) (simp_all add: TIMER_PREFIX_def)
  then have "rsplit_once TIMER_PREFIX (with_timer minutes event) = Some (event @ '' '', ?rest)"
    by (simp add: with_timer_def timer_line_def)
  then show ?thesis
    using assms by (simp add: unstamped_event_def strip_suffix_append parse_show)
qed

theorem stamp_comes_off_witness:
  "unstamped_event (with_timer 5 (with_timer 12 ''Ask about the empty input.'')) = with_timer 12 ''Ask about the empty input.''"
  by (rule stamp_comes_off) simp_all

text \<open>
  The clock a prompt carries is the countdown: no minute after the deadline, at least one before
  it, and otherwise within half a minute of the time that is left.
\<close>

theorem minutes_left_is_the_countdown:
  "let remaining = int (coding_minutes + behavioral_minutes) * 60 - int elapsed;
       minutes = minutes_left coding_minutes behavioral_minutes elapsed
   in (minutes = 0 \<longleftrightarrow> remaining \<le> 0) \<and> (remaining > 0 \<longrightarrow> minutes \<ge> 1)
      \<and> (remaining > 30 \<longrightarrow> \<bar>60 * minutes - remaining\<bar> \<le> 30)"
proof -
  have round: "\<bar>60 * round_minutes r - r\<bar> \<le> 30" for r
  proof -
    have "r = 60 * (r div 60) + r mod 60" "0 \<le> r mod 60" "r mod 60 < 60" by simp_all
    then show ?thesis by (simp add: round_minutes_def Let_def) presburger
  qed
  define remaining where "remaining = int (coding_minutes + behavioral_minutes) * 60 - int elapsed"
  have late: "max (round_minutes remaining) 1 = round_minutes remaining" if "remaining > 30"
    using round [of remaining] that by linarith
  have "minutes_left coding_minutes behavioral_minutes elapsed
    = (if remaining \<le> 0 then 0 else max (round_minutes remaining) 1)"
    by (simp add: minutes_left_def spoken_minutes_from_remaining_seconds_def remaining_def)
  moreover have "round_minutes remaining \<ge> 1" if "remaining > 30"
    using round [of remaining] that by linarith
  ultimately show ?thesis
    unfolding remaining_def [symmetric] Let_def
    using round [of remaining] late by (cases "remaining \<le> 0"; cases "remaining > 30"; simp)
qed

end
