(* ===== verification/Integrity.thy ===== *)
theory Integrity
  imports Ledger
begin

text \<open>
  What the browser reports, bounded and chained: \<open>src/src/agent/integrity.rs\<close>, and
  \<open>apply_integrity\<close> of \<open>src/src/agent/events.rs\<close> on the part of the runtime state it moves, the
  record \<open>integrity_state\<close>.  Parameters: \<open>sha\<close>, the hexadecimal SHA-256 of a text, and \<open>to_int\<close>,
  the coercion of a JSON scalar to an integer, which goes through an \<open>f64\<close>.
\<close>

definition MAX_INTEGRITY_EVENTS :: nat where "MAX_INTEGRITY_EVENTS = 25"
definition MAX_INTEGRITY_TEXT :: nat where "MAX_INTEGRITY_TEXT = 80"
definition MAX_TEST_TEXT :: nat where "MAX_TEST_TEXT = 200"
definition MAX_TEST_CASES :: int where "MAX_TEST_CASES = 99"
definition MAX_TEST_FAILURES :: nat where "MAX_TEST_FAILURES = 4"
definition MAX_CANDIDATE_CASES :: nat where "MAX_CANDIDATE_CASES = 5"
definition MAX_DURATION_MS :: int where "MAX_DURATION_MS = 86400000"

definition spoken_language :: "string \<Rightarrow> string option" where
  "spoken_language language = map_of
     [(''python'', ''Python''), (''javascript'', ''JavaScript''), (''c'', ''C''), (''cpp'', ''C++''),
      (''java'', ''Java'')] language"

section \<open>A test run\<close>

definition run_text :: "json option \<Rightarrow> string option" where
  "run_text value =
     map_option (\<lambda>s. concat (take MAX_TEST_TEXT
         (map (\<lambda>ch. if breaks_a_prompt_line ch then '' '' else ch) (utf8_chars s))))
       (Option.bind value json_as_str)"

definition claimed :: "(json \<Rightarrow> int option) \<Rightarrow> json \<Rightarrow> string \<Rightarrow> int" where
  "claimed to_int payload key =
     max 0 (case Option.bind (json_get payload key) to_int of Some n \<Rightarrow> n | None \<Rightarrow> 0)"

definition claimed_passed :: "(json \<Rightarrow> int option) \<Rightarrow> json \<Rightarrow> int" where
  "claimed_passed to_int payload = min (claimed to_int payload ''passed'') (claimed to_int payload ''total'')"

definition kept_total :: "(json \<Rightarrow> int option) \<Rightarrow> json \<Rightarrow> int" where
  "kept_total to_int payload = min (claimed to_int payload ''total'') MAX_TEST_CASES"

definition kept_passed :: "(json \<Rightarrow> int option) \<Rightarrow> json \<Rightarrow> int" where
  "kept_passed to_int payload =
     (if claimed_passed to_int payload = claimed to_int payload ''total'' then kept_total to_int payload
      else min (claimed_passed to_int payload) (kept_total to_int payload - 1))"

definition reported_case :: "json \<Rightarrow> json option" where
  "reported_case value =
     (case value of
        JObj case_fields \<Rightarrow> Some (JObj
          [(''label'', JStr (case run_text (map_of case_fields ''label'') of Some s \<Rightarrow> s | None \<Rightarrow> ''?'')),
           (''input'', json_opt JStr (run_text (map_of case_fields ''input''))),
           (''expected'', json_opt JStr (run_text (map_of case_fields ''expected''))),
           (''got'', json_opt JStr (run_text (map_of case_fields ''got''))),
           (''error'', json_opt JStr (run_text (map_of case_fields ''error'')))])
      | _ \<Rightarrow> None)"

definition reported_cases :: "json \<Rightarrow> string \<Rightarrow> nat \<Rightarrow> json list" where
  "reported_cases payload key limit =
     (case Option.bind (json_get payload key) json_as_arr of
        Some cases \<Rightarrow> List.map_filter reported_case (take limit cases)
      | None \<Rightarrow> [])"

definition run_diagnostic :: "json \<Rightarrow> json" where
  "run_diagnostic payload =
     (case Option.bind (Option.bind (json_get payload ''diagnostic'') (\<lambda>v. json_get v ''category'')) json_as_str of
        Some category \<Rightarrow>
          if from_wire category \<noteq> None then JObj [(''category'', JStr category)] else JNull
      | None \<Rightarrow> JNull)"

definition run_setup_error :: "json \<Rightarrow> string option" where
  "run_setup_error payload =
     (case json_get payload ''setupError'' of
        Some error \<Rightarrow>
          if python_truthy error
          then Some (case run_text (Some error) of
                       Some s \<Rightarrow> if str_trim s \<noteq> [] then s else ''The runner reported a setup error.''
                     | None \<Rightarrow> ''The runner reported a setup error.'')
          else run_text (Some error)
      | None \<Rightarrow> None)"

definition sanitize_test_run :: "(json \<Rightarrow> int option) \<Rightarrow> json \<Rightarrow> json" where
  "sanitize_test_run to_int payload =
     (if \<not> python_truthy payload then JNull
      else JObj
        [(''passed'', JInt (kept_passed to_int payload)),
         (''total'', JInt (kept_total to_int payload)),
         (''candidateCases'', JArr (reported_cases payload ''candidateCases'' MAX_CANDIDATE_CASES)),
         (''language'', JStr (case Option.bind (Option.bind (json_get payload ''language'') json_as_str) spoken_language
                              of Some name \<Rightarrow> name | None \<Rightarrow> ''?'')),
         (''setupError'', json_opt JStr (run_setup_error payload)),
         (''diagnostic'', run_diagnostic payload),
         (''failures'', JArr (reported_cases payload ''failures'' MAX_TEST_FAILURES))])"

section \<open>An integrity event\<close>

definition hidden_or_reordering :: "string \<Rightarrow> bool" where
  "hidden_or_reordering ch \<longleftrightarrow> is_control ch \<or>
     (let n = code_point ch in n = 0x00AD \<or> n = 0x061C \<or> n = 0x200B \<or> 0x200E \<le> n \<and> n \<le> 0x200F
        \<or> 0x202A \<le> n \<and> n \<le> 0x202E \<or> 0x2060 \<le> n \<and> n \<le> 0x2064 \<or> 0x2066 \<le> n \<and> n \<le> 0x2069 \<or> n = 0xFEFF)"

definition event_types :: "string list" where
  "event_types = [''SESSION_START'', ''MEDIA_PREFLIGHT_PASSED'', ''SCREEN_SHARE_STARTED'', ''SCREEN_SHARE_STOPPED'',
     ''SCREEN_SHARE_UNHEALTHY'', ''SCREEN_SHARE_RECOVERED'', ''SCREEN_CHANGED'', ''FACE_DETECTED'', ''FACE_MISSING'',
     ''FACE_MISSING_SEVERE'', ''FACE_DETECTOR_UNAVAILABLE'', ''MULTIPLE_FACES'', ''REVIEW_EVENT'', ''CAMERA_STOPPED'',
     ''MICROPHONE_STOPPED'', ''INTEGRITY_HEARTBEAT'', ''SCREEN_MUTED'', ''SCREEN_UNMUTED'', ''CAMERA_MUTED'',
     ''CAMERA_UNMUTED'', ''MICROPHONE_MUTED'', ''MICROPHONE_UNMUTED'', ''SCREEN_STATE_CHANGED'',
     ''CAMERA_STATE_CHANGED'', ''CAMERA_RELEASED_TO_PRESENTER'', ''CAMERA_NOT_USED'', ''MICROPHONE_STATE_CHANGED'',
     ''MICROPHONE_SWITCHED'']"

definition event_severities :: "string list" where
  "event_severities = [''info'', ''warning'', ''high'', ''critical'']"

definition event_sources :: "string list" where
  "event_sources = [''media'', ''preflight'', ''heartbeat'', ''screen'', ''camera'', ''microphone'', ''review'']"

definition event_text :: "json \<Rightarrow> string \<Rightarrow> string option" where
  "event_text payload key =
     map_option (\<lambda>s. concat (take MAX_INTEGRITY_TEXT (utf8_chars s))) (Option.bind (json_get payload key) json_as_str)"

definition one_of :: "string list \<Rightarrow> string option \<Rightarrow> string option" where
  "one_of allowed value = Option.bind value (\<lambda>s. if s \<in> set allowed then Some s else None)"

definition is_hex_digit :: "char \<Rightarrow> bool" where
  "is_hex_digit c \<longleftrightarrow> is_ascii_digit c \<or> 65 \<le> (of_char c :: nat) \<and> (of_char c :: nat) \<le> 70
     \<or> 97 \<le> (of_char c :: nat) \<and> (of_char c :: nat) \<le> 102"

definition source_event_ids :: "json \<Rightarrow> string list" where
  "source_event_ids payload =
     (case Option.bind (json_get payload ''sourceEventIds'') json_as_arr of
        Some ids \<Rightarrow>
          map (\<lambda>s. concat (take 12 (utf8_chars s)))
            (take 4 (filter (list_all is_ascii_digit) (List.map_filter json_as_str ids)))
      | None \<Rightarrow> [])"

definition sanitized_event ::
  "string \<Rightarrow> string \<Rightarrow> string \<Rightarrow> string \<Rightarrow> int \<Rightarrow> nat \<Rightarrow> string \<Rightarrow> string \<Rightarrow> string option \<Rightarrow> string list \<Rightarrow> json" where
  "sanitized_event type at severity source duration seq prev_hash hash detail ids = JObj
     [(''type'', JStr type), (''at'', JStr at), (''severity'', JStr severity), (''source'', JStr source),
      (''durationMs'', JInt duration), (''seq'', JInt (int seq)), (''prevHash'', JStr prev_hash),
      (''hash'', JStr hash), (''detail'', json_opt JStr detail), (''sourceEventIds'', JArr (map JStr ids))]"

definition sanitize_integrity_event :: "(json \<Rightarrow> int option) \<Rightarrow> json \<Rightarrow> json option" where
  "sanitize_integrity_event to_int payload =
     Option.bind (one_of event_types (event_text payload ''type'')) (\<lambda>type.
     Option.bind (event_text payload ''at'') (\<lambda>at.
     Option.bind (one_of event_severities (event_text payload ''severity'')) (\<lambda>severity.
     Option.bind (one_of event_sources (event_text payload ''source'')) (\<lambda>source.
     Option.bind (Option.bind (json_get payload ''seq'') json_as_u64) (\<lambda>seq.
     Option.bind (event_text payload ''prevHash'') (\<lambda>prev_hash.
     Option.bind (event_text payload ''hash'') (\<lambda>hash.
       if length hash \<noteq> 64 \<or> \<not> list_all is_hex_digit hash then None
       else Some (sanitized_event type at severity source
         (max 0 (min (case Option.bind (json_get payload ''durationMs'') to_int of Some n \<Rightarrow> n | None \<Rightarrow> 0) MAX_DURATION_MS))
         seq prev_hash hash
         (Option.bind (event_text payload ''detail'')
            (\<lambda>s. if list_ex hidden_or_reordering (utf8_chars s) then None else Some s))
         (source_event_ids payload)))))))))"

fun canonical_json :: "(64 word \<Rightarrow> string) \<Rightarrow> json \<Rightarrow> string" where
  "canonical_json fmt (JArr items) = ''['' @ join '','' (map (canonical_json fmt) items) @ '']''"
| "canonical_json fmt (JObj obj) =
     ''{'' @ join '','' (by_key (map (\<lambda>f. (fst f, json_quote (fst f) @ '':'' @ canonical_json fmt (snd f))) obj)) @ ''}''"
| "canonical_json fmt value = json_render fmt value"

definition hashed_body :: "json \<Rightarrow> json" where
  "hashed_body event = JObj
     (map (\<lambda>key. (key, json_index event key))
        [''seq'', ''prevHash'', ''type'', ''at'', ''severity'', ''source'', ''durationMs'', ''detail'']
      @ (case Option.bind (json_get event ''sourceEventIds'') json_as_arr of
           Some ids \<Rightarrow> if ids \<noteq> [] then [(''sourceEventIds'', json_index event ''sourceEventIds'')] else []
         | None \<Rightarrow> []))"

definition integrity_hash :: "(string \<Rightarrow> string) \<Rightarrow> (64 word \<Rightarrow> string) \<Rightarrow> json \<Rightarrow> string" where
  "integrity_hash sha fmt event = sha (canonical_json fmt (hashed_body event))"

section \<open>The chain\<close>

record integrity_state =
  ig_events :: "json list"
  ig_chain :: "(nat \<times> string) option"
  ig_first_heartbeat :: "json option"
  ig_last_heartbeat :: "json option"

definition integrity_default :: integrity_state where
  "integrity_default = \<lparr>ig_events = [], ig_chain = None, ig_first_heartbeat = None, ig_last_heartbeat = None\<rparr>"

definition event_str :: "json \<Rightarrow> string \<Rightarrow> string option" where
  "event_str event key = Option.bind (json_get event key) json_as_str"

definition event_seq :: "json \<Rightarrow> nat option" where
  "event_seq event = Option.bind (json_get event ''seq'') json_as_u64"

definition is_heartbeat :: "json \<Rightarrow> bool" where
  "is_heartbeat event \<longleftrightarrow> event_str event ''type'' = Some ''INTEGRITY_HEARTBEAT''"

text \<open>\<open>str::parse::<u64>\<close> of a text of digits.\<close>

definition parse_u64 :: "string \<Rightarrow> nat option" where
  "parse_u64 s =
     (let ds = (case s of [] \<Rightarrow> s | c # ds \<Rightarrow> if c = CHR ''+'' then ds else s)
      in if ds \<noteq> [] \<and> list_all is_ascii_digit ds \<and> read_decimal ds \<le> u64_max then Some (read_decimal ds) else None)"

definition valid_review_sources :: "json list \<Rightarrow> json \<Rightarrow> bool" where
  "valid_review_sources events event =
     (if event_str event ''type'' \<noteq> Some ''REVIEW_EVENT'' then True
      else case Option.bind (json_get event ''sourceEventIds'') json_as_arr of
             None \<Rightarrow> False
           | Some ids \<Rightarrow> ids \<noteq> [] \<and>
               list_all (\<lambda>id. case Option.bind (json_as_str id) parse_u64 of
                   None \<Rightarrow> False
                 | Some seq \<Rightarrow> list_ex (\<lambda>stored. event_seq stored = Some seq) events) ids)"

definition expected_link :: "integrity_state \<Rightarrow> nat \<times> string" where
  "expected_link s = (case ig_chain s of None \<Rightarrow> (1, '''') | Some (seq, hash) \<Rightarrow> (sat_add64 seq 1, hash))"

definition links :: "(string \<Rightarrow> string) \<Rightarrow> (64 word \<Rightarrow> string) \<Rightarrow> integrity_state \<Rightarrow> json \<Rightarrow> bool" where
  "links sha fmt s event \<longleftrightarrow>
     event_seq event = Some (fst (expected_link s))
     \<and> event_str event ''prevHash'' = Some (snd (expected_link s))
     \<and> event_str event ''hash'' = Some (integrity_hash sha fmt event)"

definition keep_event :: "json \<Rightarrow> integrity_state \<Rightarrow> integrity_state" where
  "keep_event event s =
     (if is_heartbeat event
      then (if ig_first_heartbeat s = None then s\<lparr>ig_first_heartbeat := Some event\<rparr>
            else s\<lparr>ig_last_heartbeat := Some event\<rparr>)
      else if \<not> valid_review_sources (ig_events s) event then s
      else (let events = ig_events s @ [event]
            in s\<lparr>ig_events := (if length events > MAX_INTEGRITY_EVENTS then tl events else events)\<rparr>))"

definition apply_integrity ::
  "(string \<Rightarrow> string) \<Rightarrow> (64 word \<Rightarrow> string) \<Rightarrow> (json \<Rightarrow> int option) \<Rightarrow> json \<Rightarrow> integrity_state \<Rightarrow> integrity_state"
where
  "apply_integrity sha fmt to_int payload s =
     (case sanitize_integrity_event to_int payload of
        None \<Rightarrow> s
      | Some event \<Rightarrow>
          if \<not> links sha fmt s event then s
          else keep_event event (s\<lparr>ig_chain := Some (fst (expected_link s), integrity_hash sha fmt event)\<rparr>))"

end
