(* ===== verification/Integrity_Correct.thy ===== *)
theory Integrity_Correct
  imports Integrity Timer "HOL-Library.Sublist" "HOL-Library.Multiset"
begin

text \<open>
  The integrity log as a machine: which events it accepts, what it keeps of them, and that the hash
  at the head of the chain identifies the whole log.  The printed form of a hashed body is taken
  apart again from its front, so that two bodies with one text are one body.
\<close>

section \<open>Printed values read back\<close>

definition hex_value :: "char \<Rightarrow> nat" where
  "hex_value c = (let n = of_char c in if n < 58 then n - 48 else n - 87)"

lemma hex_value_digit: "n < 16 \<Longrightarrow> hex_value (hex_digit n) = n"
  by (simp add: hex_value_def hex_digit_def)

fun read_escaped :: "string \<Rightarrow> (char \<times> string) option" where
  "read_escaped [] = None"
| "read_escaped (c # s) =
     (if c \<noteq> CHR 0x5C then Some (c, s)
      else case s of [] \<Rightarrow> None
        | d # t \<Rightarrow>
            if d = CHR ''u'' then Some (char_of (hex_value (t ! 2) * 16 + hex_value (t ! 3)), drop 4 t)
            else if d = CHR ''b'' then Some (char_of (8 :: nat), t) else if d = CHR ''t'' then Some (char_of (9 :: nat), t)
            else if d = CHR ''n'' then Some (char_of (10 :: nat), t) else if d = CHR ''f'' then Some (char_of (12 :: nat), t)
            else if d = CHR ''r'' then Some (char_of (13 :: nat), t) else Some (d, t))"

lemma read_escaped_escape: "read_escaped (escape_char c @ u) = Some (c, u)"
proof -
  define n where "n = (of_char c :: nat)"
  have c: "c = char_of n" and n: "n < 256" by (simp_all add: n_def)
  have hex: "n < 32 \<Longrightarrow> hex_value (hex_digit (n div 16)) * 16 + hex_value (hex_digit (n mod 16)) = n"
    by (simp add: hex_value_digit)
  show ?thesis
  proof (cases "n = 34 \<or> n = 92 \<or> n = 8 \<or> n = 9 \<or> n = 10 \<or> n = 12 \<or> n = 13")
    case True
    then show ?thesis unfolding c by (auto simp: escape_char_def) (simp_all add: char_of_def bit_0)
  next
    case False
    then have "escape_char c = (if n < 32
        then [CHR 0x5C, CHR ''u'', CHR ''0'', CHR ''0'', hex_digit (n div 16), hex_digit (n mod 16)] else [c])"
      by (simp add: escape_char_def flip: n_def)
    moreover have "c \<noteq> CHR 0x5C" using False by (auto simp: n_def)
    ultimately show ?thesis using hex by (cases "n < 32") (simp_all add: c [symmetric])
  qed
qed

lemma escape_no_quote: "escape_char c @ u \<noteq> CHR 0x22 # v"
  by (auto simp: escape_char_def Let_def)

lemma quoted_cancel:
  "concat (map escape_char s) @ CHR 0x22 # x = concat (map escape_char t) @ CHR 0x22 # y \<Longrightarrow> s = t \<and> x = y"
proof (induction s arbitrary: t)
  case Nil
  then show ?case using escape_no_quote by (cases t) (fastforce dest: sym)+
next
  case (Cons c s)
  then obtain d t' where t: "t = d # t'" using escape_no_quote by (cases t) auto
  let ?rest = "\<lambda>s x. concat (map escape_char s) @ CHR 0x22 # x"
  from Cons.prems have "escape_char c @ ?rest s x = escape_char d @ ?rest t' y" by (simp add: t)
  then have "Some (c, ?rest s x) = Some (d, ?rest t' y)" by (metis read_escaped_escape)
  with Cons.IH [of t'] show ?case by (simp add: t)
qed

lemma quote_cancel [simp]: "json_quote s @ x = json_quote t @ y \<longleftrightarrow> s = t \<and> x = y"
  using quoted_cancel [of s x t y] by (auto simp: json_quote_def)

lemma quote_inj [simp]: "json_quote s = json_quote t \<longleftrightarrow> s = t"
  using quote_cancel [of s "[]" t "[]"] by simp

lemma separated_cancel:
  "sep \<notin> set a \<Longrightarrow> sep \<notin> set b \<Longrightarrow> a @ sep # x = b @ sep # y \<longleftrightarrow> a = b \<and> x = y"
proof (induction a arbitrary: b)
  case Nil
  then show ?case by (cases b) auto
next
  case (Cons c a)
  then show ?case by (cases b) auto
qed

lemma decimal_plain: "c \<in> set (decimal n) \<Longrightarrow> is_ascii_digit c"
  using decimal_digits [of n] by (simp add: list_all_iff)

lemma no_comma: "CHR '','' \<notin> set (show_int n)"
proof -
  have "\<not> is_ascii_digit (CHR '','')" by (simp add: is_ascii_digit_def)
  then show ?thesis using decimal_plain by (auto simp: show_int_def)
qed

lemma show_int_inj: "show_int m = show_int n \<longleftrightarrow> m = n"
proof
  have minus: "decimal k \<noteq> CHR ''-'' # u" for k u
    using decimal_plain [of "CHR ''-''" k] by (auto simp: is_ascii_digit_def)
  assume "show_int m = show_int n"
  then show "m = n"
    using minus minus [symmetric] by (auto simp: show_int_def dest: decimal_inj split: if_splits)
qed simp

lemma int_cancel: "show_int m @ CHR '','' # x = show_int n @ CHR '','' # y \<longleftrightarrow> m = n \<and> x = y"
  using separated_cancel [OF no_comma no_comma] show_int_inj by blast

lemma quoted_list_cancel:
  "join '','' (map json_quote xs) @ CHR '']'' # u = join '','' (map json_quote ys) @ CHR '']'' # v
   \<longleftrightarrow> xs = ys \<and> u = v"
proof -
  have start: "join '','' (map json_quote (a # as)) @ w = json_quote a @ (if as = [] then w else CHR '','' # join '','' (map json_quote as) @ w)"
    for a as w by (cases as) simp_all
  have opens: "json_quote a @ w \<noteq> CHR '']'' # v" for a w v by (simp add: json_quote_def)
  show ?thesis
  proof (induction xs arbitrary: ys)
    case Nil
    then show ?case using opens [symmetric] by (cases ys) (simp_all add: start del: list.map(2))
  next
    case (Cons x xs)
    show ?case
    proof (cases ys)
      case Nil
      then show ?thesis using opens by (simp add: start del: list.map(2))
    next
      case (Cons y ys')
      then show ?thesis
        using Cons.IH [of ys'] unfolding Cons start by (cases xs; cases ys') (auto simp: start simp del: list.map(2))
    qed
  qed
qed

section \<open>The body of an event\<close>

lemma by_key_of:
  assumes "mset ps = mset qs" and "distinct (map fst qs)" and "sorted (map fst qs)"
  shows "by_key ps = map snd qs"
proof -
  have "mset (map fst ps) = mset (map fst qs)" using assms(1) by simp
  then have "distinct (map fst ps)" using assms(2) by (metis mset_eq_imp_distinct_iff)
  then have "sort_key fst ps = sort_key fst qs"
    using assms(1) by (intro sort_key_inj_key_eq) (simp_all add: distinct_map)
  then have "sort_key fst ps = qs" using assms(3) by (simp add: sort_key_id_if_sorted)
  then show ?thesis by (simp add: by_key_def)
qed

definition field_text :: "string \<Rightarrow> string \<Rightarrow> string" where
  "field_text key printed = json_quote key @ '':'' @ printed"

definition opt_text :: "string option \<Rightarrow> string" where
  "opt_text s = (case s of None \<Rightarrow> ''null'' | Some t \<Rightarrow> json_quote t)"

definition body_fields :: "string \<Rightarrow> string \<Rightarrow> string \<Rightarrow> string \<Rightarrow> int \<Rightarrow> nat \<Rightarrow> string \<Rightarrow> string option \<Rightarrow> string list \<Rightarrow> string list" where
  "body_fields type at severity source duration seq prev_hash detail ids =
     [field_text ''at'' (json_quote at), field_text ''detail'' (opt_text detail),
      field_text ''durationMs'' (show_int duration), field_text ''prevHash'' (json_quote prev_hash),
      field_text ''seq'' (show_int (int seq)), field_text ''severity'' (json_quote severity),
      field_text ''source'' (json_quote source)]
     @ (if ids = [] then [] else [field_text ''sourceEventIds'' (''['' @ join '','' (map json_quote ids) @ '']'')])
     @ [field_text ''type'' (json_quote type)]"

lemma body_text:
  "canonical_json fmt (hashed_body (sanitized_event type at severity source duration seq prev_hash hash detail ids))
   = ''{'' @ join '','' (body_fields type at severity source duration seq prev_hash detail ids) @ ''}''"
proof -
  let ?event = "sanitized_event type at severity source duration seq prev_hash hash detail ids"
  define keyed where "keyed = [(''at'', field_text ''at'' (json_quote at)), (''detail'', field_text ''detail'' (opt_text detail)),
      (''durationMs'', field_text ''durationMs'' (show_int duration)), (''prevHash'', field_text ''prevHash'' (json_quote prev_hash)),
      (''seq'', field_text ''seq'' (show_int (int seq))), (''severity'', field_text ''severity'' (json_quote severity)),
      (''source'', field_text ''source'' (json_quote source))]
     @ (if ids = [] then [] else [(''sourceEventIds'', field_text ''sourceEventIds'' (''['' @ join '','' (map json_quote ids) @ '']''))])
     @ [(''type'', field_text ''type'' (json_quote type))]"
  obtain obj where obj: "hashed_body ?event = JObj obj" by (simp add: hashed_body_def)
  have "mset (map (\<lambda>f. (fst f, json_quote (fst f) @ '':'' @ canonical_json fmt (snd f))) obj) = mset keyed"
    using obj by (cases detail; cases ids)
      (auto simp: hashed_body_def sanitized_event_def json_index_def json_opt_def keyed_def field_text_def opt_text_def comp_def)
  moreover have "distinct (map fst keyed)" "sorted (map fst keyed)"
    by (simp_all add: keyed_def)
  ultimately have "by_key (map (\<lambda>f. (fst f, json_quote (fst f) @ '':'' @ canonical_json fmt (snd f))) obj) = map snd keyed"
    by (rule by_key_of)
  then show ?thesis by (simp add: obj keyed_def body_fields_def)
qed

lemma body_unique:
  assumes "join '','' (body_fields type at severity source duration seq prev_hash detail ids)
         = join '','' (body_fields type' at' severity' source' duration' seq' prev_hash' detail' ids')"
  shows "type = type' \<and> at = at' \<and> severity = severity' \<and> source = source' \<and> duration = duration' \<and> seq = seq'
    \<and> prev_hash = prev_hash' \<and> detail = detail' \<and> ids = ids'"
proof -
  have opt: "opt_text d @ u = opt_text d' @ v \<longleftrightarrow> d = d' \<and> u = v" for d d' u v
    by (cases d; cases d') (auto simp: opt_text_def json_quote_def dest: quoted_cancel)
  have ids: "join '','' ((if is = [] then [] else [field_text ''sourceEventIds'' (''['' @ join '','' (map json_quote is) @ '']'')])
        @ [field_text ''type'' (json_quote t)])
      = (if is = [] then [] else field_text ''sourceEventIds'' (''['' @ join '','' (map json_quote is) @ CHR '']'' # CHR '','' # []))
        @ field_text ''type'' (json_quote t)" for "is" t
    by (simp add: field_text_def)
  define tail where "tail is t = join '','' ((if is = [] then [] else
      [field_text ''sourceEventIds'' (''['' @ join '','' (map json_quote is) @ '']'')]) @ [field_text ''type'' (json_quote t)])" for "is" t
  have tails: "tail is t = tail is' t' \<longleftrightarrow> is = is' \<and> t = t'" for "is" is' t t'
    unfolding tail_def ids
    by (auto simp: field_text_def quoted_list_cancel)
  have "join '','' (body_fields type at severity source duration seq prev_hash detail ids)
     = field_text ''at'' (json_quote at) @ CHR '','' # field_text ''detail'' (opt_text detail @ CHR '','' #
         field_text ''durationMs'' (show_int duration @ CHR '','' # field_text ''prevHash'' (json_quote prev_hash) @ CHR '','' #
         field_text ''seq'' (show_int (int seq) @ CHR '','' # field_text ''severity'' (json_quote severity) @ CHR '','' #
         field_text ''source'' (json_quote source) @ CHR '','' # tail ids type)))"
    for type at severity source duration seq prev_hash detail ids
    by (simp add: body_fields_def tail_def field_text_def)
  with assms show ?thesis
    by (simp add: field_text_def opt int_cancel tails)
qed

section \<open>The log of what was accepted\<close>

fun accepted ::
  "(string \<Rightarrow> string) \<Rightarrow> (64 word \<Rightarrow> string) \<Rightarrow> (json \<Rightarrow> int option) \<Rightarrow> json list \<Rightarrow> integrity_state \<Rightarrow> json list" where
  "accepted sha fmt to_int [] s = []"
| "accepted sha fmt to_int (payload # payloads) s =
     (case sanitize_integrity_event to_int payload of
        Some event \<Rightarrow> if links sha fmt s event then [event] else []
      | None \<Rightarrow> [])
     @ accepted sha fmt to_int payloads (apply_integrity sha fmt to_int payload s)"

abbreviation integrity_run ::
  "(string \<Rightarrow> string) \<Rightarrow> (64 word \<Rightarrow> string) \<Rightarrow> (json \<Rightarrow> int option) \<Rightarrow> json list \<Rightarrow> integrity_state" where
  "integrity_run sha fmt to_int payloads \<equiv> fold (apply_integrity sha fmt to_int) payloads integrity_default"

text \<open>A log linked from a number and a hash on: each event is numbered next, names the hash of the
  one before it and carries its own.\<close>

fun linked :: "(string \<Rightarrow> string) \<Rightarrow> (64 word \<Rightarrow> string) \<Rightarrow> nat \<Rightarrow> string \<Rightarrow> json list \<Rightarrow> bool" where
  "linked sha fmt seq prev [] = True"
| "linked sha fmt seq prev (event # log) =
     (event_seq event = Some seq \<and> event_str event ''prevHash'' = Some prev
      \<and> event_str event ''hash'' = Some (integrity_hash sha fmt event)
      \<and> linked sha fmt (sat_add64 seq 1) (integrity_hash sha fmt event) log)"

fun head_after :: "(string \<Rightarrow> string) \<Rightarrow> (64 word \<Rightarrow> string) \<Rightarrow> nat \<times> string \<Rightarrow> json list \<Rightarrow> nat \<times> string" where
  "head_after sha fmt link [] = link"
| "head_after sha fmt link (event # log) = head_after sha fmt (sat_add64 (fst link) 1, integrity_hash sha fmt event) log"

lemma apply_cases:
  "apply_integrity sha fmt to_int payload s = s \<and> (\<forall>event. sanitize_integrity_event to_int payload = Some event \<longrightarrow> \<not> links sha fmt s event)
   \<or> (\<exists>event. sanitize_integrity_event to_int payload = Some event \<and> links sha fmt s event
        \<and> apply_integrity sha fmt to_int payload s
          = keep_event event (s\<lparr>ig_chain := Some (fst (expected_link s), integrity_hash sha fmt event)\<rparr>))"
  by (auto simp: apply_integrity_def split: option.splits)

lemma keep_event_chain [simp]: "ig_chain (keep_event event s) = ig_chain s"
  by (simp add: keep_event_def Let_def)

lemma accepted_linked:
  "linked sha fmt (fst (expected_link s)) (snd (expected_link s)) (accepted sha fmt to_int payloads s)
   \<and> expected_link (fold (apply_integrity sha fmt to_int) payloads s)
     = head_after sha fmt (expected_link s) (accepted sha fmt to_int payloads s)"
proof (induction payloads arbitrary: s)
  case (Cons payload payloads)
  from apply_cases [of sha fmt to_int payload s] show ?case
  proof (elim disjE exE conjE)
    fix event
    assume e: "sanitize_integrity_event to_int payload = Some event" "links sha fmt s event"
      and kept: "apply_integrity sha fmt to_int payload s
          = keep_event event (s\<lparr>ig_chain := Some (fst (expected_link s), integrity_hash sha fmt event)\<rparr>)"
    have "expected_link (apply_integrity sha fmt to_int payload s)
        = (sat_add64 (fst (expected_link s)) 1, integrity_hash sha fmt event)"
      by (simp add: kept expected_link_def)
    with Cons.IH [of "apply_integrity sha fmt to_int payload s"] e show ?thesis
      by (simp add: links_def)
  qed (use Cons.IH [of s] in \<open>auto split: option.splits\<close>)
qed simp

text \<open>What is kept of a log: its newest events, and the ends of its heartbeats.\<close>

definition kept_of :: "json list \<Rightarrow> integrity_state \<Rightarrow> bool" where
  "kept_of log s \<longleftrightarrow>
     subseq (ig_events s) (filter (\<lambda>event. \<not> is_heartbeat event) log)
     \<and> length (ig_events s) \<le> MAX_INTEGRITY_EVENTS
     \<and> ig_first_heartbeat s = List.find is_heartbeat log
     \<and> ig_last_heartbeat s = (case filter is_heartbeat log of [] \<Rightarrow> None
         | _ # later \<Rightarrow> if later = [] then None else Some (last later))"

lemma find_filter: "List.find P xs = (case filter P xs of [] \<Rightarrow> None | x # _ \<Rightarrow> Some x)"
  by (induction xs) simp_all

lemma keep_event_kept:
  assumes "kept_of log s"
  shows "kept_of (log @ [event]) (keep_event event s)"
proof (cases "is_heartbeat event")
  case True
  with assms show ?thesis
    by (cases "filter is_heartbeat log") (auto simp: kept_of_def keep_event_def find_filter)
next
  case False
  have grown: "subseq (ig_events s @ [event]) (filter (\<lambda>event. \<not> is_heartbeat event) log @ [event])"
    using assms by (simp add: kept_of_def)
  then have "subseq (tl (ig_events s @ [event])) (filter (\<lambda>event. \<not> is_heartbeat event) log @ [event])"
    by (cases "ig_events s @ [event]") (auto dest: subseq_Cons')
  with assms False grown show ?thesis
    by (auto simp: kept_of_def keep_event_def Let_def find_filter intro: subseq_rev_drop_many)
qed

lemma kept_chain [simp]: "kept_of log (s\<lparr>ig_chain := link\<rparr>) = kept_of log s"
  by (simp add: kept_of_def)

lemma accepted_kept:
  "kept_of log s \<Longrightarrow> kept_of (log @ accepted sha fmt to_int payloads s) (fold (apply_integrity sha fmt to_int) payloads s)"
proof (induction payloads arbitrary: s log)
  case (Cons payload payloads)
  from apply_cases [of sha fmt to_int payload s] show ?case
  proof (elim disjE exE conjE)
    fix event
    assume e: "sanitize_integrity_event to_int payload = Some event" "links sha fmt s event"
      and kept: "apply_integrity sha fmt to_int payload s
          = keep_event event (s\<lparr>ig_chain := Some (fst (expected_link s), integrity_hash sha fmt event)\<rparr>)"
    have "kept_of (log @ [event]) (apply_integrity sha fmt to_int payload s)"
      unfolding kept using Cons.prems by (intro keep_event_kept) simp
    from Cons.IH [OF this] e show ?thesis by simp
  qed (use Cons.IH [OF Cons.prems] in \<open>auto split: option.splits\<close>)
qed simp

text \<open>
  C14. Whatever the browser sends, what the server accepts is an unbroken chain: the events are numbered
  from one, each names the hash of the one before it, the first names none, and each carries the
  hash of its own body.  What is kept for the report is at most twenty-five events of that log in
  their order, and its first and latest heartbeat.
\<close>

theorem accepted_events_are_chained:
  "linked sha fmt 1 '''' (accepted sha fmt to_int payloads integrity_default)
   \<and> expected_link (integrity_run sha fmt to_int payloads)
     = head_after sha fmt (1, '''') (accepted sha fmt to_int payloads integrity_default)
   \<and> kept_of (accepted sha fmt to_int payloads integrity_default) (integrity_run sha fmt to_int payloads)"
proof -
  have "expected_link integrity_default = (1, '''')" by (simp add: expected_link_def integrity_default_def)
  moreover have "kept_of [] integrity_default" by (simp add: kept_of_def integrity_default_def)
  ultimately show ?thesis
    using accepted_linked [of sha fmt integrity_default to_int payloads] accepted_kept [of "[]" integrity_default sha fmt to_int payloads]
    by simp
qed

section \<open>The head identifies the log\<close>

definition sanitized :: "json \<Rightarrow> bool" where
  "sanitized event \<longleftrightarrow> (\<exists>type at severity source duration seq prev_hash hash detail ids.
       event = sanitized_event type at severity source duration seq prev_hash hash detail ids)"

lemma sanitizedI: "sanitized (sanitized_event type at severity source duration seq prev_hash hash detail ids)"
  unfolding sanitized_def by blast

lemma sanitize_sanitized: "sanitize_integrity_event to_int payload = Some event \<Longrightarrow> sanitized event"
  by (auto simp: sanitize_integrity_event_def bind_eq_Some_conv sanitizedI split: if_splits)

lemma accepted_sanitized: "event \<in> set (accepted sha fmt to_int payloads s) \<Longrightarrow> sanitized event"
  by (induction payloads arbitrary: s) (auto split: option.splits if_splits dest!: sanitize_sanitized [OF sym] sanitize_sanitized)

lemma same_body_same_event:
  assumes "sanitized e" and "sanitized e'"
    and "canonical_json fmt (hashed_body e) = canonical_json fmt (hashed_body e')"
    and "event_str e ''hash'' = event_str e' ''hash''"
  shows "e = e'"
proof -
  from assms(1,2) obtain ty at sv so du sq pr ha de ids ty' at' sv' so' du' sq' pr' ha' de' ids' where
    e: "e = sanitized_event ty at sv so du sq pr ha de ids" "e' = sanitized_event ty' at' sv' so' du' sq' pr' ha' de' ids'"
    unfolding sanitized_def by blast
  from assms(3) have "join '','' (body_fields ty at sv so du sq pr de ids) = join '','' (body_fields ty' at' sv' so' du' sq' pr' de' ids')"
    unfolding e body_text by simp
  from body_unique [OF this] assms(4) show ?thesis
    by (simp add: e event_str_def sanitized_event_def)
qed

lemma head_after_append:
  "head_after sha fmt link (log @ log') = head_after sha fmt (head_after sha fmt link log) log'"
  by (induction log arbitrary: link) simp_all

lemma linked_append:
  "linked sha fmt seq prev (log @ log') \<longleftrightarrow> linked sha fmt seq prev log
     \<and> linked sha fmt (fst (head_after sha fmt (seq, prev) log)) (snd (head_after sha fmt (seq, prev) log)) log'"
  by (induction log arbitrary: seq prev) auto

definition bodies :: "(64 word \<Rightarrow> string) \<Rightarrow> json list \<Rightarrow> string set" where
  "bodies fmt log = (\<lambda>event. canonical_json fmt (hashed_body event)) ` set log"

lemma same_head_same_log:
  assumes "\<And>x. sha x \<noteq> ''''" and "inj_on sha (bodies fmt log \<union> bodies fmt log')"
    and "\<And>event. event \<in> set log \<union> set log' \<Longrightarrow> sanitized event"
    and "linked sha fmt 1 '''' log" and "linked sha fmt 1 '''' log'"
    and "snd (head_after sha fmt (1, '''') log) = snd (head_after sha fmt (1, '''') log')"
  shows "log = log'"
  using assms(2-)
proof (induction log arbitrary: log' rule: rev_induct)
  case Nil
  then show ?case
    using assms(1) by (cases log' rule: rev_cases) (auto simp: head_after_append integrity_hash_def dest: sym)
next
  case (snoc e log)
  then obtain e' tail where log': "log' = tail @ [e']"
    using assms(1) by (cases log' rule: rev_cases) (auto simp: head_after_append integrity_hash_def)
  have hash: "integrity_hash sha fmt e = integrity_hash sha fmt e'"
    using snoc.prems(5) by (simp add: log' head_after_append)
  have linked: "linked sha fmt 1 '''' log" "linked sha fmt 1 '''' tail"
      "event_str e ''prevHash'' = Some (snd (head_after sha fmt (1, '''') log))"
      "event_str e' ''prevHash'' = Some (snd (head_after sha fmt (1, '''') tail))"
      "event_str e ''hash'' = event_str e' ''hash''"
    using snoc.prems(3,4) hash by (simp_all add: log' linked_append)
  have "canonical_json fmt (hashed_body e) = canonical_json fmt (hashed_body e')"
    using hash inj_onD [OF snoc.prems(1), of "canonical_json fmt (hashed_body e)" "canonical_json fmt (hashed_body e')"]
    by (simp add: integrity_hash_def log' bodies_def)
  then have e: "e = e'"
    using snoc.prems(2) linked(5) by (intro same_body_same_event) (auto simp: log')
  have "log = tail"
  proof (rule snoc.IH)
    show "inj_on sha (bodies fmt log \<union> bodies fmt tail)"
      using snoc.prems(1) by (rule inj_on_subset) (auto simp: log' bodies_def)
    show "snd (head_after sha fmt (1, '''') log) = snd (head_after sha fmt (1, '''') tail)"
      using linked(3,4) e by simp
  qed (use snoc.prems(2) linked(1,2) in \<open>auto simp: log'\<close>)
  with e show ?case by (simp add: log')
qed

text \<open>
  The head of the chain identifies the log: two sessions whose chains end in one hash accepted the
  same events, field for field and in the same order, unless the hash collided on two of the bodies
  it was computed over.
\<close>

theorem chain_head_identifies_the_log:
  assumes "\<And>x. sha x \<noteq> ''''"
    and "inj_on sha (bodies fmt (accepted sha fmt to_int ps integrity_default)
          \<union> bodies fmt (accepted sha fmt to_int qs integrity_default))"
  shows "snd (expected_link (integrity_run sha fmt to_int ps)) = snd (expected_link (integrity_run sha fmt to_int qs))
     \<longleftrightarrow> accepted sha fmt to_int ps integrity_default = accepted sha fmt to_int qs integrity_default"
proof
  have default: "expected_link integrity_default = (1, '''')" by (simp add: expected_link_def integrity_default_def)
  note runs = accepted_linked [of sha fmt integrity_default to_int, unfolded default, simplified]
  show "accepted sha fmt to_int ps integrity_default = accepted sha fmt to_int qs integrity_default"
    if "snd (expected_link (integrity_run sha fmt to_int ps)) = snd (expected_link (integrity_run sha fmt to_int qs))"
    using that assms runs [of ps] runs [of qs]
    by (intro same_head_same_log [of sha fmt]) (auto dest: accepted_sanitized)
  show "snd (expected_link (integrity_run sha fmt to_int ps)) = snd (expected_link (integrity_run sha fmt to_int qs))"
    if "accepted sha fmt to_int ps integrity_default = accepted sha fmt to_int qs integrity_default"
    using that runs [of ps] runs [of qs] by simp
qed

definition flat_sha :: "string \<Rightarrow> string" where
  "flat_sha x = replicate 64 (CHR ''0'')"

definition session_start :: json where
  "session_start = JObj [(''seq'', JInt 1), (''prevHash'', JStr ''''), (''type'', JStr ''SESSION_START''),
     (''at'', JStr ''2026-08-18T06:36:26.727Z''), (''severity'', JStr ''info''), (''source'', JStr ''media''),
     (''durationMs'', JInt 0), (''detail'', JNull), (''sourceEventIds'', JArr []),
     (''hash'', JStr (replicate 64 (CHR ''0'')))]"

lemma session_start_accepted:
  "accepted flat_sha (\<lambda>_. '''') (\<lambda>_. None) [session_start] integrity_default
   = [sanitized_event ''SESSION_START'' ''2026-08-18T06:36:26.727Z'' ''info'' ''media'' 0 1 '''' (replicate 64 (CHR ''0'')) None []]"
proof -
  have "sanitize_integrity_event (\<lambda>_. None) session_start
      = Some (sanitized_event ''SESSION_START'' ''2026-08-18T06:36:26.727Z'' ''info'' ''media'' 0 1 '''' (replicate 64 (CHR ''0'')) None [])"
    by code_simp
  then show ?thesis
    by (simp add: links_def integrity_hash_def flat_sha_def expected_link_def integrity_default_def event_seq_def
        event_str_def sanitized_event_def)
qed

theorem chain_head_identifies_the_log_witness:
  "snd (expected_link (integrity_run flat_sha (\<lambda>_. '''') (\<lambda>_. None) [session_start]))
   \<noteq> snd (expected_link (integrity_run flat_sha (\<lambda>_. '''') (\<lambda>_. None) []))"
proof -
  have "flat_sha x \<noteq> ''''" for x by (simp add: flat_sha_def)
  moreover have "inj_on flat_sha (bodies (\<lambda>_. '''') (accepted flat_sha (\<lambda>_. '''') (\<lambda>_. None) [session_start] integrity_default)
      \<union> bodies (\<lambda>_. '''') (accepted flat_sha (\<lambda>_. '''') (\<lambda>_. None) [] integrity_default))"
    unfolding session_start_accepted by (simp add: bodies_def)
  ultimately have "snd (expected_link (integrity_run flat_sha (\<lambda>_. []) (\<lambda>_. None) [session_start]))
        = snd (expected_link (integrity_run flat_sha (\<lambda>_. []) (\<lambda>_. None) []))
      \<longleftrightarrow> accepted flat_sha (\<lambda>_. []) (\<lambda>_. None) [session_start] integrity_default
        = accepted flat_sha (\<lambda>_. []) (\<lambda>_. None) [] integrity_default"
    by (rule chain_head_identifies_the_log)
  then show ?thesis unfolding session_start_accepted by simp
qed

section \<open>A sanitized run\<close>

text \<open>A text of a run: at most 200 characters, none of which breaks a line of a prompt.\<close>

definition prompt_safe :: "string \<Rightarrow> bool" where
  "prompt_safe s \<longleftrightarrow> (\<exists>chars. s = concat chars \<and> length chars \<le> MAX_TEST_TEXT
     \<and> list_all (\<lambda>ch. \<not> breaks_a_prompt_line ch) chars)"

fun strings_within :: "json \<Rightarrow> string set" where
  "strings_within (JStr s) = {s}"
| "strings_within (JArr items) = (\<Union>item \<in> set items. strings_within item)"
| "strings_within (JObj obj) = (\<Union>f \<in> set obj. strings_within (snd f))"
| "strings_within _ = {}"

lemma run_text_safe: "run_text value = Some s \<Longrightarrow> prompt_safe s"
proof -
  assume "run_text value = Some s"
  then obtain t where s: "s = concat (take MAX_TEST_TEXT (map (\<lambda>ch. if breaks_a_prompt_line ch then '' '' else ch) (utf8_chars t)))"
    by (auto simp: run_text_def bind_eq_Some_conv split: option.splits)
  have "\<not> breaks_a_prompt_line '' ''" by (simp add: breaks_a_prompt_line_def is_control_def)
  then show ?thesis
    unfolding prompt_safe_def s
    by (intro exI [of _ "take MAX_TEST_TEXT (map (\<lambda>ch. if breaks_a_prompt_line ch then '' '' else ch) (utf8_chars t))"])
      (auto simp: list_all_iff dest: in_set_takeD)
qed

lemma plain_safe: "list_all (\<lambda>c. \<not> breaks_a_prompt_line [c]) s \<Longrightarrow> length s \<le> MAX_TEST_TEXT \<Longrightarrow> prompt_safe s"
  unfolding prompt_safe_def by (intro exI [of _ "map (\<lambda>c. [c]) s"]) (simp add: list_all_iff concat_map_singleton)

lemmas plain_text = plain_safe [unfolded breaks_a_prompt_line_def is_control_def MAX_TEST_TEXT_def]

definition safe_json :: "json \<Rightarrow> bool" where
  "safe_json v \<longleftrightarrow> (\<forall>s \<in> strings_within v. prompt_safe s)"

lemma safe_simps [simp]:
  "safe_json (JStr s) = prompt_safe s" "safe_json (JInt n)" "safe_json JNull"
  "safe_json (JArr items) = (\<forall>item \<in> set items. safe_json item)"
  "safe_json (JObj obj) = (\<forall>f \<in> set obj. safe_json (snd f))"
  by (auto simp: safe_json_def)

lemma safe_opt [simp]: "safe_json (json_opt JStr t) = (\<forall>s. t = Some s \<longrightarrow> prompt_safe s)"
  by (cases t) (simp_all add: json_opt_def)

lemma question_safe [simp]: "prompt_safe ''?''"
  by (rule plain_text) simp_all

lemma case_safe: "reported_case value = Some c \<Longrightarrow> safe_json c"
  by (cases "value") (auto simp: reported_case_def run_text_safe split: option.splits)

lemma cases_safe: "item \<in> set (reported_cases payload key limit) \<Longrightarrow> safe_json item"
  by (auto simp: reported_cases_def map_filter_def case_safe split: option.splits if_splits)

lemma language_safe: "spoken_language l = Some name \<Longrightarrow> prompt_safe name"
  by (auto simp: spoken_language_def split: if_splits intro!: plain_text)

lemma category_safe: "from_wire category \<noteq> None \<Longrightarrow> prompt_safe category"
  by (auto simp: from_wire_def split: if_splits intro!: plain_text)

lemma setup_error_safe: "run_setup_error payload = Some s \<Longrightarrow> prompt_safe s"
proof -
  have "prompt_safe ''The runner reported a setup error.''" by (rule plain_text) simp_all
  then show "run_setup_error payload = Some s \<Longrightarrow> prompt_safe s"
    by (auto simp: run_setup_error_def run_text_safe split: option.splits if_splits)
qed

lemma diagnostic_safe: "safe_json (run_diagnostic payload)"
  by (auto simp: run_diagnostic_def category_safe split: option.splits)

text \<open>
  What the browser says of a run is bounded before anything reads it: the counts lie between zero
  and ninety-nine with no more passing than there are, all of them pass exactly when all of the
  claimed ones did, at most four failures and five cases are kept, and no text in it is longer than
  200 characters or breaks a line of a prompt.
\<close>

theorem sanitized_run_is_bounded:
  assumes "python_truthy payload"
  shows "let run = sanitize_test_run to_int payload in
     (\<exists>passed total cases failures. json_get run ''passed'' = Some (JInt passed) \<and> json_get run ''total'' = Some (JInt total)
        \<and> json_get run ''candidateCases'' = Some (JArr cases) \<and> json_get run ''failures'' = Some (JArr failures)
        \<and> 0 \<le> passed \<and> passed \<le> total \<and> total \<le> 99 \<and> length cases \<le> 5 \<and> length failures \<le> 4
        \<and> (passed = total \<longleftrightarrow> claimed to_int payload ''passed'' \<ge> claimed to_int payload ''total''))
     \<and> (\<forall>s \<in> strings_within run. prompt_safe s)"
proof -
  have short: "length (reported_cases payload key limit) \<le> limit" for key limit
    using length_filter_le [of "\<lambda>x. reported_case x \<noteq> None"] 
    by (auto simp: reported_cases_def map_filter_def min_def intro: le_trans [OF length_filter_le] split: option.splits)
  have counts: "0 \<le> kept_passed to_int payload" "kept_passed to_int payload \<le> kept_total to_int payload"
    "kept_total to_int payload \<le> 99"
    "kept_passed to_int payload = kept_total to_int payload \<longleftrightarrow> claimed to_int payload ''passed'' \<ge> claimed to_int payload ''total''"
    by (auto simp: kept_passed_def kept_total_def claimed_passed_def claimed_def MAX_TEST_CASES_def)
  have "safe_json (sanitize_test_run to_int payload)"
    by (auto simp: sanitize_test_run_def cases_safe setup_error_safe diagnostic_safe language_safe bind_eq_Some_conv split: option.splits)
  with assms counts short [of "''candidateCases''" 5] short [of "''failures''" 4] show ?thesis
    by (simp add: Let_def sanitize_test_run_def safe_json_def MAX_CANDIDATE_CASES_def MAX_TEST_FAILURES_def)
qed

theorem sanitized_run_is_bounded_witness:
  "let run = sanitize_test_run (\<lambda>v. case v of JInt n \<Rightarrow> Some n | _ \<Rightarrow> None)
       (JObj [(''passed'', JInt 100), (''total'', JInt 150), (''setupError'', JBool True)])
   in \<exists>passed total. json_get run ''passed'' = Some (JInt passed) \<and> json_get run ''total'' = Some (JInt total) \<and> passed < total"
proof -
  let ?payload = "JObj [(''passed'', JInt 100), (''total'', JInt 150), (''setupError'', JBool True)]"
  let ?to_int = "\<lambda>v. case v of JInt n \<Rightarrow> Some n | _ \<Rightarrow> None"
  have "python_truthy ?payload" by simp
  from sanitized_run_is_bounded [OF this, of ?to_int] obtain passed total where
    "json_get (sanitize_test_run ?to_int ?payload) ''passed'' = Some (JInt passed)"
    "json_get (sanitize_test_run ?to_int ?payload) ''total'' = Some (JInt total)" "passed \<le> total"
    "passed = total \<longleftrightarrow> claimed ?to_int ?payload ''passed'' \<ge> claimed ?to_int ?payload ''total''"
    unfolding Let_def by blast
  moreover have "claimed ?to_int ?payload ''passed'' = 100" "claimed ?to_int ?payload ''total'' = 150"
    by (simp_all add: claimed_def)
  ultimately show ?thesis unfolding Let_def by auto
qed

end
