(* ===== verification/Code_Work.thy ===== *)
theory Code_Work
  imports Text "HOL-Library.Sublist"
begin

text \<open>
  What the candidate wrote, measured: \<open>content_chars\<close> and \<open>changed_characters\<close> of
  \<open>src/src/agent.rs\<close>, and of \<open>src/src/agent/code_work.rs\<close> the split of a buffer into code and
  comments and the comparisons made with it.  \<open>changed_characters\<close> fills a table row by row; it is
  proved to count what lies outside a longest common subsequence.  A character is the bytes that
  encode it, as in \<open>Text\<close>.
\<close>

definition MIN_WRITTEN_CHARS :: nat where "MIN_WRITTEN_CHARS = 5"
definition MAX_WRITTEN_TABLE :: nat where "MAX_WRITTEN_TABLE = 4000000"

definition content_chars :: "string \<Rightarrow> string list" where
  "content_chars code = filter (\<lambda>ch. \<not> is_whitespace ch) (utf8_chars code)"

section \<open>Counting what changed\<close>

fun shared_prefix :: "'c list \<Rightarrow> 'c list \<Rightarrow> nat" where
  "shared_prefix (x # xs) (y # ys) = (if x = y then Suc (shared_prefix xs ys) else 0)"
| "shared_prefix xs ys = 0"

text \<open>One row of the table: \<open>left\<close> is the cell written last, the heads of \<open>previous\<close> are the cells
  diagonally and directly above the next one.\<close>

fun table_row :: "'c list \<Rightarrow> 'c \<Rightarrow> nat list \<Rightarrow> nat \<Rightarrow> nat list" where
  "table_row (expected # before) written (diagonal # upper # previous) left =
     (let cell = (if written = expected then diagonal + 1 else max left upper)
      in cell # table_row before written (upper # previous) cell)"
| "table_row before written previous left = []"

definition fill_table :: "'c list \<Rightarrow> 'c list \<Rightarrow> nat list" where
  "fill_table before code =
     fold (\<lambda>written previous. 0 # table_row before written previous 0) code (replicate (length before + 1) 0)"

definition changed_characters :: "'c list \<Rightarrow> 'c list \<Rightarrow> (nat \<times> nat) option" where
  "changed_characters before code =
     (let prefix = shared_prefix before code;
          before = drop prefix before; code = drop prefix code;
          suffix = shared_prefix (rev before) (rev code);
          before = take (length before - suffix) before; code = take (length code - suffix) code
      in if length before * length code > MAX_WRITTEN_TABLE then None
         else let common = fill_table before code ! length before
              in Some (length code - common, length before - common))"

definition written_beyond :: "string \<Rightarrow> string \<Rightarrow> bool option" where
  "written_beyond before code =
     (let before = content_chars before; code = content_chars code
      in if length code \<ge> length before + MIN_WRITTEN_CHARS then Some True
         else map_option (\<lambda>(added, _). added \<ge> MIN_WRITTEN_CHARS) (changed_characters before code))"

section \<open>Code and comments\<close>

definition ch_newline :: string where "ch_newline = newline"
definition ch_backslash :: string where "ch_backslash = [CHR 0x5C]"

definition opens_quote :: "string \<Rightarrow> bool" where
  "opens_quote ch \<longleftrightarrow> ch = [CHR 0x22] \<or> ch = [CHR 0x27] \<or> ch = [CHR 0x60]"

definition tripled :: "string list \<Rightarrow> string \<Rightarrow> bool" where
  "tripled chars quote \<longleftrightarrow> take 2 chars = [quote, quote]"

definition comment_line :: "string list \<Rightarrow> string" where
  "comment_line chars = concat (takeWhile (\<lambda>ch. ch \<noteq> ch_newline) chars) @ newline"

text \<open>The text of a block comment, and what follows it.\<close>

fun block_comment :: "string list \<Rightarrow> string \<times> string list" where
  "block_comment [] = ([], [])"
| "block_comment (ch # chars) =
     (if ch = ''*'' \<and> take 1 chars = [''/''] then ([], drop 1 chars)
      else let (text_of, rest) = block_comment chars in (ch @ text_of, rest))"

lemma block_comment_shorter: "length (snd (block_comment chars)) \<le> length chars"
  by (induction chars) (auto simp: case_prod_beta)

lemma rest_shorter:
  "length (dropWhile P (drop n chars)) < Suc (length chars)"
  "length (dropWhile P chars) < Suc (length chars)"
  "length (snd (block_comment (drop n chars))) < Suc (length chars)"
  using length_dropWhile_le [of P "drop n chars"] length_dropWhile_le [of P chars] block_comment_shorter [of "drop n chars"]
  by simp_all

definition also_kept :: "string list \<Rightarrow> string list \<times> string \<Rightarrow> string list \<times> string" where
  "also_kept chars r = (chars @ fst r, snd r)"

definition also_comment :: "string \<Rightarrow> string list \<times> string \<Rightarrow> string list \<times> string" where
  "also_comment comment r = (fst r, comment @ snd r)"

function split_loop :: "bool \<Rightarrow> (string \<times> bool) option \<Rightarrow> string list \<Rightarrow> string list \<times> string" where
  "split_loop hash_comments quote [] = ([], [])"
| "split_loop hash_comments (Some (open_quote, triple)) (ch # chars) =
     (if ch = ch_backslash
      then also_kept (ch # take 1 chars) (split_loop hash_comments (Some (open_quote, triple)) (drop 1 chars))
      else if ch = open_quote \<and> (\<not> triple \<or> tripled chars open_quote)
      then (if triple then also_kept (ch # take 2 chars) (split_loop hash_comments None (drop 2 chars))
            else also_kept [ch] (split_loop hash_comments None chars))
      else also_kept [ch] (split_loop hash_comments (Some (open_quote, triple)) chars))"
| "split_loop hash_comments None (ch # chars) =
     (if opens_quote ch
      then (if hash_comments \<and> tripled chars ch
            then also_kept (ch # take 2 chars) (split_loop hash_comments (Some (ch, True)) (drop 2 chars))
            else also_kept [ch] (split_loop hash_comments (Some (ch, False)) chars))
      else if ch = ''#'' \<and> hash_comments
      then also_comment (comment_line chars)
             (split_loop hash_comments None (dropWhile (\<lambda>ch. ch \<noteq> ch_newline) chars))
      else if ch = ''/'' \<and> \<not> hash_comments \<and> take 1 chars = [''/'']
      then also_comment (comment_line (drop 1 chars))
             (split_loop hash_comments None (dropWhile (\<lambda>ch. ch \<noteq> ch_newline) (drop 1 chars)))
      else if ch = ''/'' \<and> \<not> hash_comments \<and> take 1 chars = [''*'']
      then also_comment (fst (block_comment (drop 1 chars)) @ newline)
             (split_loop hash_comments None (snd (block_comment (drop 1 chars))))
      else also_kept [ch] (split_loop hash_comments None chars))"
  by pat_completeness auto
termination
  by (relation "measure (\<lambda>(_, _, chars). length chars)") (auto simp: rest_shorter)

definition split_comments :: "string \<Rightarrow> string \<Rightarrow> string list \<times> string" where
  "split_comments language code =
     (let (kept, comments) = split_loop (language = ''python'') None (utf8_chars code)
      in (filter (\<lambda>ch. \<not> is_whitespace ch) kept, comments))"

definition uncommented_chars :: "string \<Rightarrow> string \<Rightarrow> string list" where
  "uncommented_chars language code = fst (split_comments language code)"

definition edited_within :: "string \<Rightarrow> string \<Rightarrow> string \<Rightarrow> bool" where
  "edited_within language before code =
     (case changed_characters (uncommented_chars language before) (uncommented_chars language code) of
        None \<Rightarrow> False
      | Some (added, removed) \<Rightarrow> added < MIN_WRITTEN_CHARS \<and> removed < MIN_WRITTEN_CHARS)"

record tested_code =
  tc_language :: string
  tc_code :: string

definition covers :: "tested_code \<Rightarrow> string \<Rightarrow> string \<Rightarrow> bool" where
  "covers tested language code \<longleftrightarrow>
     tc_language tested = language \<and> (tc_code tested = code \<or> edited_within language (tc_code tested) code)"

definition rewritten :: "tested_code \<Rightarrow> string \<Rightarrow> string \<Rightarrow> bool" where
  "rewritten before language code =
     (if tc_language before \<noteq> language then True
      else case changed_characters (uncommented_chars language (tc_code before)) (uncommented_chars language code) of
             None \<Rightarrow> True
           | Some (added, removed) \<Rightarrow> added + removed > 80)"

section \<open>The table finds a longest common subsequence\<close>

fun lcs :: "'c list \<Rightarrow> 'c list \<Rightarrow> nat" where
  "lcs (x # xs) (y # ys) = (if x = y then Suc (lcs xs ys) else max (lcs (x # xs) ys) (lcs xs (y # ys)))"
| "lcs xs ys = 0"

lemma lcs_nil [simp]: "lcs [] ys = 0" "lcs xs [] = 0"
  by (cases xs; simp)+

lemma lcs_bounds: "lcs xs ys \<le> length xs \<and> lcs xs ys \<le> length ys"
  by (induction xs ys rule: lcs.induct) auto

lemma lcs_upper: "subseq zs xs \<Longrightarrow> subseq zs ys \<Longrightarrow> length zs \<le> lcs xs ys"
proof (induction xs ys arbitrary: zs rule: lcs.induct)
  case (1 x xs y ys)
  show ?case
  proof (cases "x = y")
    case True
    have tail: "subseq (tl zs) xs" "subseq (tl zs) ys"
      using 1(4,5) True by (cases zs; auto split: if_splits elim: subseq_Cons')+
    show ?thesis using 1(1) [OF True tail] True by (cases zs) auto
  next
    case False
    then have "subseq zs ys \<or> subseq zs xs"
      using 1(4,5) by (cases zs) (auto split: if_splits)
    with False 1 show ?thesis by fastforce
  qed
qed auto

lemma lcs_reached: "\<exists>zs. subseq zs xs \<and> subseq zs ys \<and> length zs = lcs xs ys"
proof (induction xs ys rule: lcs.induct)
  case (1 x xs y ys)
  show ?case
  proof (cases "x = y")
    case True
    with 1(1) obtain zs where "subseq zs xs" "subseq zs ys" "length zs = lcs xs ys" by blast
    with True show ?thesis by (intro exI [of _ "x # zs"]) simp
  next
    case False
    then obtain zs where zs: "subseq zs (x # xs) \<and> subseq zs ys \<and> length zs = lcs (x # xs) ys"
      using 1(2) by blast
    from False obtain us where us: "subseq us xs \<and> subseq us (y # ys) \<and> length us = lcs xs (y # ys)"
      using 1(3) by blast
    show ?thesis
    proof (cases "lcs (x # xs) ys \<ge> lcs xs (y # ys)")
      case True
      then show ?thesis using False zs by (intro exI [of _ zs]) (auto simp: max_def)
    next
      case False
      then show ?thesis using \<open>x \<noteq> y\<close> us by (intro exI [of _ us]) (auto simp: max_def)
    qed
  qed
qed auto

lemma subseq_reversed: "subseq xs ys \<Longrightarrow> subseq (rev xs) (rev ys)"
proof (induction rule: list_emb.induct)
  case (list_emb_Cons xs ys y)
  then show ?case by (metis rev.simps(2) subseq_rev_drop_many)
next
  case (list_emb_Cons2 x y xs ys)
  then show ?case by (simp add: list_emb_append_mono)
qed simp

lemma lcs_unique:
  assumes "\<And>zs. subseq zs xs \<Longrightarrow> subseq zs ys \<Longrightarrow> length zs \<le> n"
    and "subseq us xs" "subseq us ys" "length us = n"
  shows "lcs xs ys = n"
  using assms lcs_upper [of us xs ys] lcs_reached [of xs ys] by (metis le_antisym)

lemma lcs_rev: "lcs (rev xs) (rev ys) = lcs xs ys"
proof -
  obtain zs where zs: "subseq zs xs" "subseq zs ys" "length zs = lcs xs ys" using lcs_reached by blast
  show ?thesis
  proof (rule lcs_unique [of _ _ _ "rev zs"])
    fix us assume "subseq us (rev xs)" "subseq us (rev ys)"
    then have "subseq (rev us) xs" "subseq (rev us) ys" using subseq_reversed by fastforce+
    then show "length us \<le> lcs xs ys" using lcs_upper [of "rev us" xs ys] by simp
  qed (use zs in \<open>simp_all add: subseq_reversed\<close>)
qed

lemma lcs_prefix: "lcs (ps @ xs) (ps @ ys) = length ps + lcs xs ys"
  by (induction ps) simp_all

lemma lcs_suffix: "lcs (xs @ ss) (ys @ ss) = lcs xs ys + length ss"
  using lcs_prefix [of "rev ss" "rev xs" "rev ys"] by (simp add: lcs_rev flip: rev_append)

text \<open>A row holds the answer for every prefix of the old text.\<close>

fun lcs_prefixes :: "'c list \<Rightarrow> 'c list \<Rightarrow> 'c list \<Rightarrow> nat list" where
  "lcs_prefixes past [] seen = [lcs past seen]"
| "lcs_prefixes past (e # es) seen = lcs past seen # lcs_prefixes (e # past) es seen"

lemma lcs_prefixes_not_nil [simp]: "lcs_prefixes past es seen \<noteq> []"
  by (cases es) simp_all

lemma lcs_prefixes_start: "lcs_prefixes past es seen = lcs past seen # tl (lcs_prefixes past es seen)"
  by (cases es) simp_all

lemma table_row_step:
  "table_row es w (lcs_prefixes past es seen) (lcs past (w # seen)) = tl (lcs_prefixes past es (w # seen))"
proof (induction es arbitrary: past)
  case (Cons e es)
  obtain upper previous where row: "lcs_prefixes (e # past) es seen = upper # previous"
    by (cases "lcs_prefixes (e # past) es seen") auto
  then have upper: "upper = lcs (e # past) seen" by (cases es) auto
  have "(if w = e then lcs past seen + 1 else max (lcs past (w # seen)) upper) = lcs (e # past) (w # seen)"
    by (auto simp: upper max.commute)
  with row have "table_row (e # es) w (lcs_prefixes past (e # es) seen) (lcs past (w # seen))
      = lcs (e # past) (w # seen) # table_row es w (lcs_prefixes (e # past) es seen) (lcs (e # past) (w # seen))"
    by (simp add: Let_def)
  then show ?case
    using Cons.IH [of "e # past"] lcs_prefixes_start [of "e # past" es "w # seen"] by simp
qed simp

lemma lcs_prefixes_nothing: "lcs_prefixes past es [] = replicate (length es + 1) 0"
  by (induction es arbitrary: past) simp_all

lemma fill_table_row: "fill_table before code = lcs_prefixes [] before (rev code)"
proof (induction code rule: rev_induct)
  case Nil
  show ?case by (simp add: fill_table_def lcs_prefixes_nothing)
next
  case (snoc w code)
  then show ?case
    using table_row_step [of before w "[]" "rev code"]
    by (simp add: fill_table_def flip: lcs_prefixes_start [of "[]" before "w # rev code", simplified])
qed

lemma lcs_prefixes_last: "lcs_prefixes past es seen ! length es = lcs (rev es @ past) seen"
  by (induction es arbitrary: past) simp_all

lemma fill_table_lcs: "fill_table before code ! length before = lcs before code"
  by (simp add: fill_table_row lcs_prefixes_last lcs_rev)

lemma shared_prefix_bounds: "shared_prefix xs ys \<le> length xs" "shared_prefix xs ys \<le> length ys"
  by (induction xs ys rule: shared_prefix.induct) simp_all

lemma shared_prefix_split: "\<exists>ps us vs. xs = ps @ us \<and> ys = ps @ vs \<and> length ps = shared_prefix xs ys"
proof (induction xs ys rule: shared_prefix.induct)
  case (1 x xs y ys)
  show ?case
  proof (cases "x = y")
    case True
    from 1 [OF this] obtain ps us vs where "xs = ps @ us" "ys = ps @ vs" "length ps = shared_prefix xs ys" by blast
    with True show ?thesis by (intro exI [of _ "x # ps"] exI [of _ us] exI [of _ vs]) simp
  qed simp
qed auto

lemma shared_parts:
  assumes "shared = shared_prefix (rev (drop (shared_prefix before code) before)) (rev (drop (shared_prefix before code) code))"
  obtains ps us vs ss where "before = ps @ us @ ss" "code = ps @ vs @ ss"
    "length ps = shared_prefix before code" "length ss = shared"
proof -
  obtain ps us vs where p: "before = ps @ us" "code = ps @ vs" "length ps = shared_prefix before code"
    using shared_prefix_split by blast
  obtain ss us' vs' where s: "rev us = ss @ us'" "rev vs = ss @ vs'" "length ss = shared_prefix (rev us) (rev vs)"
    using shared_prefix_split by blast
  have us: "us = rev us' @ rev ss" and vs: "vs = rev vs' @ rev ss"
    using arg_cong [OF s(1), of rev] arg_cong [OF s(2), of rev] by simp_all
  have "drop (shared_prefix before code) before = us" "drop (shared_prefix before code) code = vs"
    using p by (metis append_eq_conv_conj)+
  with assms s(3) have "length (rev ss) = shared" by simp
  with p us vs show thesis by (intro that [of ps "rev us'" "rev ss" "rev vs'"]) simp_all
qed

text \<open>The two counts, on the whole texts: what lies outside a longest common subsequence.\<close>

lemma changed_characters_cases:
  "changed_characters before code = Some (length code - lcs before code, length before - lcs before code)
   \<or> changed_characters before code = None \<and> length before * length code > MAX_WRITTEN_TABLE"
proof -
  define shared where "shared = shared_prefix (rev (drop (shared_prefix before code) before)) (rev (drop (shared_prefix before code) code))"
  obtain ps us vs ss where
    parts: "before = ps @ us @ ss" "code = ps @ vs @ ss" "length ps = shared_prefix before code" "length ss = shared"
    by (rule shared_parts [OF shared_def])
  have dropped: "drop (shared_prefix before code) before = us @ ss" "drop (shared_prefix before code) code = vs @ ss"
    unfolding parts(3) [symmetric] by (subst parts(1), simp, subst parts(2), simp)
  have cut: "take (length (us @ ss) - shared) (us @ ss) = us" "take (length (vs @ ss) - shared) (vs @ ss) = vs"
    using parts(4) by simp_all
  have changed: "changed_characters before code =
      (if length us * length vs > MAX_WRITTEN_TABLE then None
       else Some (length vs - lcs us vs, length us - lcs us vs))"
    unfolding changed_characters_def Let_def dropped
    using shared_def [unfolded dropped] cut by (simp add: fill_table_lcs)
  have whole: "lcs before code = length ps + lcs us vs + length ss"
    unfolding parts(1,2) by (simp add: lcs_prefix lcs_suffix)
  have sizes: "length before = length ps + length us + length ss" "length code = length ps + length vs + length ss"
    using arg_cong [OF parts(1), of length] arg_cong [OF parts(2), of length] by simp_all
  have "length us * length vs \<le> length before * length code"
    unfolding sizes by (intro mult_le_mono) simp_all
  moreover have "length code - lcs before code = length vs - lcs us vs" "length before - lcs before code = length us - lcs us vs"
    unfolding whole sizes by simp_all
  ultimately show ?thesis unfolding changed by auto
qed

text \<open>
  The trimmed and bounded table counts what was typed and what was deleted: the characters of either
  text outside a longest common subsequence of the two, and it gives up only on texts whose lengths
  multiply past the bound.
\<close>

theorem changed_characters_counts_edits:
  "\<exists>common. subseq common before \<and> subseq common code
     \<and> (\<forall>other. subseq other before \<and> subseq other code \<longrightarrow> length other \<le> length common)
     \<and> (changed_characters before code = Some (length code - length common, length before - length common)
        \<or> changed_characters before code = None \<and> length before * length code > MAX_WRITTEN_TABLE)"
proof -
  obtain common where "subseq common before" "subseq common code" "length common = lcs before code"
    using lcs_reached by blast
  with changed_characters_cases [of before code] show ?thesis
    by (metis lcs_upper)
qed

end
