(* ===== verification/Material.thy ===== *)
theory Material
  imports Integrity Timer Code_Change Code_Work
begin

text \<open>
  How the candidate's material reaches a model: \<open>src/src/agent/prompts/material.rs\<close>, and
  \<open>code_head\<close> of \<open>src/src/agent.rs\<close>.  Numbered views of the editor, the excerpt around a change, the
  rendering of a test run, the texts of the read tools, and the fences around all of it.
\<close>

section \<open>Fences\<close>

definition QUOTED_MARKER_PREFIX :: string where "QUOTED_MARKER_PREFIX = ''(quoted) ''"
definition NOTHING_RECORDED :: string where "NOTHING_RECORDED = ''(nothing recorded yet)''"
definition EMPTY_EDITOR :: string where "EMPTY_EDITOR = ''(the editor was left empty)''"
definition NO_SPEECH :: string where "NO_SPEECH = ''(no speech was captured)''"
definition TRANSCRIPT_SPEAKERS :: string where
  "TRANSCRIPT_SPEAKERS = '' (Interviewer = the AI, Candidate = the human)''"

definition trim_start :: "string list \<Rightarrow> string list" where
  "trim_start chars = dropWhile is_whitespace chars"

definition ascii_lower :: "char \<Rightarrow> char" where
  "ascii_lower c = (if is_ascii_uppercase c then char_of (of_char c + 32 :: nat) else c)"

definition eq_ignore_ascii_case :: "string \<Rightarrow> string \<Rightarrow> bool" where
  "eq_ignore_ascii_case s t \<longleftrightarrow> map ascii_lower s = map ascii_lower t"

definition fence_markers :: "string list" where
  "fence_markers = [''BEGIN UNTRUSTED'', ''END UNTRUSTED'']"

definition reads_as_marker :: "string list \<Rightarrow> bool" where
  "reads_as_marker line =
     (let bytes = concat (trim_start line)
      in list_ex (\<lambda>marker. length marker \<le> length bytes \<and> eq_ignore_ascii_case (take (length marker) bytes) marker)
           fence_markers)"

text \<open>\<open>str::split\<close> and \<open>str::split_inclusive\<close> at the characters that break a line, on characters.\<close>

fun break_lines :: "string list \<Rightarrow> string list list" where
  "break_lines [] = [[]]"
| "break_lines (ch # chars) =
     (if breaks_a_prompt_line ch then [] # break_lines chars
      else (case break_lines chars of line # rest \<Rightarrow> (ch # line) # rest | [] \<Rightarrow> [[ch]]))"

fun inclusive_lines :: "string list \<Rightarrow> string list list" where
  "inclusive_lines [] = []"
| "inclusive_lines (ch # chars) =
     (if breaks_a_prompt_line ch then [ch] # inclusive_lines chars
      else (case inclusive_lines chars of line # rest \<Rightarrow> (ch # line) # rest | [] \<Rightarrow> [[ch]]))"

definition quote_line :: "string list \<Rightarrow> string" where
  "quote_line line = (if reads_as_marker line then QUOTED_MARKER_PREFIX else []) @ concat line"

definition quote_fence_markers :: "string \<Rightarrow> string" where
  "quote_fence_markers text_of =
     (if \<not> list_ex reads_as_marker (break_lines (utf8_chars text_of)) then text_of
      else concat (map quote_line (inclusive_lines (utf8_chars text_of))))"

definition untrusted_block :: "string \<Rightarrow> string \<Rightarrow> string \<Rightarrow> string" where
  "untrusted_block label detail body =
     ''BEGIN UNTRUSTED '' @ label @ detail @ newline @ quote_fence_markers body @ newline @ ''END UNTRUSTED '' @ label"

definition untrusted_blocks :: "string option \<Rightarrow> string \<Rightarrow> string \<Rightarrow> string \<Rightarrow> string" where
  "untrusted_blocks no_editor language code transcript =
     (case no_editor of Some note \<Rightarrow> note
      | None \<Rightarrow> untrusted_block ''EDITOR'' ('' ('' @ language @ '')'') (if code = [] then EMPTY_EDITOR else code))
     @ newline
     @ untrusted_block ''TRANSCRIPT'' TRANSCRIPT_SPEAKERS (if transcript = [] then NO_SPEECH else transcript)"

section \<open>Lines\<close>

text \<open>\<open>str::lines\<close>: a line ends with a line feed, and a carriage return right before it is not part of it.\<close>

fun str_lines :: "string \<Rightarrow> string list" where
  "str_lines [] = []"
| "str_lines (c # cs) =
     (if c = CHR 0x0A then [] # str_lines cs
      else if c = CHR 0x0D \<and> take 1 cs = [CHR 0x0A] then str_lines cs
      else (case str_lines cs of line # rest \<Rightarrow> (c # line) # rest | [] \<Rightarrow> [[c]]))"

definition blank_line :: "string \<Rightarrow> bool" where
  "blank_line line \<longleftrightarrow> str_trim line = []"

definition content_lines :: "string \<Rightarrow> string list" where
  "content_lines code = rev (dropWhile blank_line (rev (str_lines code)))"

definition MAX_NUMBERED_BYTES :: nat where "MAX_NUMBERED_BYTES = 32000"
definition MAX_NUMBERED_LINE_CHARS :: nat where "MAX_NUMBERED_LINE_CHARS = 1000"
definition EXCERPT_CONTEXT_LINES :: nat where "EXCERPT_CONTEXT_LINES = 3"
definition MAX_EXCERPT_LINES :: nat where "MAX_EXCERPT_LINES = 40"
definition MAX_EXCERPT_LINE_CHARS :: nat where "MAX_EXCERPT_LINE_CHARS = 160"
definition MAX_WHOLE_BUFFER_LINES :: nat where "MAX_WHOLE_BUFFER_LINES = 80"
definition MAX_WHOLE_BUFFER_BYTES :: nat where "MAX_WHOLE_BUFFER_BYTES = 4000"

definition numbered_line :: "nat \<Rightarrow> string \<Rightarrow> string" where
  "numbered_line number line = decimal number @ ''| '' @ line"

text \<open>The start of a line, with a mark where it was cut.\<close>

definition cut_line :: "nat \<Rightarrow> string \<Rightarrow> string" where
  "cut_line max_chars line =
     (let kept = concat (take max_chars (utf8_chars line))
      in kept @ (if length kept < length line then '' ...'' else []))"

definition numbered_bounded_line :: "nat \<Rightarrow> string \<Rightarrow> string" where
  "numbered_bounded_line number line = numbered_line number (cut_line MAX_NUMBERED_LINE_CHARS line)"

definition more_lines :: "nat \<Rightarrow> nat \<Rightarrow> string" where
  "more_lines left index =
     newline @ ''... '' @ decimal left @ '' more lines; call `read_editor` with fromLine '' @ decimal (index + 1) @ '' for them''"

fun numbered_loop :: "nat \<Rightarrow> nat \<Rightarrow> string list \<Rightarrow> string \<Rightarrow> string" where
  "numbered_loop max_bytes index [] out = out"
| "numbered_loop max_bytes index (line # rest) out =
     (let rendered = numbered_bounded_line (index + 1) line
      in if out \<noteq> [] \<and> length out + length rendered + 1 > max_bytes
         then out @ more_lines (length (line # rest)) index
         else numbered_loop max_bytes (index + 1) rest ((if out \<noteq> [] then out @ newline else out) @ rendered))"

definition numbered_from_with_limit :: "string \<Rightarrow> nat \<Rightarrow> nat \<Rightarrow> string" where
  "numbered_from_with_limit code from_line max_bytes =
     (let lines = content_lines code
      in if lines = [] then ''(the editor is currently empty)''
         else let from_line = max from_line 1
              in if from_line > length lines then ''(the editor has '' @ decimal (length lines) @ '' lines)''
                 else numbered_loop max_bytes (from_line - 1) (drop (from_line - 1) lines) [])"

definition numbered_from :: "string \<Rightarrow> nat \<Rightarrow> string" where
  "numbered_from code from_line = numbered_from_with_limit code from_line MAX_NUMBERED_BYTES"

definition numbered :: "string \<Rightarrow> string" where
  "numbered code = numbered_from code 1"

section \<open>The excerpt around a change\<close>

definition excerpt_body :: "bool \<Rightarrow> nat \<Rightarrow> string list \<Rightarrow> string" where
  "excerpt_body whole first shown_lines =
     join newline (map (\<lambda>(offset, line).
         numbered_line (first + offset + 1) (if whole then line else cut_line MAX_EXCERPT_LINE_CHARS line))
       (enumerate 0 shown_lines))"

definition excerpt_of :: "string \<Rightarrow> nat \<Rightarrow> nat \<Rightarrow> string \<Rightarrow> string list \<Rightarrow> string" where
  "excerpt_of language prefix_lines changed_end current after_lines =
     (let count = length (content_lines current);
          whole = (count \<le> MAX_WHOLE_BUFFER_LINES \<and> length current \<le> MAX_WHOLE_BUFFER_BYTES);
          last_line = (if whole then count else min (changed_end + EXCERPT_CONTEXT_LINES) count);
          first = (if whole then 0 else min (prefix_lines - EXCERPT_CONTEXT_LINES) last_line);
          shown = min (last_line - first) (if whole then count else MAX_EXCERPT_LINES);
          body = excerpt_body whole first (take shown (drop first after_lines));
          body = (if shown < last_line - first
                  then body @ newline @ ''... '' @ decimal (last_line - first - shown) @ '' more lines; call `read_editor` for them''
                  else body);
          body = (if body = [] then ''(the editor is currently empty)'' else body);
          scope = (if whole \<or> shown = 0 then ''all '' @ decimal count @ '' lines''
                   else ''lines '' @ decimal (first + 1) @ ''-'' @ decimal (first + shown) @ '' of '' @ decimal count
                     @ '', around the change since the last review'')
      in untrusted_block ''EDITOR'' ('' ('' @ language @ '', '' @ scope @ '')'') body)"

definition changed_excerpt :: "string \<Rightarrow> string \<Rightarrow> string \<Rightarrow> string option" where
  "changed_excerpt language previous current =
     (let before = str_lines previous; after_lines = str_lines current;
          prefix_lines = shared_prefix before after_lines;
          suffix_lines = shared_prefix (rev (drop prefix_lines before)) (rev (drop prefix_lines after_lines));
          changed_end = length after_lines - suffix_lines
      in if prefix_lines = changed_end \<and> length before = length after_lines then None
         else Some (excerpt_of language prefix_lines changed_end current after_lines))"

definition code_head :: "string \<Rightarrow> nat \<Rightarrow> string" where
  "code_head code budget =
     (if length code \<le> budget then code
      else take (floor_char_boundary code budget) code @ newline @ ''(remainder of the editor omitted)'')"

section \<open>Test runs\<close>

definition NO_TEST_RUN :: string where
  "NO_TEST_RUN = ''No test run was recorded; tests may not have been attempted or may not have been available for the selected language/problem yet.''"

definition optional_input :: "(64 word \<Rightarrow> string) \<Rightarrow> json \<Rightarrow> string" where
  "optional_input fmt c =
     (case json_get c ''input'' of
        None \<Rightarrow> []
      | Some input \<Rightarrow> if input = JNull then [] else '' with input '' @ python_string fmt input)"

definition value_or :: "(64 word \<Rightarrow> string) \<Rightarrow> json \<Rightarrow> string \<Rightarrow> string \<Rightarrow> string" where
  "value_or fmt c key otherwise =
     (case value_string fmt (json_get c key) of None \<Rightarrow> otherwise | Some s \<Rightarrow> s)"

definition failure_line :: "(64 word \<Rightarrow> string) \<Rightarrow> json \<Rightarrow> string" where
  "failure_line fmt c =
     ''- FAILED '' @ value_or fmt c ''label'' ''?'' @ optional_input fmt c @
     (case truthy_string fmt (json_get c ''error'') of
        Some error \<Rightarrow> '': raised '' @ error
      | None \<Rightarrow> '': expected '' @ value_or fmt c ''expected'' ''None'' @ '', got '' @ value_or fmt c ''got'' ''None'')"

definition candidate_case_line :: "(64 word \<Rightarrow> string) \<Rightarrow> json \<Rightarrow> string" where
  "candidate_case_line fmt c =
     ''- CANDIDATE CASE '' @ value_or fmt c ''label'' ''?'' @ optional_input fmt c @
     (case truthy_string fmt (json_get c ''error'') of
        Some error \<Rightarrow> '': raised '' @ error
      | None \<Rightarrow> '': got '' @ value_or fmt c ''got'' ''None''
          @ (case json_get c ''expected'' of
               None \<Rightarrow> []
             | Some expected \<Rightarrow>
                 if expected = JNull then [] else '', candidate expected '' @ python_string fmt expected))"

definition case_objects :: "json \<Rightarrow> string \<Rightarrow> json list option" where
  "case_objects run key =
     map_option (filter (\<lambda>c. json_as_object c \<noteq> None)) (Option.bind (json_get run key) json_as_arr)"

definition run_count :: "json \<Rightarrow> string \<Rightarrow> int" where
  "run_count run key = (case Option.bind (json_get run key) json_as_i64 of None \<Rightarrow> 0 | Some n \<Rightarrow> n)"

text \<open>\<open>i64::saturating_sub\<close>, then what of it fits a \<open>usize\<close>.\<close>

definition failing_cases :: "int \<Rightarrow> int \<Rightarrow> nat \<Rightarrow> nat" where
  "failing_cases tried passed listed = max (nat (min (2 ^ 63 - 1) (max (- (2 ^ 63)) (tried - passed)))) listed"

definition failure_lines :: "(64 word \<Rightarrow> string) \<Rightarrow> nat \<Rightarrow> json \<Rightarrow> json list \<Rightarrow> string list" where
  "failure_lines fmt max_failures run objects =
     (let failures = take MAX_TEST_FAILURES objects;
          failing = failing_cases (run_count run ''total'') (run_count run ''passed'') (length failures);
          listed = min (length failures) max_failures;
          unlisted = failing - listed
      in map (failure_line fmt) (take max_failures failures)
         @ (if unlisted > 0
            then [''- '' @ decimal unlisted @ '' '' @ (if listed > 0 then ''more '' else []) @ ''failing ''
                   @ (if unlisted = 1 then ''case'' else ''cases'') @ '' not listed'']
            else []))"

definition render_test_run :: "(64 word \<Rightarrow> string) \<Rightarrow> json option \<Rightarrow> nat \<Rightarrow> nat \<Rightarrow> string" where
  "render_test_run fmt run_given total_runs max_failures =
     (case run_given of
        None \<Rightarrow> NO_TEST_RUN
      | Some run \<Rightarrow>
          if \<not> python_truthy run then NO_TEST_RUN
          else (case truthy_string fmt (json_get run ''setupError'') of
                  Some setup_error \<Rightarrow>
                    ''Latest test run (run #'' @ decimal total_runs @ '') could not execute the code: '' @ setup_error
                | None \<Rightarrow>
                    join newline
                      ([''Latest test run (run #'' @ decimal total_runs @ '', '' @ value_or fmt run ''language'' ''?''
                         @ ''): '' @ show_int (run_count run ''passed'') @ ''/'' @ show_int (run_count run ''total'')
                         @ '' cases passed.'']
                       @ (case case_objects run ''failures'' of
                            None \<Rightarrow> [] | Some objects \<Rightarrow> failure_lines fmt max_failures run objects)
                       @ (case case_objects run ''candidateCases'' of
                            None \<Rightarrow> []
                          | Some objects \<Rightarrow> map (candidate_case_line fmt) (take MAX_CANDIDATE_CASES objects)))))"

definition format_test_run :: "(64 word \<Rightarrow> string) \<Rightarrow> json option \<Rightarrow> nat \<Rightarrow> string" where
  "format_test_run fmt run total_runs = render_test_run fmt run total_runs MAX_TEST_FAILURES"

definition format_test_run_for_reaction :: "(64 word \<Rightarrow> string) \<Rightarrow> json \<Rightarrow> nat \<Rightarrow> string" where
  "format_test_run_for_reaction fmt run total_runs = render_test_run fmt (Some run) total_runs 1"

section \<open>What the tools answer\<close>

definition read_editor_text_from_numbered ::
  "(64 word \<Rightarrow> string) \<Rightarrow> string \<Rightarrow> string \<Rightarrow> json option \<Rightarrow> nat \<Rightarrow> int \<Rightarrow> string" where
  "read_editor_text_from_numbered fmt language numbered_code last_test_run test_runs minutes =
     untrusted_block ''EDITOR'' ('' ('' @ language @ '')'') numbered_code @ newline
     @ untrusted_block ''TEST RUN'' [] (format_test_run fmt last_test_run test_runs) @ newline
     @ timer_line minutes"

definition read_editor_text ::
  "(64 word \<Rightarrow> string) \<Rightarrow> string \<Rightarrow> string \<Rightarrow> nat \<Rightarrow> json option \<Rightarrow> nat \<Rightarrow> int \<Rightarrow> string" where
  "read_editor_text fmt language code from_line last_test_run test_runs minutes =
     read_editor_text_from_numbered fmt language (numbered_from code from_line) last_test_run test_runs minutes"

definition read_board_text :: "nat \<Rightarrow> nat \<Rightarrow> nat option \<Rightarrow> int \<Rightarrow> string" where
  "read_board_text strokes snapshots drawn_seconds_ago minutes =
     (if snapshots = 0 then ''The candidate has not drawn anything yet, so there is no board to look at.''
      else ''The candidate'' @ [CHR 0x27] @ ''s board has been put in front of you again as an image: '' @ decimal strokes
        @ '' strokes, as the candidate last left it ''
        @ (case drawn_seconds_ago of
             Some seconds \<Rightarrow> ''about '' @ decimal seconds @ '' seconds ago''
           | None \<Rightarrow> ''a moment ago'')
        @ ''. Look at that image rather than at what you remember of the board.'')
     @ newline @ newline @ timer_line minutes"

definition log_hint_text :: "nat \<Rightarrow> string" where
  "log_hint_text hints_used = ''Recorded. Total hints so far: '' @ decimal hints_used @ ''.''"

definition hint_rung_text :: "nat \<Rightarrow> nat \<Rightarrow> string \<Rightarrow> string" where
  "hint_rung_text hints_used rung clue =
     log_hint_text hints_used @ '' Hint rung '' @ decimal rung @ '', the only clue to give now: '' @ clue
     @ '' Say it as one question or nudge in your own words, fitted to their current code, and stop for their response. Name no technique, data structure, or step this clue does not already name.''"

definition hint_rung_withheld_text :: "nat \<Rightarrow> string" where
  "hint_rung_withheld_text hints_used =
     ''Not counted as a hint; total hints so far: '' @ decimal hints_used
     @ ''. The next rung names the key step and stays withheld until the candidate has put an approach of their own into words or code. Give no clue this turn: in one short sentence, ask what they would try first, even a slow version, and wait. Do not restate an earlier clue, and name no technique, data structure, ordering, or step.''"

definition hint_ladder_used_text :: "nat \<Rightarrow> string" where
  "hint_ladder_used_text hints_used =
     log_hint_text hints_used
     @ '' Every rung is used. Keep helping them reason from their own code without revealing another step.''"

definition numbered_list :: "string list \<Rightarrow> string" where
  "numbered_list items =
     join newline (map (\<lambda>(index, item). ''  '' @ decimal (index + 1) @ ''. '' @ item) (enumerate 0 items))"

section \<open>A fence cannot be closed from inside\<close>

text \<open>A character of well-formed text: a lead byte and its continuation bytes.\<close>

definition whole_char :: "string \<Rightarrow> bool" where
  "whole_char ch \<longleftrightarrow> ch \<noteq> [] \<and> \<not> is_cont (hd ch) \<and> list_all is_cont (tl ch)"

text \<open>Text does not begin in the middle of a character, and a line has nothing in it that breaks one.\<close>

definition starts_whole :: "string \<Rightarrow> bool" where
  "starts_whole s \<longleftrightarrow> s = [] \<or> \<not> is_cont (hd s)"

definition is_one_line :: "string \<Rightarrow> bool" where
  "is_one_line s \<longleftrightarrow> starts_whole s \<and> list_all (\<lambda>ch. \<not> breaks_a_prompt_line ch) (utf8_chars s)"

lemma utf8_chars_append: "starts_whole t \<Longrightarrow> utf8_chars (s @ t) = utf8_chars s @ utf8_chars t"
proof (induction s rule: utf8_chars.induct)
  case (2 c cs)
  have "takeWhile is_cont (cs @ t) = takeWhile is_cont cs \<and> dropWhile is_cont (cs @ t) = dropWhile is_cont cs @ t"
    using 2(2) by (induction cs) (cases t; auto simp: starts_whole_def)+
  with 2 show ?case by simp
qed simp

lemma whole_chars_utf8: "starts_whole s \<Longrightarrow> list_all whole_char (utf8_chars s)"
proof (induction s rule: utf8_chars.induct)
  case (2 c cs)
  have "starts_whole (dropWhile is_cont cs)" by (induction cs) (auto simp: starts_whole_def)
  moreover have "list_all is_cont (takeWhile is_cont cs)" by (auto simp: list_all_iff dest: set_takeWhileD)
  ultimately show ?case using 2 by (simp add: whole_char_def starts_whole_def)
qed simp

lemma utf8_chars_whole: "list_all whole_char chars \<Longrightarrow> utf8_chars (concat chars) = chars"
proof (induction chars)
  case (Cons ch chars)
  then obtain c cs where ch: "ch = c # cs" "\<not> is_cont c" "list_all is_cont cs"
    by (cases ch) (auto simp: whole_char_def)
  have "starts_whole (concat chars)"
    using Cons.prems by (cases chars) (auto simp: starts_whole_def whole_char_def)
  then have "utf8_chars (ch @ concat chars) = utf8_chars ch @ utf8_chars (concat chars)" by (rule utf8_chars_append)
  moreover have "utf8_chars ch = [ch]"
    using ch by (auto simp: list_all_iff takeWhile_eq_all_conv [THEN iffD2] dropWhile_eq_Nil_conv [THEN iffD2])
  ultimately show ?case using Cons by simp
qed simp

lemma break_lines_not_nil [simp]: "break_lines xs \<noteq> []"
  by (induction xs) (auto split: list.split)

lemma break_lines_append:
  "breaks_a_prompt_line b \<Longrightarrow> break_lines (xs @ b # ys) = break_lines xs @ break_lines ys"
proof (induction xs)
  case (Cons x xs)
  then show ?case by (cases "break_lines xs") auto
qed simp

lemma break_lines_unbroken: "list_all (\<lambda>ch. \<not> breaks_a_prompt_line ch) xs \<Longrightarrow> break_lines xs = [xs]"
  by (induction xs) auto

lemma inclusive_lines_append:
  "list_all (\<lambda>ch. \<not> breaks_a_prompt_line ch) xs \<Longrightarrow> breaks_a_prompt_line b \<Longrightarrow>
     inclusive_lines (xs @ b # ys) = (xs @ [b]) # inclusive_lines ys"
  by (induction xs) auto

lemma inclusive_lines_unbroken:
  "list_all (\<lambda>ch. \<not> breaks_a_prompt_line ch) xs \<Longrightarrow> xs \<noteq> [] \<Longrightarrow> inclusive_lines xs = [xs]"
proof (induction xs)
  case (Cons x xs)
  then show ?case by (cases xs) auto
qed simp

text \<open>What breaks a line does not begin with a printable character, so it is no part of a marker.\<close>

lemma folded_code_point:
  fixes lead :: nat
  shows "lead * 64 ^ length cs \<le> foldl (\<lambda>a d. a * 64 + (of_char d :: nat) mod 64) lead cs"
proof (induction cs arbitrary: lead)
  case (Cons d cs)
  have "lead * 64 ^ length (d # cs) \<le> (lead * 64 + (of_char d :: nat) mod 64) * 64 ^ length cs"
    by (simp add: algebra_simps)
  also have "\<dots> \<le> foldl (\<lambda>a d. a * 64 + (of_char d :: nat) mod 64) (lead * 64 + (of_char d :: nat) mod 64) cs"
    by (rule Cons)
  finally show ?case by simp
qed simp

lemma break_is_not_printable:
  assumes "breaks_a_prompt_line (c # cs)" "32 \<le> (of_char c :: nat)" "(of_char c :: nat) < 127"
  shows False
proof -
  define n where "n = (of_char c :: nat)"
  have point: "code_point (c # cs) = foldl (\<lambda>a d. a * 64 + (of_char d :: nat) mod 64) n cs"
    using assms(3) by (simp add: n_def Let_def)
  have "code_point (c # cs) < 32 \<or> 127 \<le> code_point (c # cs) \<and> code_point (c # cs) < 160
      \<or> code_point (c # cs) = 8232 \<or> code_point (c # cs) = 8233"
    using assms(1) by (auto simp: breaks_a_prompt_line_def is_control_def Let_def simp del: code_point.simps)
  moreover have "32 * 64 ^ length cs \<le> code_point (c # cs)"
    using folded_code_point [of n cs] assms(2) unfolding point n_def
    by (meson le_trans mult_le_mono1)
  moreover have "cs = [] \<Longrightarrow> code_point (c # cs) = n" unfolding point by simp
  moreover have "code_point (c # cs) < 127 * 64" if "length cs = 1"
  proof -
    from that obtain d where "cs = [d]" by (cases cs) auto
    moreover have "(of_char d :: nat) mod 64 < 64" by simp
    ultimately show ?thesis using assms(3) unfolding point n_def [symmetric] by (simp add: n_def [symmetric])
  qed
  moreover have "32 * 64 ^ 2 \<le> 32 * (64 :: nat) ^ length cs" if "2 \<le> length cs"
    using that power_increasing [of 2 "length cs" "64 :: nat"] by simp
  moreover have "length cs = 0 \<or> length cs = 1 \<or> 2 \<le> length cs" by arith
  ultimately show False using assms(2,3) by (auto simp: n_def simp del: code_point.simps)
qed

definition printable :: "char \<Rightarrow> bool" where
  "printable c \<longleftrightarrow> 32 \<le> (of_char c :: nat) \<and> (of_char c :: nat) < 127"

definition marks :: "string \<Rightarrow> bool" where
  "marks bytes \<longleftrightarrow>
     list_ex (\<lambda>marker. length marker \<le> length bytes \<and> eq_ignore_ascii_case (take (length marker) bytes) marker)
       fence_markers"

lemma reads_as_marker_marks: "reads_as_marker line = marks (concat (trim_start line))"
  by (simp add: reads_as_marker_def marks_def Let_def)

lemma fence_markers_printable: "m \<in> set fence_markers \<Longrightarrow> list_all printable m"
  by (auto simp: fence_markers_def printable_def)

lemma ascii_lower_printable: "printable (ascii_lower c) \<longleftrightarrow> printable c"
  unfolding ascii_lower_def printable_def is_ascii_uppercase_def by auto

lemma marks_stops:
  assumes "ys = [] \<or> \<not> printable (hd ys)"
  shows "marks (xs @ ys) = marks xs"
proof -
  have short: "length m \<le> length xs"
    if "m \<in> set fence_markers" "length m \<le> length (xs @ ys)" "eq_ignore_ascii_case (take (length m) (xs @ ys)) m" for m
  proof (rule ccontr)
    assume "\<not> length m \<le> length xs"
    then have long: "length xs < length m" by simp
    with that(2) have ys: "ys \<noteq> []" by auto
    define t where "t = take (length m) (xs @ ys)"
    have head: "t ! length xs = hd ys" "length xs < length t"
      using long ys that(2) by (simp_all add: t_def hd_conv_nth nth_append del: take_append)
    have "ascii_lower (t ! length xs) = map ascii_lower t ! length xs" using head(2) by simp
    also have "map ascii_lower t = map ascii_lower m" using that(3) by (simp add: eq_ignore_ascii_case_def t_def)
    also have "map ascii_lower m ! length xs = ascii_lower (m ! length xs)" using long by simp
    finally have "ascii_lower (hd ys) = ascii_lower (m ! length xs)" by (simp only: head(1))
    then have "printable (hd ys) = printable (m ! length xs)" by (metis ascii_lower_printable)
    moreover have "printable (m ! length xs)"
      using fence_markers_printable [OF that(1)] long by (simp add: list_all_length)
    ultimately show False using assms ys by simp
  qed
  have "(length m \<le> length (xs @ ys) \<and> eq_ignore_ascii_case (take (length m) (xs @ ys)) m)
      = (length m \<le> length xs \<and> eq_ignore_ascii_case (take (length m) xs) m)" if "m \<in> set fence_markers" for m
    using short [OF that] by fastforce
  then show ?thesis unfolding marks_def list_ex_iff by (rule bex_cong [OF refl])
qed

lemma trim_start_append:
  "\<exists>zs. concat (trim_start (xs @ ys)) = concat (trim_start xs) @ concat zs \<and> (zs = ys \<or> zs = trim_start ys)"
  by (induction xs) (auto simp: trim_start_def)

lemma marker_before_break:
  assumes "breaks_a_prompt_line b" "whole_char b"
  shows "reads_as_marker (line @ [b]) = reads_as_marker line"
proof -
  obtain zs where zs: "concat (trim_start (line @ [b])) = concat (trim_start line) @ concat zs"
      "zs = [b] \<or> zs = trim_start [b]"
    using trim_start_append by blast
  from assms(2) obtain c cs where b: "b = c # cs" by (cases b) (auto simp: whole_char_def)
  have "\<not> printable c" using break_is_not_printable assms(1) by (auto simp: printable_def b)
  then have "concat zs = [] \<or> \<not> printable (hd (concat zs))"
    using zs(2) by (cases "is_whitespace (c # cs)") (auto simp: b trim_start_def)
  then show ?thesis unfolding reads_as_marker_marks zs(1) by (rule marks_stops)
qed

definition quoted_line :: "string list \<Rightarrow> string list" where
  "quoted_line line = (if reads_as_marker line then utf8_chars QUOTED_MARKER_PREFIX else []) @ line"

lemma quoted_prefix_chars: "utf8_chars QUOTED_MARKER_PREFIX = map (\<lambda>c. [c]) QUOTED_MARKER_PREFIX"
  by (simp add: QUOTED_MARKER_PREFIX_def is_cont_def)

lemma quoted_line_bytes: "quote_line line = concat (quoted_line line)"
  by (simp add: quote_line_def quoted_line_def)

lemma quoted_lines_bytes: "concat (map quote_line ls) = concat (concat (map quoted_line ls))"
  by (induction ls) (simp_all add: quoted_line_bytes)

lemma quoted_line_whole: "list_all whole_char line \<Longrightarrow> list_all whole_char (quoted_line line)"
  by (simp add: quoted_line_def quoted_prefix_chars QUOTED_MARKER_PREFIX_def whole_char_def is_cont_def)

lemma quoted_line_unbroken:
  "list_all (\<lambda>ch. \<not> breaks_a_prompt_line ch) line \<Longrightarrow> list_all (\<lambda>ch. \<not> breaks_a_prompt_line ch) (quoted_line line)"
  by (auto simp: quoted_line_def quoted_prefix_chars QUOTED_MARKER_PREFIX_def breaks_a_prompt_line_def is_control_def)

lemma quoted_line_is_no_marker: "\<not> reads_as_marker (quoted_line line)"
proof (cases "reads_as_marker line")
  case True
  have "concat (trim_start (utf8_chars QUOTED_MARKER_PREFIX @ line)) = QUOTED_MARKER_PREFIX @ concat line"
    by (simp add: quoted_prefix_chars QUOTED_MARKER_PREFIX_def trim_start_def is_whitespace_def)
  with True show ?thesis
    by (simp add: quoted_line_def reads_as_marker_marks marks_def fence_markers_def QUOTED_MARKER_PREFIX_def
        eq_ignore_ascii_case_def ascii_lower_def is_ascii_uppercase_def)
qed (simp add: quoted_line_def)

lemma quoted_lines_hold_no_marker:
  assumes "list_all whole_char chars"
  shows "filter reads_as_marker (break_lines (concat (map quoted_line (inclusive_lines chars)))) = []
    \<and> list_all whole_char (concat (map quoted_line (inclusive_lines chars)))"
  using assms
proof (induction "length chars" arbitrary: chars rule: less_induct)
  case less
  show ?case
  proof (cases "\<exists>b \<in> set chars. breaks_a_prompt_line b")
    case True
    then obtain line b rest where chars: "chars = line @ b # rest" "breaks_a_prompt_line b"
        "\<forall>ch \<in> set line. \<not> breaks_a_prompt_line ch"
      by (rule split_list_first_propE)
    have line: "list_all (\<lambda>ch. \<not> breaks_a_prompt_line ch) line" using chars(3) by (simp add: list_all_iff)
    have whole: "list_all whole_char line" "whole_char b" "list_all whole_char rest"
      using less.prems by (simp_all add: chars)
    have "quoted_line (line @ [b]) = quoted_line line @ [b]"
      using marker_before_break [OF chars(2) whole(2)] by (simp add: quoted_line_def)
    then have parts: "concat (map quoted_line (inclusive_lines chars))
        = quoted_line line @ b # concat (map quoted_line (inclusive_lines rest))"
      using inclusive_lines_append [OF line chars(2)] by (simp add: chars(1))
    have "break_lines (quoted_line line) = [quoted_line line]"
      by (rule break_lines_unbroken) (rule quoted_line_unbroken [OF line])
    then show ?thesis
      using less.hyps [of rest] whole quoted_line_whole [of line]
      unfolding parts by (simp add: chars(1) break_lines_append [OF chars(2)] quoted_line_is_no_marker)
  next
    case False
    then have line: "list_all (\<lambda>ch. \<not> breaks_a_prompt_line ch) chars" by (simp add: list_all_iff)
    show ?thesis
    proof (cases "chars = []")
      case True
      then show ?thesis by (simp add: reads_as_marker_def trim_start_def fence_markers_def)
    next
      case False
      then show ?thesis
        using inclusive_lines_unbroken [OF line False] break_lines_unbroken [OF quoted_line_unbroken [OF line]]
          quoted_line_whole [of chars] less.prems
        by (simp add: quoted_line_is_no_marker)
    qed
  qed
qed

lemma quoted_text_holds_no_marker:
  assumes "starts_whole body"
  shows "filter reads_as_marker (break_lines (utf8_chars (quote_fence_markers body))) = []
    \<and> starts_whole (quote_fence_markers body)"
proof (cases "list_ex reads_as_marker (break_lines (utf8_chars body))")
  case True
  let ?chars = "concat (map quoted_line (inclusive_lines (utf8_chars body)))"
  have q: "quote_fence_markers body = concat ?chars"
    using True by (simp add: quote_fence_markers_def quoted_lines_bytes)
  have whole: "list_all whole_char ?chars" "filter reads_as_marker (break_lines ?chars) = []"
    using quoted_lines_hold_no_marker [OF whole_chars_utf8 [OF assms]] by simp_all
  have "starts_whole (concat ?chars)"
    using whole(1) by (cases ?chars) (auto simp: starts_whole_def whole_char_def)
  with whole show ?thesis unfolding q using utf8_chars_whole [OF whole(1)] by simp
next
  case False
  with assms show ?thesis by (auto simp: quote_fence_markers_def list_ex_iff filter_empty_conv)
qed

lemma three_parts_lines:
  assumes "starts_whole body" "starts_whole closing"
    and "list_all (\<lambda>ch. \<not> breaks_a_prompt_line ch) (utf8_chars opening)"
    and "list_all (\<lambda>ch. \<not> breaks_a_prompt_line ch) (utf8_chars closing)"
  shows "break_lines (utf8_chars (opening @ newline @ body @ newline @ closing))
    = [utf8_chars opening] @ break_lines (utf8_chars body) @ [utf8_chars closing]"
proof -
  have n: "utf8_chars newline = [newline]" "\<not> is_cont (hd newline)" "newline \<noteq> []"
    by (simp_all add: newline_def is_cont_def)
  have starts: "starts_whole (newline @ s)" for s using n by (simp add: starts_whole_def)
  have after_body: "starts_whole (body @ newline @ closing)"
    using assms(1) n by (cases body) (simp_all add: starts_whole_def)
  have b: "breaks_a_prompt_line newline" by (simp add: newline_def breaks_a_prompt_line_def is_control_def)
  have "utf8_chars (opening @ newline @ body @ newline @ closing)
      = utf8_chars opening @ newline # utf8_chars body @ newline # utf8_chars closing"
    unfolding utf8_chars_append [OF starts] utf8_chars_append [OF after_body] utf8_chars_append [OF assms(2)] n(1)
    by simp
  then show ?thesis
    by (simp only: break_lines_append [OF b] break_lines_unbroken [OF assms(3)] break_lines_unbroken [OF assms(4)])
qed

text \<open>
   C13. An untrusted block has exactly two lines that read as a marker, its first and its last, whatever
  the candidate wrote inside it and whatever characters it breaks lines with.
\<close>

theorem a_fence_is_not_closed_from_inside:
  assumes "is_one_line label" "is_one_line detail" "starts_whole body"
  shows "\<exists>inner. break_lines (utf8_chars (untrusted_block label detail body))
      = [utf8_chars (''BEGIN UNTRUSTED '' @ label @ detail)] @ inner @ [utf8_chars (''END UNTRUSTED '' @ label)]
    \<and> list_all (\<lambda>line. \<not> reads_as_marker line) inner"
proof -
  let ?inner = "break_lines (utf8_chars (quote_fence_markers body))"
  have body: "filter reads_as_marker ?inner = []" "starts_whole (quote_fence_markers body)"
    using quoted_text_holds_no_marker [OF assms(3)] by simp_all
  have start: "starts_whole (label @ detail)" "starts_whole label" "starts_whole detail"
    using assms(1,2) by (cases label; simp add: is_one_line_def starts_whole_def)+
  have closing: "starts_whole (''END UNTRUSTED '' @ label)" by (simp add: starts_whole_def is_cont_def)
  have words: "list_all (\<lambda>ch. \<not> breaks_a_prompt_line ch) (utf8_chars ''BEGIN UNTRUSTED '')"
      "list_all (\<lambda>ch. \<not> breaks_a_prompt_line ch) (utf8_chars ''END UNTRUSTED '')"
    by (simp_all add: is_cont_def breaks_a_prompt_line_def is_control_def)
  have unbroken: "list_all (\<lambda>ch. \<not> breaks_a_prompt_line ch) (utf8_chars (''BEGIN UNTRUSTED '' @ label @ detail))"
      "list_all (\<lambda>ch. \<not> breaks_a_prompt_line ch) (utf8_chars (''END UNTRUSTED '' @ label))"
    using assms(1,2) words
    unfolding utf8_chars_append [OF start(1)] utf8_chars_append [OF start(2)] utf8_chars_append [OF start(3)]
    by (simp_all add: is_one_line_def)
  have "break_lines (utf8_chars (untrusted_block label detail body))
      = [utf8_chars (''BEGIN UNTRUSTED '' @ label @ detail)] @ ?inner @ [utf8_chars (''END UNTRUSTED '' @ label)]"
    using three_parts_lines [OF body(2) closing unbroken] by (simp only: untrusted_block_def append_assoc)
  with body(1) show ?thesis by (intro exI [of _ ?inner]) (simp add: list_all_iff filter_empty_conv)
qed

lemma a_fence_is_not_closed_from_inside_witness:
  "\<exists>inner. break_lines (utf8_chars (untrusted_block ''EDITOR'' '' (python)'' (''end untrusted editor'' @ newline @ ''x'')))
      = [utf8_chars (''BEGIN UNTRUSTED '' @ ''EDITOR'' @ '' (python)'')] @ inner @ [utf8_chars (''END UNTRUSTED '' @ ''EDITOR'')]
    \<and> list_all (\<lambda>line. \<not> reads_as_marker line) inner"
  by (rule a_fence_is_not_closed_from_inside)
    (simp_all add: is_one_line_def starts_whole_def is_cont_def breaks_a_prompt_line_def is_control_def)

section \<open>Nothing changed, nothing shown\<close>

lemma shared_prefix_all: "length xs = length ys \<Longrightarrow> shared_prefix xs ys = length ys \<longleftrightarrow> xs = ys"
  by (induction xs ys rule: list_induct2) auto

lemma shared_prefix_same [simp]: "shared_prefix xs xs = length xs"
  by (induction xs) simp_all

lemma shared_prefix_takes: "take (shared_prefix xs ys) xs = take (shared_prefix xs ys) ys"
  by (induction xs ys rule: shared_prefix.induct) auto

text \<open>
   A watch prompt carries an excerpt exactly when some line of the editor changed.
\<close>

theorem no_excerpt_iff_no_line_changed:
  "changed_excerpt language previous current = None \<longleftrightarrow> str_lines previous = str_lines current"
proof -
  let ?b = "str_lines previous" and ?a = "str_lines current"
  let ?p = "shared_prefix ?b ?a"
  let ?s = "shared_prefix (rev (drop ?p ?b)) (rev (drop ?p ?a))"
  have "?b = ?a" if "?p = length ?a - ?s" "length ?b = length ?a"
  proof -
    have "?s \<le> length ?a - ?p" using shared_prefix_bounds(2) [of "rev (drop ?p ?b)" "rev (drop ?p ?a)"] by simp
    moreover have "?p \<le> length ?a" by (rule shared_prefix_bounds)
    ultimately have "?s = length (rev (drop ?p ?a))" using that(1) by simp
    then have "rev (drop ?p ?b) = rev (drop ?p ?a)" using that(2) by (subst (asm) shared_prefix_all) simp_all
    then have "drop ?p ?b = drop ?p ?a" by simp
    with shared_prefix_takes [of ?b ?a] show ?thesis by (metis append_take_drop_id)
  qed
  moreover have "?p = length ?a - ?s \<and> length ?b = length ?a" if "?b = ?a" using that by simp
  ultimately show ?thesis unfolding changed_excerpt_def Let_def by auto
qed

section \<open>Paging through the editor\<close>

lemma decimal_not_nil [simp]: "decimal n \<noteq> []"
  by (subst decimal.simps) simp

lemma numbered_bounded_line_not_nil [simp]: "numbered_bounded_line n line \<noteq> []"
  by (simp add: numbered_bounded_line_def numbered_line_def)

definition rendered_lines :: "nat \<Rightarrow> string list \<Rightarrow> string list" where
  "rendered_lines index lines = map (\<lambda>(i, line). numbered_bounded_line (i + 1) line) (enumerate index lines)"

definition page_end :: "nat \<Rightarrow> string list \<Rightarrow> string" where
  "page_end index left = (if left = [] then [] else more_lines (length left) index)"

lemma rendered_lines_Cons: "rendered_lines index (line # lines) = numbered_bounded_line (index + 1) line # rendered_lines (Suc index) lines"
  by (simp add: rendered_lines_def)

lemma join_more: "xs \<noteq> [] \<Longrightarrow> join sep xs @ sep @ join sep (y # ys) = join sep (xs @ y # ys)"
  by (induction sep xs rule: join.induct) simp_all

lemma numbered_loop_page:
  assumes "out \<noteq> []"
  shows "\<exists>shown \<le> length lines.
    numbered_loop max_bytes index lines out
      = concat (out # map (\<lambda>r. newline @ r) (rendered_lines index (take shown lines))) @ page_end (index + shown) (drop shown lines)
    \<and> (shown = 0 \<or> length (concat (out # map (\<lambda>r. newline @ r) (rendered_lines index (take shown lines)))) \<le> max_bytes)"
  using assms
proof (induction lines arbitrary: index out)
  case Nil
  then show ?case by (simp add: page_end_def rendered_lines_def)
next
  case (Cons line lines)
  let ?r = "numbered_bounded_line (index + 1) line"
  show ?case
  proof (cases "length out + length ?r + 1 > max_bytes")
    case True
    then show ?thesis using Cons.prems by (intro exI [of _ 0]) (simp add: page_end_def rendered_lines_def Let_def)
  next
    case False
    have "out @ newline @ ?r \<noteq> []" using Cons.prems by simp
    from Cons.IH [OF this, of "index + 1"] obtain shown where shown: "shown \<le> length lines"
      "numbered_loop max_bytes (index + 1) lines (out @ newline @ ?r)
        = concat ((out @ newline @ ?r) # map (\<lambda>r. newline @ r) (rendered_lines (index + 1) (take shown lines)))
          @ page_end (index + 1 + shown) (drop shown lines)"
      "shown = 0 \<or> length (concat ((out @ newline @ ?r) # map (\<lambda>r. newline @ r) (rendered_lines (index + 1) (take shown lines)))) \<le> max_bytes"
      by blast
    show ?thesis
      using shown False Cons.prems
      by (intro exI [of _ "Suc shown"]) (auto simp: rendered_lines_Cons Let_def newline_def rendered_lines_def)
  qed
qed

lemma join_newlines: "concat (x # map (\<lambda>r. sep @ r) xs) = join sep (x # xs)"
proof (induction xs arbitrary: x)
  case (Cons a xs)
  show ?case using Cons [of a] by (simp del: concat_map_singleton)
qed simp

text \<open>
   A page of the editor shows at least one line and then every following line that fits its budget;
  what it leaves out it names, with the line to ask for next, so the pages read in turn show every line.
\<close>

theorem a_page_shows_lines_and_names_the_rest:
  assumes "from_line \<le> length (content_lines code)" "0 < from_line"
  shows "\<exists>shown. 0 < shown \<and> from_line - 1 + shown \<le> length (content_lines code)
    \<and> numbered_from code from_line
      = join newline (rendered_lines (from_line - 1) (take shown (drop (from_line - 1) (content_lines code))))
        @ page_end (from_line - 1 + shown) (drop (from_line - 1 + shown) (content_lines code))
    \<and> (shown = 1 \<or> length (join newline (rendered_lines (from_line - 1) (take shown (drop (from_line - 1) (content_lines code)))))
        \<le> MAX_NUMBERED_BYTES)"
proof -
  let ?rest = "drop (from_line - 1) (content_lines code)"
  obtain line lines where rest: "?rest = line # lines" using assms by (cases ?rest) auto
  then have "drop from_line (content_lines code) = lines"
    using assms by (metis Suc_diff_1 drop_Suc drop_tl list.sel(3))
  moreover have "content_lines code \<noteq> []" using assms by auto
  ultimately have more: "drop from_line (content_lines code) = lines" "content_lines code \<noteq> []" by simp_all
  let ?r = "numbered_bounded_line from_line line"
  obtain shown where shown: "shown \<le> length lines"
      "numbered_loop MAX_NUMBERED_BYTES from_line lines ?r
        = concat (?r # map (\<lambda>r. newline @ r) (rendered_lines from_line (take shown lines))) @ page_end (from_line + shown) (drop shown lines)"
      "shown = 0 \<or> length (concat (?r # map (\<lambda>r. newline @ r) (rendered_lines from_line (take shown lines)))) \<le> MAX_NUMBERED_BYTES"
    using numbered_loop_page by (metis numbered_bounded_line_not_nil)
  have whole: "rendered_lines (from_line - 1) (take (Suc shown) ?rest) = ?r # rendered_lines from_line (take shown lines)"
    unfolding rest using assms(2) by (simp add: rendered_lines_Cons)
  have page: "numbered_from code from_line = numbered_loop MAX_NUMBERED_BYTES from_line lines ?r"
    using assms rest more(2) by (simp add: numbered_from_def numbered_from_with_limit_def Let_def)
  have "length lines = length (content_lines code) - from_line" using more(1) by auto
  moreover have "drop (from_line + shown) (content_lines code) = drop shown lines"
    unfolding more(1) [symmetric] by (simp add: add.commute)
  moreover have "join newline (rendered_lines (from_line - 1) (take (Suc shown) ?rest))
      = concat (?r # map (\<lambda>r. newline @ r) (rendered_lines from_line (take shown lines)))"
    unfolding whole by (rule join_newlines [symmetric])
  moreover have "from_line - 1 + Suc shown = from_line + shown" using assms(2) by simp
  ultimately show ?thesis
    using shown assms unfolding page by (intro exI [of _ "Suc shown"]) (simp only:, auto)
qed

lemma a_page_shows_lines_and_names_the_rest_witness:
  "\<exists>shown. 0 < shown \<and> (2::nat) - 1 + shown \<le> length (content_lines (''a'' @ newline @ ''b''))
    \<and> numbered_from (''a'' @ newline @ ''b'') 2
      = join newline (rendered_lines (2 - 1) (take shown (drop (2 - 1) (content_lines (''a'' @ newline @ ''b'')))))
        @ page_end (2 - 1 + shown) (drop (2 - 1 + shown) (content_lines (''a'' @ newline @ ''b'')))
    \<and> (shown = 1 \<or> length (join newline (rendered_lines (2 - 1)
            (take shown (drop (2 - 1) (content_lines (''a'' @ newline @ ''b'')))))) \<le> MAX_NUMBERED_BYTES)"
  by (rule a_page_shows_lines_and_names_the_rest)
    (simp_all add: content_lines_def newline_def blank_line_def str_trim_def is_whitespace_def is_cont_def)

end
