(* ===== verification/Interview.thy ===== *)
theory Interview
  imports Ledger_Correct Code_Change Integrity_Correct Timer Transcript Modes Material
begin

text \<open>
  The state of a running interview: \<open>RuntimeState\<close> of \<open>src/src/agent.rs\<close>, the readers of it in
  \<open>src/src/agent/code_work.rs\<close>, and the evidence recorded into it in \<open>src/src/agent/framework.rs\<close>.

  The fields of \<open>RuntimeState\<close> are grouped into records: the plan, which never changes, the rounds,
  the thinking hold, the editor, the test runs and the phase judge.  Left out are the fields no
  modelled function reads (what was published to the page, the board's counters, the compression
  window).  An \<open>Instant\<close> is the number of nanoseconds since \<open>started_at\<close>, and \<open>Instant::now\<close> and the
  epoch clock are arguments.  What is not code of this repository is the record \<open>outside\<close>.
\<close>

record outside =
  ou_sha :: "string \<Rightarrow> string"
  ou_fmt :: "64 word \<Rightarrow> string"
  ou_to_int :: "json \<Rightarrow> int option"
  ou_parse :: parser
  ou_alphabetic :: "string \<Rightarrow> bool"
  ou_alphanumeric :: "string \<Rightarrow> bool"
  ou_lower :: "string \<Rightarrow> string"
  ou_from_str :: "string \<Rightarrow> json option"

section \<open>Evidence of the framework\<close>

datatype framework_phase =
    RepeatPhase | ExamplePhase | AlgorithmPhase | CodingPhase | TestPhase | OptimizationsPhase
  | SituationPhase | TaskPhase | ActionPhase | ResultPhase

definition is_star_phase :: "framework_phase \<Rightarrow> bool" where
  "is_star_phase phase \<longleftrightarrow> phase \<in> {SituationPhase, TaskPhase, ActionPhase, ResultPhase}"

definition needs_code :: "framework_phase \<Rightarrow> bool" where
  "needs_code phase \<longleftrightarrow> phase \<in> {CodingPhase, TestPhase, OptimizationsPhase}"

datatype evidence_source = CandidateSpeech | EditorSnapshot | BoardSnapshot | TestEvent | SessionTiming
datatype evidence_kind = Observed | Inferred | Skipped

record framework_evidence =
  fe_at_ms :: nat
  fe_phase :: framework_phase
  fe_source :: evidence_source
  fe_kind :: evidence_kind
  fe_confidence :: nat
  fe_summary :: string
  fe_version :: nat

definition FRAMEWORK_VERSION :: nat where "FRAMEWORK_VERSION = 1"
definition MAX_FRAMEWORK_EVIDENCE :: nat where "MAX_FRAMEWORK_EVIDENCE = 64"
definition MAX_FRAMEWORK_SUMMARY_CHARS :: nat where "MAX_FRAMEWORK_SUMMARY_CHARS = 240"

fun phase_id :: "framework_phase \<Rightarrow> string" where
  "phase_id RepeatPhase = ''repeat''"
| "phase_id ExamplePhase = ''example''"
| "phase_id AlgorithmPhase = ''algorithm''"
| "phase_id CodingPhase = ''coding''"
| "phase_id TestPhase = ''test''"
| "phase_id OptimizationsPhase = ''optimizations''"
| "phase_id SituationPhase = ''situation''"
| "phase_id TaskPhase = ''task''"
| "phase_id ActionPhase = ''action''"
| "phase_id ResultPhase = ''result''"

fun evidence_source_id :: "evidence_source \<Rightarrow> string" where
  "evidence_source_id CandidateSpeech = ''candidate_speech''"
| "evidence_source_id EditorSnapshot = ''editor_snapshot''"
| "evidence_source_id BoardSnapshot = ''board_snapshot''"
| "evidence_source_id TestEvent = ''test_event''"
| "evidence_source_id SessionTiming = ''session_timing''"

fun evidence_kind_id :: "evidence_kind \<Rightarrow> string" where
  "evidence_kind_id Observed = ''observed''"
| "evidence_kind_id Inferred = ''inferred''"
| "evidence_kind_id Skipped = ''skipped''"

definition REACTO_PHASE_IDS :: "string list" where
  "REACTO_PHASE_IDS = [''repeat'', ''example'', ''algorithm'', ''coding'', ''test'', ''optimizations'']"
definition STAR_PHASE_IDS :: "string list" where
  "STAR_PHASE_IDS = [''situation'', ''task'', ''action'', ''result'']"

definition framework_evidence_json :: "framework_evidence \<Rightarrow> json" where
  "framework_evidence_json e = JObj
     [(''atMs'', JInt (int (fe_at_ms e))), (''phase'', JStr (phase_id (fe_phase e))),
      (''source'', JStr (evidence_source_id (fe_source e))), (''kind'', JStr (evidence_kind_id (fe_kind e))),
      (''confidence'', JInt (int (fe_confidence e))), (''summary'', JStr (fe_summary e)),
      (''frameworkVersion'', JInt (int (fe_version e)))]"

text \<open>Which observation the cap gives up: one whose phase another row still covers.\<close>

definition expendable :: "framework_evidence list \<Rightarrow> nat \<Rightarrow> bool" where
  "expendable rows index =
     list_ex (\<lambda>other. other \<noteq> index \<and> fe_phase (rows ! other) = fe_phase (rows ! index)
         \<and> (fe_kind (rows ! index) = Skipped \<or> fe_kind (rows ! other) \<noteq> Skipped))
       [0..<length rows]"

definition evict_one_observation :: "framework_evidence list \<Rightarrow> framework_evidence list" where
  "evict_one_observation rows =
     (let doomed = (case List.find (expendable rows) [0..<length rows] of Some index \<Rightarrow> index | None \<Rightarrow> 0)
      in take doomed rows @ drop (Suc doomed) rows)"

section \<open>The state\<close>

record interview_plan =
  pl_loop :: interview_loop
  pl_mode :: interview_mode
  pl_code_execution_disabled :: bool
  pl_example_drawing_enabled :: bool
  pl_coding_minutes :: nat
  pl_behavioral_minutes :: nat
  pl_hint_ladder :: "string list"
  pl_follow_ups :: "string list"

record round_state =
  rd_transition_seen :: bool
  rd_time_warning_seen :: bool
  rd_started :: bool
  rd_transcript_start :: nat
  rd_prior_turn :: "(nat \<times> string) option"

datatype thinking_hold = Off | Requested nat | Held nat

record thinking_state =
  th_hold :: thinking_hold
  th_released_at :: "nat option"
  th_notice :: "bool option"
  th_unheard_reply :: bool
  th_recovery_reply_pending :: bool
  th_needs_cold_brief :: bool
  th_owed_reply :: "string option option"

record editor_state =
  ed_code :: string
  ed_last_parseable :: "(string, string) btree"
  ed_parse_cache :: parse_cache
  ed_budget_full_at_ms :: nat
  ed_edited :: bool
  ed_templates :: "(string, string) btree"
  ed_language :: string
  ed_language_chosen :: bool
  ed_shown :: string

text \<open>What a recorded complexity analysis describes.\<close>

datatype analysis = AwaitingRun | AnalysisOf tested_code

record runs_state =
  ru_last :: "json option"
  ru_last_code :: "tested_code option"
  ru_count :: nat
  ru_tested_code :: "tested_code option"
  ru_tested_passed :: "bool option"
  ru_analysis :: "analysis option"
  ru_unavailable :: "string option"

datatype judge_due = NotDue | SpokenDue | EditorOnlyDue

record judge_state =
  jd_lines :: nat
  jd_last_turn :: string
  jd_round_from :: nat
  jd_code :: string
  jd_language :: string
  jd_for :: judge_due
  jd_star_declined :: bool

record runtime_state =
  rs_plan :: interview_plan
  rs_round :: round_state
  rs_thinking :: thinking_state
  rs_editor :: editor_state
  rs_runs :: runs_state
  rs_judge :: judge_state
  rs_evidence :: "framework_evidence list"
  rs_ledger :: evidence_ledger
  rs_board_drawn :: bool
  rs_transcript :: "string list"
  rs_hints_used :: nat
  rs_volunteered_hints :: nat
  rs_rungs_given :: nat
  rs_integrity :: integrity_state
  rs_interim_notes :: "string list"
  rs_earlier_named :: "string list"
  rs_earlier_pending :: "string list"
  rs_end_requested :: bool
  rs_ended :: bool

definition default_plan :: interview_plan where
  "default_plan = \<lparr>pl_loop = CodingBehavioral, pl_mode = Coding, pl_code_execution_disabled = False,
     pl_example_drawing_enabled = False, pl_coding_minutes = 37, pl_behavioral_minutes = 8, pl_hint_ladder = [],
     pl_follow_ups = []\<rparr>"

definition default_state :: runtime_state where
  "default_state = \<lparr>rs_plan = default_plan,
     rs_round = \<lparr>rd_transition_seen = False, rd_time_warning_seen = False, rd_started = False,
       rd_transcript_start = 0, rd_prior_turn = None\<rparr>,
     rs_thinking = \<lparr>th_hold = Off, th_released_at = None, th_notice = None, th_unheard_reply = False,
       th_recovery_reply_pending = False, th_needs_cold_brief = False, th_owed_reply = None\<rparr>,
     rs_editor = \<lparr>ed_code = [], ed_last_parseable = [], ed_parse_cache = None, ed_budget_full_at_ms = 0,
       ed_edited = False, ed_templates = [], ed_language = ''python'', ed_language_chosen = False, ed_shown = []\<rparr>,
     rs_runs = \<lparr>ru_last = None, ru_last_code = None, ru_count = 0, ru_tested_code = None, ru_tested_passed = None,
       ru_analysis = None, ru_unavailable = None\<rparr>,
     rs_judge = \<lparr>jd_lines = 0, jd_last_turn = [], jd_round_from = 0, jd_code = [], jd_language = [],
       jd_for = NotDue, jd_star_declined = False\<rparr>,
     rs_evidence = [], rs_ledger = ledger_default, rs_board_drawn = False, rs_transcript = [], rs_hints_used = 0,
     rs_volunteered_hints = 0, rs_rungs_given = 0, rs_integrity = integrity_default, rs_interim_notes = [],
     rs_earlier_named = [], rs_earlier_pending = [], rs_end_requested = False, rs_ended = False\<rparr>"

definition for_problem :: "string list \<Rightarrow> string list \<Rightarrow> (string \<times> string) list \<Rightarrow> runtime_state" where
  "for_problem ladder follow_ups starters = default_state
     \<lparr>rs_plan := default_plan\<lparr>pl_hint_ladder := ladder, pl_follow_ups := follow_ups\<rparr>,
      rs_editor := (rs_editor default_state)\<lparr>ed_templates := fold (\<lambda>(language, code). bt_insert language code) starters []\<rparr>,
      rs_ledger := set_uncovered_coverage REACTO_PHASE_IDS ledger_default\<rparr>"

definition nanos_per_ms :: nat where "nanos_per_ms = 1000000"
definition nanos_per_s :: nat where "nanos_per_s = 1000000000"

definition elapsed_ms :: "nat \<Rightarrow> nat" where
  "elapsed_ms now = min (now div nanos_per_ms) u64_max"

definition time_left :: "nat \<Rightarrow> runtime_state \<Rightarrow> int" where
  "time_left now s = minutes_left (pl_coding_minutes (rs_plan s)) (pl_behavioral_minutes (rs_plan s)) (now div nanos_per_s)"

definition evidence_tool_declared :: "interview_mode \<Rightarrow> bool" where
  "evidence_tool_declared mode = is_whiteboard mode"

section \<open>What the candidate has written and run\<close>

definition starter_of :: "runtime_state \<Rightarrow> string \<Rightarrow> string" where
  "starter_of s language = (case map_of (ed_templates (rs_editor s)) language of None \<Rightarrow> [] | Some code \<Rightarrow> code)"

definition written_in :: "runtime_state \<Rightarrow> string \<Rightarrow> string \<Rightarrow> bool" where
  "written_in s language code = (written_beyond (starter_of s language) code = Some True)"

definition code_written :: "runtime_state \<Rightarrow> bool" where
  "code_written s = written_in s (ed_language (rs_editor s)) (ed_code (rs_editor s))"

definition code_untouched :: "runtime_state \<Rightarrow> bool" where
  "code_untouched s \<longleftrightarrow> content_chars (ed_code (rs_editor s)) = []
     \<or> content_chars (ed_code (rs_editor s)) = content_chars (starter_of s (ed_language (rs_editor s)))"

definition written_work :: "runtime_state \<Rightarrow> bool" where
  "written_work s = (case pl_mode (rs_plan s) of Coding \<Rightarrow> code_written s | Whiteboard \<Rightarrow> rs_board_drawn s)"

definition runner_unavailable_on_screen :: "runtime_state \<Rightarrow> bool" where
  "runner_unavailable_on_screen s = (ru_unavailable (rs_runs s) = Some (ed_language (rs_editor s)))"

definition tested_code_is_current :: "runtime_state \<Rightarrow> bool" where
  "tested_code_is_current s =
     (case ru_tested_code (rs_runs s) of None \<Rightarrow> False
      | Some tested \<Rightarrow> covers tested (ed_language (rs_editor s)) (ed_code (rs_editor s)))"

definition on_screen :: "runtime_state \<Rightarrow> tested_code" where
  "on_screen s = \<lparr>tc_language = ed_language (rs_editor s), tc_code = ed_code (rs_editor s)\<rparr>"

definition tested_code_is_exact :: "runtime_state \<Rightarrow> bool" where
  "tested_code_is_exact s = (ru_tested_code (rs_runs s) = Some (on_screen s))"

definition latest_test_report_is_exact :: "runtime_state \<Rightarrow> bool" where
  "latest_test_report_is_exact s =
     (ru_last (rs_runs s) \<noteq> None \<and> ru_last_code (rs_runs s) = Some (on_screen s))"

definition latest_test_report_provenance_note :: "runtime_state \<Rightarrow> string option" where
  "latest_test_report_provenance_note s =
     (if is_whiteboard (pl_mode (rs_plan s)) \<or> pl_code_execution_disabled (rs_plan s)
         \<or> ru_last (rs_runs s) = None \<or> latest_test_report_is_exact s then None
      else if ru_last_code (rs_runs s) \<noteq> None
      then Some ''The displayed browser report belongs to different source or language. Its outcome does not establish whether the current editor code passes or fails.''
      else Some ''The displayed browser report has no recorded source provenance. Its outcome does not establish whether the current editor code passes or fails.'')"

definition editor_update_execution_status :: "runtime_state \<Rightarrow> string" where
  "editor_update_execution_status s =
     (if pl_code_execution_disabled (rs_plan s)
      then ''Execution is disabled. Verify with hand traces, not a new test run.''
      else if latest_test_report_is_exact s
      then ''The latest browser report belongs to this exact source and language; use only its recorded outcome. This update is not a new run.''
      else ''This update ran no tests. Do not assume earlier failures or passes describe this code.'')"

definition shown_excerpt :: "runtime_state \<Rightarrow> string option" where
  "shown_excerpt s = changed_excerpt (ed_language (rs_editor s)) (ed_shown (rs_editor s)) (ed_code (rs_editor s))"

definition editor_update_body :: "runtime_state \<Rightarrow> string option" where
  "editor_update_body s = map_option (\<lambda>excerpt. excerpt @ newline @ editor_update_execution_status s) (shown_excerpt s)"

datatype test_source = RunSource | TraceSource | NeitherSource | BoardSource

definition test_source_of :: "runtime_state \<Rightarrow> test_source" where
  "test_source_of s =
     (if is_whiteboard (pl_mode (rs_plan s)) then BoardSource
      else if pl_code_execution_disabled (rs_plan s) then TraceSource
      else if tested_code_is_current s then RunSource
      else if runner_unavailable_on_screen s then TraceSource
      else NeitherSource)"

definition phases_evidenced :: "runtime_state \<Rightarrow> framework_phase list \<Rightarrow> bool" where
  "phases_evidenced s phases =
     list_all (\<lambda>phase. list_ex (\<lambda>item. fe_phase item = phase \<and> fe_kind item \<noteq> Skipped) (rs_evidence s)) phases"

definition test_recordable :: "runtime_state \<Rightarrow> bool" where
  "test_recordable s \<longleftrightarrow> \<not> phases_evidenced s [TestPhase] \<and> test_source_of s = RunSource \<and> code_written s"

datatype test_record = RecordTest | RunAgain | Settled

definition test_record_after_run :: "runtime_state \<Rightarrow> bool \<Rightarrow> test_record" where
  "test_record_after_run s credited =
     (if \<not> credited then Settled
      else if test_recordable s then RecordTest
      else if \<not> phases_evidenced s [TestPhase] \<and> code_written s then RunAgain
      else Settled)"

definition anchor_analysis :: "runtime_state \<Rightarrow> runtime_state" where
  "anchor_analysis s =
     s\<lparr>rs_runs := (rs_runs s)\<lparr>ru_analysis :=
         Some (if tested_code_is_current s then AnalysisOf (on_screen s) else AwaitingRun)\<rparr>\<rparr>"

definition real_test_run :: "json \<Rightarrow> bool" where
  "real_test_run run \<longleftrightarrow> \<not> run_failed_to_start run
     \<and> (case Option.bind (json_get run ''total'') json_as_i64 of None \<Rightarrow> False | Some n \<Rightarrow> n > 0)"

section \<open>Reading the framework back\<close>

definition coding_round_complete :: "runtime_state \<Rightarrow> bool" where
  "coding_round_complete s = phases_evidenced s [TestPhase, OptimizationsPhase]"

definition coding_continues_past_gate :: "runtime_state \<Rightarrow> bool" where
  "coding_continues_past_gate s \<longleftrightarrow> pl_loop (rs_plan s) = CodingOnly \<and> coding_round_complete s"

definition framework_progress :: "runtime_state \<Rightarrow> string list" where
  "framework_progress s =
     foldl (\<lambda>phases e. if fe_kind e = Skipped \<or> phase_id (fe_phase e) \<in> set phases then phases
                       else phases @ [phase_id (fe_phase e)]) [] (rs_evidence s)"

section \<open>Recording evidence\<close>

datatype record_outcome = Added | AlreadyHeld | TestAlreadyRecorded

datatype evidence_refusal =
    InvalidPhase | InvalidSource | InvalidKind | TimingIsForSkips | RoundNotStarted | DrawingIsNoEvidence
  | NoEditorAtBoard | InvalidConfidence | InvalidSummary | LatestTurnUnrecognized | NoCodeWritten | NoWorkDrawn
  | TestComesFromRun | TestComesFromTrace bool | TestNeedsRun

definition phase_named :: "string option \<Rightarrow> framework_phase option" where
  "phase_named wire = Option.bind wire (map_of
     [(''repeat'', RepeatPhase), (''example'', ExamplePhase), (''algorithm'', AlgorithmPhase), (''coding'', CodingPhase),
      (''test'', TestPhase), (''optimizations'', OptimizationsPhase), (''situation'', SituationPhase),
      (''task'', TaskPhase), (''action'', ActionPhase), (''result'', ResultPhase)])"

definition source_named :: "string option \<Rightarrow> evidence_source option" where
  "source_named wire = Option.bind wire (map_of
     [(''candidate_speech'', CandidateSpeech), (''editor_snapshot'', EditorSnapshot), (''board_snapshot'', BoardSnapshot),
      (''test_event'', TestEvent), (''session_timing'', SessionTiming)])"

definition kind_named :: "string option \<Rightarrow> evidence_kind option" where
  "kind_named wire = Option.bind wire (map_of
     [(''observed'', Observed), (''inferred'', Inferred), (''skipped'', Skipped)])"

fun refusal_text :: "evidence_refusal \<Rightarrow> string" where
  "refusal_text InvalidPhase = ''invalid phase''"
| "refusal_text InvalidSource = ''invalid source''"
| "refusal_text InvalidKind = ''invalid kind''"
| "refusal_text TimingIsForSkips = ''session_timing is only valid for skipped evidence''"
| "refusal_text RoundNotStarted =
     ''the behavioral round has not started; do not ask behavioral questions or record STAR evidence before the trusted round-start event, and return to the coding round''"
| "refusal_text DrawingIsNoEvidence = ''example drawings are explanation aids, not coding assessment evidence''"
| "refusal_text NoEditorAtBoard =
     ''this interview has no editor and no test runner; record what you saw on the board as board_snapshot''"
| "refusal_text InvalidConfidence = ''invalid confidence''"
| "refusal_text InvalidSummary = ''invalid summary''"
| "refusal_text LatestTurnUnrecognized =
     ''the candidate's latest turn was not recognized as English; ask them to repeat it, and record speech evidence from their clarified answer''"
| "refusal_text NoCodeWritten =
     ''coding, test and optimizations need code the candidate has written in the editor; read_editor shows none yet''"
| "refusal_text NoWorkDrawn =
     ''coding, test and optimizations need work the candidate has drawn on the board; read_board shows none yet''"
| "refusal_text TestComesFromRun = ''record Test with source test_event: it is the run's evidence''"
| "refusal_text (TestComesFromTrace disabled) =
     (if disabled
      then ''code execution is disabled, so record Test from a hand trace with source candidate_speech''
      else ''the runner cannot provide tests, so Test is recorded from the candidate's hand trace, with source candidate_speech'')"
| "refusal_text TestNeedsRun =
     ''test evidence requires a received run with executed cases of the code now in the editor; ask the candidate to click Run; the platform records Test when qualifying results arrive''"

record evidence_claim =
  cl_phase :: framework_phase
  cl_source :: evidence_source
  cl_kind :: evidence_kind
  cl_confidence :: nat
  cl_summary :: string

definition claimed_names :: "json \<Rightarrow> evidence_refusal + (framework_phase \<times> evidence_source \<times> evidence_kind)" where
  "claimed_names args =
     (case phase_named (event_str args ''phase'') of None \<Rightarrow> Inl InvalidPhase
      | Some phase \<Rightarrow>
     (case source_named (event_str args ''source'') of None \<Rightarrow> Inl InvalidSource
      | Some source \<Rightarrow>
     (case kind_named (event_str args ''kind'') of None \<Rightarrow> Inl InvalidKind
      | Some kind \<Rightarrow> Inr (phase, source, kind))))"

text \<open>What a claim of this phase, source and kind is refused for before its text is read.\<close>

definition claim_refused :: "runtime_state \<Rightarrow> framework_phase \<Rightarrow> evidence_source \<Rightarrow> evidence_kind \<Rightarrow> evidence_refusal option" where
  "claim_refused s phase source kind =
     (if (source = SessionTiming) \<noteq> (kind = Skipped) then Some TimingIsForSkips
      else if is_star_phase phase \<and> \<not> rd_started (rs_round s) then Some RoundNotStarted
      else if pl_mode (rs_plan s) = Coding \<and> source = BoardSnapshot then Some DrawingIsNoEvidence
      else if pl_mode (rs_plan s) = Whiteboard \<and> source \<in> {EditorSnapshot, TestEvent} then Some NoEditorAtBoard
      else None)"

definition claimed_confidence :: "outside \<Rightarrow> json \<Rightarrow> nat option" where
  "claimed_confidence ou args =
     (case Option.bind (json_get args ''confidence'') (ou_to_int ou) of
        None \<Rightarrow> None
      | Some n \<Rightarrow> if 0 \<le> n \<and> n \<le> 100 then Some (nat n) else None)"

definition claimed_summary :: "json \<Rightarrow> string option" where
  "claimed_summary args =
     (case event_str args ''summary'' of
        None \<Rightarrow> None
      | Some summary \<Rightarrow>
          if str_trim summary = [] then None
          else Some (bounded_model_text (str_trim summary) MAX_FRAMEWORK_SUMMARY_CHARS))"

definition latest_turn_unrecognized :: "outside \<Rightarrow> runtime_state \<Rightarrow> bool" where
  "latest_turn_unrecognized ou s =
     (case List.find (starts_with (CANDIDATE_SPEAKER @ '': '')) (rev (rs_transcript s)) of
        None \<Rightarrow> False
      | Some line \<Rightarrow> is_unrecognized_turn (ou_alphabetic ou) line)"

definition read_claim :: "outside \<Rightarrow> json \<Rightarrow> bool \<Rightarrow> runtime_state \<Rightarrow> evidence_refusal + evidence_claim" where
  "read_claim ou args quote_verified s =
     (case claimed_names args of Inl e \<Rightarrow> Inl e
      | Inr (phase, source, kind) \<Rightarrow>
     (case claim_refused s phase source kind of Some e \<Rightarrow> Inl e
      | None \<Rightarrow>
     (case claimed_confidence ou args of None \<Rightarrow> Inl InvalidConfidence
      | Some confidence \<Rightarrow>
     (case claimed_summary args of None \<Rightarrow> Inl InvalidSummary
      | Some summary \<Rightarrow>
          if source = CandidateSpeech \<and> kind \<noteq> Skipped \<and> \<not> quote_verified \<and> latest_turn_unrecognized ou s
          then Inl LatestTurnUnrecognized
          else Inr \<lparr>cl_phase = phase, cl_source = source, cl_kind = kind, cl_confidence = confidence,
                 cl_summary = summary\<rparr>))))"

definition append_framework_evidence ::
  "nat \<Rightarrow> nat \<Rightarrow> evidence_claim \<Rightarrow> runtime_state \<Rightarrow> framework_evidence \<times> runtime_state" where
  "append_framework_evidence now receipt c s =
     (let rows = (if length (rs_evidence s) = MAX_FRAMEWORK_EVIDENCE then evict_one_observation (rs_evidence s)
                  else rs_evidence s);
          evidence = \<lparr>fe_at_ms = elapsed_ms now, fe_phase = cl_phase c, fe_source = cl_source c, fe_kind = cl_kind c,
            fe_confidence = cl_confidence c, fe_summary = cl_summary c, fe_version = FRAMEWORK_VERSION\<rparr>
      in (evidence, s\<lparr>rs_evidence := rows @ [evidence],
            rs_ledger := (if cl_kind c \<noteq> Skipped then record_coverage receipt (phase_id (cl_phase c)) (rs_ledger s)
                          else rs_ledger s)\<rparr>))"

definition held_test_event :: "runtime_state \<Rightarrow> evidence_claim \<Rightarrow> framework_evidence option" where
  "held_test_event s c =
     (if cl_phase c = TestPhase \<and> cl_source c = TestEvent \<and> cl_kind c \<noteq> Skipped
      then List.find (\<lambda>item. fe_phase item = TestPhase \<and> fe_source item = TestEvent \<and> fe_kind item \<noteq> Skipped)
             (rs_evidence s)
      else None)"

definition held_row :: "runtime_state \<Rightarrow> evidence_claim \<Rightarrow> framework_evidence option" where
  "held_row s c = List.find (\<lambda>item. fe_phase item = cl_phase c \<and> fe_source item = cl_source c
       \<and> fe_kind item = cl_kind c \<and> fe_summary item = cl_summary c) (rs_evidence s)"

definition test_refused :: "runtime_state \<Rightarrow> evidence_claim \<Rightarrow> evidence_refusal option" where
  "test_refused s c =
     (if cl_phase c \<noteq> TestPhase \<or> cl_kind c = Skipped then None
      else (case test_source_of s of
              RunSource \<Rightarrow> if cl_source c \<noteq> TestEvent then Some TestComesFromRun else None
            | TraceSource \<Rightarrow>
                if cl_source c \<noteq> CandidateSpeech then Some (TestComesFromTrace (pl_code_execution_disabled (rs_plan s)))
                else None
            | NeitherSource \<Rightarrow> Some TestNeedsRun
            | BoardSource \<Rightarrow> None))"

definition record_claim ::
  "nat \<Rightarrow> nat \<Rightarrow> evidence_claim \<Rightarrow> runtime_state
     \<Rightarrow> (evidence_refusal + (framework_evidence \<times> record_outcome)) \<times> runtime_state" where
  "record_claim now receipt c s =
     (case held_test_event s c of Some existing \<Rightarrow> (Inr (existing, TestAlreadyRecorded), s)
      | None \<Rightarrow>
          if needs_code (cl_phase c) \<and> cl_kind c \<noteq> Skipped \<and> \<not> written_work s
          then (Inl (case pl_mode (rs_plan s) of Coding \<Rightarrow> NoCodeWritten | Whiteboard \<Rightarrow> NoWorkDrawn), s)
          else let s = (if cl_phase c = OptimizationsPhase \<and> cl_kind c \<noteq> Skipped then anchor_analysis s else s)
               in case held_row s c of Some existing \<Rightarrow> (Inr (existing, AlreadyHeld), s)
                  | None \<Rightarrow>
                      (case test_refused s c of Some e \<Rightarrow> (Inl e, s)
                       | None \<Rightarrow>
                           let (evidence, s) = append_framework_evidence now receipt c s
                           in (Inr (evidence, Added), s)))"

definition record_evidence ::
  "outside \<Rightarrow> nat \<Rightarrow> nat \<Rightarrow> json \<Rightarrow> bool \<Rightarrow> runtime_state
     \<Rightarrow> (evidence_refusal + (framework_evidence \<times> record_outcome)) \<times> runtime_state" where
  "record_evidence ou now receipt args quote_verified s =
     (case read_claim ou args quote_verified s of Inl e \<Rightarrow> (Inl e, s) | Inr c \<Rightarrow> record_claim now receipt c s)"

definition record_framework_evidence_outcome ::
  "outside \<Rightarrow> nat \<Rightarrow> nat \<Rightarrow> json \<Rightarrow> runtime_state
     \<Rightarrow> (evidence_refusal + (framework_evidence \<times> record_outcome)) \<times> runtime_state" where
  "record_framework_evidence_outcome ou now receipt args s = record_evidence ou now receipt args False s"

definition RECEIVED_TEST_SUMMARY :: string where
  "RECEIVED_TEST_SUMMARY = ''Browser reported executed test cases for the candidate'' @ [CHR 0x27] @ ''s current code; results are unverified.''"

definition reconcile_received_test :: "nat \<Rightarrow> nat \<Rightarrow> runtime_state \<Rightarrow> framework_evidence option \<times> runtime_state" where
  "reconcile_received_test now receipt s =
     (if \<not> rs_ended s \<and> test_recordable s
      then let (evidence, s) = append_framework_evidence now receipt
             \<lparr>cl_phase = TestPhase, cl_source = TestEvent, cl_kind = Observed, cl_confidence = 100,
              cl_summary = RECEIVED_TEST_SUMMARY\<rparr> s
           in (Some evidence, s)
      else (None, s))"

definition skip_phase :: "nat \<Rightarrow> string \<Rightarrow> framework_phase \<Rightarrow> framework_evidence list \<Rightarrow> framework_evidence list" where
  "skip_phase at_ms summary phase rows =
     (if list_ex (\<lambda>item. fe_phase item = phase) rows then rows
      else (if length rows = MAX_FRAMEWORK_EVIDENCE then evict_one_observation rows else rows)
           @ [\<lparr>fe_at_ms = at_ms, fe_phase = phase, fe_source = SessionTiming, fe_kind = Skipped, fe_confidence = 100,
               fe_summary = summary, fe_version = FRAMEWORK_VERSION\<rparr>])"

definition skip_unassessed_star :: "nat \<Rightarrow> string \<Rightarrow> runtime_state \<Rightarrow> runtime_state" where
  "skip_unassessed_star now summary s =
     (if pl_loop (rs_plan s) = CodingOnly then s
      else s\<lparr>rs_evidence := fold (skip_phase (elapsed_ms now) summary)
               [SituationPhase, TaskPhase, ActionPhase, ResultPhase] (rs_evidence s)\<rparr>)"

section \<open>Hints\<close>

definition approach_stated :: "runtime_state \<Rightarrow> bool" where
  "approach_stated s \<longleftrightarrow> list_ex (\<lambda>item. fe_phase item = AlgorithmPhase \<and> fe_kind item = Observed) (rs_evidence s)
     \<or> phases_evidenced s [CodingPhase]"

definition next_clue :: "bool \<Rightarrow> runtime_state \<Rightarrow> string option" where
  "next_clue requested s =
     (if requested \<and> rs_rungs_given s < length (pl_hint_ladder (rs_plan s))
      then Some (pl_hint_ladder (rs_plan s) ! rs_rungs_given s) else None)"

definition sat_add32 :: "nat \<Rightarrow> nat \<Rightarrow> nat" where
  "sat_add32 m n = min (m + n) u32_max"

definition give_hint :: "nat \<Rightarrow> bool \<Rightarrow> runtime_state \<Rightarrow> string \<times> runtime_state" where
  "give_hint receipt requested s =
     (let clue = next_clue requested s
      in if clue \<noteq> None \<and> rs_rungs_given s + 1 = length (pl_hint_ladder (rs_plan s)) \<and> \<not> approach_stated s
         then (hint_rung_withheld_text (rs_hints_used s),
               s\<lparr>rs_ledger := record_hint receipt requested False (rs_ledger s)\<rparr>)
         else
           let s = (if requested then s else s\<lparr>rs_volunteered_hints := sat_add32 (rs_volunteered_hints s) 1\<rparr>);
               s = s\<lparr>rs_hints_used := sat_add32 (rs_hints_used s) 1\<rparr>
           in case clue of
                Some c \<Rightarrow>
                  (let s = s\<lparr>rs_rungs_given := rs_rungs_given s + 1,
                            rs_ledger := record_hint receipt requested True (rs_ledger s)\<rparr>
                   in (hint_rung_text (rs_hints_used s) (rs_rungs_given s) c, s))
              | None \<Rightarrow>
                  if requested
                  then (hint_ladder_used_text (rs_hints_used s),
                        s\<lparr>rs_ledger := record_hint receipt requested False (rs_ledger s)\<rparr>)
                  else (log_hint_text (rs_hints_used s),
                        s\<lparr>rs_ledger := record_hint receipt requested True (rs_ledger s)\<rparr>))"

end
