(* ===== verification/Thinking.thy ===== *)
theory Thinking
  imports Interview
begin

text \<open>
  \<open>src/src/agent/turn_taking.rs\<close>: what counts as a candidate asking for time to think, and the hold
  that keeps the interviewer quiet while they do.  A word list is matched on the words of the
  transcript; \<open>alnum\<close> is \<open>char::is_alphanumeric\<close>.  A prompt is the list of its parts, each named
  after the function or constant that words it.
\<close>

section \<open>Asking aloud\<close>

definition FILLERS :: "string list" where
  "FILLERS = [''hmm'', ''hm'', ''um'', ''uh'', ''erm'', ''ah'', ''okay'', ''ok'', ''well'', ''so'', ''right'', ''yeah'']"

definition TRAILING_WORDS :: nat where "TRAILING_WORDS = 16"

definition LEAD_INS :: "string list" where
  "LEAD_INS = [''please'', ''just'', ''and'', ''but'', ''now'', ''then'', ''actually'', ''sorry'', ''oh'']"

definition ASKS :: "string list" where
  "ASKS = [''can you'', ''could you'', ''would you'', ''will you'']"

definition PHRASES :: "string list" where
  "PHRASES = [''let me think'', ''let me see'', ''i need to think'', ''i need time to think'']"

definition SHORT_PHRASES :: "string list" where
  "SHORT_PHRASES = [''hold on'', ''one moment'', ''one second'', ''one sec'', ''just a moment'', ''just a second'', ''wait'']"

definition STEMS :: "string list" where
  "STEMS = [''give me'', ''i need'', ''let me take'', ''can i have'', ''can i take'', ''can i get'', ''could i have'',
     ''could i take'', ''may i have'', ''may i take'']"

definition DURATIONS :: "string list" where
  "DURATIONS = [''some time'', ''some more time'', ''more time'', ''a moment'', ''a minute'', ''a second'', ''a sec'',
     ''a bit'', ''a bit more time'', ''a little time'', ''a little more time'', ''a few minutes'', ''a few seconds'',
     ''a couple of minutes'', ''a couple minutes'']"

definition TAILS :: "string list" where
  "TAILS = ['''', ''please'', ''a moment'', ''a minute'', ''a second'', ''a bit'', ''for a moment'', ''for a minute'',
     ''for a bit'', ''for a second'', ''about it'', ''about this'', ''about that'', ''it through'', ''this through'',
     ''to think'', ''to think about it'', ''to think this through'', ''to think for a moment'', ''to work this out'']"

definition OBJECTS :: "string list" where
  "OBJECTS = [''about it'', ''about this'', ''about that'']"

definition spoken_words :: "(string \<Rightarrow> bool) \<Rightarrow> string \<Rightarrow> string list" where
  "spoken_words alnum spoken = filter (\<lambda>w. w \<noteq> []) (str_split (\<lambda>ch. \<not> alnum ch \<and> ch \<noteq> [CHR 0x27]) spoken)"

definition resumes_after_thinking :: "(string \<Rightarrow> bool) \<Rightarrow> string \<Rightarrow> bool" where
  "resumes_after_thinking alnum spoken =
     list_ex (\<lambda>word. \<not> list_ex (\<lambda>filler. eq_ignore_ascii_case filler word) FILLERS) (spoken_words alnum spoken)"

definition is_lead_in :: "string \<Rightarrow> bool" where
  "is_lead_in word \<longleftrightarrow> word \<in> set FILLERS \<or> word \<in> set LEAD_INS"

fun strip_words :: "string list \<Rightarrow> string list \<Rightarrow> string list option" where
  "strip_words [] ws = Some ws"
| "strip_words (p # ps) [] = None"
| "strip_words (p # ps) (w # ws) = (if w = p then strip_words ps ws else None)"

definition strip_phrase :: "string \<Rightarrow> string list \<Rightarrow> string list option" where
  "strip_phrase phrase ws = strip_words (str_split (\<lambda>ch. ch = '' '') phrase) ws"

definition skip_lead_ins :: "string list \<Rightarrow> string list" where
  "skip_lead_ins ws = dropWhile is_lead_in ws"

definition is_prefix_of :: "string list \<Rightarrow> string list \<Rightarrow> bool" where
  "is_prefix_of ws parts \<longleftrightarrow> take (length ws) parts = ws"

definition is_tail :: "(string \<Rightarrow> bool) \<Rightarrow> string list \<Rightarrow> bool" where
  "is_tail alnum rest =
     (let rest = (if rest \<noteq> [] \<and> last rest = ''please'' then butlast rest else rest)
      in list_ex (\<lambda>rest. list_ex (\<lambda>tail. is_prefix_of rest (spoken_words alnum tail)) TAILS)
           (rest # List.map_filter (\<lambda>object. strip_phrase object rest) OBJECTS))"

definition first_of :: "('a \<Rightarrow> 'b option) \<Rightarrow> 'a list \<Rightarrow> 'b option" where
  "first_of f xs = (case List.map_filter f xs of [] \<Rightarrow> None | y # ys \<Rightarrow> Some y)"

definition request_rests :: "bool \<Rightarrow> string list \<Rightarrow> string list list" where
  "request_rests short ws =
     List.map_filter (\<lambda>phrase. strip_phrase phrase ws) (PHRASES @ (if short then SHORT_PHRASES else []))
     @ concat (map (\<lambda>rest. List.map_filter (\<lambda>duration. strip_phrase duration rest) DURATIONS)
         (List.map_filter (\<lambda>stem. strip_phrase stem ws) STEMS))"

definition is_request :: "(string \<Rightarrow> bool) \<Rightarrow> bool \<Rightarrow> string list \<Rightarrow> bool" where
  "is_request alnum short ws =
     (let ws = skip_lead_ins ws;
          ws = (case first_of (\<lambda>ask. strip_phrase ask ws) ASKS of Some rest \<Rightarrow> skip_lead_ins rest | None \<Rightarrow> ws);
          starts = (case strip_phrase ''wait'' ws of Some after_wait \<Rightarrow> [ws, after_wait] | None \<Rightarrow> [ws])
      in list_ex (\<lambda>ws. list_ex (is_tail alnum) (request_rests short ws)) starts)"

text \<open>\<open>while last().is_some_and(is_lead_in) pop()\<close>.\<close>

definition drop_last_lead_ins :: "string list \<Rightarrow> string list" where
  "drop_last_lead_ins ws = rev (dropWhile is_lead_in (rev ws))"

definition sentence_ends :: "string \<Rightarrow> bool" where
  "sentence_ends ch \<longleftrightarrow> ch = ''.'' \<or> ch = ''?'' \<or> ch = ''!''"

definition clause_ends :: "string \<Rightarrow> bool" where
  "clause_ends ch \<longleftrightarrow> ch = '','' \<or> ch = '';'' \<or> ch = '':''"

definition last_sentence :: "(string \<Rightarrow> bool) \<Rightarrow> string \<Rightarrow> string" where
  "last_sentence alnum spoken =
     (case List.find (\<lambda>sentence. \<not> list_all is_lead_in (spoken_words alnum sentence))
             (map (map ascii_lower) (rev (str_split sentence_ends spoken))) of
        Some sentence \<Rightarrow> sentence | None \<Rightarrow> [])"

definition last_clause :: "(string \<Rightarrow> bool) \<Rightarrow> string \<Rightarrow> string list" where
  "last_clause alnum sentence =
     (case List.find (\<lambda>clause. \<not> list_all is_lead_in clause)
             (map (spoken_words alnum) (rev (str_split clause_ends sentence))) of
        Some clause \<Rightarrow> drop_last_lead_ins clause | None \<Rightarrow> [])"

definition requests_thinking_time :: "(string \<Rightarrow> bool) \<Rightarrow> string \<Rightarrow> bool" where
  "requests_thinking_time alnum spoken =
     (let sentence_text = last_sentence alnum spoken;
          sentence = drop_last_lead_ins (spoken_words alnum sentence_text);
          trailing = drop (length sentence - TRAILING_WORDS) sentence
      in is_request alnum True sentence
         \<or> is_request alnum False (last_clause alnum sentence_text)
         \<or> list_ex (\<lambda>start. is_lead_in (trailing ! start) \<and> is_request alnum False (drop start trailing))
             [1..<length trailing])"

section \<open>The hold\<close>

definition THINKING_CHECK_IN_S :: nat where "THINKING_CHECK_IN_S = 120"
definition THINKING_RELEASE_COOLDOWN :: nat where "THINKING_RELEASE_COOLDOWN = 10 * nanos_per_s"
definition THINKING_REQUEST_SETTLE :: nat where "THINKING_REQUEST_SETTLE = 6 * nanos_per_s"

definition hold_is_active :: "thinking_hold \<Rightarrow> bool" where
  "hold_is_active hold \<longleftrightarrow> hold \<noteq> Off"

fun hold_is_requested :: "thinking_hold \<Rightarrow> bool" where
  "hold_is_requested (Requested since) = True"
| "hold_is_requested hold = False"

fun hold_is_declared :: "thinking_hold \<Rightarrow> bool" where
  "hold_is_declared (Held since) = True"
| "hold_is_declared hold = False"

fun thinking_change :: "(string \<Rightarrow> bool) \<Rightarrow> thinking_hold \<Rightarrow> string \<Rightarrow> bool option" where
  "thinking_change alnum Off spoken = (if requests_thinking_time alnum spoken then Some True else None)"
| "thinking_change alnum (Requested since) spoken = (if \<not> requests_thinking_time alnum spoken then Some False else None)"
| "thinking_change alnum (Held since) spoken =
     (if resumes_after_thinking alnum spoken \<and> \<not> requests_thinking_time alnum spoken then Some False else None)"

definition request_thinking :: "nat \<Rightarrow> runtime_state \<Rightarrow> runtime_state" where
  "request_thinking now s =
     (let s = (if th_hold (rs_thinking s) = Off
               then s\<lparr>rs_thinking := (rs_thinking s)\<lparr>th_hold := Requested now, th_released_at := None\<rparr>\<rparr> else s)
      in s\<lparr>rs_end_requested := False\<rparr>)"

definition declare_thinking :: "nat \<Rightarrow> nat \<Rightarrow> runtime_state \<Rightarrow> bool \<times> runtime_state" where
  "declare_thinking now receipt s =
     (let s = s\<lparr>rs_end_requested := False\<rparr>
      in if hold_is_declared (th_hold (rs_thinking s)) then (False, s)
         else (True, s\<lparr>rs_thinking := (rs_thinking s)\<lparr>th_hold := Held now, th_notice := Some True\<rparr>,
                       rs_ledger := record_lifecycle receipt ThinkingStarted (rs_ledger s)\<rparr>))"

definition end_thinking :: "nat \<Rightarrow> runtime_state \<Rightarrow> bool \<times> runtime_state" where
  "end_thinking receipt s =
     (let declared = hold_is_declared (th_hold (rs_thinking s));
          s = s\<lparr>rs_thinking := (rs_thinking s)\<lparr>th_hold := Off\<rparr>\<rparr>
      in (declared,
          if declared
          then s\<lparr>rs_thinking := (rs_thinking s)\<lparr>th_notice := Some False\<rparr>,
                 rs_ledger := record_lifecycle receipt ThinkingEnded (rs_ledger s)\<rparr>
          else s))"

definition claim_thinking_check_in :: "nat \<Rightarrow> nat \<Rightarrow> runtime_state \<Rightarrow> bool \<times> runtime_state" where
  "claim_thinking_check_in now receipt s =
     (case th_hold (rs_thinking s) of
        Held since \<Rightarrow>
          if rs_ended s \<or> now - since < THINKING_CHECK_IN_S * nanos_per_s then (False, s) else end_thinking receipt s
      | _ \<Rightarrow> (False, s))"

definition settle_stale_request :: "nat \<Rightarrow> nat \<Rightarrow> runtime_state \<Rightarrow> bool \<times> runtime_state" where
  "settle_stale_request now receipt s =
     (case th_hold (rs_thinking s) of
        Requested since \<Rightarrow>
          if rs_ended s \<or> now - since < THINKING_REQUEST_SETTLE then (False, s) else declare_thinking now receipt s
      | _ \<Rightarrow> (False, s))"

definition released_recently :: "nat \<Rightarrow> runtime_state \<Rightarrow> bool" where
  "released_recently now s =
     (case th_released_at (rs_thinking s) of None \<Rightarrow> False | Some at \<Rightarrow> now - at < THINKING_RELEASE_COOLDOWN)"

definition withdraw_thinking_request :: "runtime_state \<Rightarrow> bool \<times> runtime_state" where
  "withdraw_thinking_request s =
     (if \<not> hold_is_requested (th_hold (rs_thinking s)) then (False, s)
      else (True, s\<lparr>rs_thinking := (rs_thinking s)\<lparr>th_hold := Off\<rparr>\<rparr>))"

definition interviewer_silenced :: "runtime_state \<Rightarrow> bool" where
  "interviewer_silenced s = hold_is_active (th_hold (rs_thinking s))"

definition announce_thinking :: "runtime_state \<Rightarrow> runtime_state" where
  "announce_thinking s =
     s\<lparr>rs_thinking := (rs_thinking s)\<lparr>th_notice := Some (hold_is_declared (th_hold (rs_thinking s)))\<rparr>\<rparr>"

definition take_thinking_notice :: "runtime_state \<Rightarrow> bool option \<times> runtime_state" where
  "take_thinking_notice s = (th_notice (rs_thinking s), s\<lparr>rs_thinking := (rs_thinking s)\<lparr>th_notice := None\<rparr>\<rparr>)"

definition clear_thinking_debt :: "runtime_state \<Rightarrow> runtime_state" where
  "clear_thinking_debt s =
     (let t = rs_thinking s
      in s\<lparr>rs_thinking := t\<lparr>th_needs_cold_brief := False,
            th_recovery_reply_pending := th_recovery_reply_pending t \<or> th_needs_cold_brief t \<or> th_owed_reply t \<noteq> None,
            th_owed_reply := None, th_unheard_reply := False\<rparr>,
           rs_editor := (if th_needs_cold_brief t then (rs_editor s)\<lparr>ed_shown := ed_code (rs_editor s)\<rparr>
                         else rs_editor s)\<rparr>)"

section \<open>What a hold leaves owed\<close>

datatype language_context = StartContext | SwitchWithCodeContext | ContinueContext
datatype since_previous = Unchanged | Rewritten | OtherRun

datatype utterance =
    ColdRestart | ThinkingUnheard | OwedReply "string option" | ThinkingCheckIn | ThinkingResume
  | LanguageChoice string language_context | RoundStarted | RoundSkipped interview_mode
  | TimeWarning | BehavioralTimeWarning | ReceivedTestNote | DrawingYielded
  | RunnerUnavailable string "string option" | RunnerOutage string "string option" | SetupError string "string option"
  | Uncredited string "string option" bool
  | TestResults string bool test_record "string option" since_previous
  | EarlierSteps "string list" | FollowUps "string list"

definition reply_debt :: "runtime_state \<Rightarrow> utterance list" where
  "reply_debt s = (if th_unheard_reply (rs_thinking s) then [ThinkingUnheard] else [])
     @ (case th_owed_reply (rs_thinking s) of None \<Rightarrow> [] | Some owed \<Rightarrow> [OwedReply owed])"

definition thinking_debt :: "runtime_state \<Rightarrow> utterance list" where
  "thinking_debt s = (if th_needs_cold_brief (rs_thinking s) then [ColdRestart] else []) @ reply_debt s"

definition thinking_owes_context :: "runtime_state \<Rightarrow> bool" where
  "thinking_owes_context s \<longleftrightarrow> th_needs_cold_brief (rs_thinking s) \<or> th_unheard_reply (rs_thinking s)
     \<or> th_owed_reply (rs_thinking s) \<noteq> None"

definition with_thinking_debt :: "runtime_state \<Rightarrow> utterance list \<Rightarrow> utterance list" where
  "with_thinking_debt s said = thinking_debt s @ said"

definition thinking_check_in :: "runtime_state \<Rightarrow> utterance list" where
  "thinking_check_in s = with_thinking_debt s [ThinkingCheckIn]"

definition thinking_resume :: "runtime_state \<Rightarrow> utterance list" where
  "thinking_resume s = with_thinking_debt s [ThinkingResume]"

end
