(* ===== verification/Interview_Events.thy ===== *)
theory Interview_Events
  imports Thinking
begin

text \<open>
  \<open>src/src/agent/events.rs\<close>: one packet of the candidate's page applied to the state of the interview.
  Every packet is a claim; each applier decides what it believes.  What the interviewer is asked to
  say is a list of named parts, stamped with the minutes left; what the prompts word is in
  \<open>src/src/agent/prompts\<close>.
\<close>

record event_result =
  er_code_change :: bool
  er_test_reaction :: bool
  er_interjection :: bool
  er_reply :: "utterance list option"
  er_minutes :: "int option"
  er_finish :: "string option"
  er_thinking_changed :: "bool option"
  er_yield_turn :: bool
  er_carries_debt :: bool
  er_preempts_hold :: bool
  er_held_context :: "utterance list option"
  er_round_changed :: "string option"
  er_test_run :: "since_previous option option"

definition no_result :: event_result where
  "no_result = \<lparr>er_code_change = False, er_test_reaction = False, er_interjection = False, er_reply = None,
     er_minutes = None, er_finish = None, er_thinking_changed = None, er_yield_turn = False, er_carries_debt = False,
     er_preempts_hold = False, er_held_context = None, er_round_changed = None, er_test_run = None\<rparr>"

definition ROUND_TRANSITION_SKEW :: nat where "ROUND_TRANSITION_SKEW = 10 * nanos_per_s"
definition TIME_WARNING_S :: nat where "TIME_WARNING_S = 300"
definition TEST_REACTION_COOLDOWN_MS :: nat where "TEST_REACTION_COOLDOWN_MS = 20000"

section \<open>The parse budget\<close>

definition PARSE_BYTES_PER_SECOND :: nat where "PARSE_BYTES_PER_SECOND = 256 * 1024"
definition PARSE_BURST_BYTES :: nat where "PARSE_BURST_BYTES = 1024 * 1024"
definition PARSE_TOLERANCE_MS :: nat where
  "PARSE_TOLERANCE_MS = PARSE_BURST_BYTES * 1000 div PARSE_BYTES_PER_SECOND"

definition parse_cost_ms :: "nat \<Rightarrow> nat" where
  "parse_cost_ms bytes = (min (bytes * 1000) u64_max + PARSE_BYTES_PER_SECOND - 1) div PARSE_BYTES_PER_SECOND"

definition admit_parse :: "nat \<Rightarrow> nat \<Rightarrow> nat \<Rightarrow> bool \<times> nat" where
  "admit_parse now_ms bytes full_at_ms =
     (let full_at = max now_ms (min full_at_ms (sat_add64 now_ms PARSE_TOLERANCE_MS))
      in if full_at - now_ms + parse_cost_ms bytes > PARSE_TOLERANCE_MS then (False, full_at_ms)
         else (True, full_at + parse_cost_ms bytes))"

section \<open>The editor\<close>

definition offered_language :: "string \<Rightarrow> (string \<times> string) option" where
  "offered_language language = map_option (\<lambda>spoken. (language, spoken)) (spoken_language language)"

definition parser_saw_it_parse :: "runtime_state \<Rightarrow> bool" where
  "parser_saw_it_parse s = (co_parser_observation (lg_code (rs_ledger s)) = Some Parsed)"

definition set_baseline :: "string \<Rightarrow> string \<Rightarrow> runtime_state \<Rightarrow> runtime_state" where
  "set_baseline language code s =
     s\<lparr>rs_editor := (rs_editor s)\<lparr>ed_last_parseable := bt_insert language code (ed_last_parseable (rs_editor s))\<rparr>\<rparr>"

definition drop_baseline :: "string \<Rightarrow> runtime_state \<Rightarrow> runtime_state" where
  "drop_baseline language s =
     s\<lparr>rs_editor := (rs_editor s)\<lparr>ed_last_parseable := bt_remove language (ed_last_parseable (rs_editor s))\<rparr>\<rparr>"

definition set_parse_cache :: "parse_cache \<Rightarrow> runtime_state \<Rightarrow> runtime_state" where
  "set_parse_cache cache s = s\<lparr>rs_editor := (rs_editor s)\<lparr>ed_parse_cache := cache\<rparr>\<rparr>"

definition recovered_analysis :: "outside \<Rightarrow> code_observation \<Rightarrow> string \<Rightarrow> string \<Rightarrow> runtime_state \<Rightarrow> code_analysis option" where
  "recovered_analysis ou current_alone language current s =
     (if current_alone \<noteq> Parsed then None
      else case map_of (ed_last_parseable (rs_editor s)) language of None \<Rightarrow> None
      | Some baseline \<Rightarrow>
          (let recovered = analyze_code (ou_parse ou) language baseline current
           in if ca_observation recovered = Parsed then Some recovered else None))"

definition analyze_code_update :: "outside \<Rightarrow> string \<Rightarrow> string \<Rightarrow> runtime_state \<Rightarrow> code_analysis \<times> runtime_state" where
  "analyze_code_update ou previous current s =
     (let language = ed_language (rs_editor s);
          ((analysis, current_alone), cache) =
            analyze_code_cached (ou_parse ou) (ed_parse_cache (rs_editor s)) language previous current;
          s = set_parse_cache cache s
      in if ca_observation analysis \<noteq> SyntaxInvalid then (analysis, drop_baseline language s)
         else case recovered_analysis ou current_alone language current s of
           Some recovered \<Rightarrow> (recovered, drop_baseline language s)
         | None \<Rightarrow>
             if current_alone = Parsed
             then (\<lparr>ca_observation = Parsed, ca_classification = None, ca_semantic_change = True, ca_changed_nodes = []\<rparr>, s)
             else (analysis, if parser_saw_it_parse s then set_baseline language previous s else s))"

definition parsed_bytes :: "string option \<Rightarrow> string \<Rightarrow> runtime_state \<Rightarrow> nat" where
  "parsed_bytes prior new_code s =
     (let parseable = (\<lambda>code. length code \<le> MAX_PARSED_BYTES);
          pair = (if \<not> parseable new_code then 0
                  else case prior of None \<Rightarrow> length new_code
                  | Some p \<Rightarrow> if parseable p then length p + length new_code else 0);
          recovery = (case map_of (ed_last_parseable (rs_editor s)) (ed_language (rs_editor s)) of
              None \<Rightarrow> 0
            | Some baseline \<Rightarrow>
                if prior \<noteq> None \<and> parseable baseline then length baseline + length new_code else 0)
      in if pair = 0 then 0 else pair + recovery)"

text \<open>The analysis of an accepted packet: \<open>prior\<close> is the buffer before it, unless it switched tabs.\<close>

definition update_analysis ::
  "outside \<Rightarrow> nat \<Rightarrow> bool \<Rightarrow> string option \<Rightarrow> string \<Rightarrow> runtime_state \<Rightarrow> code_analysis \<times> runtime_state" where
  "update_analysis ou receipt switched prior_code new_code s =
     (let prior = (if switched then None else prior_code);
          (admitted, full_at) = admit_parse receipt (parsed_bytes prior new_code s) (ed_budget_full_at_ms (rs_editor s));
          language = ed_language (rs_editor s);
          s = s\<lparr>rs_editor := (rs_editor s)\<lparr>ed_budget_full_at_ms := full_at\<rparr>\<rparr>
      in if \<not> admitted
         then (parser_unavailable,
               case prior of Some p \<Rightarrow> if parser_saw_it_parse s then set_baseline language p s else s | None \<Rightarrow> s)
         else if switched
         then (let (analysis, cache) = observe_code_cached (ou_parse ou) (ed_parse_cache (rs_editor s)) language new_code
               in (analysis, set_parse_cache cache s))
         else analyze_code_update ou (case prior_code of Some p \<Rightarrow> p | None \<Rightarrow> []) new_code s)"

definition switch_in :: "json \<Rightarrow> runtime_state \<Rightarrow> (string \<times> string) option" where
  "switch_in payload s =
     (case event_str payload ''language'' of None \<Rightarrow> None
      | Some language \<Rightarrow> if language = ed_language (rs_editor s) then None else offered_language language)"

definition choice_context :: "outside \<Rightarrow> runtime_state \<Rightarrow> language_context" where
  "choice_context ou s =
     (if ed_edited (rs_editor s) then SwitchWithCodeContext
      else if ed_language_chosen (rs_editor s) \<or> has_recognized_candidate_turn (ou_alphabetic ou) (rs_transcript s)
      then ContinueContext else StartContext)"

definition switch_language :: "outside \<Rightarrow> (string \<times> string) option \<Rightarrow> runtime_state \<Rightarrow> utterance list option \<times> runtime_state" where
  "switch_language ou switching s =
     (case switching of None \<Rightarrow> (None, s)
      | Some (language, spoken) \<Rightarrow>
          (Some [LanguageChoice spoken (choice_context ou s)],
           s\<lparr>rs_editor := (rs_editor s)\<lparr>ed_language := language, ed_language_chosen := True\<rparr>\<rparr>))"

definition keep_template :: "string \<Rightarrow> runtime_state \<Rightarrow> runtime_state" where
  "keep_template new_code s =
     (if bt_has (ed_templates (rs_editor s)) (ed_language (rs_editor s)) then s
      else s\<lparr>rs_editor := (rs_editor s)\<lparr>ed_templates :=
          bt_insert (ed_language (rs_editor s)) new_code (ed_templates (rs_editor s))\<rparr>\<rparr>)"

definition sent_at :: "json \<Rightarrow> nat option" where
  "sent_at payload = Option.bind (json_get payload ''at'') json_as_u64"

definition apply_code_update :: "outside \<Rightarrow> nat \<Rightarrow> json \<Rightarrow> runtime_state \<Rightarrow> event_result \<times> runtime_state" where
  "apply_code_update ou receipt payload s =
     (case event_str payload ''code'' of None \<Rightarrow> (no_result, s)
      | Some new_code \<Rightarrow>
          (let old_code = ed_code (rs_editor s);
               moved = (new_code \<noteq> old_code);
               switching = switch_in payload s;
               candidate_edit = (moved \<and> switching = None \<and> (old_code \<noteq> [] \<or> ed_edited (rs_editor s)));
               s = s\<lparr>rs_editor := (rs_editor s)\<lparr>ed_code := new_code,
                      ed_edited := (ed_edited (rs_editor s) \<or> candidate_edit)\<rparr>\<rparr>;
               (language_changed, s) = switch_language ou switching s;
               s = keep_template new_code s;
               s = (if moved \<or> language_changed \<noteq> None
                    then let (analysis, s) = update_analysis ou receipt (language_changed \<noteq> None)
                               (if moved then Some old_code else None) new_code s
                         in s\<lparr>rs_ledger := record_code_with_analysis (ou_sha ou) (sent_at payload) receipt
                                (ed_language (rs_editor s)) new_code candidate_edit analysis (rs_ledger s)\<rparr>
                    else s)
           in (no_result\<lparr>er_code_change := moved, er_interjection := (language_changed \<noteq> None),
                 er_reply := language_changed\<rparr>, s)))"

section \<open>Test results\<close>

definition submission :: "json \<Rightarrow> tested_code option" where
  "submission raw =
     (case event_str raw ''code'' of None \<Rightarrow> None
      | Some code \<Rightarrow>
          (case event_str raw ''language'' of None \<Rightarrow> None
           | Some language \<Rightarrow>
               if offered_language language = None then None else Some \<lparr>tc_language = language, tc_code = code\<rparr>))"

definition compared_with_previous :: "tested_code \<Rightarrow> runtime_state \<Rightarrow> since_previous" where
  "compared_with_previous run s =
     (if (case ru_analysis (rs_runs s) of Some (AnalysisOf analysed) \<Rightarrow> rewritten analysed (tc_language run) (tc_code run)
          | _ \<Rightarrow> False) then Rewritten
      else if (case ru_tested_code (rs_runs s) of Some previous \<Rightarrow> covers previous (tc_language run) (tc_code run)
               | None \<Rightarrow> False) then Unchanged
      else OtherRun)"

definition credit_run :: "json \<Rightarrow> tested_code option \<Rightarrow> bool \<Rightarrow> runtime_state \<Rightarrow> since_previous option \<times> runtime_state" where
  "credit_run payload submitted all_passed s =
     (case submitted of None \<Rightarrow> (None, s)
      | Some run \<Rightarrow>
          if real_test_run payload \<and> written_in s (tc_language run) (tc_code run)
          then (Some (compared_with_previous run s),
                s\<lparr>rs_runs := (rs_runs s)\<lparr>ru_tested_passed := Some all_passed, ru_tested_code := Some run,
                    ru_analysis := (if ru_analysis (rs_runs s) = Some AwaitingRun then Some (AnalysisOf run)
                                    else ru_analysis (rs_runs s))\<rparr>\<rparr>)
          else (None, s))"

definition drop_credit :: "bool \<Rightarrow> tested_code option \<Rightarrow> runtime_state \<Rightarrow> runtime_state" where
  "drop_credit broken submitted s =
     (case (submitted, ru_tested_code (rs_runs s)) of
        (Some run, Some tested) \<Rightarrow>
          if broken \<and> tc_language tested = tc_language run
          then s\<lparr>rs_runs := (rs_runs s)\<lparr>ru_tested_code := None, ru_tested_passed := None\<rparr>\<rparr> else s
      | _ \<Rightarrow> s)"

definition record_run :: "outside \<Rightarrow> nat \<Rightarrow> json \<Rightarrow> json \<Rightarrow> bool \<Rightarrow> bool \<Rightarrow> runtime_state \<Rightarrow> runtime_state" where
  "record_run ou receipt raw payload setup_error outage s =
     (let submitted = submission raw;
          s = s\<lparr>rs_runs := (rs_runs s)\<lparr>ru_unavailable := (if outage then map_option tc_language submitted else None)\<rparr>\<rparr>;
          s = drop_credit (setup_error \<and> \<not> outage) submitted s
      in s\<lparr>rs_runs := (rs_runs s)\<lparr>ru_last_code := submitted, ru_last := Some payload, ru_count := ru_count (rs_runs s) + 1\<rparr>,
           rs_ledger := record_test (ou_sha ou) (sent_at raw) receipt payload (rs_ledger s)\<rparr>)"

definition released_follow_ups :: "runtime_state \<Rightarrow> utterance list" where
  "released_follow_ups s =
     (if coding_round_complete s \<and> pl_follow_ups (rs_plan s) \<noteq> [] then [FollowUps (pl_follow_ups (rs_plan s))] else [])"

definition missing_before :: "runtime_state \<Rightarrow> framework_evidence \<Rightarrow> string list" where
  "missing_before s evidence =
     (let ids = (if phase_id (fe_phase evidence) \<in> set REACTO_PHASE_IDS then REACTO_PHASE_IDS else STAR_PHASE_IDS)
      in filter (\<lambda>id. \<not> list_ex (\<lambda>item. phase_id (fe_phase item) = id) (rs_evidence s)
             \<and> id \<notin> set (rs_earlier_named s) \<and> id \<notin> set (rs_earlier_pending s))
           (takeWhile (\<lambda>id. id \<noteq> phase_id (fe_phase evidence)) ids))"

definition unrecorded_earlier_phases :: "framework_evidence \<Rightarrow> runtime_state \<Rightarrow> utterance list \<times> runtime_state" where
  "unrecorded_earlier_phases evidence s =
     (let missing = missing_before s evidence
      in if missing = [] then ([], s)
         else ([EarlierSteps missing], s\<lparr>rs_earlier_pending := rs_earlier_pending s @ missing\<rparr>))"

definition settle_earlier_steps :: "bool \<Rightarrow> runtime_state \<Rightarrow> runtime_state" where
  "settle_earlier_steps delivered s =
     s\<lparr>rs_earlier_pending := [],
       rs_earlier_named := (if delivered then rs_earlier_named s @ rs_earlier_pending s else rs_earlier_named s)\<rparr>"

definition received_test_note :: "runtime_state \<Rightarrow> bool \<Rightarrow> utterance list" where
  "received_test_note s was_complete = ReceivedTestNote # (if was_complete then [] else released_follow_ups s)"

text \<open>Which reaction a run is answered with.\<close>

definition reaction_to ::
  "string \<Rightarrow> string option \<Rightarrow> bool \<Rightarrow> bool \<Rightarrow> bool \<Rightarrow> bool \<Rightarrow> test_record \<Rightarrow> since_previous option \<Rightarrow> bool
     \<Rightarrow> runtime_state \<Rightarrow> utterance" where
  "reaction_to summary excerpt trace_open outage setup_error all_passed record since recorded s =
     (if trace_open then RunnerUnavailable summary excerpt
      else if outage \<and> coding_continues_past_gate s then Uncredited summary excerpt recorded
      else if outage \<and> runner_unavailable_on_screen s then RunnerOutage summary excerpt
      else if setup_error then SetupError summary excerpt
      else case since of None \<Rightarrow> Uncredited summary excerpt recorded
      | Some previous \<Rightarrow> TestResults summary all_passed record excerpt previous)"

definition with_recorded_test :: "framework_evidence option \<Rightarrow> bool \<Rightarrow> runtime_state \<Rightarrow> utterance list \<times> runtime_state" where
  "with_recorded_test recorded was_complete s =
     (case recorded of None \<Rightarrow> ([], s)
      | Some evidence \<Rightarrow>
          (let (reminder, s) = (if evidence_tool_declared (pl_mode (rs_plan s))
                                then unrecorded_earlier_phases evidence s else ([], s))
           in (reminder @ (if was_complete then [] else released_follow_ups s), s)))"

definition show_editor :: "runtime_state \<Rightarrow> string option \<times> runtime_state" where
  "show_editor s =
     (shown_excerpt s,
      if shown_excerpt s \<noteq> None then s\<lparr>rs_editor := (rs_editor s)\<lparr>ed_shown := ed_code (rs_editor s)\<rparr>\<rparr> else s)"

definition test_reaction_due :: "bool \<Rightarrow> nat \<Rightarrow> bool \<Rightarrow> bool" where
  "test_reaction_due ended since_last_ms must_react \<longleftrightarrow>
     \<not> (ended \<or> since_last_ms < TEST_REACTION_COOLDOWN_MS \<and> \<not> must_react)"

definition trace_is_open :: "runtime_state \<Rightarrow> bool" where
  "trace_is_open s \<longleftrightarrow> test_source_of s = TraceSource \<and> \<not> phases_evidenced s [TestPhase]"

definition react_to_run ::
  "outside \<Rightarrow> json \<Rightarrow> bool \<Rightarrow> bool \<Rightarrow> bool \<Rightarrow> test_record \<Rightarrow> since_previous option \<Rightarrow> framework_evidence option \<Rightarrow> bool
     \<Rightarrow> runtime_state \<Rightarrow> utterance list \<times> runtime_state" where
  "react_to_run ou payload setup_error outage all_passed record since recorded was_complete s =
     (let summary = format_test_run_for_reaction (ou_fmt ou) payload (ru_count (rs_runs s));
          (excerpt, s) = show_editor s;
          trace_open = trace_is_open s;
          reaction = reaction_to summary excerpt trace_open outage setup_error all_passed record since (recorded \<noteq> None) s;
          (rest, s) = with_recorded_test recorded was_complete s;
          s = (if \<not> trace_open \<and> all_passed \<and> since = Some Rewritten
               then s\<lparr>rs_runs := (rs_runs s)\<lparr>ru_analysis := map_option AnalysisOf (ru_tested_code (rs_runs s))\<rparr>\<rparr> else s)
      in (reaction # rest, s))"

definition apply_test_results ::
  "outside \<Rightarrow> nat \<Rightarrow> nat \<Rightarrow> nat \<Rightarrow> json \<Rightarrow> runtime_state \<Rightarrow> event_result \<times> runtime_state" where
  "apply_test_results ou now receipt since_last_ms raw s =
     (let payload = sanitize_test_run (ou_to_int ou) raw
      in if pl_code_execution_disabled (rs_plan s) \<or> payload = JNull then (no_result, s)
         else
           let setup_error = (case json_get payload ''setupError'' of None \<Rightarrow> False | Some e \<Rightarrow> python_truthy e);
               cases = (case Option.bind (json_get payload ''total'') json_as_i64 of None \<Rightarrow> 0 | Some n \<Rightarrow> n);
               all_passed = (cases > 0 \<and> Option.bind (json_get payload ''passed'') json_as_i64 = Some cases);
               outage = (setup_error \<and> (case json_get raw ''runnerUnavailable'' of None \<Rightarrow> False | Some v \<Rightarrow> python_truthy v));
               was_unavailable = ru_unavailable (rs_runs s);
               (since, s) = credit_run payload (submission raw) all_passed s;
               s = record_run ou receipt raw payload setup_error outage s;
               record = test_record_after_run s (since \<noteq> None);
               was_complete = coding_round_complete s;
               (recorded, s) = reconcile_received_test now receipt s;
               newly_unavailable = (trace_is_open s \<and> ru_unavailable (rs_runs s) \<noteq> was_unavailable)
           in if \<not> test_reaction_due (rs_ended s) since_last_ms (recorded \<noteq> None \<or> newly_unavailable)
              then (no_result\<lparr>er_test_run := Some since\<rparr>, s)
              else let (reply, s) = react_to_run ou payload setup_error outage all_passed record since recorded was_complete s
                   in (no_result\<lparr>er_test_reaction := True, er_interjection := True, er_reply := Some reply,
                         er_test_run := Some since\<rparr>, s))"

section \<open>Control messages\<close>

text \<open>The newest line of a speaker, with its index.\<close>

definition last_speaker_line :: "string list \<Rightarrow> string \<Rightarrow> (nat \<times> string) option" where
  "last_speaker_line lines speaker =
     List.find (\<lambda>(index, line). starts_with (speaker @ '': '') line) (rev (enumerate 0 lines))"

definition INTERVIEWER_SPEAKER :: string where "INTERVIEWER_SPEAKER = ''Interviewer''"

definition round_transition_due :: "nat \<Rightarrow> json \<Rightarrow> runtime_state \<Rightarrow> bool" where
  "round_transition_due now payload s \<longleftrightarrow> \<not> rs_ended s \<and> pl_loop (rs_plan s) = CodingBehavioral
     \<and> \<not> rd_transition_seen (rs_round s) \<and> event_str payload ''round'' = Some ''behavioral''
     \<and> now + ROUND_TRANSITION_SKEW \<ge> pl_coding_minutes (rs_plan s) * 60 * nanos_per_s"

definition open_behavioral_round :: "nat \<Rightarrow> runtime_state \<Rightarrow> runtime_state" where
  "open_behavioral_round receipt s =
     s\<lparr>rs_round := (rs_round s)\<lparr>rd_started := True, rd_transcript_start := length (rs_transcript s),
         rd_prior_turn := last_speaker_line (rs_transcript s) INTERVIEWER_SPEAKER\<rparr>,
       rs_judge := (rs_judge s)\<lparr>jd_round_from := length (rs_transcript s), jd_last_turn := []\<rparr>,
       rs_ledger := record_lifecycle receipt BehavioralStarted (rs_ledger s)\<rparr>"

definition control_round_transition :: "nat \<Rightarrow> runtime_state \<Rightarrow> event_result \<times> runtime_state" where
  "control_round_transition receipt s =
     (let s = s\<lparr>rs_round := (rs_round s)\<lparr>rd_transition_seen := True\<rparr>\<rparr>
      in if coding_round_complete s
         then (no_result\<lparr>er_round_changed := Some ''started'', er_reply := Some [RoundStarted]\<rparr>,
               open_behavioral_round receipt s)
         else (no_result\<lparr>er_round_changed := Some ''skipped'', er_reply := Some [RoundSkipped (pl_mode (rs_plan s))]\<rparr>, s))"

definition time_warning_is_due :: "nat \<Rightarrow> runtime_state \<Rightarrow> bool" where
  "time_warning_is_due now s \<longleftrightarrow>
     now + ROUND_TRANSITION_SKEW
       \<ge> ((pl_coding_minutes (rs_plan s) + pl_behavioral_minutes (rs_plan s)) * 60 - TIME_WARNING_S) * nanos_per_s"

definition control_time_warning :: "nat \<Rightarrow> runtime_state \<Rightarrow> event_result \<times> runtime_state" where
  "control_time_warning now s =
     (let s = s\<lparr>rs_round := (rs_round s)\<lparr>rd_time_warning_seen := True\<rparr>\<rparr>;
          s = (if \<not> rd_started (rs_round s)
               then skip_unassessed_star now ''The five-minute cutoff prevented assessment.'' s else s)
      in (no_result\<lparr>er_reply := Some [if rd_started (rs_round s) then BehavioralTimeWarning else TimeWarning]\<rparr>, s))"

text \<open>What the final buffer is compared with, and so whether it holds an edit of the candidate.\<close>

definition final_analysis ::
  "outside \<Rightarrow> string \<Rightarrow> string \<Rightarrow> runtime_state \<Rightarrow> bool \<times> code_analysis \<times> runtime_state" where
  "final_analysis ou prior_code prior_language s =
     (let language = ed_language (rs_editor s); code = ed_code (rs_editor s)
      in if language \<noteq> prior_language then (False, observe_code (ou_parse ou) language code, s)
         else let baseline = (if ed_edited (rs_editor s) then prior_code
                              else case map_of (ed_templates (rs_editor s)) language of
                                     Some template \<Rightarrow> template | None \<Rightarrow> prior_code);
                  (analysis, s) = analyze_code_update ou baseline code s
              in (code \<noteq> baseline, analysis, s))"

definition take_final_editor :: "outside \<Rightarrow> nat \<Rightarrow> json \<Rightarrow> runtime_state \<Rightarrow> runtime_state" where
  "take_final_editor ou receipt payload s =
     (let prior_code = ed_code (rs_editor s); prior_language = ed_language (rs_editor s);
          carried_code = (if rd_started (rs_round s) then None else event_str payload ''code'');
          carried_language = (if rd_started (rs_round s) then None
                              else Option.bind (event_str payload ''language'') offered_language);
          s = s\<lparr>rs_editor := (rs_editor s)\<lparr>
                 ed_code := (case carried_code of Some code \<Rightarrow> code | None \<Rightarrow> prior_code),
                 ed_language := (case carried_language of Some (language, _) \<Rightarrow> language | None \<Rightarrow> prior_language)\<rparr>\<rparr>
      in if carried_code \<noteq> None \<and> (ed_code (rs_editor s) \<noteq> prior_code \<or> ed_language (rs_editor s) \<noteq> prior_language)
         then let (candidate_edit, analysis, s) = final_analysis ou prior_code prior_language s
              in s\<lparr>rs_ledger := record_code_with_analysis (ou_sha ou) (sent_at payload) receipt
                     (ed_language (rs_editor s)) (ed_code (rs_editor s)) candidate_edit analysis (rs_ledger s)\<rparr>
         else s)"

definition control_end_interview :: "outside \<Rightarrow> nat \<Rightarrow> nat \<Rightarrow> json \<Rightarrow> runtime_state \<Rightarrow> event_result \<times> runtime_state" where
  "control_end_interview ou now receipt payload s =
     (let s = (if \<not> rd_started (rs_round s)
                  \<or> \<not> evidence_tool_declared (pl_mode (rs_plan s)) \<and> \<not> jd_star_declined (rs_judge s)
               then skip_unassessed_star now ''The session ended before assessment.'' s else s);
          s = take_final_editor ou receipt payload s;
          (thinking_ended, s) = end_thinking receipt s;
          s = s\<lparr>rs_ended := True, rs_ledger := record_lifecycle receipt Ended (rs_ledger s)\<rparr>
      in (no_result\<lparr>er_thinking_changed := (if thinking_ended then Some False else None),
            er_finish := Some (case event_str payload ''reason'' of Some reason \<Rightarrow> reason | None \<Rightarrow> ''candidate_ended'')\<rparr>, s))"

definition control_thinking :: "nat \<Rightarrow> nat \<Rightarrow> bool \<Rightarrow> runtime_state \<Rightarrow> event_result \<times> runtime_state" where
  "control_thinking now receipt thinking s =
     (if thinking
      then let (declared, s) = declare_thinking now receipt s
           in (no_result\<lparr>er_thinking_changed := (if declared then Some True else None)\<rparr>, announce_thinking s)
      else if \<not> hold_is_active (th_hold (rs_thinking s)) then (no_result, announce_thinking s)
      else let (_, s) = end_thinking receipt s;
               recent = released_recently now s;
               s = s\<lparr>rs_thinking := (rs_thinking s)\<lparr>th_released_at := Some now\<rparr>\<rparr>;
               reply = (\<not> recent \<or> thinking_owes_context s)
           in (no_result\<lparr>er_thinking_changed := Some False,
                 er_reply := (if reply then Some (thinking_resume s) else None), er_carries_debt := reply\<rparr>, s))"

definition yield_refused :: "runtime_state \<Rightarrow> bool" where
  "yield_refused s \<longleftrightarrow> \<not> pl_example_drawing_enabled (rs_plan s) \<or> is_whiteboard (pl_mode (rs_plan s))
     \<or> rd_started (rs_round s)"

definition control_yield_turn :: "nat \<Rightarrow> json \<Rightarrow> runtime_state \<Rightarrow> event_result \<times> runtime_state" where
  "control_yield_turn receipt payload s =
     (let drawing = (event_str payload ''surface'' = Some ''example'')
      in if drawing \<and> yield_refused s then (no_result, s)
         else let (declared, s) = end_thinking receipt s;
                  reply = (declared \<or> thinking_owes_context s);
                  resume = (if reply then thinking_resume s else [])
              in (no_result\<lparr>er_yield_turn := True, er_thinking_changed := (if declared then Some False else None),
                    er_reply := (if drawing then Some (resume @ [DrawingYielded]) else if reply then Some resume else None),
                    er_carries_debt := reply\<rparr>, s))"

definition apply_control :: "outside \<Rightarrow> nat \<Rightarrow> nat \<Rightarrow> json \<Rightarrow> runtime_state \<Rightarrow> event_result \<times> runtime_state" where
  "apply_control ou now receipt payload s =
     (let type = event_str payload ''type''
      in if type = Some ''drawing_activity'' \<and> pl_example_drawing_enabled (rs_plan s) \<and> \<not> rs_ended s
            \<and> \<not> rd_started (rs_round s)
         then (no_result\<lparr>er_code_change := True\<rparr>, s)
         else if type = Some ''thinking'' \<and> \<not> rs_ended s
         then (case Option.bind (json_get payload ''thinking'') json_as_bool of None \<Rightarrow> (no_result, s)
               | Some thinking \<Rightarrow> control_thinking now receipt thinking s)
         else if type = Some ''yield_turn'' \<and> \<not> rs_ended s then control_yield_turn receipt payload s
         else if type = Some ''round_transition'' \<and> round_transition_due now payload s
         then (let (r, s) = control_round_transition receipt s in (r\<lparr>er_preempts_hold := True\<rparr>, s))
         else if type = Some ''time_warning'' \<and> \<not> rs_ended s \<and> \<not> rd_time_warning_seen (rs_round s)
            \<and> time_warning_is_due now s
         then (let (r, s) = control_time_warning now s in (r\<lparr>er_preempts_hold := True\<rparr>, s))
         else if type = Some ''end_interview'' \<and> \<not> rs_ended s then control_end_interview ou now receipt payload s
         else (no_result, s))"

section \<open>One packet\<close>

datatype topic = CodeUpdateTopic | TestResultsTopic | ControlTopic | IntegrityTopic | OtherTopic

definition apply_integrity_event :: "outside \<Rightarrow> json \<Rightarrow> runtime_state \<Rightarrow> runtime_state" where
  "apply_integrity_event ou payload s =
     s\<lparr>rs_integrity := apply_integrity (ou_sha ou) (ou_fmt ou) (ou_to_int ou) payload (rs_integrity s)\<rparr>"

definition apply_topic ::
  "outside \<Rightarrow> nat \<Rightarrow> nat \<Rightarrow> nat \<Rightarrow> topic \<Rightarrow> json \<Rightarrow> runtime_state \<Rightarrow> event_result \<times> runtime_state" where
  "apply_topic ou now receipt since_last_ms topic payload s =
     (case topic of
        CodeUpdateTopic \<Rightarrow> apply_code_update ou receipt payload s
      | TestResultsTopic \<Rightarrow> apply_test_results ou now receipt since_last_ms payload s
      | ControlTopic \<Rightarrow> apply_control ou now receipt payload s
      | IntegrityTopic \<Rightarrow> (no_result, apply_integrity_event ou payload s)
      | OtherTopic \<Rightarrow> (no_result, s))"

text \<open>What a hold does to a reply: one that preempts it ends it, any other becomes context.\<close>

definition under_hold :: "nat \<Rightarrow> event_result \<Rightarrow> runtime_state \<Rightarrow> event_result \<times> runtime_state" where
  "under_hold receipt r s =
     (if \<not> hold_is_active (th_hold (rs_thinking s)) \<or> er_finish r \<noteq> None then (r, s)
      else case er_reply r of
        Some said \<Rightarrow>
          if er_preempts_hold r
          then let (declared, s) = end_thinking receipt s
               in (r\<lparr>er_thinking_changed := (if declared then Some False else None),
                     er_reply := Some (with_thinking_debt s said), er_carries_debt := True\<rparr>, s)
          else (r\<lparr>er_reply := None, er_interjection := False, er_held_context := Some said\<rparr>, s)
      | None \<Rightarrow> (r\<lparr>er_test_reaction := False, er_interjection := False, er_held_context := None\<rparr>, s))"

definition note_received_test :: "utterance list option \<Rightarrow> event_result \<Rightarrow> event_result" where
  "note_received_test note r =
     (case note of None \<Rightarrow> r
      | Some said \<Rightarrow>
          if er_finish r \<noteq> None then r
          else case er_reply r of
            Some reply \<Rightarrow> r\<lparr>er_reply := Some (reply @ said)\<rparr>
          | None \<Rightarrow>
              r\<lparr>er_held_context := Some (case er_held_context r of Some held \<Rightarrow> held @ said | None \<Rightarrow> said)\<rparr>)"

definition apply_event ::
  "outside \<Rightarrow> nat \<Rightarrow> nat \<Rightarrow> nat \<Rightarrow> bool \<Rightarrow> topic \<Rightarrow> json \<Rightarrow> runtime_state \<Rightarrow> event_result \<times> runtime_state" where
  "apply_event ou now receipt since_last_ms received topic payload s =
     (let s = (if received then s\<lparr>rs_ledger := record_received_event (rs_ledger s)\<rparr> else s)
      in if rd_started (rs_round s) \<and> topic \<in> {CodeUpdateTopic, TestResultsTopic} then (no_result, s)
         else
           let was_complete = coding_round_complete s;
               (r, s) = apply_topic ou now receipt since_last_ms topic payload s;
               (recorded, s) = reconcile_received_test now receipt s;
               note = (if recorded = None then None else Some (received_test_note s was_complete));
               (r, s) = under_hold receipt r s;
               r = note_received_test note r
           in (r\<lparr>er_minutes := map_option (\<lambda>_. time_left now s) (er_reply r)\<rparr>, s))"

definition apply_data_event_at ::
  "outside \<Rightarrow> nat \<Rightarrow> nat \<Rightarrow> nat \<Rightarrow> topic \<Rightarrow> json \<Rightarrow> runtime_state \<Rightarrow> event_result \<times> runtime_state" where
  "apply_data_event_at ou now receipt since_last_ms topic payload s =
     apply_event ou now receipt since_last_ms True topic payload s"

definition apply_server_event_at ::
  "outside \<Rightarrow> nat \<Rightarrow> nat \<Rightarrow> nat \<Rightarrow> topic \<Rightarrow> json \<Rightarrow> runtime_state \<Rightarrow> event_result \<times> runtime_state" where
  "apply_server_event_at ou now receipt since_last_ms topic payload s =
     apply_event ou now receipt since_last_ms False topic payload s"

end
