(* ===== verification/Phase_Judge.thy ===== *)
theory Phase_Judge
  imports Interview_Events
begin

text \<open>
  \<open>src/src/agent/phase_judge.rs\<close>: which steps a judgment may still record, when one is due, how a quote
  is held to what the candidate said or typed, and the recording of an answer; and the notes a
  pause-time reviewer leaves.  The wording of the judge's prompt is an argument.
\<close>

definition JUDGED_PHASES :: "framework_phase list" where
  "JUDGED_PHASES = [RepeatPhase, ExamplePhase, AlgorithmPhase, CodingPhase, OptimizationsPhase]"
definition JUDGED_STAR :: "framework_phase list" where
  "JUDGED_STAR = [SituationPhase, TaskPhase, ActionPhase, ResultPhase]"
definition JUDGEABLE :: "framework_phase list" where
  "JUDGEABLE = [RepeatPhase, ExamplePhase, AlgorithmPhase, CodingPhase, TestPhase, OptimizationsPhase,
     SituationPhase, TaskPhase, ActionPhase, ResultPhase]"

definition MIN_SPOKEN_QUOTE_WORDS :: nat where "MIN_SPOKEN_QUOTE_WORDS = 6"
definition MIN_QUOTE_WORDS :: nat where "MIN_QUOTE_WORDS = 4"
definition MAX_PHASE_JUDGE_SUMMARY_CHARS :: nat where "MAX_PHASE_JUDGE_SUMMARY_CHARS = 120"
definition MAX_PHASE_JUDGE_QUOTE_CHARS :: nat where "MAX_PHASE_JUDGE_QUOTE_CHARS = 110"

section \<open>What is open\<close>

definition unrecorded_phases :: "runtime_state \<Rightarrow> framework_phase list" where
  "unrecorded_phases s =
     (let tool = evidence_tool_declared (pl_mode (rs_plan s));
          coded = phases_evidenced s [CodingPhase];
          traced = (\<not> tool \<and> test_source_of s = TraceSource)
      in filter (\<lambda>phase. \<not> phases_evidenced s [phase] \<and> (needs_code phase \<or> \<not> coded \<or> \<not> tool))
           (JUDGED_PHASES @ (if traced then [TestPhase] else [])))"

definition phase_judge_open :: "runtime_state \<Rightarrow> string list" where
  "phase_judge_open s =
     (let tool = evidence_tool_declared (pl_mode (rs_plan s))
      in if rd_started (rs_round s)
         then map phase_id (filter (\<lambda>phase. \<not> tool \<and> \<not> phases_evidenced s [phase]) JUDGED_STAR)
         else
           let coded = phases_evidenced s [CodingPhase];
               unrecorded = unrecorded_phases s;
               has_work = (list_ex needs_code unrecorded \<and> written_work s);
               typed = (\<not> is_whiteboard (pl_mode (rs_plan s)));
               open_phases = filter (\<lambda>phase. if phase = CodingPhase then has_work \<and> typed
                                             else if needs_code phase then has_work else True) unrecorded
           in if coded \<and> \<not> list_ex needs_code open_phases then [] else map phase_id open_phases)"

section \<open>When a judgment is due\<close>

definition behavioral_round_start :: "runtime_state \<Rightarrow> nat" where
  "behavioral_round_start s =
     (case rd_prior_turn (rs_round s) of
        Some (index, before) \<Rightarrow>
          if index < length (rs_transcript s) \<and> rs_transcript s ! index = before
          then rd_transcript_start (rs_round s) else index
      | None \<Rightarrow> rd_transcript_start (rs_round s))"

definition judged_from :: "runtime_state \<Rightarrow> nat" where
  "judged_from s = (if rd_started (rs_round s) then min (behavioral_round_start s) (length (rs_transcript s)) else 0)"

definition last_candidate_line :: "runtime_state \<Rightarrow> string" where
  "last_candidate_line s =
     (case last_speaker_line (drop (judged_from s) (rs_transcript s)) CANDIDATE_SPEAKER of
        Some (_, line) \<Rightarrow> line | None \<Rightarrow> [])"

definition candidate_lines :: "string list \<Rightarrow> nat" where
  "candidate_lines lines = length (filter (starts_with (CANDIDATE_SPEAKER @ '': '')) lines)"

definition typed_comments :: "string \<Rightarrow> string \<Rightarrow> string" where
  "typed_comments language code = snd (split_comments language code)"

definition phase_judge_need :: "runtime_state \<Rightarrow> judge_due" where
  "phase_judge_need s =
     (let j = rs_judge s; ed = rs_editor s;
          start = judged_from s;
          shown_to = min (max (jd_lines j) start) (length (rs_transcript s));
          spoke = (candidate_lines (drop shown_to (rs_transcript s)) > 0
                   \<or> last_candidate_line s \<noteq> jd_last_turn j \<or> start < jd_round_from j);
          typed = (ed_code ed \<noteq> jd_code j \<or> ed_language ed \<noteq> jd_language j)
      in if \<not> spoke \<and> \<not> typed then NotDue
         else let open_ids = phase_judge_open s
              in if spoke \<and> open_ids \<noteq> [] then SpokenDue
                 else if typed \<and> (''coding'' \<in> set open_ids
                     \<or> \<not> rd_started (rs_round s) \<and> open_ids \<noteq> []
                       \<and> typed_comments (ed_language ed) (ed_code ed) \<noteq> typed_comments (jd_language j) (jd_code j))
                 then EditorOnlyDue else NotDue)"

definition phase_judge_due :: "runtime_state \<Rightarrow> bool" where
  "phase_judge_due s = (phase_judge_need s \<noteq> NotDue)"

text \<open>The cursors move past what the prompt shows when the call goes out.\<close>

definition take_phase_judge_window :: "outside \<Rightarrow> string \<Rightarrow> runtime_state \<Rightarrow> runtime_state" where
  "take_phase_judge_window ou briefing s =
     s\<lparr>rs_judge := (rs_judge s)\<lparr>jd_for := phase_judge_need s, jd_lines := length (rs_transcript s),
         jd_round_from := judged_from s, jd_last_turn := last_candidate_line s,
         jd_code := ed_code (rs_editor s), jd_language := ed_language (rs_editor s)\<rparr>,
       rs_ledger := record_model_input (ou_sha ou) Interim briefing (rs_ledger s)\<rparr>"

section \<open>Whose words a quote is\<close>

definition quote_words :: "outside \<Rightarrow> string \<Rightarrow> string" where
  "quote_words ou spoken =
     join '' '' (filter (\<lambda>w. w \<noteq> []) (split_chars is_whitespace
       (map (\<lambda>ch. if ou_alphanumeric ou ch then ou_lower ou ch else '' '') (utf8_chars spoken))))"

record judge_turn =
  jt_speaker :: string
  jt_words :: string

definition spoken_by :: "string \<Rightarrow> (string \<times> string) option" where
  "spoken_by line =
     (case speaker_speech line CANDIDATE_SPEAKER of
        Some speech \<Rightarrow> Some (CANDIDATE_SPEAKER, speech)
      | None \<Rightarrow> map_option (\<lambda>speech. (INTERVIEWER_SPEAKER, speech)) (speaker_speech line INTERVIEWER_SPEAKER))"

definition add_turn :: "bool \<Rightarrow> string \<Rightarrow> string \<Rightarrow> judge_turn list \<Rightarrow> judge_turn list" where
  "add_turn joinable speaker spoken turns =
     (if turns \<noteq> [] \<and> joinable \<and> jt_speaker (last turns) = speaker
      then butlast turns @ [(last turns)\<lparr>jt_words := jt_words (last turns) @ spoken @ '' ''\<rparr>]
      else turns @ [\<lparr>jt_speaker = speaker, jt_words = '' '' @ spoken @ '' ''\<rparr>])"

fun turns_loop :: "outside \<Rightarrow> judge_turn list \<Rightarrow> bool \<Rightarrow> string list \<Rightarrow> judge_turn list" where
  "turns_loop ou turns joinable [] = turns"
| "turns_loop ou turns joinable (line # lines) =
     (case spoken_by line of
        None \<Rightarrow> turns_loop ou turns False lines
      | Some (speaker, speech) \<Rightarrow>
          if is_unrecognized_turn (ou_alphabetic ou) line then turns_loop ou turns False lines
          else turns_loop ou (add_turn joinable speaker (quote_words ou speech) turns) True lines)"

definition speaker_turns :: "outside \<Rightarrow> runtime_state \<Rightarrow> judge_turn list" where
  "speaker_turns ou s = turns_loop ou [] False (drop (judged_from s) (rs_transcript s))"

definition typed_in :: "outside \<Rightarrow> string \<Rightarrow> string \<Rightarrow> bool" where
  "typed_in ou needle code = str_contains needle ('' '' @ quote_words ou code @ '' '')"

definition quote_is_grounded ::
  "outside \<Rightarrow> runtime_state \<Rightarrow> judge_turn list \<Rightarrow> framework_phase \<Rightarrow> string \<Rightarrow> evidence_source option" where
  "quote_is_grounded ou s turns phase quote =
     (let said = quote_words ou quote;
          least = (if phase = CodingPhase \<or> phase = OptimizationsPhase then MIN_QUOTE_WORDS else MIN_SPOKEN_QUOTE_WORDS);
          needle = '' '' @ said @ '' '';
          language = ed_language (rs_editor s); code = ed_code (rs_editor s); template = starter_of s language;
          commented = (\<lambda>code. typed_in ou needle (typed_comments language code));
          saying = filter (\<lambda>turn. str_contains needle (jt_words turn)) turns
      in if length (str_split (\<lambda>ch. ch = '' '') said) < least then None
         else if phase = CodingPhase
         then (if typed_in ou needle code \<and> \<not> typed_in ou needle template then Some EditorSnapshot else None)
         else if \<not> is_star_phase phase \<and> phase \<noteq> TestPhase \<and> \<not> is_whiteboard (pl_mode (rs_plan s))
                 \<and> commented code \<and> \<not> commented template
         then Some EditorSnapshot
         else if saying = [] \<or> \<not> list_ex (\<lambda>turn. jt_speaker turn = CANDIDATE_SPEAKER) saying then None
         else if (is_star_phase phase \<or> phase \<in> {AlgorithmPhase, OptimizationsPhase, TestPhase})
                 \<and> jt_speaker (hd saying) = INTERVIEWER_SPEAKER
         then None
         else Some CandidateSpeech)"

section \<open>Recording an answer\<close>

definition judged_summary :: "json \<Rightarrow> string \<Rightarrow> string" where
  "judged_summary step quote =
     (let quoted = [CHR 0x22] @ bounded_model_text (str_trim quote) MAX_PHASE_JUDGE_QUOTE_CHARS @ [CHR 0x22];
          summary = (case event_str step ''summary'' of None \<Rightarrow> [] | Some text_given \<Rightarrow> str_trim text_given)
      in if summary \<noteq> []
         then bounded_model_text summary MAX_PHASE_JUDGE_SUMMARY_CHARS @ '' Quote: '' @ quoted
         else ''Quote: '' @ quoted)"

definition judged_args :: "framework_phase \<Rightarrow> evidence_source \<Rightarrow> string \<Rightarrow> json" where
  "judged_args phase source summary = JObj
     [(''phase'', JStr (phase_id phase)), (''source'', JStr (evidence_source_id source)), (''kind'', JStr ''observed''),
      (''confidence'', JInt 70), (''summary'', JStr summary)]"

definition judged_code_is_current :: "runtime_state \<Rightarrow> bool" where
  "judged_code_is_current s =
     covers \<lparr>tc_language = jd_language (rs_judge s), tc_code = jd_code (rs_judge s)\<rparr>
       (ed_language (rs_editor s)) (ed_code (rs_editor s))"

text \<open>One step of the answer, if it names an open step and quotes the candidate.\<close>

definition judged_step ::
  "outside \<Rightarrow> string list \<Rightarrow> json \<Rightarrow> runtime_state \<Rightarrow> (framework_phase \<times> evidence_source \<times> string) option" where
  "judged_step ou open_ids step s =
     (case (event_str step ''step'', event_str step ''quote'') of
        (Some wire, Some quote) \<Rightarrow>
          (case List.find (\<lambda>phase. phase_id phase = wire) JUDGEABLE of None \<Rightarrow> None
           | Some phase \<Rightarrow>
               if wire \<notin> set open_ids \<or> phases_evidenced s [phase] then None
               else if needs_code phase \<and> \<not> judged_code_is_current s then None
               else map_option (\<lambda>source. (phase, source, judged_summary step quote))
                      (quote_is_grounded ou s (speaker_turns ou s) phase quote))
      | _ \<Rightarrow> None)"

definition record_step ::
  "outside \<Rightarrow> nat \<Rightarrow> nat \<Rightarrow> string list \<Rightarrow> json \<Rightarrow> framework_evidence list \<times> runtime_state
     \<Rightarrow> framework_evidence list \<times> runtime_state" where
  "record_step ou now receipt open_ids step rs =
     (case rs of (recorded, s) \<Rightarrow>
       (case judged_step ou open_ids step s of None \<Rightarrow> (recorded, s)
        | Some (phase, source, summary) \<Rightarrow>
            (case record_evidence ou now receipt (judged_args phase source summary) True s of
               (Inr (evidence, Added), s) \<Rightarrow> (recorded @ [evidence], s)
             | (_, s) \<Rightarrow> (recorded, s))))"

definition reopen_window :: "runtime_state \<Rightarrow> runtime_state" where
  "reopen_window s =
     (let j = rs_judge s;
          j = (if jd_for j \<noteq> EditorOnlyDue then j\<lparr>jd_lines := 0, jd_last_turn := []\<rparr> else j)
      in s\<lparr>rs_judge := j\<lparr>jd_code := []\<rparr>\<rparr>)"

definition apply_phase_judgment ::
  "outside \<Rightarrow> nat \<Rightarrow> nat \<Rightarrow> string \<Rightarrow> runtime_state \<Rightarrow> framework_evidence list \<times> runtime_state" where
  "apply_phase_judgment ou now receipt answer_text s =
     (if str_trim answer_text = [] then ([], reopen_window s)
      else case ou_from_str ou (str_trim answer_text) of None \<Rightarrow> ([], s)
      | Some answer \<Rightarrow>
          (let s = (if rd_started (rs_round s) \<and> Option.bind (json_get answer ''declined'') json_as_bool = Some True
                    then s\<lparr>rs_judge := (rs_judge s)\<lparr>jd_star_declined := True\<rparr>\<rparr> else s)
           in case Option.bind (json_get answer ''steps'') json_as_arr of None \<Rightarrow> ([], s)
              | Some steps \<Rightarrow>
                  fold (record_step ou now receipt (phase_judge_open s)) (take (length JUDGEABLE) steps) ([], s)))"

section \<open>Notes of a pause\<close>

definition MAX_INTERIM_NOTES :: nat where "MAX_INTERIM_NOTES = 48"
definition MAX_INTERIM_LINE_CHARS :: nat where "MAX_INTERIM_LINE_CHARS = 300"
definition MAX_INTERIM_LINES_PER_REVIEW :: nat where "MAX_INTERIM_LINES_PER_REVIEW = 4"
definition INTERIM_OPENING_KEPT :: nat where "INTERIM_OPENING_KEPT = 8"

definition keep_note :: "string \<Rightarrow> string list \<Rightarrow> string list" where
  "keep_note line notes =
     (if length notes = MAX_INTERIM_NOTES
      then take INTERIM_OPENING_KEPT notes @ drop (Suc INTERIM_OPENING_KEPT) notes else notes) @ [line]"

definition noted_line :: "string \<Rightarrow> string" where
  "noted_line line =
     (let line = str_trim line
      in str_trim (case strip_prefix ''- '' line of Some rest \<Rightarrow> rest | None \<Rightarrow> line))"

fun notes_loop :: "nat \<Rightarrow> string list \<Rightarrow> string list \<Rightarrow> string list" where
  "notes_loop taken [] notes = notes"
| "notes_loop taken (raw # rest) notes =
     (if taken = MAX_INTERIM_LINES_PER_REVIEW then notes
      else if noted_line raw = [] then notes_loop taken rest notes
      else let line = bounded_model_text (noted_line raw) MAX_INTERIM_LINE_CHARS
           in if line \<in> set notes then notes_loop taken rest notes
              else notes_loop (Suc taken) rest (keep_note line notes))"

definition record_interim_notes :: "string \<Rightarrow> runtime_state \<Rightarrow> runtime_state" where
  "record_interim_notes review s =
     s\<lparr>rs_interim_notes := notes_loop 0 (str_lines review) (rs_interim_notes s)\<rparr>"

end
