(* ===== verification/Interview_Run.thy ===== *)
theory Interview_Run
  imports Phase_Judge
begin

text \<open>
  An interview from its first state on: the state a room starts with (\<open>initial_runtime_state\<close> of
  \<open>src/src/livekit.rs\<close>) and every step that changes it.  The steps are the functions of the other
  theories; what the room loop writes itself (the transcript as it grows, the debts of a replaced
  socket, what the model was shown and sent, the turns counted, that a board was drawn, that the interviewer
  asked to end) may be anything.  A run is a list of steps, each with the time it is taken at.
\<close>

definition initial_runtime_state ::
  "interview_plan \<Rightarrow> (string \<times> string) list \<Rightarrow> string option \<Rightarrow> runtime_state" where
  "initial_runtime_state plan starters language =
     (let s = (for_problem (pl_hint_ladder plan) (pl_follow_ups plan) starters)\<lparr>rs_plan := plan\<rparr>;
          s = (case language of None \<Rightarrow> s
               | Some l \<Rightarrow> s\<lparr>rs_editor := (rs_editor s)\<lparr>ed_language := l, ed_language_chosen := True\<rparr>\<rparr>)
      in if pl_loop plan = CodingBehavioral
         then s\<lparr>rs_ledger := set_uncovered_coverage (REACTO_PHASE_IDS @ STAR_PHASE_IDS) (rs_ledger s)\<rparr> else s)"

datatype interview_event =
    Packet nat nat bool topic json
  | EvidenceCall nat json
  | HintCall nat bool
  | JudgeCalled string
  | JudgeAnswered nat string
  | PauseReviewed string
  | ThinkingRequested
  | ThinkingWithdrawn
  | CheckInDue nat
  | RequestSettles nat
  | NoticeTaken
  | DebtPaid
  | StepsSettled bool
  | RoomOwes bool bool bool "string option option"
  | RoomTranscribes "string list"
  | RoomShows string
  | RoomSeesBoard
  | RoomWantsEnd bool
  | RoomSendsModel model_input_kind string
  | RoomHearsTurn nat string

fun interview_step :: "outside \<Rightarrow> nat \<Rightarrow> interview_event \<Rightarrow> runtime_state \<Rightarrow> runtime_state" where
  "interview_step ou now (Packet receipt since_last received topic payload) s =
     snd (apply_event ou now receipt since_last received topic payload s)"
| "interview_step ou now (EvidenceCall receipt args) s = snd (record_framework_evidence_outcome ou now receipt args s)"
| "interview_step ou now (HintCall receipt requested) s = snd (give_hint receipt requested s)"
| "interview_step ou now (JudgeCalled briefing) s = take_phase_judge_window ou briefing s"
| "interview_step ou now (JudgeAnswered receipt answer) s = snd (apply_phase_judgment ou now receipt answer s)"
| "interview_step ou now (PauseReviewed review) s = record_interim_notes review s"
| "interview_step ou now ThinkingRequested s = request_thinking now s"
| "interview_step ou now ThinkingWithdrawn s = snd (withdraw_thinking_request s)"
| "interview_step ou now (CheckInDue receipt) s = snd (claim_thinking_check_in now receipt s)"
| "interview_step ou now (RequestSettles receipt) s = snd (settle_stale_request now receipt s)"
| "interview_step ou now NoticeTaken s = snd (take_thinking_notice s)"
| "interview_step ou now DebtPaid s = clear_thinking_debt s"
| "interview_step ou now (StepsSettled delivered) s = settle_earlier_steps delivered s"
| "interview_step ou now (RoomOwes unheard pending cold owed) s =
     s\<lparr>rs_thinking := (rs_thinking s)\<lparr>th_unheard_reply := unheard, th_recovery_reply_pending := pending,
         th_needs_cold_brief := cold, th_owed_reply := owed\<rparr>\<rparr>"
| "interview_step ou now (RoomTranscribes lines) s = s\<lparr>rs_transcript := lines\<rparr>"
| "interview_step ou now (RoomShows code) s = s\<lparr>rs_editor := (rs_editor s)\<lparr>ed_shown := code\<rparr>\<rparr>"
| "interview_step ou now RoomSeesBoard s = s\<lparr>rs_board_drawn := True\<rparr>"
| "interview_step ou now (RoomWantsEnd wanted) s = s\<lparr>rs_end_requested := wanted\<rparr>"
| "interview_step ou now (RoomSendsModel kind t) s =
     s\<lparr>rs_ledger := record_model_input (ou_sha ou) kind t (rs_ledger s)\<rparr>"
| "interview_step ou now (RoomHearsTurn receipt speaker) s =
     s\<lparr>rs_ledger := record_conversation_turn receipt speaker (rs_ledger s)\<rparr>"

definition interview_run :: "outside \<Rightarrow> (nat \<times> interview_event) list \<Rightarrow> runtime_state \<Rightarrow> runtime_state" where
  "interview_run ou es s = fold (\<lambda>(now, e). interview_step ou now e) es s"

lemma interview_run_simps [simp]:
  "interview_run ou [] s = s"
  "interview_run ou ((now, e) # es) s = interview_run ou es (interview_step ou now e s)"
  "interview_run ou (es @ fs) s = interview_run ou fs (interview_run ou es s)"
  by (simp_all add: interview_run_def)

section \<open>What an analysis leaves alone\<close>

text \<open>An analysis reaches only into what the editor remembers of parsing.\<close>

definition only_parsing :: "runtime_state \<Rightarrow> runtime_state \<Rightarrow> bool" where
  "only_parsing s t \<longleftrightarrow> rs_plan t = rs_plan s
     \<and> rs_round t = rs_round s
     \<and> rs_thinking t = rs_thinking s
     \<and> rs_runs t = rs_runs s
     \<and> rs_judge t = rs_judge s
     \<and> rs_evidence t = rs_evidence s
     \<and> rs_ledger t = rs_ledger s
     \<and> rs_board_drawn t = rs_board_drawn s
     \<and> rs_transcript t = rs_transcript s
     \<and> rs_hints_used t = rs_hints_used s
     \<and> rs_volunteered_hints t = rs_volunteered_hints s
     \<and> rs_rungs_given t = rs_rungs_given s
     \<and> rs_integrity t = rs_integrity s
     \<and> rs_interim_notes t = rs_interim_notes s
     \<and> rs_earlier_named t = rs_earlier_named s
     \<and> rs_earlier_pending t = rs_earlier_pending s
     \<and> rs_end_requested t = rs_end_requested s
     \<and> rs_ended t = rs_ended s
     \<and> ed_code (rs_editor t) = ed_code (rs_editor s)
     \<and> ed_edited (rs_editor t) = ed_edited (rs_editor s)
     \<and> ed_templates (rs_editor t) = ed_templates (rs_editor s)
     \<and> ed_language (rs_editor t) = ed_language (rs_editor s)
     \<and> ed_language_chosen (rs_editor t) = ed_language_chosen (rs_editor s)
     \<and> ed_shown (rs_editor t) = ed_shown (rs_editor s)"

lemma only_parsing_refl: "only_parsing s s"
  by (simp add: only_parsing_def)

lemma only_parsing_trans: "only_parsing s t \<Longrightarrow> only_parsing t u \<Longrightarrow> only_parsing s u"
  by (simp add: only_parsing_def)

lemma helpers_parse:
  "only_parsing s (set_baseline l c s)" "only_parsing s (drop_baseline l s)" "only_parsing s (set_parse_cache k s)"
  "only_parsing s (s\<lparr>rs_editor := (rs_editor s)\<lparr>ed_budget_full_at_ms := b\<rparr>\<rparr>)"
  by (simp_all add: only_parsing_def set_baseline_def drop_baseline_def set_parse_cache_def)

lemma analysis_only_parses: "only_parsing s (snd (analyze_code_update ou previous current s))"
  by (auto simp: analyze_code_update_def Let_def split: prod.split option.split
      intro: helpers_parse only_parsing_trans [OF helpers_parse(3)] only_parsing_refl)

lemma update_only_parses: "only_parsing s (snd (update_analysis ou receipt switched prior_code new_code s))"
proof -
  have budget: "only_parsing s u" if "only_parsing (s\<lparr>rs_editor := (rs_editor s)\<lparr>ed_budget_full_at_ms := b\<rparr>\<rparr>) u" for b u
    using only_parsing_trans [OF helpers_parse(4) that] .
  show ?thesis
    unfolding update_analysis_def Let_def
    by (auto split: prod.split option.split intro!: budget intro: helpers_parse analysis_only_parses only_parsing_refl)
qed

end
