(* ===== verification/Interview_Correct.thy ===== *)
theory Interview_Correct
  imports Interview_Run
begin

text \<open>
  The invariant of a running interview, and that every step of \<open>Interview_Run\<close> keeps it: the evidence
  is bounded and each row could have been recorded, the ledger is well formed and agrees with the
  evidence, the rounds and the hints, and the page can only be told the hold that is declared.
\<close>

section \<open>What the ledger's operations leave alone\<close>

named_theorems ledger_frame "fields of the ledger an operation does not touch"

lemma received_frame [ledger_frame]:
  "lg_lifecycle (record_received_event l) = lg_lifecycle l" "lg_coverage (record_received_event l) = lg_coverage l"
  "lg_hints (record_received_event l) = lg_hints l"
  by (simp_all add: record_received_event_def)

lemma model_input_frame [ledger_frame]:
  "lg_lifecycle (record_model_input sha kind t l) = lg_lifecycle l"
  "lg_coverage (record_model_input sha kind t l) = lg_coverage l" "lg_hints (record_model_input sha kind t l) = lg_hints l"
  by (simp_all add: record_model_input_def Let_def)

lemma code_frame [ledger_frame]:
  "lg_lifecycle (record_code_with_analysis sha ts receipt language code edit analysis l) = lg_lifecycle l"
  "lg_coverage (record_code_with_analysis sha ts receipt language code edit analysis l) = lg_coverage l"
  "lg_hints (record_code_with_analysis sha ts receipt language code edit analysis l) = lg_hints l"
  by (simp_all add: record_code_settled code_settled_def frame)

lemma turn_frame [ledger_frame]:
  "lg_lifecycle (record_conversation_turn receipt speaker l) = lg_lifecycle l"
  "lg_coverage (record_conversation_turn receipt speaker l) = lg_coverage l"
  "lg_hints (record_conversation_turn receipt speaker l) = lg_hints l"
  by (simp_all add: record_conversation_turn_def turn_taken_def record_sequence_def Let_def frame)

lemma test_steps_frame:
  "lg_lifecycle (test_started l) = lg_lifecycle l" "lg_coverage (test_started l) = lg_coverage l"
  "lg_hints (test_started l) = lg_hints l"
  "lg_lifecycle (record_executed n p sg ts receipt l) = lg_lifecycle l"
  "lg_coverage (record_executed n p sg ts receipt l) = lg_coverage l"
  "lg_hints (record_executed n p sg ts receipt l) = lg_hints l"
  "lg_lifecycle (count_cycle l) = lg_lifecycle l" "lg_coverage (count_cycle l) = lg_coverage l"
  "lg_hints (count_cycle l) = lg_hints l"
  "lg_lifecycle (record_diagnostic sha ts receipt category d l) = lg_lifecycle l"
  "lg_coverage (record_diagnostic sha ts receipt category d l) = lg_coverage l"
  "lg_hints (record_diagnostic sha ts receipt category d l) = lg_hints l"
  by (simp_all add: test_started_def record_executed_def count_cycle_def record_diagnostic_def Let_def frame)

lemma test_frame [ledger_frame]:
  "lg_lifecycle (record_test sha ts receipt payload l) = lg_lifecycle l"
  "lg_coverage (record_test sha ts receipt payload l) = lg_coverage l"
  "lg_hints (record_test sha ts receipt payload l) = lg_hints l"
  by (simp_all add: record_test_steps Let_def frame test_diagnosed_def test_counted_def test_steps_frame
      split: option.split prod.split)

lemma hint_frame [ledger_frame]:
  "lg_lifecycle (record_hint receipt requested delivered l) = lg_lifecycle l"
  "lg_coverage (record_hint receipt requested delivered l) = lg_coverage l"
  "hi_current_level (lg_hints (record_hint receipt requested delivered l))
     = hi_current_level (lg_hints l) + (if requested \<and> delivered then 1 else 0)"
  by (simp_all add: record_hint_def Let_def frame)

lemma lifecycle_frame [ledger_frame]:
  "lg_coverage (record_lifecycle receipt transition l) = lg_coverage l"
  "lg_hints (record_lifecycle receipt transition l) = lg_hints l"
  "lc_ended (lg_lifecycle (record_lifecycle receipt transition l)) \<longleftrightarrow> transition = Ended \<or> lc_ended (lg_lifecycle l)"
  "lc_behavioral_round_started (lg_lifecycle (record_lifecycle receipt transition l))
     \<longleftrightarrow> transition = BehavioralStarted \<or> lc_behavioral_round_started (lg_lifecycle l)"
  by (cases transition; simp add: record_lifecycle_def Let_def frame)+

lemma coverage_frame [ledger_frame]:
  "lg_lifecycle (record_coverage receipt phase l) = lg_lifecycle l"
  "lg_hints (record_coverage receipt phase l) = lg_hints l"
  "set (cv_covered (lg_coverage (record_coverage receipt phase l))) = insert phase (set (cv_covered (lg_coverage l)))"
  by (auto simp: record_coverage_def frame)

section \<open>The cap never takes a step back\<close>

definition covered_by :: "framework_evidence list \<Rightarrow> framework_phase set" where
  "covered_by rows = {fe_phase e | e. e \<in> set rows \<and> fe_kind e \<noteq> Skipped}"

lemma covered_by_simps [simp]:
  "covered_by [] = {}"
  "covered_by (rows @ more_rows) = covered_by rows \<union> covered_by more_rows"
  "covered_by [e] = (if fe_kind e \<noteq> Skipped then {fe_phase e} else {})"
  by (auto simp: covered_by_def)

lemma phases_evidenced_covered: "phases_evidenced s phases \<longleftrightarrow> set phases \<subseteq> covered_by (rs_evidence s)"
  by (auto simp: phases_evidenced_def covered_by_def list_all_iff list_ex_iff)

lemma all_phases: "(UNIV :: framework_phase set) = {RepeatPhase, ExamplePhase, AlgorithmPhase, CodingPhase, TestPhase,
    OptimizationsPhase, SituationPhase, TaskPhase, ActionPhase, ResultPhase}"
  using framework_phase.exhaust by auto

lemma some_row_is_expendable:
  assumes "length rows = MAX_FRAMEWORK_EVIDENCE"
  shows "\<exists>index < length rows. expendable rows index"
proof -
  let ?f = "\<lambda>i. (fe_phase (rows ! i), fe_kind (rows ! i) = Skipped)"
  have one: "finite (UNIV :: framework_phase set)" "card (UNIV :: framework_phase set) \<le> 10"
    unfolding all_phases by (simp, simp add: card_insert_if)
  have pairs: "(UNIV :: (framework_phase \<times> bool) set) = UNIV \<times> UNIV" by simp
  have few: "finite (UNIV :: (framework_phase \<times> bool) set)" "card (UNIV :: (framework_phase \<times> bool) set) \<le> 20"
    unfolding pairs using one by (simp_all add: card_cartesian_product del: UNIV_Times_UNIV)
  have "\<not> inj_on ?f {..<length rows}"
  proof
    assume "inj_on ?f {..<length rows}"
    then have "card {..<length rows} \<le> card (UNIV :: (framework_phase \<times> bool) set)"
      by (rule card_inj_on_le) (simp_all add: few)
    then show False using assms few(2) by (simp add: MAX_FRAMEWORK_EVIDENCE_def)
  qed
  then obtain i j where "i \<in> {..<length rows}" "j \<in> {..<length rows}" "i \<noteq> j" "?f i = ?f j"
    unfolding inj_on_def by blast
  then have ij: "i < length rows" "j < length rows" "i \<noteq> j" "?f i = ?f j" by simp_all
  then have "expendable rows i" by (auto simp: expendable_def list_ex_iff intro!: bexI [of _ j])
  with ij(1) show ?thesis by blast
qed

lemma without_index: "i < length xs \<Longrightarrow> set (take i xs @ drop (Suc i) xs) = {xs ! j | j. j < length xs \<and> j \<noteq> i}"
proof -
  assume i: "i < length xs"
  have "set (take i xs) = {xs ! j | j. j < i}" using nth_image [of i xs, symmetric] i by auto
  moreover have "set (drop (Suc i) xs) = {xs ! j | j. i < j \<and> j < length xs}"
  proof -
    have "\<exists>k < length xs - Suc i. xs ! j = xs ! (Suc i + k)" if "i < j" "j < length xs" for j
      using that by (intro exI [of _ "j - Suc i"]) auto
    then show ?thesis by (fastforce simp: set_conv_nth)
  qed
  ultimately show ?thesis using i by (auto simp: nat_neq_iff)
qed

lemma evict_index:
  assumes "length rows = MAX_FRAMEWORK_EVIDENCE"
  obtains i where "i < length rows" "expendable rows i" "evict_one_observation rows = take i rows @ drop (Suc i) rows"
proof -
  obtain k where "k < length rows" "expendable rows k" using some_row_is_expendable [OF assms] by blast
  then have "\<exists>i. List.find (expendable rows) [0..<length rows] = Some i" by (intro find_exists [of k]) simp_all
  then obtain i where i: "List.find (expendable rows) [0..<length rows] = Some i" by blast
  have "i \<in> set [0..<length rows]" "expendable rows i" using find_SomeD [OF i] by simp_all
  then show thesis by (intro that [of i]) (simp_all add: evict_one_observation_def i)
qed

lemma evict_keeps_phases:
  assumes "length rows = MAX_FRAMEWORK_EVIDENCE"
  shows "covered_by (evict_one_observation rows) = covered_by rows"
proof -
  obtain i where i: "i < length rows" "expendable rows i" and evict: "evict_one_observation rows = take i rows @ drop (Suc i) rows"
    by (rule evict_index [OF assms])
  have "fe_phase (rows ! j) \<in> covered_by (evict_one_observation rows)"
    if "j < length rows" "fe_kind (rows ! j) \<noteq> Skipped" for j
  proof (cases "j = i")
    case True
    with i(2) that obtain k where "k < length rows" "k \<noteq> i" "fe_phase (rows ! k) = fe_phase (rows ! i)" "fe_kind (rows ! k) \<noteq> Skipped"
      by (auto simp: expendable_def list_ex_iff)
    then show ?thesis
      unfolding evict covered_by_def without_index [OF i(1)] by (auto simp: True intro!: exI [of _ "rows ! k"])
  next
    case False
    with that show ?thesis
      unfolding evict covered_by_def without_index [OF i(1)] by (auto intro!: exI [of _ "rows ! j"])
  qed
  then have "covered_by rows \<subseteq> covered_by (evict_one_observation rows)"
    by (auto simp: covered_by_def in_set_conv_nth)
  moreover have "covered_by (evict_one_observation rows) \<subseteq> covered_by rows"
    unfolding evict by (auto simp: covered_by_def dest: in_set_takeD in_set_dropD)
  ultimately show ?thesis by blast
qed

lemma evict_subset: "set (evict_one_observation rows) \<subseteq> set rows"
  by (auto simp: evict_one_observation_def Let_def dest: in_set_takeD in_set_dropD)

lemma evict_length: "rows \<noteq> [] \<Longrightarrow> length rows = MAX_FRAMEWORK_EVIDENCE \<Longrightarrow> Suc (length (evict_one_observation rows)) = length rows"
  by (erule evict_index) simp

text \<open>Room for one more row.\<close>

definition with_room :: "framework_evidence list \<Rightarrow> framework_evidence list" where
  "with_room rows = (if length rows = MAX_FRAMEWORK_EVIDENCE then evict_one_observation rows else rows)"

lemma with_room_phases: "covered_by (with_room rows) = covered_by rows"
  by (simp add: with_room_def evict_keeps_phases)

lemma with_room_subset: "set (with_room rows) \<subseteq> set rows"
  using evict_subset by (auto simp: with_room_def)

lemma with_room_length: "length rows \<le> MAX_FRAMEWORK_EVIDENCE \<Longrightarrow> length (with_room rows) < MAX_FRAMEWORK_EVIDENCE"
  using evict_length [of rows] by (cases rows) (auto simp: with_room_def MAX_FRAMEWORK_EVIDENCE_def)

section \<open>The invariant\<close>

definition row_ok :: "interview_mode \<Rightarrow> bool \<Rightarrow> framework_evidence \<Rightarrow> bool" where
  "row_ok mode started e \<longleftrightarrow> fe_version e = FRAMEWORK_VERSION \<and> fe_confidence e \<le> 100
     \<and> (fe_source e = SessionTiming \<longleftrightarrow> fe_kind e = Skipped)
     \<and> (is_star_phase (fe_phase e) \<and> fe_kind e \<noteq> Skipped \<longrightarrow> started)
     \<and> (mode = Coding \<longrightarrow> fe_source e \<noteq> BoardSnapshot)
     \<and> (mode = Whiteboard \<longrightarrow> fe_source e \<noteq> EditorSnapshot \<and> fe_source e \<noteq> TestEvent)"

definition rows_ok :: "runtime_state \<Rightarrow> bool" where
  "rows_ok s \<longleftrightarrow> length (rs_evidence s) \<le> MAX_FRAMEWORK_EVIDENCE
     \<and> (\<forall>e \<in> set (rs_evidence s). row_ok (pl_mode (rs_plan s)) (rd_started (rs_round s)) e)"

definition books_agree :: "runtime_state \<Rightarrow> bool" where
  "books_agree s \<longleftrightarrow> ledger_ok (rs_ledger s)
     \<and> set (cv_covered (lg_coverage (rs_ledger s))) = phase_id ` covered_by (rs_evidence s)
     \<and> (lc_ended (lg_lifecycle (rs_ledger s)) \<longleftrightarrow> rs_ended s)
     \<and> (lc_behavioral_round_started (lg_lifecycle (rs_ledger s)) \<longleftrightarrow> rd_started (rs_round s))
     \<and> hi_current_level (lg_hints (rs_ledger s)) = rs_rungs_given s"

definition rounds_ok :: "runtime_state \<Rightarrow> bool" where
  "rounds_ok s \<longleftrightarrow> (rd_started (rs_round s) \<longrightarrow>
     rd_transition_seen (rs_round s) \<and> pl_loop (rs_plan s) = CodingBehavioral \<and> coding_round_complete s)"

definition notice_ok :: "thinking_state \<Rightarrow> bool" where
  "notice_ok t \<longleftrightarrow> th_notice t = None \<or> th_notice t = Some (hold_is_declared (th_hold t))"

definition credit_ok :: "runs_state \<Rightarrow> bool" where
  "credit_ok r \<longleftrightarrow> (ru_tested_passed r = None \<longleftrightarrow> ru_tested_code r = None)"

definition interview_ok :: "runtime_state \<Rightarrow> bool" where
  "interview_ok s \<longleftrightarrow> rows_ok s \<and> books_agree s \<and> rounds_ok s \<and> notice_ok (rs_thinking s) \<and> credit_ok (rs_runs s)
     \<and> rs_rungs_given s \<le> length (pl_hint_ladder (rs_plan s))
     \<and> length (rs_interim_notes s) \<le> MAX_INTERIM_NOTES
     \<and> length (ig_events (rs_integrity s)) \<le> MAX_INTEGRITY_EVENTS"

text \<open>A step that touches nothing the invariant reads.\<close>

definition quiet :: "runtime_state \<Rightarrow> runtime_state \<Rightarrow> bool" where
  "quiet s t \<longleftrightarrow> rs_plan t = rs_plan s \<and> rs_round t = rs_round s \<and> rs_evidence t = rs_evidence s
     \<and> rs_ended t = rs_ended s \<and> rs_rungs_given t = rs_rungs_given s \<and> rs_interim_notes t = rs_interim_notes s
     \<and> rs_integrity t = rs_integrity s \<and> th_hold (rs_thinking t) = th_hold (rs_thinking s)
     \<and> th_notice (rs_thinking t) = th_notice (rs_thinking s)
     \<and> lg_lifecycle (rs_ledger t) = lg_lifecycle (rs_ledger s) \<and> lg_coverage (rs_ledger t) = lg_coverage (rs_ledger s)
     \<and> lg_hints (rs_ledger t) = lg_hints (rs_ledger s)
     \<and> (ledger_ok (rs_ledger s) \<longrightarrow> ledger_ok (rs_ledger t)) \<and> (credit_ok (rs_runs s) \<longrightarrow> credit_ok (rs_runs t))"

lemma quiet_refl [simp]: "quiet s s"
  by (simp add: quiet_def)

lemma quiet_trans: "quiet s t \<Longrightarrow> quiet t u \<Longrightarrow> quiet s u"
  by (simp add: quiet_def)

lemma quiet_ok: "quiet s t \<Longrightarrow> interview_ok s \<Longrightarrow> interview_ok t"
  by (simp add: quiet_def interview_ok_def rows_ok_def books_agree_def rounds_ok_def notice_ok_def
      coding_round_complete_def phases_evidenced_covered)

lemma parsing_is_quiet: "only_parsing s t \<Longrightarrow> quiet s t"
  by (simp add: only_parsing_def quiet_def)

section \<open>Quiet steps\<close>


lemma code_update_quiet: "quiet s (snd (apply_code_update ou receipt payload s))"
proof (cases "event_str payload ''code''")
  case None
  then show ?thesis by (simp add: apply_code_update_def)
next
  case (Some new_code)
  have switch: "quiet s (snd (switch_language ou switching s))" for switching s
    by (simp add: switch_language_def quiet_def split: option.split prod.split)
  have template: "quiet s (keep_template code s)" for code s
    by (simp add: keep_template_def quiet_def)
  have recorded: "quiet s t" if "quiet s u"
    and "t = u\<lparr>rs_ledger := record_code_with_analysis sha ts receipt language code edit analysis (rs_ledger u)\<rparr>"
    for s t u sha ts language code edit analysis
    using that code_recorded_ok by (simp add: quiet_def ledger_frame)
  have analysed: "quiet s (snd (update_analysis ou receipt switched prior code s))" for switched prior code s
    by (rule parsing_is_quiet [OF update_only_parses])
  have edited: "quiet s (s\<lparr>rs_editor := ed\<rparr>)" for s ed by (simp add: quiet_def)
  show ?thesis
    unfolding apply_code_update_def Some option.case Let_def
    by (auto simp: case_prod_beta intro!: recorded [OF _ refl] quiet_trans [OF _ edited] quiet_trans [OF _ switch]
        quiet_trans [OF _ template] quiet_trans [OF _ analysed])
qed

lemma credit_quiet: "quiet s (snd (credit_run payload submitted passed s))"
  by (simp add: credit_run_def quiet_def credit_ok_def split: option.split)

lemma record_run_quiet: "quiet s (record_run ou receipt raw payload setup_error outage s)"
  by (auto simp: record_run_def drop_credit_def Let_def quiet_def credit_ok_def ledger_frame test_ok split: option.split)

lemma show_editor_quiet: "quiet s (snd (show_editor s))"
  by (simp add: show_editor_def quiet_def)

lemma earlier_quiet: "quiet s (snd (unrecorded_earlier_phases evidence s))"
  by (simp add: unrecorded_earlier_phases_def Let_def quiet_def)

lemma with_recorded_quiet: "quiet s (snd (with_recorded_test recorded was_complete s))"
  by (simp add: with_recorded_test_def Let_def case_prod_beta earlier_quiet split: option.split)

lemma react_quiet: "quiet s (snd (react_to_run ou payload setup_error outage passed record since recorded complete s))"
proof -
  have analysis: "quiet s (s\<lparr>rs_runs := (rs_runs s)\<lparr>ru_analysis := a\<rparr>\<rparr>)" for s a by (simp add: quiet_def credit_ok_def)
  show ?thesis
    unfolding react_to_run_def Let_def
    by (auto simp: case_prod_beta intro!: quiet_trans [OF _ analysis] quiet_trans [OF _ with_recorded_quiet] show_editor_quiet)
qed

section \<open>Steps that record\<close>

lemma coverage_ledger_ok: "ledger_ok l \<Longrightarrow> ledger_ok (record_coverage receipt phase l)"
  by (rule coverage_recorded_ok)

text \<open>What a claim may say if it is to become a row.\<close>

definition claim_ok :: "runtime_state \<Rightarrow> evidence_claim \<Rightarrow> bool" where
  "claim_ok s c \<longleftrightarrow> cl_confidence c \<le> 100 \<and> (cl_source c = SessionTiming \<longleftrightarrow> cl_kind c = Skipped)
     \<and> (is_star_phase (cl_phase c) \<and> cl_kind c \<noteq> Skipped \<longrightarrow> rd_started (rs_round s))
     \<and> (pl_mode (rs_plan s) = Coding \<longrightarrow> cl_source c \<noteq> BoardSnapshot)
     \<and> (pl_mode (rs_plan s) = Whiteboard \<longrightarrow> cl_source c \<noteq> EditorSnapshot \<and> cl_source c \<noteq> TestEvent)"

lemma append_evidence_state:
  "snd (append_framework_evidence now receipt c s) = s\<lparr>rs_evidence := with_room (rs_evidence s) @ [fst (append_framework_evidence now receipt c s)],
     rs_ledger := (if cl_kind c \<noteq> Skipped then record_coverage receipt (phase_id (cl_phase c)) (rs_ledger s) else rs_ledger s)\<rparr>"
  by (simp add: append_framework_evidence_def with_room_def Let_def)

lemma append_evidence_row:
  "fst (append_framework_evidence now receipt c s) = \<lparr>fe_at_ms = elapsed_ms now, fe_phase = cl_phase c,
     fe_source = cl_source c, fe_kind = cl_kind c, fe_confidence = cl_confidence c, fe_summary = cl_summary c,
     fe_version = FRAMEWORK_VERSION\<rparr>"
  by (simp add: append_framework_evidence_def Let_def)

lemma append_evidence_ok:
  assumes "interview_ok s" "claim_ok s c"
  shows "interview_ok (snd (append_framework_evidence now receipt c s))"
proof -
  let ?t = "snd (append_framework_evidence now receipt c s)"
  have row: "row_ok (pl_mode (rs_plan s)) (rd_started (rs_round s)) (fst (append_framework_evidence now receipt c s))"
    using assms(2) by (simp add: append_evidence_row row_ok_def claim_ok_def)
  have "rows_ok ?t"
    using assms(1) row with_room_length [of "rs_evidence s"] with_room_subset [of "rs_evidence s"]
    by (auto simp: interview_ok_def rows_ok_def append_evidence_state)
  moreover have "books_agree ?t"
    using assms(1) by (auto simp: interview_ok_def books_agree_def append_evidence_state append_evidence_row with_room_phases
        ledger_frame coverage_recorded_ok)
  moreover have "rounds_ok ?t"
    using assms(1) by (auto simp: interview_ok_def rounds_ok_def append_evidence_state append_evidence_row with_room_phases
        coding_round_complete_def phases_evidenced_covered)
  ultimately show ?thesis
    using assms(1) by (simp add: interview_ok_def append_evidence_state)
qed

lemma read_claim_ok: "read_claim ou args quote_verified s = Inr c \<Longrightarrow> claim_ok s c"
  by (auto simp: read_claim_def claim_refused_def claimed_confidence_def claim_ok_def
      split: sum.splits option.splits if_splits interview_mode.splits)

lemma anchor_quiet: "quiet s (anchor_analysis s)"
  by (simp add: anchor_analysis_def quiet_def credit_ok_def)

lemma anchored_claim: "claim_ok (anchor_analysis s) c = claim_ok s c"
  by (simp add: anchor_analysis_def claim_ok_def)

lemma record_claim_ok:
  assumes "interview_ok s" "claim_ok s c"
  shows "interview_ok (snd (record_claim now receipt c s))"
proof -
  let ?u = "if cl_phase c = OptimizationsPhase \<and> cl_kind c \<noteq> Skipped then anchor_analysis s else s"
  have u: "interview_ok ?u" "claim_ok ?u c"
    using quiet_ok [OF anchor_quiet assms(1)] assms by (simp_all add: anchored_claim)
  show ?thesis
    using assms u append_evidence_ok [OF u]
    by (auto simp: record_claim_def Let_def case_prod_beta split: option.split)
qed

lemma record_evidence_ok: "interview_ok s \<Longrightarrow> interview_ok (snd (record_evidence ou now receipt args quote_verified s))"
  using record_claim_ok read_claim_ok by (auto simp: record_evidence_def split: sum.split)

lemma received_claim_ok:
  "test_recordable s \<Longrightarrow> claim_ok s \<lparr>cl_phase = TestPhase, cl_source = TestEvent, cl_kind = Observed, cl_confidence = n,
     cl_summary = summary\<rparr> \<longleftrightarrow> n \<le> 100"
  by (cases "pl_mode (rs_plan s)")
    (auto simp: claim_ok_def is_star_phase_def test_recordable_def test_source_of_def is_whiteboard_def)

lemma reconcile_ok: "interview_ok s \<Longrightarrow> interview_ok (snd (reconcile_received_test now receipt s))"
  by (auto simp: reconcile_received_test_def Let_def case_prod_beta intro!: append_evidence_ok simp: received_claim_ok)

lemma skipped_row_ok: "row_ok mode started \<lparr>fe_at_ms = t, fe_phase = phase, fe_source = SessionTiming, fe_kind = Skipped,
    fe_confidence = 100, fe_summary = summary, fe_version = FRAMEWORK_VERSION\<rparr>"
  by (simp add: row_ok_def)

lemma skip_phase_rows:
  assumes "length rows \<le> MAX_FRAMEWORK_EVIDENCE" "\<forall>e \<in> set rows. row_ok mode started e"
  shows "length (skip_phase t summary phase rows) \<le> MAX_FRAMEWORK_EVIDENCE
    \<and> (\<forall>e \<in> set (skip_phase t summary phase rows). row_ok mode started e)
    \<and> covered_by (skip_phase t summary phase rows) = covered_by rows"
  using assms with_room_length [of rows] with_room_subset [of rows] with_room_phases [of rows]
  by (auto simp: skip_phase_def skipped_row_ok simp flip: with_room_def)

lemma skip_phases_rows:
  assumes "length rows \<le> MAX_FRAMEWORK_EVIDENCE" "\<forall>e \<in> set rows. row_ok mode started e"
  shows "length (fold (skip_phase t summary) phases rows) \<le> MAX_FRAMEWORK_EVIDENCE
    \<and> (\<forall>e \<in> set (fold (skip_phase t summary) phases rows). row_ok mode started e)
    \<and> covered_by (fold (skip_phase t summary) phases rows) = covered_by rows"
  using assms
proof (induction phases arbitrary: rows)
  case (Cons phase phases)
  then show ?case using skip_phase_rows [OF Cons.prems, of t summary phase] Cons.IH [of "skip_phase t summary phase rows"] by simp
qed simp

lemma skip_ok: "interview_ok s \<Longrightarrow> interview_ok (skip_unassessed_star now summary s)"
  using skip_phases_rows [of "rs_evidence s" "pl_mode (rs_plan s)" "rd_started (rs_round s)" "elapsed_ms now" summary
      "[SituationPhase, TaskPhase, ActionPhase, ResultPhase]"]
  by (auto simp: skip_unassessed_star_def interview_ok_def rows_ok_def books_agree_def rounds_ok_def
      coding_round_complete_def phases_evidenced_covered)

lemma give_hint_ok:
  assumes "interview_ok s"
  shows "interview_ok (snd (give_hint receipt requested s))"
proof -
  have withheld: "interview_ok (s\<lparr>rs_ledger := record_hint receipt requested False (rs_ledger s)\<rparr>)"
    using assms hint_ok by (auto simp: interview_ok_def rows_ok_def books_agree_def rounds_ok_def ledger_frame
        coding_round_complete_def phases_evidenced_covered)
  have counted: "interview_ok (s\<lparr>rs_volunteered_hints := v, rs_hints_used := u, rs_ledger := record_hint receipt r d (rs_ledger s)\<rparr>)"
    if "\<not> (r \<and> d)" for v u r d
    using assms that hint_ok by (auto simp: interview_ok_def rows_ok_def books_agree_def rounds_ok_def ledger_frame
        coding_round_complete_def phases_evidenced_covered)
  have used_up: "interview_ok (s\<lparr>rs_hints_used := u, rs_ledger := record_hint receipt True False (rs_ledger s)\<rparr>)" for u
    using assms hint_ok by (auto simp: interview_ok_def rows_ok_def books_agree_def rounds_ok_def ledger_frame
        coding_round_complete_def phases_evidenced_covered)
  have given: "interview_ok (s\<lparr>rs_hints_used := u, rs_rungs_given := rs_rungs_given s + 1,
      rs_ledger := record_hint receipt True True (rs_ledger s)\<rparr>)" if "rs_rungs_given s < length (pl_hint_ladder (rs_plan s))" for u
    using assms that hint_ok by (auto simp: interview_ok_def rows_ok_def books_agree_def rounds_ok_def ledger_frame
        coding_round_complete_def phases_evidenced_covered)
  show ?thesis
    using withheld counted [of False True] used_up given
    by (auto simp: give_hint_def Let_def next_clue_def)
qed

section \<open>Steps of the hold\<close>

lemma lifecycle_thinking:
  "t \<in> {ThinkingStarted, ThinkingEnded} \<Longrightarrow>
     lc_ended (lg_lifecycle (record_lifecycle receipt t l)) = lc_ended (lg_lifecycle l)
     \<and> lc_behavioral_round_started (lg_lifecycle (record_lifecycle receipt t l)) = lc_behavioral_round_started (lg_lifecycle l)"
  by (auto simp: ledger_frame)

lemma thinking_change_ok:
  assumes "interview_ok s" "notice_ok t" "l = rs_ledger s \<or> (\<exists>tr \<in> {ThinkingStarted, ThinkingEnded}. l = record_lifecycle receipt tr (rs_ledger s))"
  shows "interview_ok (s\<lparr>rs_thinking := t, rs_ledger := l\<rparr>)"
  using assms lifecycle_ok by (auto simp: interview_ok_def rows_ok_def books_agree_def rounds_ok_def ledger_frame
      coding_round_complete_def phases_evidenced_covered)

lemma hold_change_ok: "interview_ok s \<Longrightarrow> notice_ok t \<Longrightarrow> interview_ok (s\<lparr>rs_thinking := t\<rparr>)"
  using thinking_change_ok [of s t "rs_ledger s"] by simp

lemma end_requested_quiet: "quiet s (s\<lparr>rs_end_requested := b\<rparr>)"
  by (simp add: quiet_def)

lemma request_ok: "interview_ok s \<Longrightarrow> interview_ok (request_thinking now s)"
proof -
  assume s: "interview_ok s"
  have "notice_ok ((rs_thinking s)\<lparr>th_hold := Requested now, th_released_at := None\<rparr>)" if "th_hold (rs_thinking s) = Off"
    using s that by (auto simp: interview_ok_def notice_ok_def)
  then show ?thesis
    using s by (auto simp: request_thinking_def Let_def intro!: quiet_ok [OF end_requested_quiet] hold_change_ok)
qed

lemma declare_ok: "interview_ok s \<Longrightarrow> interview_ok (snd (declare_thinking now receipt s))"
proof -
  assume s: "interview_ok s"
  then have u: "interview_ok (s\<lparr>rs_end_requested := False\<rparr>)" by (rule quiet_ok [OF end_requested_quiet])
  show ?thesis
    using u thinking_change_ok [OF u, of "(rs_thinking s)\<lparr>th_hold := Held now, th_notice := Some True\<rparr>"
        "record_lifecycle receipt ThinkingStarted (rs_ledger s)" receipt]
    by (simp add: declare_thinking_def Let_def notice_ok_def)
qed

lemma end_thinking_ok: "interview_ok s \<Longrightarrow> interview_ok (snd (end_thinking receipt s))"
proof -
  assume s: "interview_ok s"
  have "notice_ok ((rs_thinking s)\<lparr>th_hold := Off\<rparr>)" if "\<not> hold_is_declared (th_hold (rs_thinking s))"
    using s that by (auto simp: interview_ok_def notice_ok_def)
  moreover have "notice_ok ((rs_thinking s)\<lparr>th_hold := Off, th_notice := Some False\<rparr>)" by (simp add: notice_ok_def)
  ultimately show ?thesis
    using hold_change_ok [OF s] thinking_change_ok [OF s, of _ "record_lifecycle receipt ThinkingEnded (rs_ledger s)" receipt]
    by (auto simp: end_thinking_def Let_def)
qed

lemma announce_ok: "interview_ok s \<Longrightarrow> interview_ok (announce_thinking s)"
  by (simp add: announce_thinking_def hold_change_ok notice_ok_def)

lemma withdraw_ok: "interview_ok s \<Longrightarrow> interview_ok (snd (withdraw_thinking_request s))"
proof -
  assume s: "interview_ok s"
  have "notice_ok ((rs_thinking s)\<lparr>th_hold := Off\<rparr>)" if "hold_is_requested (th_hold (rs_thinking s))"
    using s that by (cases "th_hold (rs_thinking s)") (auto simp: interview_ok_def notice_ok_def)
  then show ?thesis using s by (auto simp: withdraw_thinking_request_def intro: hold_change_ok)
qed

lemma debts_quiet: "quiet s (clear_thinking_debt s)"
  by (simp add: clear_thinking_debt_def Let_def quiet_def)

section \<open>Control messages\<close>

lemma transition_ok: "interview_ok s \<Longrightarrow> pl_loop (rs_plan s) = CodingBehavioral \<Longrightarrow> interview_ok (snd (control_round_transition receipt s))"
proof -
  assume s: "interview_ok s" and loop: "pl_loop (rs_plan s) = CodingBehavioral"
  let ?u = "s\<lparr>rs_round := (rs_round s)\<lparr>rd_transition_seen := True\<rparr>\<rparr>"
  have u: "interview_ok ?u"
    using s by (auto simp: interview_ok_def rows_ok_def books_agree_def rounds_ok_def coding_round_complete_def phases_evidenced_covered)
  have started: "row_ok mode True e" if "row_ok mode b e" for mode b e using that by (auto simp: row_ok_def)
  have "interview_ok (open_behavioral_round receipt ?u)" if "coding_round_complete ?u"
    using u loop that lifecycle_ok started
    by (auto simp: open_behavioral_round_def interview_ok_def rows_ok_def books_agree_def rounds_ok_def ledger_frame
        coding_round_complete_def phases_evidenced_covered)
  with u show ?thesis by (simp add: control_round_transition_def Let_def)
qed

lemma warning_ok: "interview_ok s \<Longrightarrow> interview_ok (snd (control_time_warning now s))"
proof -
  assume s: "interview_ok s"
  have "interview_ok (s\<lparr>rs_round := (rs_round s)\<lparr>rd_time_warning_seen := True\<rparr>\<rparr>)"
    using s by (auto simp: interview_ok_def rows_ok_def books_agree_def rounds_ok_def coding_round_complete_def phases_evidenced_covered)
  then show ?thesis by (simp add: control_time_warning_def Let_def skip_ok)
qed

lemma final_analysis_quiet: "quiet s (snd (snd (final_analysis ou code language s)))"
  by (auto simp: final_analysis_def Let_def case_prod_beta intro: parsing_is_quiet analysis_only_parses)

lemma final_editor_quiet: "quiet s (take_final_editor ou receipt payload s)"
proof -
  have recorded: "quiet s (u\<lparr>rs_ledger := record_code_with_analysis sha ts r language code edit analysis (rs_ledger u)\<rparr>)"
    if "quiet s u" for s u sha ts r language code edit analysis
    using that code_recorded_ok by (simp add: quiet_def ledger_frame)
  have edited: "quiet s (s\<lparr>rs_editor := ed\<rparr>)" for s ed by (simp add: quiet_def)
  show ?thesis
    unfolding take_final_editor_def Let_def
    by (auto simp: case_prod_beta intro!: recorded quiet_trans [OF _ final_analysis_quiet] edited)
qed

lemma end_ok: "interview_ok s \<Longrightarrow> interview_ok (snd (control_end_interview ou now receipt payload s))"
proof -
  assume s: "interview_ok s"
  have closed: "interview_ok (u\<lparr>rs_ended := True, rs_ledger := record_lifecycle receipt Ended (rs_ledger u)\<rparr>)"
    if "interview_ok u" for u
    using that lifecycle_ok by (auto simp: interview_ok_def rows_ok_def books_agree_def rounds_ok_def ledger_frame
        coding_round_complete_def phases_evidenced_covered)
  show ?thesis
    using s by (auto simp: control_end_interview_def Let_def case_prod_beta
        intro!: closed end_thinking_ok quiet_ok [OF final_editor_quiet] skip_ok)
qed

lemma control_thinking_ok: "interview_ok s \<Longrightarrow> interview_ok (snd (control_thinking now receipt thinking s))"
proof -
  assume s: "interview_ok s"
  have "quiet u (u\<lparr>rs_thinking := (rs_thinking u)\<lparr>th_released_at := r\<rparr>\<rparr>)" for u r by (simp add: quiet_def)
  then show ?thesis
    using s by (auto simp: control_thinking_def Let_def case_prod_beta
        intro!: announce_ok declare_ok quiet_ok [where t = "_\<lparr>rs_thinking := _\<rparr>"] end_thinking_ok)
qed

lemma yield_ok: "interview_ok s \<Longrightarrow> interview_ok (snd (control_yield_turn receipt payload s))"
  by (auto simp: control_yield_turn_def Let_def case_prod_beta intro!: end_thinking_ok)

lemma control_ok: "interview_ok s \<Longrightarrow> interview_ok (snd (apply_control ou now receipt payload s))"
  by (auto simp: apply_control_def Let_def case_prod_beta round_transition_due_def
      intro!: control_thinking_ok yield_ok transition_ok warning_ok end_ok split: option.split)

section \<open>Every step\<close>

lemma test_results_ok: "interview_ok s \<Longrightarrow> interview_ok (snd (apply_test_results ou now receipt since raw s))"
  by (auto simp: apply_test_results_def Let_def case_prod_beta
      intro!: reconcile_ok quiet_ok [OF credit_quiet] quiet_ok [OF record_run_quiet] quiet_ok [OF react_quiet])

lemma keep_event_bound: "length (ig_events i) \<le> MAX_INTEGRITY_EVENTS \<Longrightarrow> length (ig_events (keep_event event i)) \<le> MAX_INTEGRITY_EVENTS"
  by (auto simp: keep_event_def Let_def)

lemma integrity_ok: "interview_ok s \<Longrightarrow> interview_ok (apply_integrity_event ou payload s)"
  using keep_event_bound [of "(rs_integrity s)\<lparr>ig_chain := c\<rparr>" for c]
  by (auto simp: apply_integrity_event_def apply_integrity_def interview_ok_def rows_ok_def books_agree_def rounds_ok_def
      coding_round_complete_def phases_evidenced_covered split: option.split)

lemma topic_ok: "interview_ok s \<Longrightarrow> interview_ok (snd (apply_topic ou now receipt since topic payload s))"
  by (cases topic) (auto simp: apply_topic_def intro: quiet_ok [OF code_update_quiet] test_results_ok control_ok integrity_ok)

lemma under_hold_ok: "interview_ok s \<Longrightarrow> interview_ok (snd (under_hold receipt r s))"
  by (auto simp: under_hold_def case_prod_beta intro!: end_thinking_ok split: option.split)

lemma received_quiet: "quiet s (s\<lparr>rs_ledger := record_received_event (rs_ledger s)\<rparr>)"
  by (simp add: quiet_def ledger_frame received_ok)

lemma event_ok: "interview_ok s \<Longrightarrow> interview_ok (snd (apply_event ou now receipt since received topic payload s))"
  by (auto simp: apply_event_def Let_def case_prod_beta
      intro!: under_hold_ok reconcile_ok topic_ok quiet_ok [OF received_quiet])

lemma judge_window_quiet: "quiet s (take_phase_judge_window ou briefing s)"
  by (simp add: take_phase_judge_window_def quiet_def ledger_frame model_input_ok)

lemma record_step_ok: "interview_ok (snd rs) \<Longrightarrow> interview_ok (snd (record_step ou now receipt open_ids step rs))"
proof -
  assume s: "interview_ok (snd rs)"
  have "interview_ok t" if "record_evidence ou now receipt args True (snd rs) = (x, t)" for args x t
    using record_evidence_ok [OF s] that by (metis snd_conv)
  with s show ?thesis
    by (auto simp: record_step_def split: option.split prod.split sum.split record_outcome.split)
qed

lemma record_steps_ok: "interview_ok (snd rs) \<Longrightarrow> interview_ok (snd (fold (record_step ou now receipt open_ids) steps rs))"
  by (induction steps arbitrary: rs) (simp_all add: record_step_ok)

lemma judgment_ok: "interview_ok s \<Longrightarrow> interview_ok (snd (apply_phase_judgment ou now receipt answer s))"
proof -
  assume s: "interview_ok s"
  have "quiet u (u\<lparr>rs_judge := j\<rparr>)" for u j by (simp add: quiet_def)
  then have judge: "interview_ok (s\<lparr>rs_judge := j\<rparr>)" for j using s quiet_ok by blast
  show ?thesis
    using s judge by (auto simp: apply_phase_judgment_def reopen_window_def Let_def intro!: record_steps_ok split: option.split)
qed

lemma keep_note_bound: "length notes \<le> MAX_INTERIM_NOTES \<Longrightarrow> length (keep_note line notes) \<le> MAX_INTERIM_NOTES"
  by (auto simp: keep_note_def MAX_INTERIM_NOTES_def INTERIM_OPENING_KEPT_def)

lemma notes_bound: "length ns \<le> MAX_INTERIM_NOTES \<Longrightarrow> length (notes_loop taken lines ns) \<le> MAX_INTERIM_NOTES"
  by (induction taken lines ns rule: notes_loop.induct) (auto simp: Let_def keep_note_bound)

lemma notes_ok: "interview_ok s \<Longrightarrow> interview_ok (record_interim_notes review s)"
  using notes_bound [of "rs_interim_notes s" 0 "str_lines review"]
  by (auto simp: record_interim_notes_def interview_ok_def rows_ok_def books_agree_def rounds_ok_def
      coding_round_complete_def phases_evidenced_covered)

lemma notice_taken_ok: "interview_ok s \<Longrightarrow> interview_ok (snd (take_thinking_notice s))"
  by (simp add: take_thinking_notice_def hold_change_ok notice_ok_def)

lemma check_in_ok: "interview_ok s \<Longrightarrow> interview_ok (snd (claim_thinking_check_in now receipt s))"
  by (auto simp: claim_thinking_check_in_def end_thinking_ok split: thinking_hold.split)

lemma settles_ok: "interview_ok s \<Longrightarrow> interview_ok (snd (settle_stale_request now receipt s))"
  by (auto simp: settle_stale_request_def declare_ok split: thinking_hold.split)

lemma room_quiet:
  "quiet s (settle_earlier_steps delivered s)"
  "quiet s (s\<lparr>rs_thinking := (rs_thinking s)\<lparr>th_unheard_reply := a, th_recovery_reply_pending := b,
      th_needs_cold_brief := c, th_owed_reply := d\<rparr>\<rparr>)"
  "quiet s (s\<lparr>rs_transcript := lines\<rparr>)" "quiet s (s\<lparr>rs_editor := ed\<rparr>)" "quiet s (s\<lparr>rs_board_drawn := True\<rparr>)"
  "quiet s (s\<lparr>rs_end_requested := e\<rparr>)"
  "quiet s (s\<lparr>rs_ledger := record_model_input sha kind t (rs_ledger s)\<rparr>)"
  "quiet s (s\<lparr>rs_ledger := record_conversation_turn receipt speaker (rs_ledger s)\<rparr>)"
  by (simp_all add: settle_earlier_steps_def quiet_def ledger_frame model_input_ok conversation_ok)

lemma interview_step_ok: "interview_ok s \<Longrightarrow> interview_ok (interview_step ou now e s)"
  by (cases e) (auto simp: record_framework_evidence_outcome_def
      intro: event_ok record_evidence_ok give_hint_ok quiet_ok [OF judge_window_quiet] judgment_ok notes_ok request_ok
        withdraw_ok check_in_ok settles_ok notice_taken_ok quiet_ok [OF debts_quiet] quiet_ok [OF room_quiet(1)]
        quiet_ok [OF room_quiet(2)] quiet_ok [OF room_quiet(3)] quiet_ok [OF room_quiet(4)] quiet_ok [OF room_quiet(5)]
        quiet_ok [OF room_quiet(6)] quiet_ok [OF room_quiet(7)] quiet_ok [OF room_quiet(8)])

lemma fresh_ledger:
  "lg_lifecycle (set_uncovered_coverage phases l) = lg_lifecycle l" "lg_hints (set_uncovered_coverage phases l) = lg_hints l"
  "cv_covered (lg_coverage (set_uncovered_coverage phases l)) = cv_covered (lg_coverage l)"
  "lg_tests (set_uncovered_coverage phases l) = lg_tests l"
  "hi_requested (lg_hints ledger_default) = 0" "hi_volunteered (lg_hints ledger_default) = 0"
  "hi_current_level (lg_hints ledger_default) = 0" "cv_covered (lg_coverage ledger_default) = []"
  "lc_ended (lg_lifecycle ledger_default) = False"
  "lc_behavioral_round_started (lg_lifecycle ledger_default) = False"
  by (simp_all add: set_uncovered_coverage_def ledger_default_def)

lemma initial_ok: "interview_ok (initial_runtime_state plan starters language)"
  by (auto simp: initial_runtime_state_def for_problem_def Let_def default_state_def default_plan_def interview_ok_def rows_ok_def
      books_agree_def rounds_ok_def notice_ok_def credit_ok_def integrity_default_def uncovered_ok default_ok
      fresh_ledger split: option.split)

end
