(* ===== verification/Interview_Moves.thy ===== *)
theory Interview_Moves
  imports Interview_Correct
begin

text \<open>
  What no step of an interview takes back, and that the ledger inside it moves only by the operations
  of \<open>Ledger\<close>, so that what is proved of every run of the ledger holds of the ledger of an interview.
\<close>

section \<open>Moves of the ledger\<close>

definition ledger_moves :: "(string \<Rightarrow> string) \<Rightarrow> evidence_ledger \<Rightarrow> evidence_ledger \<Rightarrow> bool" where
  "ledger_moves sha l m \<longleftrightarrow> (\<exists>es. m = fold (ledger_step sha) es l)"

lemma ledger_moves_refl [simp]: "ledger_moves sha l l"
  by (auto simp: ledger_moves_def intro: exI [of _ "[]"])

lemma ledger_moves_trans: "ledger_moves sha l m \<Longrightarrow> ledger_moves sha m n \<Longrightarrow> ledger_moves sha l n"
proof -
  assume "ledger_moves sha l m" "ledger_moves sha m n"
  then obtain es fs where "m = fold (ledger_step sha) es l" "n = fold (ledger_step sha) fs m"
    by (auto simp: ledger_moves_def)
  then have "n = fold (ledger_step sha) (es @ fs) l" by simp
  then show ?thesis unfolding ledger_moves_def by blast
qed

lemma one_ledger_move: "m = ledger_step sha e l \<Longrightarrow> ledger_moves sha l m"
  by (auto simp: ledger_moves_def intro!: exI [of _ "[e]"])

lemma moves_of_operations [simp]:
  "ledger_moves sha l (record_received_event l)"
  "ledger_moves sha l (record_model_input sha kind t l)"
  "ledger_moves sha l (record_code_with_analysis sha ts receipt language code edit analysis l)"
  "ledger_moves sha l (record_test sha ts receipt payload l)"
  "ledger_moves sha l (record_hint receipt requested delivered l)"
  "ledger_moves sha l (record_lifecycle receipt transition l)"
  "ledger_moves sha l (record_coverage receipt phase l)"
  "ledger_moves sha l (record_conversation_turn receipt speaker l)"
  "ledger_moves sha l (set_uncovered_coverage phases l)"
proof -
  show "ledger_moves sha l (record_received_event l)" by (rule one_ledger_move [of _ _ ReceivedEvent]) simp
  show "ledger_moves sha l (record_model_input sha kind t l)" by (rule one_ledger_move [of _ _ "ModelInput kind t"]) simp
  show "ledger_moves sha l (record_code_with_analysis sha ts receipt language code edit analysis l)"
    by (rule one_ledger_move [of _ _ "CodeSeen ts receipt language code edit analysis"]) simp
  show "ledger_moves sha l (record_test sha ts receipt payload l)"
    by (rule one_ledger_move [of _ _ "TestRun ts receipt payload"]) simp
  show "ledger_moves sha l (record_hint receipt requested delivered l)"
    by (rule one_ledger_move [of _ _ "HintGiven receipt requested delivered"]) simp
  show "ledger_moves sha l (record_lifecycle receipt transition l)"
    by (rule one_ledger_move [of _ _ "LifecycleMoved receipt transition"]) simp
  show "ledger_moves sha l (record_coverage receipt phase l)"
    by (rule one_ledger_move [of _ _ "PhaseCovered receipt phase"]) simp
  show "ledger_moves sha l (record_conversation_turn receipt speaker l)"
    by (rule one_ledger_move [of _ _ "TurnTaken receipt speaker"]) simp
  show "ledger_moves sha l (set_uncovered_coverage phases l)"
    by (rule one_ledger_move [of _ _ "PhasesUncovered phases"]) simp
qed

section \<open>The past of an interview\<close>

definition opening_notes :: "runtime_state \<Rightarrow> string list" where
  "opening_notes s = take INTERIM_OPENING_KEPT (rs_interim_notes s)"

definition interview_past :: "(string \<Rightarrow> string) \<Rightarrow> runtime_state \<Rightarrow> runtime_state \<Rightarrow> bool" where
  "interview_past sha s t \<longleftrightarrow> rs_plan t = rs_plan s \<and> covered_by (rs_evidence s) \<subseteq> covered_by (rs_evidence t)
     \<and> rs_rungs_given s \<le> rs_rungs_given t \<and> (rs_ended s \<longrightarrow> rs_ended t)
     \<and> (rd_transition_seen (rs_round s) \<longrightarrow> rd_transition_seen (rs_round t))
     \<and> (rd_time_warning_seen (rs_round s) \<longrightarrow> rd_time_warning_seen (rs_round t))
     \<and> (rd_started (rs_round s) \<longrightarrow> rd_started (rs_round t))
     \<and> take (length (opening_notes s)) (rs_interim_notes t) = opening_notes s
     \<and> ledger_moves sha (rs_ledger s) (rs_ledger t)"

lemma interview_past_refl [simp]: "interview_past sha s s"
  by (simp add: interview_past_def opening_notes_def min_def)

lemma opening_kept:
  assumes "take (length (take n xs)) ys = take n xs" "take (length (take n ys)) zs = take n ys"
  shows "take (length (take n xs)) zs = take n xs"
proof -
  define k where "k = length (take n xs)"
  have "length (take k ys) = k" using assms(1) by (simp add: k_def)
  then have k: "k \<le> n" "k \<le> length (take n ys)" by (simp_all add: k_def)
  have "take k zs = take k (take (length (take n ys)) zs)" using k(2) by (simp only: take_take min_absorb1)
  also have "\<dots> = take k (take n ys)" by (simp only: assms(2))
  also have "\<dots> = take k ys" using k(1) by (simp only: take_take min_absorb1)
  finally show ?thesis using assms(1) by (simp only: k_def)
qed

lemma interview_past_trans:
  assumes "interview_past sha s t" "interview_past sha t u"
  shows "interview_past sha s u"
proof -
  have "take (length (opening_notes s)) (rs_interim_notes u) = opening_notes s"
    using assms opening_kept unfolding interview_past_def opening_notes_def by blast
  moreover have "ledger_moves sha (rs_ledger s) (rs_ledger u)"
    using assms ledger_moves_trans unfolding interview_past_def by blast
  ultimately show ?thesis using assms unfolding interview_past_def by auto
qed

section \<open>Relations the steps of an interview respect\<close>

text \<open>
  A relation between states that holds across each kind of change an interview makes holds across
  every step.  The changes: fields that matter to no evidence, a run of the candidate's code credited
  or its credit dropped, a row of evidence, the skipped rows, a hint, notes, the round transition, the
  time warning and the end.  \<open>tests\<close> and \<open>controls\<close> say which packets may have arrived.
\<close>

definition plain_move :: "(string \<Rightarrow> string) \<Rightarrow> runtime_state \<Rightarrow> runtime_state \<Rightarrow> bool" where
  "plain_move sha s t \<longleftrightarrow> rs_plan t = rs_plan s \<and> rs_round t = rs_round s \<and> rs_evidence t = rs_evidence s
     \<and> rs_ended t = rs_ended s \<and> rs_rungs_given t = rs_rungs_given s \<and> rs_interim_notes t = rs_interim_notes s
     \<and> ru_tested_code (rs_runs t) = ru_tested_code (rs_runs s) \<and> ledger_moves sha (rs_ledger s) (rs_ledger t)"

definition backed_claim :: "runtime_state \<Rightarrow> evidence_claim \<Rightarrow> bool" where
  "backed_claim s c \<longleftrightarrow> (cl_phase c = TestPhase \<and> cl_source c = TestEvent \<and> cl_kind c \<noteq> Skipped \<longrightarrow> ru_tested_code (rs_runs s) \<noteq> None)"

definition tests_in :: "(nat \<times> interview_event) list \<Rightarrow> json \<Rightarrow> bool" where
  "tests_in es raw \<longleftrightarrow> (\<exists>now receipt since received. (now, Packet receipt since received TestResultsTopic raw) \<in> set es)"

definition controls_in :: "(nat \<times> interview_event) list \<Rightarrow> nat \<Rightarrow> json \<Rightarrow> bool" where
  "controls_in es now payload \<longleftrightarrow> (\<exists>receipt since received. (now, Packet receipt since received ControlTopic payload) \<in> set es)"

locale interview_moves =
  fixes ou :: outside
    and rel :: "runtime_state \<Rightarrow> runtime_state \<Rightarrow> bool"
    and tests :: "json \<Rightarrow> bool"
    and controls :: "nat \<Rightarrow> json \<Rightarrow> bool"
  assumes rel_trans: "rel s t \<Longrightarrow> rel t u \<Longrightarrow> rel s u"
    and rel_plain: "plain_move (ou_sha ou) s t \<Longrightarrow> rel s t"
    and rel_uncredited: "rel s (s\<lparr>rs_runs := (rs_runs s)\<lparr>ru_tested_code := None, ru_tested_passed := None\<rparr>\<rparr>)"
    and rel_credited: "tests raw \<Longrightarrow> submission raw = Some run \<Longrightarrow> real_test_run (sanitize_test_run (ou_to_int ou) raw)
        \<Longrightarrow> ru_tested_code r = Some run \<Longrightarrow> rel s (s\<lparr>rs_runs := r\<rparr>)"
    and rel_append: "backed_claim s c \<Longrightarrow> rel s (snd (append_framework_evidence now receipt c s))"
    and rel_skip: "rel s (skip_unassessed_star now summary s)"
    and rel_hint: "rel s (snd (give_hint receipt requested s))"
    and rel_notes: "rel s (record_interim_notes review s)"
    and rel_transition: "controls now payload \<Longrightarrow> round_transition_due now payload s \<Longrightarrow> rel s (snd (control_round_transition receipt s))"
    and rel_warned: "rel s (s\<lparr>rs_round := (rs_round s)\<lparr>rd_time_warning_seen := True\<rparr>\<rparr>)"
    and rel_ended: "rel s (s\<lparr>rs_ended := True, rs_ledger := record_lifecycle receipt Ended (rs_ledger s)\<rparr>)"
begin

lemma rel_refl [simp]: "rel s s"
  by (rule rel_plain) (simp add: plain_move_def)

lemma plain_rel:
  "rs_plan t = rs_plan s \<Longrightarrow> rs_round t = rs_round s \<Longrightarrow> rs_evidence t = rs_evidence s \<Longrightarrow> rs_ended t = rs_ended s
   \<Longrightarrow> rs_rungs_given t = rs_rungs_given s \<Longrightarrow> rs_interim_notes t = rs_interim_notes s
   \<Longrightarrow> ru_tested_code (rs_runs t) = ru_tested_code (rs_runs s)
   \<Longrightarrow> ledger_moves (ou_sha ou) (rs_ledger s) (rs_ledger t) \<Longrightarrow> rel s t"
  by (rule rel_plain) (simp add: plain_move_def)

lemma parsing_rel: "only_parsing s t \<Longrightarrow> rel s t"
  by (rule plain_rel) (simp_all add: only_parsing_def)

lemma then_ledger: "rel s t \<Longrightarrow> ledger_moves (ou_sha ou) (rs_ledger t) l \<Longrightarrow> rel s (t\<lparr>rs_ledger := l\<rparr>)"
  by (erule rel_trans) (rule plain_rel, simp_all)

lemma then_plain:
  "rel s t \<Longrightarrow> rel s (t\<lparr>rs_editor := a\<rparr>)"
  "rel s t \<Longrightarrow> rel s (t\<lparr>rs_thinking := c\<rparr>)"
  "rel s t \<Longrightarrow> rel s (t\<lparr>rs_judge := d\<rparr>)"
  "rel s t \<Longrightarrow> rel s (t\<lparr>rs_earlier_pending := e\<rparr>)"
  "rel s t \<Longrightarrow> rel s (t\<lparr>rs_end_requested := f\<rparr>)"
  "rel s t \<Longrightarrow> rel s (t\<lparr>rs_integrity := i\<rparr>)"
  "rel s t \<Longrightarrow> rel s (t\<lparr>rs_transcript := lines\<rparr>)"
  "rel s t \<Longrightarrow> rel s (t\<lparr>rs_board_drawn := drawn\<rparr>)"
  "rel s t \<Longrightarrow> rel s (t\<lparr>rs_runs := (rs_runs t)\<lparr>ru_analysis := y\<rparr>\<rparr>)"
  by (erule rel_trans, rule plain_rel, simp_all)+

lemma anchor_rel: "rel s (anchor_analysis s)"
  by (simp add: anchor_analysis_def then_plain)

lemma read_claim_backed:
  assumes "read_claim ou args verified s = Inr c" "test_refused s c = None"
  shows "backed_claim s c" "backed_claim (anchor_analysis s) c"
  using assms read_claim_ok [OF assms(1)]
  by (auto simp: backed_claim_def test_refused_def claim_ok_def test_source_of_def tested_code_is_current_def
      anchor_analysis_def is_whiteboard_def split: if_splits option.splits interview_mode.splits test_source.splits)

lemma record_evidence_rel: "rel s (snd (record_evidence ou now receipt args quote_verified s))"
proof (cases "read_claim ou args quote_verified s")
  case (Inr c)
  define u where "u = (if cl_phase c = OptimizationsPhase \<and> cl_kind c \<noteq> Skipped then anchor_analysis s else s)"
  have su: "rel s u" by (simp add: u_def anchor_rel)
  have "rel u (snd (append_framework_evidence now receipt c u))" if refused: "test_refused u c = None"
  proof (rule rel_append, cases "cl_phase c = TestPhase")
    case True
    then have "u = s" by (simp add: u_def)
    with refused read_claim_backed(1) [OF Inr] show "backed_claim u c" by simp
  qed (simp add: backed_claim_def)
  with rel_trans [OF su] have appended: "rel s (snd (append_framework_evidence now receipt c u))"
    if "test_refused u c = None" using that by blast
  have "rel s (snd (record_claim now receipt c s))"
    unfolding record_claim_def Let_def u_def [symmetric]
    using su appended by (simp add: case_prod_beta split: option.split)
  then show ?thesis by (simp add: record_evidence_def Inr)
qed (simp add: record_evidence_def)

lemma reconcile_rel: "rel s (snd (reconcile_received_test now receipt s))"
  by (auto simp: reconcile_received_test_def Let_def case_prod_beta backed_claim_def test_recordable_def test_source_of_def
      tested_code_is_current_def split: if_splits option.splits intro!: rel_append)

lemma thinking_rel:
  "rel s (request_thinking now s)" "rel s (snd (declare_thinking now receipt s))"
  "rel s (snd (end_thinking receipt s))" "rel s (announce_thinking s)"
  "rel s (snd (withdraw_thinking_request s))" "rel s (clear_thinking_debt s)"
  "rel s (snd (take_thinking_notice s))"
  by (simp_all add: request_thinking_def declare_thinking_def end_thinking_def announce_thinking_def
      withdraw_thinking_request_def clear_thinking_debt_def take_thinking_notice_def Let_def plain_rel)

lemma check_in_rel:
  "rel s (snd (claim_thinking_check_in now receipt s))"
  "rel s (snd (settle_stale_request now receipt s))"
  by (auto simp: claim_thinking_check_in_def settle_stale_request_def thinking_rel split: thinking_hold.split)

lemma code_update_rel: "rel s (snd (apply_code_update ou receipt payload s))"
proof (cases "event_str payload ''code''")
  case None
  then show ?thesis by (simp add: apply_code_update_def)
next
  case (Some new_code)
  have switch: "rel s (snd (switch_language ou switching s))" for switching s
    by (simp add: switch_language_def then_plain split: option.split prod.split)
  have template: "rel s (keep_template code s)" for code s
    by (simp add: keep_template_def then_plain)
  show ?thesis
    unfolding apply_code_update_def Some option.case Let_def
    by (auto simp: case_prod_beta intro!: then_ledger rel_trans [OF _ parsing_rel [OF update_only_parses]]
        rel_trans [OF _ template] rel_trans [OF _ switch] then_plain)
qed

lemma credit_rel: "tests raw \<Longrightarrow> rel s (snd (credit_run (sanitize_test_run (ou_to_int ou) raw) (submission raw) passed s))"
  by (auto simp: credit_run_def split: option.split intro!: rel_credited)

lemma record_run_rel: "rel s (record_run ou receipt raw payload setup_error outage s)"
proof -
  have drop: "rel s (drop_credit broken submitted s)" for broken submitted s
    by (auto simp: drop_credit_def rel_uncredited split: option.split)
  have unavailable: "rel s (s\<lparr>rs_runs := (rs_runs s)\<lparr>ru_unavailable := x\<rparr>\<rparr>)" for x by (rule plain_rel) simp_all
  have kept: "rel u (u\<lparr>rs_runs := (rs_runs u)\<lparr>ru_last_code := a, ru_last := b, ru_count := c\<rparr>,
      rs_ledger := record_test (ou_sha ou) ts receipt payload (rs_ledger u)\<rparr>)" for u a b c ts by (rule plain_rel) simp_all
  show ?thesis
    unfolding record_run_def Let_def by (rule rel_trans [OF rel_trans [OF unavailable drop] kept])
qed

lemma test_results_rel: "tests raw \<Longrightarrow> rel s (snd (apply_test_results ou now receipt since raw s))"
proof -
  assume raw: "tests raw"
  have recorded: "rel s (snd (with_recorded_test recorded was_complete s))" for recorded was_complete s
    by (simp add: with_recorded_test_def unrecorded_earlier_phases_def Let_def case_prod_beta then_plain split: option.split)
  have react: "rel s (snd (react_to_run ou payload setup_error outage passed verdict previous recorded complete s))"
    for payload setup_error outage passed verdict previous recorded complete s
    unfolding react_to_run_def Let_def
    by (auto simp: case_prod_beta show_editor_def intro!: then_plain rel_trans [OF _ recorded])
  show ?thesis
    by (auto simp: apply_test_results_def Let_def case_prod_beta
        intro!: rel_trans [OF _ react] rel_trans [OF _ reconcile_rel] rel_trans [OF _ record_run_rel] credit_rel [OF raw])
qed

lemma final_editor_rel: "rel s (take_final_editor ou receipt payload s)"
proof -
  have analysed: "rel s (snd (snd (final_analysis ou code language s)))" for code language s
    by (auto simp: final_analysis_def Let_def case_prod_beta intro: parsing_rel analysis_only_parses)
  show ?thesis
    unfolding take_final_editor_def Let_def
    by (auto simp: case_prod_beta intro!: then_ledger rel_trans [OF _ analysed] then_plain)
qed

lemma end_rel: "rel s (snd (control_end_interview ou now receipt payload s))"
  by (auto simp: control_end_interview_def Let_def case_prod_beta
      intro!: rel_trans [OF _ rel_ended] rel_trans [OF _ thinking_rel(3)] rel_trans [OF _ final_editor_rel] rel_skip)

lemma warning_rel: "rel s (snd (control_time_warning now s))"
  using rel_warned by (auto simp: control_time_warning_def Let_def intro!: rel_trans [OF _ rel_skip])

lemma control_thinking_rel: "rel s (snd (control_thinking now receipt thinking s))"
  by (auto simp: control_thinking_def Let_def case_prod_beta
      intro!: thinking_rel rel_trans [OF thinking_rel(2) thinking_rel(4)] then_plain)

lemma control_rel: "controls now payload \<Longrightarrow> rel s (snd (apply_control ou now receipt payload s))"
  by (auto simp: apply_control_def control_yield_turn_def Let_def case_prod_beta
      intro!: control_thinking_rel thinking_rel rel_transition warning_rel end_rel split: option.split)

lemma event_rel:
  assumes "topic = TestResultsTopic \<longrightarrow> tests payload" "topic = ControlTopic \<longrightarrow> controls now payload"
  shows "rel s (snd (apply_event ou now receipt since received topic payload s))"
proof -
  have hold: "rel s (snd (under_hold receipt r s))" for r s
    by (auto simp: under_hold_def case_prod_beta intro!: thinking_rel split: option.split)
  have applied: "rel s (snd (apply_topic ou now receipt since topic payload s))" for s
    using assms by (cases topic) (auto simp: apply_topic_def apply_integrity_event_def
        intro: code_update_rel test_results_rel control_rel then_plain)
  show ?thesis
    by (auto simp: apply_event_def Let_def case_prod_beta
        intro!: rel_trans [OF _ hold] rel_trans [OF _ reconcile_rel] rel_trans [OF _ applied] then_ledger)
qed

lemma record_steps_rel: "rel (snd rs) (snd (fold (record_step ou now receipt open_ids) steps rs))"
proof (induction steps arbitrary: rs)
  case (Cons step steps)
  have "rel (snd rs) t" if "record_evidence ou now receipt args True (snd rs) = (x, t)" for args x t
    using record_evidence_rel that by (metis snd_conv)
  then have "rel (snd rs) (snd (record_step ou now receipt open_ids step rs))"
    by (auto simp: record_step_def split: option.split prod.split sum.split record_outcome.split)
  from rel_trans [OF this Cons.IH] show ?case by simp
qed simp

lemma judgment_rel: "rel s (snd (apply_phase_judgment ou now receipt answer s))"
proof -
  have steps: "rel s (snd (fold (record_step ou now receipt open_ids) steps ([], u)))" if "rel s u" for open_ids steps u
    using rel_trans [OF that] record_steps_rel [of "([], u)"] by simp
  show ?thesis
    unfolding apply_phase_judgment_def reopen_window_def Let_def
    by (auto split: option.split intro!: steps then_plain)
qed

text \<open>The packets a step brings.\<close>

lemma interview_step_rel:
  assumes "\<And>receipt since received raw. e = Packet receipt since received TestResultsTopic raw \<Longrightarrow> tests raw"
    and "\<And>receipt since received payload. e = Packet receipt since received ControlTopic payload \<Longrightarrow> controls now payload"
  shows "rel s (interview_step ou now e s)"
proof (cases e)
  case (Packet receipt since received topic payload)
  then show ?thesis using assms by (auto intro!: event_rel)
next
  case (JudgeCalled briefing)
  then show ?thesis by (simp add: take_phase_judge_window_def then_plain then_ledger)
next
  case (StepsSettled delivered)
  then show ?thesis by (simp add: settle_earlier_steps_def plain_rel)
qed (simp_all add: record_framework_evidence_outcome_def record_evidence_rel rel_hint judgment_rel rel_notes thinking_rel
      check_in_rel then_plain then_ledger)

lemma run_rel:
  assumes "\<And>raw. tests_in es raw \<Longrightarrow> tests raw" "\<And>now payload. controls_in es now payload \<Longrightarrow> controls now payload"
  shows "rel s (interview_run ou es s)"
  using assms
proof (induction es arbitrary: s)
  case (Cons a es)
  obtain now e where a: "a = (now, e)" by (cases a)
  have later: "rel u (interview_run ou es u)" for u
    using Cons.prems by (intro Cons.IH) (auto simp: tests_in_def controls_in_def, blast+)
  have "rel s (interview_step ou now e s)"
    using Cons.prems by (intro interview_step_rel) (auto simp: tests_in_def controls_in_def a, blast+)
  from rel_trans [OF this later] show ?case by (simp add: a)
qed simp

end

section \<open>What is never taken back\<close>

lemma skip_phases_cover: "covered_by (fold (skip_phase t summary) phases rows) = covered_by rows"
proof (induction phases arbitrary: rows)
  case (Cons phase phases)
  have "covered_by (skip_phase t summary phase rows) = covered_by rows"
    using with_room_phases [of rows] by (simp add: skip_phase_def flip: with_room_def)
  with Cons show ?case by simp
qed simp

lemma skip_past: "interview_past sha s (skip_unassessed_star now summary s)"
  by (simp add: skip_unassessed_star_def interview_past_def skip_phases_cover opening_notes_def min_def
      del: fold_simps List.fold.simps)

lemma give_hint_past: "interview_past sha s (snd (give_hint receipt requested s))"
  by (auto simp: give_hint_def Let_def interview_past_def opening_notes_def min_def split: option.split)

lemma keep_note_opening: "take (length (take INTERIM_OPENING_KEPT ns)) (keep_note line ns) = take INTERIM_OPENING_KEPT ns"
  by (auto simp: keep_note_def MAX_INTERIM_NOTES_def INTERIM_OPENING_KEPT_def min_def)

lemma notes_opening: "take (length (take INTERIM_OPENING_KEPT ns)) (notes_loop taken lines ns) = take INTERIM_OPENING_KEPT ns"
proof (induction taken lines ns rule: notes_loop.induct)
  case (2 taken raw lines ns)
  define line where "line = bounded_model_text (noted_line raw) MAX_INTERIM_LINE_CHARS"
  consider "taken = MAX_INTERIM_LINES_PER_REVIEW" | "taken \<noteq> MAX_INTERIM_LINES_PER_REVIEW" "noted_line raw = [] \<or> line \<in> set ns"
    | "taken \<noteq> MAX_INTERIM_LINES_PER_REVIEW" "noted_line raw \<noteq> []" "line \<notin> set ns" by blast
  then show ?case
  proof cases
    case 1
    then show ?thesis by (simp add: min_def)
  next
    case 2
    with "2.IH"(1,2) show ?thesis by (auto simp: Let_def line_def)
  next
    case 3
    then have "notes_loop taken (raw # lines) ns = notes_loop (Suc taken) lines (keep_note line ns)"
      by (simp add: Let_def line_def)
    with opening_kept [OF keep_note_opening "2.IH"(3) [OF 3(1,2) line_def 3(3)]] show ?thesis by simp
  qed
qed (simp add: min_def)

lemma notes_past: "interview_past sha s (record_interim_notes review s)"
  using notes_opening [of "rs_interim_notes s"]
  by (simp add: record_interim_notes_def interview_past_def opening_notes_def)

interpretation kept: interview_moves ou "interview_past (ou_sha ou)" "\<lambda>raw. True" "\<lambda>now payload. True" for ou
proof unfold_locales
  show "interview_past (ou_sha ou) s t \<Longrightarrow> interview_past (ou_sha ou) t u \<Longrightarrow> interview_past (ou_sha ou) s u" for s t u
    by (rule interview_past_trans)
  show "interview_past (ou_sha ou) s (snd (append_framework_evidence now receipt c s))" for s now receipt c
    by (simp add: append_evidence_state interview_past_def with_room_phases opening_notes_def min_def append_evidence_row)
  show "interview_past (ou_sha ou) s (snd (control_round_transition receipt s))" for s receipt
    by (simp add: control_round_transition_def open_behavioral_round_def Let_def interview_past_def opening_notes_def min_def)
qed (simp_all add: skip_past give_hint_past notes_past, simp_all add: interview_past_def plain_move_def opening_notes_def min_def)

interpretation interview: history_system "\<lambda>(now, e). interview_step ou now e" interview_ok "interview_past (ou_sha ou)" for ou
proof unfold_locales
  fix s t u :: runtime_state and e :: "nat \<times> interview_event"
  show "interview_ok s \<Longrightarrow> interview_ok ((case e of (now, e) \<Rightarrow> interview_step ou now e) s)"
    by (cases e) (simp add: interview_step_ok)
  show "interview_past (ou_sha ou) s s" by simp
  show "interview_past (ou_sha ou) s t \<Longrightarrow> interview_past (ou_sha ou) t u \<Longrightarrow> interview_past (ou_sha ou) s u" by (rule interview_past_trans)
  show "interview_past (ou_sha ou) s ((case e of (now, e) \<Rightarrow> interview_step ou now e) s)"
    by (cases e) (simp add: kept.interview_step_rel)
qed

section \<open>Where evidence of a test and the behavioral round come from\<close>

definition is_test_event :: "framework_evidence \<Rightarrow> bool" where
  "is_test_event e \<longleftrightarrow> fe_phase e = TestPhase \<and> fe_source e = TestEvent \<and> fe_kind e \<noteq> Skipped"

definition test_event_held :: "runtime_state \<Rightarrow> bool" where
  "test_event_held s \<longleftrightarrow> (\<exists>e \<in> set (rs_evidence s). is_test_event e)"

definition credited_packet :: "outside \<Rightarrow> (json \<Rightarrow> bool) \<Rightarrow> bool" where
  "credited_packet ou tests \<longleftrightarrow>
     (\<exists>raw run. tests raw \<and> submission raw = Some run \<and> real_test_run (sanitize_test_run (ou_to_int ou) raw))"

definition test_source_kept :: "bool \<Rightarrow> runtime_state \<Rightarrow> runtime_state \<Rightarrow> bool" where
  "test_source_kept credited s t \<longleftrightarrow>
     (test_event_held t \<longrightarrow> test_event_held s \<or> ru_tested_code (rs_runs s) \<noteq> None \<or> credited)
     \<and> (ru_tested_code (rs_runs t) \<noteq> None \<longrightarrow> ru_tested_code (rs_runs s) \<noteq> None \<or> credited)"

lemma same_rows_source: "rs_evidence t = rs_evidence s \<Longrightarrow> ru_tested_code (rs_runs t) = ru_tested_code (rs_runs s) \<Longrightarrow> test_source_kept credited s t"
  by (simp add: test_source_kept_def test_event_held_def)

lemma skip_phases_source:
  "\<exists>e \<in> set (fold (skip_phase t summary) phases rows). is_test_event e \<Longrightarrow> \<exists>e \<in> set rows. is_test_event e"
proof (induction phases arbitrary: rows)
  case (Cons phase phases)
  then have "\<exists>e \<in> set (skip_phase t summary phase rows). is_test_event e" by simp
  then show ?case using with_room_subset [of rows]
    by (auto simp: skip_phase_def is_test_event_def simp flip: with_room_def split: if_splits)
qed simp

interpretation sourced: interview_moves ou "test_source_kept (credited_packet ou tests)" tests "\<lambda>now payload. True" for ou tests
proof unfold_locales
  let ?r = "test_source_kept (credited_packet ou tests)"
  show "?r s (snd (append_framework_evidence now receipt c s))" if "backed_claim s c" for s now receipt c
  proof -
    let ?t = "snd (append_framework_evidence now receipt c s)"
    have "test_event_held s \<or> ru_tested_code (rs_runs s) \<noteq> None" if "test_event_held ?t"
    proof (cases "is_test_event (fst (append_framework_evidence now receipt c s))")
      case True
      with \<open>backed_claim s c\<close> show ?thesis by (simp add: is_test_event_def append_evidence_row backed_claim_def)
    next
      case False
      with that show ?thesis
        unfolding append_evidence_state test_event_held_def using with_room_subset by fastforce
    qed
    moreover have "ru_tested_code (rs_runs ?t) = ru_tested_code (rs_runs s)" by (simp add: append_evidence_state)
    ultimately show ?thesis by (auto simp: test_source_kept_def)
  qed
  show "?r s (skip_unassessed_star now summary s)" for s now summary
    using skip_phases_source [of "elapsed_ms now" summary "[SituationPhase, TaskPhase, ActionPhase, ResultPhase]" "rs_evidence s"]
    by (auto simp: skip_unassessed_star_def test_source_kept_def test_event_held_def)
  show "?r s (snd (give_hint receipt requested s))" for s receipt requested
    by (rule same_rows_source) (simp_all add: give_hint_def Let_def split: option.split)
  show "?r s (snd (control_round_transition receipt s))" for s receipt
    by (rule same_rows_source) (simp_all add: control_round_transition_def open_behavioral_round_def Let_def)
  show "?r s (record_interim_notes review s)" for s review
    by (rule same_rows_source) (simp_all add: record_interim_notes_def)
  show "?r s (s\<lparr>rs_runs := r\<rparr>)"
    if "tests raw" "submission raw = Some run" "real_test_run (sanitize_test_run (ou_to_int ou) raw)" for s r raw run
    using that by (auto simp: test_source_kept_def test_event_held_def credited_packet_def)
qed (auto simp: test_source_kept_def test_event_held_def plain_move_def)

definition behavioral_asked :: "interview_plan \<Rightarrow> (nat \<Rightarrow> json \<Rightarrow> bool) \<Rightarrow> bool" where
  "behavioral_asked plan controls \<longleftrightarrow> (\<exists>now payload. controls now payload \<and> event_str payload ''round'' = Some ''behavioral''
     \<and> now + ROUND_TRANSITION_SKEW \<ge> pl_coding_minutes plan * 60 * nanos_per_s)"

definition round_source_kept :: "(nat \<Rightarrow> json \<Rightarrow> bool) \<Rightarrow> runtime_state \<Rightarrow> runtime_state \<Rightarrow> bool" where
  "round_source_kept controls s t \<longleftrightarrow> rs_plan t = rs_plan s
     \<and> (rd_started (rs_round t) \<longrightarrow> rd_started (rs_round s) \<or> behavioral_asked (rs_plan s) controls)"

interpretation opened: interview_moves ou "round_source_kept controls" "\<lambda>raw. True" controls for ou controls
proof unfold_locales
  show "round_source_kept controls s (snd (append_framework_evidence now receipt c s))" for s now receipt c
    by (simp add: append_evidence_state round_source_kept_def)
  show "round_source_kept controls s (snd (control_round_transition receipt s))"
    if "controls now payload" "round_transition_due now payload s" for now payload s receipt
    using that by (auto simp: control_round_transition_def open_behavioral_round_def Let_def round_source_kept_def
        round_transition_due_def behavioral_asked_def)
qed (auto simp: round_source_kept_def plain_move_def skip_unassessed_star_def record_interim_notes_def give_hint_def Let_def
    split: option.split)

end
