(* ===== verification/Interview_Properties.thy ===== *)
theory Interview_Properties
  imports Interview_Moves "HOL-Library.Code_Target_Nat"
begin

text \<open>
  What an interview promises whatever the page sends and the models answer: its invariant, what it
  never takes back, what may become evidence, when the behavioral round opens, that a thinking hold is
  silent, and what parsing may cost.
\<close>

section \<open>Every interview\<close>

text \<open>
  C1. From the first state on, whatever the page sends, the models answer and the room writes, the
  interview stays well formed: at most 64 rows of evidence, each of a current version, with a
  confidence of at most 100, a source its mode has, timing only for skips and STAR only after the
  behavioral round opened; a well-formed ledger that lists as covered exactly the phases with evidence
  and agrees on the rounds, the end and the hints; a behavioral round only in the two-round loop and
  with Test and Optimizations evidenced; a hold the page is only told of as it stands; bounded notes
  and integrity events.
\<close>

theorem interview_always_ok: "interview_ok (interview_run ou es (initial_runtime_state plan starters language))"
  unfolding interview_run_def by (rule interview.run_inv [OF initial_ok])

text \<open>
  C2. Nothing an interview has established is taken back: the plan stays, a phase with evidence keeps
  evidence however many rows the cap of 64 pushes out, rungs of hints given, an opened round, a seen
  warning and the end stay, and the first eight notes of the reviewer are never replaced.
\<close>

theorem interview_takes_nothing_back:
  "let s = interview_run ou es (initial_runtime_state plan starters language); t = interview_run ou fs s in
     rs_plan t = rs_plan s
     \<and> covered_by (rs_evidence s) \<subseteq> covered_by (rs_evidence t)
     \<and> rs_rungs_given s \<le> rs_rungs_given t
     \<and> rs_ended s \<le> rs_ended t
     \<and> rd_transition_seen (rs_round s) \<le> rd_transition_seen (rs_round t)
     \<and> rd_time_warning_seen (rs_round s) \<le> rd_time_warning_seen (rs_round t)
     \<and> rd_started (rs_round s) \<le> rd_started (rs_round t)
     \<and> take (length (opening_notes s)) (rs_interim_notes t) = opening_notes s"
proof -
  have "interview_ok (interview_run ou es (initial_runtime_state plan starters language))"
    unfolding interview_run_def by (rule interview.run_inv [OF initial_ok])
  from interview.run_past [OF this, of ou fs] show ?thesis
    by (simp add: interview_run_def interview_past_def Let_def le_bool_def)
qed



section \<open>Evidence\<close>


lemma anchor_evidence [simp]:
  "rs_evidence (anchor_analysis s) = rs_evidence s" "rs_ledger (anchor_analysis s) = rs_ledger s"
  "rs_plan (anchor_analysis s) = rs_plan s" "held_row (anchor_analysis s) c = held_row s c"
  by (simp_all add: anchor_analysis_def held_row_def)

lemma held_rows_are_rows: "held_row s c = Some e \<Longrightarrow> e \<in> set (rs_evidence s)"
  "held_test_event s c = Some e \<Longrightarrow> e \<in> set (rs_evidence s)"
  by (auto simp: held_row_def held_test_event_def dest: find_SomeD split: if_splits)

lemma refused_claim_changes_nothing: "record_claim now receipt c s = (Inl e, t) \<Longrightarrow> t = s"
  by (auto simp: record_claim_def Let_def case_prod_beta test_refused_def split: option.splits if_splits)

lemma held_claim_adds_nothing:
  "record_claim now receipt c s = (Inr (row, outcome), t) \<Longrightarrow> outcome \<noteq> Added
     \<Longrightarrow> row \<in> set (rs_evidence s) \<and> rs_evidence t = rs_evidence s \<and> rs_ledger t = rs_ledger s"
  using held_rows_are_rows
  by (auto simp: record_claim_def Let_def case_prod_beta split: option.splits if_splits)

lemma added_claim_is_last:
  "record_claim now receipt c s = (Inr (row, Added), t) \<Longrightarrow>
     rs_evidence t = with_room (rs_evidence s) @ [row] \<and> fe_at_ms row = elapsed_ms now \<and> held_row s c = None
     \<and> fe_phase row = cl_phase c \<and> fe_source row = cl_source c \<and> fe_kind row = cl_kind c \<and> fe_summary row = cl_summary c
     \<and> (needs_code (fe_phase row) \<and> fe_kind row \<noteq> Skipped \<longrightarrow> written_work s)"
  by (auto simp: record_claim_def Let_def case_prod_beta append_evidence_state append_evidence_row
      split: option.splits if_splits)

text \<open>
  C10. A call to record evidence is refused without a trace, or finds a row already held and adds
  nothing, or adds one row at the end, stamped with the time of the call, and for the phases that need
  it only over work the candidate has written.
\<close>

theorem evidence_call_adds_one_row_or_none:
  "case record_framework_evidence_outcome ou now receipt args s of
     (Inl refusal, t) \<Rightarrow> t = s
   | (Inr (row, Added), t) \<Rightarrow>
       rs_evidence t = with_room (rs_evidence s) @ [row] \<and> fe_at_ms row = elapsed_ms now
       \<and> (needs_code (fe_phase row) \<and> fe_kind row \<noteq> Skipped) \<le> written_work s
   | (Inr (row, held), t) \<Rightarrow> row \<in> set (rs_evidence s) \<and> rs_evidence t = rs_evidence s \<and> rs_ledger t = rs_ledger s"
proof (cases "read_claim ou args False s")
  case (Inr c)
  obtain x t where r: "record_claim now receipt c s = (x, t)" by (cases "record_claim now receipt c s")
  then show ?thesis
    using refused_claim_changes_nothing held_claim_adds_nothing added_claim_is_last
    by (auto simp: record_framework_evidence_outcome_def record_evidence_def Inr le_bool_def
        split: sum.split record_outcome.split)
qed (simp add: record_framework_evidence_outcome_def record_evidence_def)

section \<open>Runs of the candidate's code\<close>

lemma sanitized_setup_error:
  "\<not> run_failed_to_start (sanitize_test_run to_int raw) \<Longrightarrow>
     \<not> (case json_get (sanitize_test_run to_int raw) ''setupError'' of None \<Rightarrow> False | Some e \<Rightarrow> python_truthy e)"
  by (cases "run_setup_error raw")
    (auto simp: run_failed_to_start_def sanitize_test_run_def json_opt_def split: option.splits if_splits)

definition submits_screen :: "outside \<Rightarrow> json \<Rightarrow> runtime_state \<Rightarrow> bool" where
  "submits_screen ou raw s \<longleftrightarrow> submission raw = Some (on_screen s) \<and> real_test_run (sanitize_test_run (ou_to_int ou) raw)"

lemma react_keeps_evidence [simp]:
  "rs_evidence (snd (react_to_run ou payload setup_error outage passed verdict previous recorded complete s)) = rs_evidence s"
  by (simp add: react_to_run_def with_recorded_test_def unrecorded_earlier_phases_def show_editor_def Let_def
      case_prod_beta split: option.split)

definition test_recorded :: "runtime_state \<Rightarrow> runtime_state \<Rightarrow> bool" where
  "test_recorded s t \<longleftrightarrow> phases_evidenced t [TestPhase] \<and> (phases_evidenced s [TestPhase] \<or> test_event_held t)"

lemma reconcile_records:
  assumes "\<not> rs_ended s" "test_source_of s = RunSource" "code_written s"
  shows "test_recorded s (snd (reconcile_received_test now receipt s))"
proof (cases "test_recordable s")
  case True
  with assms(1) show ?thesis
    by (simp add: reconcile_received_test_def Let_def case_prod_beta append_evidence_state append_evidence_row
        phases_evidenced_def test_recorded_def test_event_held_def is_test_event_def)
next
  case False
  with assms show ?thesis by (simp add: reconcile_received_test_def test_recordable_def test_recorded_def)
qed

lemma reconcile_again: "phases_evidenced s [TestPhase] \<Longrightarrow> snd (reconcile_received_test now receipt s) = s"
  by (simp add: reconcile_received_test_def test_recordable_def)

lemma under_hold_keeps_evidence [simp]: "rs_evidence (snd (under_hold receipt r s)) = rs_evidence s"
  by (simp add: under_hold_def end_thinking_def case_prod_beta Let_def split: option.split)

lemma credited_run_state:
  assumes "submits_screen ou raw s" "code_written s"
  shows "let p = sanitize_test_run (ou_to_int ou) raw;
             t = record_run ou receipt raw p (case json_get p ''setupError'' of None \<Rightarrow> False | Some e \<Rightarrow> python_truthy e) outage
                   (snd (credit_run p (submission raw) passed s))
         in ru_tested_code (rs_runs t) = Some (on_screen s) \<and> rs_plan t = rs_plan s \<and> rs_editor t = rs_editor s
            \<and> rs_ended t = rs_ended s \<and> rs_evidence t = rs_evidence s"
proof -
  have "written_in s (ed_language (rs_editor s)) (ed_code (rs_editor s))" using assms(2) by (simp add: code_written_def)
  then show ?thesis
    using assms(1) sanitized_setup_error [of "ou_to_int ou" raw]
    by (auto simp: submits_screen_def credit_run_def on_screen_def real_test_run_def record_run_def drop_credit_def Let_def)
qed

lemma covers_itself: "covers (on_screen s) (ed_language (rs_editor s)) (ed_code (rs_editor s))"
  by (simp add: covers_def on_screen_def)

lemma test_results_record:
  assumes "pl_mode (rs_plan s) = Coding" "\<not> pl_code_execution_disabled (rs_plan s)" "\<not> rs_ended s"
    and "submits_screen ou raw s" "code_written s"
  shows "test_recorded s (snd (apply_test_results ou now receipt since raw s))"
proof -
  define p where "p = sanitize_test_run (ou_to_int ou) raw"
  define err where "err = (case json_get p ''setupError'' of None \<Rightarrow> False | Some e \<Rightarrow> python_truthy e)"
  define passed where "passed =
    (let cases = (case Option.bind (json_get p ''total'') json_as_i64 of None \<Rightarrow> 0 | Some n \<Rightarrow> n)
     in cases > 0 \<and> Option.bind (json_get p ''passed'') json_as_i64 = Some cases)"
  define outage where "outage = (err \<and> (case json_get raw ''runnerUnavailable'' of None \<Rightarrow> False | Some v \<Rightarrow> python_truthy v))"
  define u where "u = record_run ou receipt raw p err outage (snd (credit_run p (submission raw) passed s))"
  have some: "p \<noteq> JNull" using assms(4) by (auto simp: submits_screen_def p_def real_test_run_def)
  have u: "ru_tested_code (rs_runs u) = Some (on_screen s)" "rs_plan u = rs_plan s" "rs_editor u = rs_editor s"
    "rs_ended u = rs_ended s" "rs_evidence u = rs_evidence s"
    using credited_run_state [OF assms(4,5), of receipt outage passed] by (simp_all add: Let_def u_def p_def err_def)
  have "rs_evidence (snd (apply_test_results ou now receipt since raw s)) = rs_evidence (snd (reconcile_received_test now receipt u))"
    using assms(2) some by (simp add: apply_test_results_def Let_def case_prod_beta u_def p_def err_def passed_def outage_def)
  moreover have "test_recorded u (snd (reconcile_received_test now receipt u))"
    by (rule reconcile_records)
      (use assms u covers_itself [of s] in \<open>simp_all add: test_source_of_def tested_code_is_current_def is_whiteboard_def
        code_written_def written_in_def starter_of_def\<close>)
  ultimately show ?thesis using u(5) by (simp add: phases_evidenced_def test_recorded_def test_event_held_def)
qed

lemma event_records_test:
  assumes "\<not> rd_started (rs_round s)" "pl_mode (rs_plan s) = Coding" "\<not> pl_code_execution_disabled (rs_plan s)"
    and "\<not> rs_ended s" "submits_screen ou raw s" "code_written s"
  shows "test_recorded s (snd (apply_event ou now receipt since received TestResultsTopic raw s))"
proof -
  define u where "u = (if received then s\<lparr>rs_ledger := record_received_event (rs_ledger s)\<rparr> else s)"
  define v where "v = snd (apply_test_results ou now receipt since raw u)"
  have "test_recorded u v"
    unfolding v_def by (rule test_results_record)
      (use assms in \<open>simp_all add: u_def submits_screen_def on_screen_def code_written_def written_in_def starter_of_def\<close>)
  moreover have "rs_evidence u = rs_evidence s" by (simp add: u_def)
  ultimately have v: "test_recorded s v" by (simp add: test_recorded_def phases_evidenced_def)
  then have "snd (reconcile_received_test now receipt v) = v" by (simp add: reconcile_again test_recorded_def)
  then have "rs_evidence (snd (apply_event ou now receipt since received TestResultsTopic raw s)) = rs_evidence v"
    using assms(1) by (simp add: apply_event_def Let_def case_prod_beta apply_topic_def u_def v_def)
  with v show ?thesis by (simp add: test_recorded_def phases_evidenced_def test_event_held_def)
qed

text \<open>
  C4. A run that counts is recorded at once: in a coding interview that runs code, a packet of test
  results with executed cases of exactly the written code on screen leaves the Test phase evidenced,
  whatever else the packet says and whether or not a thinking hold is on.
\<close>

theorem run_of_current_code_records_test:
  assumes "\<not> rd_started (rs_round s)" "pl_mode (rs_plan s) = Coding" "\<not> pl_code_execution_disabled (rs_plan s)"
    and "\<not> rs_ended s" "submits_screen ou raw s" "code_written s"
  shows "phases_evidenced (snd (apply_data_event_at ou now receipt since TestResultsTopic raw s)) [TestPhase]"
  using event_records_test [OF assms] by (simp add: apply_data_event_at_def test_recorded_def)

section \<open>An example\<close>

definition toy_outside :: outside where
  "toy_outside = \<lparr>ou_sha = (\<lambda>t. t), ou_fmt = (\<lambda>w. ''0.5''), ou_to_int = (\<lambda>j. case j of JInt n \<Rightarrow> Some n | _ \<Rightarrow> None),
     ou_parse = (\<lambda>language code previous. None), ou_alphabetic = (\<lambda>c. True),
     ou_alphanumeric = (\<lambda>c. c \<noteq> '' '' \<and> c \<noteq> ''.''), ou_lower = (\<lambda>c. c),
     ou_from_str = (\<lambda>s. Some (JObj [(''steps'', JArr [JObj [(''step'', JStr ''repeat''),
        (''quote'', JStr ''so we return the two indices that sum'')]])]))\<rparr>"

definition toy_plan :: interview_plan where
  "toy_plan = default_plan\<lparr>pl_hint_ladder := [''Use a map.'', ''Store the index.'']\<rparr>"

definition toy_update :: json where
  "toy_update = JObj [(''code'', JStr ''return [0, 1]''), (''language'', JStr ''python'')]"

definition toy_results :: json where
  "toy_results = JObj [(''code'', JStr ''return [0, 1]''), (''language'', JStr ''python''), (''total'', JInt 2), (''passed'', JInt 2)]"

definition toy_start :: runtime_state where "toy_start = initial_runtime_state toy_plan [(''python'', ''pass'')] None"

definition toy_written :: runtime_state where
  "toy_written = interview_run toy_outside [(1, Packet 1 99999 True CodeUpdateTopic toy_update)] toy_start"

lemma toy_facts:
  "\<not> rd_started (rs_round toy_written)" "pl_mode (rs_plan toy_written) = Coding"
  "\<not> pl_code_execution_disabled (rs_plan toy_written)" "\<not> rs_ended toy_written"
  "submits_screen toy_outside toy_results toy_written" "code_written toy_written"
  "\<not> phases_evidenced toy_written [TestPhase]"
  by code_simp+

theorem run_of_current_code_records_test_witness:
  "phases_evidenced (snd (apply_data_event_at toy_outside 2 2 99999 TestResultsTopic toy_results toy_written)) [TestPhase]
   \<and> \<not> phases_evidenced toy_written [TestPhase]"
  using run_of_current_code_records_test [OF toy_facts(1-6)] toy_facts(7) by blast

definition toy_run :: "(nat \<times> interview_event) list" where
  "toy_run = [(1, Packet 1 99999 True CodeUpdateTopic toy_update), (2, Packet 2 99999 True TestResultsTopic toy_results)]"

text \<open>
  C5. Evidence that the candidate tested from a run is backed by a run: a held Test row with source
  test_event, whoever recorded it, follows a packet of test results that named its code and language
  and reported executed cases without a setup error.
\<close>

theorem test_event_follows_a_run:
  assumes "test_event_held (interview_run ou es (initial_runtime_state plan starters language))"
  shows "\<exists>raw run. tests_in es raw \<and> submission raw = Some run \<and> real_test_run (sanitize_test_run (ou_to_int ou) raw)"
proof -
  let ?s = "initial_runtime_state plan starters language"
  have "rs_evidence ?s = []" "ru_tested_code (rs_runs ?s) = None"
    by (simp_all add: initial_runtime_state_def for_problem_def default_state_def Let_def split: option.split)
  moreover have "test_source_kept (credited_packet ou (tests_in es)) ?s (interview_run ou es ?s)"
    by (rule sourced.run_rel) simp_all
  ultimately show ?thesis using assms by (simp add: test_source_kept_def test_event_held_def credited_packet_def)
qed

theorem test_event_follows_a_run_witness:
  "\<exists>raw run. tests_in toy_run raw \<and> submission raw = Some run \<and> real_test_run (sanitize_test_run (ou_to_int toy_outside) raw)"
proof -
  have "interview_run toy_outside toy_run toy_start =
      snd (apply_event toy_outside 2 2 99999 True TestResultsTopic toy_results toy_written)"
    by (simp add: toy_run_def toy_written_def)
  moreover have "test_event_held (snd (apply_event toy_outside 2 2 99999 True TestResultsTopic toy_results toy_written))"
    using event_records_test [OF toy_facts(1-6), of 2 2 99999 True] toy_facts(7) by (simp add: test_recorded_def)
  ultimately show ?thesis
    using test_event_follows_a_run [of toy_outside toy_run toy_plan "[(''python'', ''pass'')]" None] by (simp add: toy_start_def)
qed

text \<open>
  C9. The behavioral round is opened by nothing but a request of the page that the clock allows: a
  control packet that names it and came no earlier than ten seconds before the coding minutes were
  over.
\<close>

theorem behavioral_round_follows_its_request:
  assumes "rd_started (rs_round (interview_run ou es (initial_runtime_state plan starters language)))"
  shows "\<exists>now payload. controls_in es now payload \<and> event_str payload ''round'' = Some ''behavioral''
     \<and> now + ROUND_TRANSITION_SKEW \<ge> pl_coding_minutes plan * 60 * nanos_per_s"
proof -
  let ?s = "initial_runtime_state plan starters language"
  have "\<not> rd_started (rs_round ?s)" "rs_plan ?s = plan"
    by (simp_all add: initial_runtime_state_def for_problem_def default_state_def Let_def split: option.split)
  moreover have "round_source_kept (controls_in es) ?s (interview_run ou es ?s)"
    by (rule opened.run_rel) simp_all
  ultimately show ?thesis using assms by (simp add: round_source_kept_def behavioral_asked_def)
qed

definition board_evidence :: "string \<Rightarrow> json" where
  "board_evidence phase = JObj [(''phase'', JStr phase), (''source'', JStr ''board_snapshot''), (''kind'', JStr ''observed''),
     (''confidence'', JInt 80), (''summary'', JStr ''Traced on the board.'')]"

definition board_start :: runtime_state where
  "board_start = initial_runtime_state (toy_plan\<lparr>pl_mode := Whiteboard\<rparr>) [] None"

definition board_events :: "(nat \<times> interview_event) list" where
  "board_events = [(1, RoomSeesBoard), (2, EvidenceCall 2 (board_evidence ''test'')),
     (3, EvidenceCall 3 (board_evidence ''optimizations''))]"

definition board_done :: runtime_state where "board_done = interview_run toy_outside board_events board_start"

definition toy_transition :: json where
  "toy_transition = JObj [(''type'', JStr ''round_transition''), (''round'', JStr ''behavioral'')]"

definition board_run :: "(nat \<times> interview_event) list" where
  "board_run = board_events @ [(2220 * nanos_per_s, Packet 4 99999 False ControlTopic toy_transition)]"

lemma board_facts:
  "coding_round_complete board_done" "\<not> rs_ended board_done" "pl_loop (rs_plan board_done) = CodingBehavioral"
  "\<not> rd_transition_seen (rs_round board_done)" "pl_coding_minutes (rs_plan board_done) = 37"
  "\<not> rd_started (rs_round board_done)" "th_hold (rs_thinking board_done) = Off" "pl_example_drawing_enabled (rs_plan board_done) = False"
  by code_simp+

lemma toy_transition_says:
  "event_str toy_transition ''type'' = Some ''round_transition''" "event_str toy_transition ''round'' = Some ''behavioral''"
  by code_simp+

lemma board_due: "round_transition_due (2220 * nanos_per_s) toy_transition board_done"
  using board_facts by (simp add: round_transition_due_def toy_transition_says)

lemma open_round_fields [simp]:
  "rs_round (open_behavioral_round receipt s) = (rs_round s)\<lparr>rd_started := True, rd_transcript_start := length (rs_transcript s),
         rd_prior_turn := last_speaker_line (rs_transcript s) INTERVIEWER_SPEAKER\<rparr>"
  "rs_evidence (open_behavioral_round receipt s) = rs_evidence s" "rs_thinking (open_behavioral_round receipt s) = rs_thinking s"
  by (simp_all add: open_behavioral_round_def)

lemma reconcile_frame [simp]:
  "rs_round (snd (reconcile_received_test now receipt s)) = rs_round s"
  "rs_thinking (snd (reconcile_received_test now receipt s)) = rs_thinking s"
  "rs_plan (snd (reconcile_received_test now receipt s)) = rs_plan s"
  "rs_ended (snd (reconcile_received_test now receipt s)) = rs_ended s"
  by (simp_all add: reconcile_received_test_def Let_def case_prod_beta append_evidence_state)

lemma under_hold_round [simp]: "rs_round (snd (under_hold receipt r s)) = rs_round s"
  by (simp add: under_hold_def end_thinking_def case_prod_beta Let_def split: option.split)

lemma transition_fields:
  "rd_transition_seen (rs_round (snd (control_round_transition receipt s)))"
  "coding_round_complete s \<Longrightarrow> rd_started (rs_round (snd (control_round_transition receipt s)))"
  by (simp_all add: control_round_transition_def Let_def coding_round_complete_def phases_evidenced_def)

lemma asks_for_round:
  "event_str payload ''type'' = Some ''round_transition'' \<Longrightarrow> round_transition_due now payload s \<Longrightarrow>
     apply_control ou now receipt payload s
       = ((fst (control_round_transition receipt s))\<lparr>er_preempts_hold := True\<rparr>, snd (control_round_transition receipt s))"
  by (simp add: apply_control_def Let_def case_prod_beta)

theorem behavioral_round_follows_its_request_witness:
  "\<exists>now payload. controls_in board_run now payload \<and> event_str payload ''round'' = Some ''behavioral''
     \<and> now + ROUND_TRANSITION_SKEW \<ge> 37 * 60 * nanos_per_s"
proof -
  have "rd_started (rs_round (interview_run toy_outside board_run board_start))"
    using transition_fields(2) [OF board_facts(1)]
    by (simp add: board_run_def flip: board_done_def)
      (simp add: apply_event_def Let_def case_prod_beta apply_topic_def asks_for_round [OF toy_transition_says(1) board_due])
  then show ?thesis
    using behavioral_round_follows_its_request [of toy_outside board_run "toy_plan\<lparr>pl_mode := Whiteboard\<rparr>" "[]" None]
    by (simp add: board_start_def toy_plan_def default_plan_def)
qed

section \<open>A hold\<close>

lemma end_thinking_hold [simp]:
  "th_hold (rs_thinking (snd (end_thinking receipt s))) = Off"
  "fst (end_thinking receipt s) = hold_is_declared (th_hold (rs_thinking s))"
  by (simp_all add: end_thinking_def Let_def)

lemma finish_ends_hold:
  "er_finish (fst (apply_topic ou now receipt since topic payload s)) \<noteq> None \<Longrightarrow>
     th_hold (rs_thinking (snd (apply_topic ou now receipt since topic payload s))) = Off"
proof (cases topic)
  case CodeUpdateTopic
  then show "er_finish (fst (apply_topic ou now receipt since topic payload s)) \<noteq> None \<Longrightarrow> ?thesis"
    by (simp add: apply_topic_def apply_code_update_def Let_def case_prod_beta no_result_def split: option.splits)
next
  case TestResultsTopic
  then show "er_finish (fst (apply_topic ou now receipt since topic payload s)) \<noteq> None \<Longrightarrow> ?thesis"
    by (simp add: apply_topic_def apply_test_results_def Let_def case_prod_beta no_result_def split: if_splits)
next
  case ControlTopic
  then show "er_finish (fst (apply_topic ou now receipt since topic payload s)) \<noteq> None \<Longrightarrow> ?thesis"
    by (auto simp: apply_topic_def apply_control_def control_thinking_def control_yield_turn_def control_round_transition_def
        control_time_warning_def control_end_interview_def Let_def case_prod_beta no_result_def split: option.splits if_splits)
qed (simp_all add: apply_topic_def no_result_def)

text \<open>A packet, taken apart.\<close>

definition counted :: "bool \<Rightarrow> runtime_state \<Rightarrow> runtime_state" where
  "counted received s = (if received then s\<lparr>rs_ledger := record_received_event (rs_ledger s)\<rparr> else s)"

lemma counted_frame [simp]: "rs_thinking (counted received s) = rs_thinking s" "rs_round (counted received s) = rs_round s"
  by (simp_all add: counted_def)

lemma apply_event_parts:
  obtains
    (ignored) "apply_event ou now receipt since received topic payload s = (no_result, counted received s)"
  | (applied) r v w rest minutes where
      "r = fst (apply_topic ou now receipt since topic payload (counted received s))"
      "v = snd (apply_topic ou now receipt since topic payload (counted received s))"
      "w = snd (reconcile_received_test now receipt v)"
      "apply_event ou now receipt since received topic payload s
         = ((note_received_test rest (fst (under_hold receipt r w)))\<lparr>er_minutes := minutes\<rparr>, snd (under_hold receipt r w))"
proof (cases "rd_started (rs_round (counted received s)) \<and> topic \<in> {CodeUpdateTopic, TestResultsTopic}")
  case True
  then show thesis by (intro ignored) (simp add: apply_event_def Let_def flip: counted_def)
next
  case False
  let ?t = "apply_topic ou now receipt since topic payload (counted received s)"
  let ?c = "reconcile_received_test now receipt (snd ?t)"
  let ?h = "under_hold receipt (fst ?t) (snd ?c)"
  let ?rest = "if fst ?c = None then None
    else Some (received_test_note (snd ?c) (coding_round_complete (counted received s)))"
  from False show thesis
    by (intro applied [OF refl refl refl, where rest = ?rest
        and minutes = "map_option (\<lambda>_. time_left now (snd ?h)) (er_reply (note_received_test ?rest (fst ?h)))"])
      (simp add: apply_event_def Let_def case_prod_beta flip: counted_def, blast)
qed

text \<open>
  C7. While the candidate holds the floor to think, nothing a packet brings makes the interviewer
  speak: if the hold is on after a packet, the packet has no reply, no interjection and no end, and
  what it would have said is kept as context.
\<close>

theorem a_hold_is_silent:
  assumes "interviewer_silenced (snd (apply_event ou now receipt since received topic payload s))"
  shows "er_reply (fst (apply_event ou now receipt since received topic payload s)) = None
    \<and> \<not> er_interjection (fst (apply_event ou now receipt since received topic payload s))
    \<and> er_finish (fst (apply_event ou now receipt since received topic payload s)) = None"
proof (cases rule: apply_event_parts [of ou now receipt since received topic payload s])
  case ignored
  then show ?thesis by (simp add: no_result_def)
next
  case (applied r v w rest minutes)
  have finish: "er_finish r \<noteq> None \<Longrightarrow> th_hold (rs_thinking v) = Off"
    unfolding applied(1,2) by (rule finish_ends_hold)
  have "rs_thinking w = rs_thinking v" by (simp add: applied(3))
  with finish have "er_reply (fst (under_hold receipt r w)) = None \<and> \<not> er_interjection (fst (under_hold receipt r w))
      \<and> er_finish (fst (under_hold receipt r w)) = None"
    if "hold_is_active (th_hold (rs_thinking (snd (under_hold receipt r w))))"
    using that by (auto simp: under_hold_def hold_is_active_def case_prod_beta split: option.splits if_splits)
  with assms show ?thesis
    by (auto simp: applied(4) interviewer_silenced_def note_received_test_def split: option.split)
qed

definition toy_held :: runtime_state where "toy_held = snd (declare_thinking 2 2 toy_written)"

definition toy_switch :: json where
  "toy_switch = JObj [(''code'', JStr ''return [0, 1]''), (''language'', JStr ''javascript'')]"

theorem a_hold_is_silent_witness:
  "er_reply (fst (apply_event toy_outside 3 3 99999 True CodeUpdateTopic toy_switch toy_held)) = None
   \<and> er_held_context (fst (apply_event toy_outside 3 3 99999 True CodeUpdateTopic toy_switch toy_held)) \<noteq> None"
proof -
  have "interviewer_silenced (snd (apply_event toy_outside 3 3 99999 True CodeUpdateTopic toy_switch toy_held))" by code_simp
  from a_hold_is_silent [OF this]
  have "er_reply (fst (apply_event toy_outside 3 3 99999 True CodeUpdateTopic toy_switch toy_held)) = None" by blast
  moreover have "er_held_context (fst (apply_event toy_outside 3 3 99999 True CodeUpdateTopic toy_switch toy_held)) \<noteq> None"
    by code_simp
  ultimately show ?thesis by blast
qed

lemma quiet_hold: "quiet s t \<Longrightarrow> th_hold (rs_thinking t) = th_hold (rs_thinking s)"
  by (simp add: quiet_def)

lemma test_results_hold: "th_hold (rs_thinking (snd (apply_test_results ou now receipt since raw s))) = th_hold (rs_thinking s)"
  by (simp add: apply_test_results_def Let_def case_prod_beta quiet_hold [OF react_quiet] quiet_hold [OF record_run_quiet]
      quiet_hold [OF credit_quiet])

definition told :: "bool option \<Rightarrow> thinking_hold \<Rightarrow> thinking_hold \<Rightarrow> bool" where
  "told changed before after \<longleftrightarrow>
     hold_is_declared after = (case changed of Some declared \<Rightarrow> declared | None \<Rightarrow> hold_is_declared before)"

lemma told_same [simp]: "told None h h"
  by (simp add: told_def)

lemma announce_hold [simp]: "th_hold (rs_thinking (announce_thinking s)) = th_hold (rs_thinking s)"
  by (simp add: announce_thinking_def)

lemma declare_told: "told (if fst (declare_thinking now receipt s) then Some True else None) (th_hold (rs_thinking s))
    (th_hold (rs_thinking (snd (declare_thinking now receipt s))))"
  by (simp add: told_def declare_thinking_def Let_def)

lemma skip_thinking [simp]: "rs_thinking (skip_unassessed_star now summary s) = rs_thinking s"
  by (simp add: skip_unassessed_star_def)

lemma control_told:
  "told (er_thinking_changed (fst (apply_control ou now receipt payload s))) (th_hold (rs_thinking s))
     (th_hold (rs_thinking (snd (apply_control ou now receipt payload s))))"
proof -
  have thinking: "told (er_thinking_changed (fst (control_thinking now receipt b s))) (th_hold (rs_thinking s))
      (th_hold (rs_thinking (snd (control_thinking now receipt b s))))" for b
    using declare_told [of now receipt s]
    by (auto simp: control_thinking_def Let_def case_prod_beta no_result_def told_def hold_is_active_def)
  have yield: "told (er_thinking_changed (fst (control_yield_turn receipt payload s))) (th_hold (rs_thinking s))
      (th_hold (rs_thinking (snd (control_yield_turn receipt payload s))))"
    by (simp add: control_yield_turn_def Let_def case_prod_beta no_result_def told_def)
  have transition: "told (er_thinking_changed (fst (control_round_transition receipt s))) (th_hold (rs_thinking s))
      (th_hold (rs_thinking (snd (control_round_transition receipt s))))"
    by (simp add: control_round_transition_def Let_def no_result_def told_def)
  have warning: "told (er_thinking_changed (fst (control_time_warning now s))) (th_hold (rs_thinking s))
      (th_hold (rs_thinking (snd (control_time_warning now s))))"
    by (simp add: control_time_warning_def Let_def no_result_def told_def)
  have finish: "told (er_thinking_changed (fst (control_end_interview ou now receipt payload s))) (th_hold (rs_thinking s))
      (th_hold (rs_thinking (snd (control_end_interview ou now receipt payload s))))"
    by (simp add: control_end_interview_def Let_def case_prod_beta no_result_def told_def quiet_hold [OF final_editor_quiet])
  show ?thesis
    using thinking yield transition warning finish
    by (auto simp: apply_control_def Let_def case_prod_beta no_result_def split: option.split)
qed

lemma only_control_changes_hold:
  "topic \<noteq> ControlTopic \<Longrightarrow> er_thinking_changed (fst (apply_topic ou now receipt since topic payload s)) = None
     \<and> th_hold (rs_thinking (snd (apply_topic ou now receipt since topic payload s))) = th_hold (rs_thinking s)"
proof (cases topic)
  case CodeUpdateTopic
  then show ?thesis
    by (simp add: apply_topic_def quiet_hold [OF code_update_quiet])
      (simp add: apply_code_update_def Let_def case_prod_beta no_result_def split: option.split)
next
  case TestResultsTopic
  then show ?thesis
    by (simp add: apply_topic_def test_results_hold)
      (simp add: apply_test_results_def Let_def case_prod_beta no_result_def)
qed (simp_all add: apply_topic_def no_result_def apply_integrity_event_def)

lemma preempting_says_nothing_of_thinking:
  "er_preempts_hold (fst (apply_topic ou now receipt since topic payload s)) \<Longrightarrow>
     er_thinking_changed (fst (apply_topic ou now receipt since topic payload s)) = None"
proof (cases topic)
  case ControlTopic
  then show "er_preempts_hold (fst (apply_topic ou now receipt since topic payload s)) \<Longrightarrow> ?thesis"
    by (auto simp: apply_topic_def apply_control_def control_thinking_def control_yield_turn_def control_round_transition_def
        control_time_warning_def control_end_interview_def Let_def case_prod_beta no_result_def split: option.splits if_splits)
qed (simp_all add: only_control_changes_hold)

text \<open>
  C8. The page is told the truth about the hold: whether the hold is declared after a packet is what
  the packet's answer announces, and what it was before when nothing is announced.
\<close>

theorem announced_thinking_is_the_hold:
  "hold_is_declared (th_hold (rs_thinking (snd (apply_event ou now receipt since received topic payload s))))
   = (case er_thinking_changed (fst (apply_event ou now receipt since received topic payload s)) of
        Some declared \<Rightarrow> declared
      | None \<Rightarrow> hold_is_declared (th_hold (rs_thinking s)))"
proof (cases rule: apply_event_parts [of ou now receipt since received topic payload s])
  case ignored
  then show ?thesis by (simp add: no_result_def)
next
  case (applied r v w rest minutes)
  have "told (er_thinking_changed r) (th_hold (rs_thinking s)) (th_hold (rs_thinking v))"
    using control_told [of ou now receipt payload "counted received s"] only_control_changes_hold [of topic ou now receipt since payload "counted received s"]
    by (cases "topic = ControlTopic") (auto simp: applied(1,2) apply_topic_def)
  moreover have "er_preempts_hold r \<Longrightarrow> er_thinking_changed r = None"
    unfolding applied(1) by (rule preempting_says_nothing_of_thinking)
  moreover have "th_hold (rs_thinking w) = th_hold (rs_thinking v)" by (simp add: applied(3))
  ultimately have "told (er_thinking_changed (fst (under_hold receipt r w))) (th_hold (rs_thinking s))
      (th_hold (rs_thinking (snd (under_hold receipt r w))))"
    by (auto simp: under_hold_def case_prod_beta told_def split: option.splits)
  then show ?thesis
    by (auto simp: applied(4) told_def note_received_test_def split: option.splits)
qed

section \<open>The behavioral round is announced once\<close>

lemma other_controls_announce_nothing:
  "er_round_changed (fst (control_thinking now receipt b s)) = None"
  "er_round_changed (fst (control_yield_turn receipt payload s)) = None"
  "er_round_changed (fst (control_time_warning now s)) = None"
  "er_round_changed (fst (control_end_interview ou now receipt payload s)) = None"
  by (simp_all add: control_thinking_def control_yield_turn_def control_time_warning_def control_end_interview_def
      no_result_def Let_def case_prod_beta)

lemma no_result_announces_nothing [simp]: "er_round_changed no_result = None"
  by (simp add: no_result_def)

lemma silent_control:
  "\<not> (event_str payload ''type'' = Some ''round_transition'' \<and> round_transition_due now payload s) \<Longrightarrow>
     er_round_changed (fst (apply_control ou now receipt payload s)) = None"
  by (simp add: apply_control_def other_controls_announce_nothing Let_def case_prod_beta split: option.split) blast

lemma other_topics_announce_nothing:
  "er_round_changed (fst (apply_code_update ou receipt payload s)) = None"
  "er_round_changed (fst (apply_test_results ou now receipt since payload s)) = None"
  by (simp_all add: apply_code_update_def apply_test_results_def Let_def case_prod_beta split: option.split)

lemma announces_only_when_due:
  "er_round_changed (fst (apply_topic ou now receipt since topic payload s)) \<noteq> None \<Longrightarrow>
     topic = ControlTopic \<and> round_transition_due now payload s
     \<and> rd_transition_seen (rs_round (snd (apply_topic ou now receipt since topic payload s)))"
proof (cases topic)
  case ControlTopic
  assume "er_round_changed (fst (apply_topic ou now receipt since topic payload s)) \<noteq> None"
  then have "er_round_changed (fst (apply_control ou now receipt payload s)) \<noteq> None" by (simp add: apply_topic_def ControlTopic)
  then have "event_str payload ''type'' = Some ''round_transition'' \<and> round_transition_due now payload s"
    by (rule contrapos_np) (rule silent_control)
  then have asked: "event_str payload ''type'' = Some ''round_transition''" "round_transition_due now payload s" by simp_all
  with transition_fields(1) [of receipt s] show ?thesis
    by (simp add: apply_topic_def ControlTopic asks_for_round [OF asked])
qed (simp_all add: apply_topic_def other_topics_announce_nothing)

lemma event_announces_round:
  "er_round_changed (fst (apply_event ou now receipt since received topic payload s)) \<noteq> None \<Longrightarrow>
     \<not> rd_transition_seen (rs_round s)
     \<and> rd_transition_seen (rs_round (snd (apply_event ou now receipt since received topic payload s)))"
proof (cases rule: apply_event_parts [of ou now receipt since received topic payload s])
  case ignored
  then show "er_round_changed (fst (apply_event ou now receipt since received topic payload s)) \<noteq> None \<Longrightarrow> ?thesis"
    by (simp add: no_result_def)
next
  case (applied r v w rest minutes)
  assume "er_round_changed (fst (apply_event ou now receipt since received topic payload s)) \<noteq> None"
  then have "er_round_changed r \<noteq> None"
    by (auto simp: applied(4) under_hold_def note_received_test_def case_prod_beta split: option.splits if_splits)
  with announces_only_when_due [of ou now receipt since topic payload "counted received s"]
  have "round_transition_due now payload (counted received s)" "rd_transition_seen (rs_round v)"
    unfolding applied(1,2) by blast+
  then show ?thesis by (simp add: applied(3,4) round_transition_due_def)
qed

text \<open>
  C11. A page is told of the round transition once: when a packet has announced the behavioral round,
  or that it is skipped, no later packet announces it again, whatever happens in between.
\<close>

theorem round_is_announced_once:
  assumes "er_round_changed (fst (apply_event ou now receipt since received topic payload s)) \<noteq> None"
  shows "er_round_changed (fst (apply_event ou now' receipt' since' received' topic' payload'
    (interview_run ou es (snd (apply_event ou now receipt since received topic payload s))))) = None"
proof -
  let ?t = "snd (apply_event ou now receipt since received topic payload s)"
  have "interview_past (ou_sha ou) ?t (interview_run ou es ?t)" by (rule kept.run_rel) simp_all
  with event_announces_round [OF assms] have "rd_transition_seen (rs_round (interview_run ou es ?t))"
    by (simp add: interview_past_def)
  with event_announces_round [of ou now' receipt' since' received' topic' payload' "interview_run ou es ?t"]
  show ?thesis by blast
qed

theorem round_is_announced_once_witness:
  "er_round_changed (fst (apply_event toy_outside (2220 * nanos_per_s) 4 99999 False ControlTopic toy_transition board_done)) = Some ''started''
   \<and> er_round_changed (fst (apply_event toy_outside (2230 * nanos_per_s) 5 99999 False ControlTopic toy_transition
       (interview_run toy_outside [(7, HintCall 5 True)]
         (snd (apply_event toy_outside (2220 * nanos_per_s) 4 99999 False ControlTopic toy_transition board_done))))) = None"
proof -
  have "er_round_changed (fst (apply_event toy_outside (2220 * nanos_per_s) 4 99999 False ControlTopic toy_transition board_done)) = Some ''started''"
    using board_facts(1,7)
    by (simp add: apply_event_def Let_def case_prod_beta apply_topic_def asks_for_round [OF toy_transition_says(1) board_due])
      (simp add: control_round_transition_def open_behavioral_round_def Let_def coding_round_complete_def phases_evidenced_def
        reconcile_received_test_def test_recordable_def under_hold_def hold_is_active_def note_received_test_def)
  with round_is_announced_once [of toy_outside "2220 * nanos_per_s" 4 99999 False ControlTopic toy_transition board_done
      "2230 * nanos_per_s" 5 99999 False ControlTopic toy_transition "[(7, HintCall 5 True)]"]
  show ?thesis by simp
qed

section \<open>Judged steps quote the candidate\<close>






definition judge_frame :: "runtime_state \<Rightarrow> runtime_state \<Rightarrow> bool" where
  "judge_frame s t \<longleftrightarrow> rs_transcript t = rs_transcript s \<and> rs_round t = rs_round s \<and> rs_editor t = rs_editor s
     \<and> rs_plan t = rs_plan s"


lemma judge_frame_refl [simp]: "judge_frame s s"
  by (simp add: judge_frame_def)








lemma judge_reads_nothing_open [simp]:
  "phases_evidenced (s\<lparr>rs_judge := j\<rparr>) phases = phases_evidenced s phases"
  "test_source_of (s\<lparr>rs_judge := j\<rparr>) = test_source_of s" "written_work (s\<lparr>rs_judge := j\<rparr>) = written_work s"
  "rs_plan (s\<lparr>rs_judge := j\<rparr>) = rs_plan s" "rs_round (s\<lparr>rs_judge := j\<rparr>) = rs_round s"
proof -
  have "code_written (s\<lparr>rs_judge := j\<rparr>) = code_written s" by (simp add: code_written_def written_in_def starter_of_def)
  then show "written_work (s\<lparr>rs_judge := j\<rparr>) = written_work s" by (simp add: written_work_def split: interview_mode.split)
  have "tested_code_is_current (s\<lparr>rs_judge := j\<rparr>) = tested_code_is_current s"
    by (simp add: tested_code_is_current_def split: option.split)
  then show "test_source_of (s\<lparr>rs_judge := j\<rparr>) = test_source_of s" by (simp add: test_source_of_def runner_unavailable_on_screen_def)
qed (simp_all add: phases_evidenced_def)

lemma judge_open_judge [simp]: "phase_judge_open (s\<lparr>rs_judge := j\<rparr>) = phase_judge_open s"
  unfolding phase_judge_open_def unrecorded_phases_def judge_reads_nothing_open by (rule refl)


section \<open>What parsing may cost\<close>

fun admitted_cost :: "nat \<Rightarrow> (nat \<times> nat) list \<Rightarrow> nat" where
  "admitted_cost full_at [] = 0"
| "admitted_cost full_at ((now, bytes) # requests) =
     (let (admitted, full_at') = admit_parse now bytes full_at
      in (if admitted then parse_cost_ms bytes else 0) + admitted_cost full_at' requests)"

definition clamped :: "nat \<Rightarrow> nat \<Rightarrow> nat" where
  "clamped now full_at = max now (min full_at (now + PARSE_TOLERANCE_MS))"

lemma admitted_within:
  assumes "sorted (map fst ((now, bytes) # requests))"
    and "fst (last ((now, bytes) # requests)) + PARSE_TOLERANCE_MS \<le> u64_max"
  shows "clamped now full_at + admitted_cost full_at ((now, bytes) # requests)
    \<le> fst (last ((now, bytes) # requests)) + PARSE_TOLERANCE_MS"
  using assms
proof (induction requests arbitrary: now bytes full_at)
  case Nil
  then show ?case by (auto simp: admit_parse_def Let_def clamped_def sat_add64_exact)
next
  case (Cons r requests)
  obtain later size_later where r: "r = (later, size_later)" by (cases r)
  have order: "now \<le> later" "\<forall>x \<in> set requests. later \<le> fst x" using Cons.prems(1) by (auto simp: r)
  define full' where "full' = snd (admit_parse now bytes full_at)"
  have "later \<le> fst (last ((later, size_later) # requests))" using order(2) last_in_set [of requests] by (cases "requests = []") auto
  then have "now + PARSE_TOLERANCE_MS \<le> u64_max" using order(1) Cons.prems(2) by (simp add: r)
  then have "clamped now full_at + (if fst (admit_parse now bytes full_at) then parse_cost_ms bytes else 0) \<le> clamped later full'"
    using order(1) by (auto simp: full'_def admit_parse_def Let_def clamped_def sat_add64_exact)
  moreover have "clamped later full' + admitted_cost full' ((later, size_later) # requests)
      \<le> fst (last ((later, size_later) # requests)) + PARSE_TOLERANCE_MS"
    using Cons.prems by (intro Cons.IH) (auto simp: r)
  moreover have "admitted_cost full_at ((now, bytes) # r # requests)
      = (if fst (admit_parse now bytes full_at) then parse_cost_ms bytes else 0) + admitted_cost full' (r # requests)"
    by (simp add: case_prod_beta full'_def)
  ultimately show ?case by (simp add: r)
qed

text \<open>
  C12. However fast a page sends, and whatever the budget was at the first packet, the parsing
  admitted between two packets costs no more than the time between them and the burst of
  PARSE_TOLERANCE_MS.
\<close>

theorem parsing_is_rationed:
  assumes "sorted (map fst requests)" "requests \<noteq> []" "fst (last requests) + PARSE_TOLERANCE_MS \<le> u64_max"
  shows "admitted_cost full_at requests \<le> (fst (last requests) - fst (hd requests)) + PARSE_TOLERANCE_MS"
proof -
  obtain now bytes rest where r: "requests = (now, bytes) # rest" using assms(2) by (metis list.exhaust surj_pair)
  have "now \<le> clamped now full_at" by (simp add: clamped_def)
  moreover have "clamped now full_at + admitted_cost full_at requests \<le> fst (last requests) + PARSE_TOLERANCE_MS"
    using admitted_within [of now bytes rest full_at] assms(1,3) by (simp add: r)
  moreover have "now \<le> fst (last requests)"
    using assms(1) last_in_set [of rest] by (cases "rest = []") (auto simp: r)
  ultimately show ?thesis by (simp add: r)
qed

theorem parsing_is_rationed_witness:
  "admitted_cost 0 [(0, 1048576), (1, 1048576), (2000, 400000)] = 5526 \<and> (5526::nat) \<le> 2000 + PARSE_TOLERANCE_MS"
  using parsing_is_rationed [of "[(0, 1048576), (1, 1048576), (2000, 400000)]" 0]
  by (simp add: admit_parse_def parse_cost_ms_def PARSE_BYTES_PER_SECOND_def PARSE_TOLERANCE_MS_def PARSE_BURST_BYTES_def
      sat_add64_def u64_max_def)

end
