(* ===== verification/Token_Watch.thy ===== *)
theory Token_Watch
  imports Main
begin

text \<open>
  \<open>PromptTokenWatch\<close> of \<open>src/src/livekit/turn.rs\<close>: the prompt-token counts of a live socket, from which a
  cut of the provider's context is told.  Counts are \<open>nat\<close>; the code's \<open>u64\<close> differences saturate, as
  subtraction of \<open>nat\<close> does.
\<close>

record compression =
  cx_trigger_tokens :: nat
  cx_target_tokens :: nat

record token_watch =
  tw_latest :: "nat option"
  tw_peak :: nat
  tw_comparable :: nat
  tw_tool_prompt :: nat
  tw_tool_bound :: nat
  tw_refresh_pending :: bool
  tw_tool_usage :: bool

definition token_watch_default :: token_watch where
  "token_watch_default = \<lparr>tw_latest = None, tw_peak = 0, tw_comparable = 0, tw_tool_prompt = 0, tw_tool_bound = 0,
     tw_refresh_pending = False, tw_tool_usage = False\<rparr>"

definition observe_prompt_tokens :: "compression option \<Rightarrow> nat \<Rightarrow> token_watch \<Rightarrow> token_watch" where
  "observe_prompt_tokens compression prompt w =
     (if compression = None \<or> prompt = 0 then w
      else if tw_tool_usage w then w\<lparr>tw_tool_prompt := max (tw_tool_prompt w) prompt\<rparr>
      else w\<lparr>tw_latest := Some prompt, tw_peak := max (tw_peak w) prompt\<rparr>)"

definition cut_threshold :: "compression \<Rightarrow> nat" where
  "cut_threshold compression =
     min (max ((cx_trigger_tokens compression - cx_target_tokens compression) div 2) 1) 2048"

text \<open>The reference and the reading a completed turn is judged by, and whether they show a cut.\<close>

definition turn_reading :: "bool \<Rightarrow> nat \<Rightarrow> token_watch \<Rightarrow> (nat \<times> nat) option" where
  "turn_reading tool_turn tool_prompt w =
     (if tool_turn then (if tool_prompt = 0 then None else Some (tw_comparable w, tool_prompt))
      else (case tw_latest w of None \<Rightarrow> None | Some latest \<Rightarrow> Some (tw_peak w, latest)))"

definition shows_cut :: "compression \<Rightarrow> nat \<Rightarrow> nat \<Rightarrow> bool" where
  "shows_cut compression reference latest \<longleftrightarrow>
     reference - latest \<ge> cut_threshold compression
     \<or> (reference \<ge> cx_trigger_tokens compression \<and> latest < reference)"

definition judge_reading :: "compression \<Rightarrow> bool \<Rightarrow> nat \<Rightarrow> nat \<Rightarrow> token_watch \<Rightarrow> token_watch" where
  "judge_reading compression tool_turn reference latest w =
     (let w = (if shows_cut compression reference latest
               then (let w = w\<lparr>tw_refresh_pending := True\<rparr>
                     in if tool_turn then w\<lparr>tw_comparable := 0, tw_peak := 0\<rparr> else w)
               else w)
      in if tool_turn then w\<lparr>tw_tool_bound := latest\<rparr>
         else w\<lparr>tw_comparable := latest, tw_peak := latest, tw_tool_bound := 0\<rparr>)"

definition observe_turn_complete :: "compression option \<Rightarrow> token_watch \<Rightarrow> token_watch" where
  "observe_turn_complete compression w =
     (let tool_turn = tw_tool_usage w; tool_prompt = tw_tool_prompt w;
          w = w\<lparr>tw_tool_usage := False, tw_tool_prompt := 0\<rparr>;
          w = (if tool_turn then w\<lparr>tw_latest := None\<rparr> else w)
      in case compression of None \<Rightarrow> w
         | Some compression \<Rightarrow>
             (case turn_reading tool_turn tool_prompt w of None \<Rightarrow> w
              | Some (reference, latest) \<Rightarrow>
                  judge_reading compression tool_turn reference latest (w\<lparr>tw_latest := None\<rparr>)))"

definition context_cut_plausible :: "compression option \<Rightarrow> token_watch \<Rightarrow> bool" where
  "context_cut_plausible compression w =
     (case compression of None \<Rightarrow> False
      | Some compression \<Rightarrow>
          (let measured = tw_peak w; bound = max measured (tw_tool_bound w);
               trigger = cx_trigger_tokens compression;
               band = trigger - cx_target_tokens compression
           in tw_refresh_pending w \<or> measured = 0 \<or> bound \<ge> trigger - band div 2))"

definition mark_tool_usage :: "token_watch \<Rightarrow> token_watch" where
  "mark_tool_usage w =
     (let w = (if \<not> tw_tool_usage w
               then w\<lparr>tw_tool_prompt := (case tw_latest w of None \<Rightarrow> 0 | Some latest \<Rightarrow> latest),
                      tw_peak := tw_comparable w\<rparr>
               else w)
      in w\<lparr>tw_tool_usage := True, tw_latest := None\<rparr>)"

definition reset_watch :: "bool \<Rightarrow> token_watch \<Rightarrow> token_watch" where
  "reset_watch resumed w =
     (if resumed then token_watch_default
        \<lparr>tw_peak := tw_peak w, tw_comparable := tw_comparable w, tw_tool_bound := tw_tool_bound w\<rparr>
      else token_watch_default)"

section \<open>Runs of the watch\<close>

text \<open>
  What happens to a watch under one compression window: usage is observed, a tool call marks the turn, a
  turn completes, a checkpoint that went out clears the pending refresh, the socket is replaced.
\<close>

datatype token_event =
    Observed_usage nat | Tool_used | Turn_completed | Refreshed | Socket_replaced bool

fun token_step :: "compression option \<Rightarrow> token_event \<Rightarrow> token_watch \<Rightarrow> token_watch" where
  "token_step compression (Observed_usage prompt) w = observe_prompt_tokens compression prompt w"
| "token_step compression Tool_used w = mark_tool_usage w"
| "token_step compression Turn_completed w = observe_turn_complete compression w"
| "token_step compression Refreshed w = w\<lparr>tw_refresh_pending := False\<rparr>"
| "token_step compression (Socket_replaced resumed) w = reset_watch resumed w"

end
