(* ===== verification/Turn.thy ===== *)
theory Turn
  imports Phase_Judge Token_Watch "HOL-Library.Option_ord"
begin

text \<open>
  \<open>RuntimeActivity\<close> of \<open>src/src/livekit/turn.rs\<close>: whose turn it is, which reply is owed and since when,
  what the microphone says, and which calls and prompts a pause may spend.  Instants are nanoseconds
  since the start of the interview, so that the saturating differences of the code are subtractions of \<open>nat\<close>.  A
  method that reads the clock itself takes that reading as \<open>clk\<close>.  The observers \<open>FloorTracker\<close>,
  \<open>TurnTiming\<close> and \<open>ReplyLatency\<close> and the usage totals, which no decision reads, are left out.
\<close>

section \<open>Times\<close>

definition INTERIM_IDLE :: nat where "INTERIM_IDLE = 8 * nanos_per_s"
definition INTERIM_COOLDOWN :: nat where "INTERIM_COOLDOWN = 150 * nanos_per_s"
definition PHASE_JUDGE_IDLE :: nat where "PHASE_JUDGE_IDLE = 2 * nanos_per_s"
definition PHASE_JUDGE_COOLDOWN :: nat where "PHASE_JUDGE_COOLDOWN = 6 * nanos_per_s"
definition MAX_PHASE_JUDGES :: nat where "MAX_PHASE_JUDGES = 48"
definition BEHAVIORAL_PHASE_JUDGES :: nat where "BEHAVIORAL_PHASE_JUDGES = 8"
definition PHASE_JUDGE_EDITOR_COOLDOWN :: nat where "PHASE_JUDGE_EDITOR_COOLDOWN = 30 * nanos_per_s"
definition MAX_EDITOR_PHASE_JUDGES :: nat where "MAX_EDITOR_PHASE_JUDGES = 12"
definition INTERIM_MIN_NEW_TURNS :: nat where "INTERIM_MIN_NEW_TURNS = 6"
definition CODE_SETTLE :: nat where "CODE_SETTLE = 10 * nanos_per_s"
definition PROMPT_STALL :: nat where "PROMPT_STALL = 20 * nanos_per_s"
definition FIRST_OUTPUT_DEADLINE :: nat where "FIRST_OUTPUT_DEADLINE = 10 * nanos_per_s"
definition THINKING_TRANSCRIPT_GRACE :: nat where "THINKING_TRANSCRIPT_GRACE = 1500 * nanos_per_ms"
definition THINKING_REPLY_FALLBACK :: nat where "THINKING_REPLY_FALLBACK = 4 * nanos_per_s"
definition THINKING_WINDOW_MARGIN :: nat where "THINKING_WINDOW_MARGIN = 250 * nanos_per_ms"
definition REPLY_TIMEOUT :: nat where "REPLY_TIMEOUT = 45 * nanos_per_s"
definition REPLY_WAIT_SHOWN :: nat where "REPLY_WAIT_SHOWN = 4 * nanos_per_s"
definition LATE_TRANSCRIPT_GRACE :: nat where "LATE_TRANSCRIPT_GRACE = 2 * nanos_per_s"
definition HANDOFF_REPLY_MARGIN :: nat where "HANDOFF_REPLY_MARGIN = 2500 * nanos_per_ms"
definition ROTATION_WATCH_MAX :: nat where "ROTATION_WATCH_MAX = 120 * nanos_per_s"
definition CHECKPOINT_VOICE_QUIET :: nat where "CHECKPOINT_VOICE_QUIET = 2 * nanos_per_s"
definition STALE_VOICE_ACTIVITY :: nat where "STALE_VOICE_ACTIVITY = 10 * nanos_per_s"
definition INTERIM_ATTEMPT_TIMEOUT :: nat where "INTERIM_ATTEMPT_TIMEOUT = 12 * nanos_per_s"

definition thinking_transcript_grace :: "nat \<Rightarrow> nat" where
  "thinking_transcript_grace silence_ms =
     (let silence = silence_ms * nanos_per_ms
      in min THINKING_TRANSCRIPT_GRACE (max (silence div 2) (silence - THINKING_WINDOW_MARGIN)))"

text \<open>Whether a stamp is at least, or less than, so old.\<close>

definition waited :: "nat \<Rightarrow> nat \<Rightarrow> nat option \<Rightarrow> bool" where
  "waited now span at = (case at of None \<Rightarrow> False | Some at \<Rightarrow> now - at \<ge> span)"

definition within :: "nat \<Rightarrow> nat \<Rightarrow> nat option \<Rightarrow> bool" where
  "within now span at = (case at of None \<Rightarrow> False | Some at \<Rightarrow> now - at < span)"

fun latest :: "nat list \<Rightarrow> nat option" where
  "latest [] = None"
| "latest (x # xs) = Some (fold max xs x)"

fun earliest :: "nat list \<Rightarrow> nat option" where
  "earliest [] = None"
| "earliest (x # xs) = Some (fold min xs x)"

section \<open>The state\<close>

datatype floor_holder = Listening | Speaking | AwaitingPlayout

record voice_state =
  vo_active :: bool
  vo_at :: "nat option"
  vo_ended_at :: "nat option"
  vo_pcm_at :: "nat option"
  vo_rebased_pcm_at :: "nat option"
  vo_speech_owed :: bool
  vo_transcribed :: bool

record prompt_state =
  pr_at :: "nat option"
  pr_recovery :: bool
  pr_unvoiced_at :: "nat option"
  pr_allows_silence :: bool
  pr_behind_turn :: bool
  pr_text :: "string option"
  pr_sequence :: nat

record generation_state =
  ge_generating :: bool
  ge_last_output_at :: "nat option"
  ge_tool_response_at :: "nat option"
  ge_completed_at :: "nat option"

record socket_work =
  so_discarding :: bool
  so_ignore_until :: "nat option"
  so_reply_after_discard :: bool
  so_fallback :: "(nat \<times> string) option"
  so_interrupted_pending :: bool
  so_stale_pending :: bool
  so_tool_outstanding :: bool

record idle_state =
  id_code_change :: nat
  id_user_speech :: nat
  id_agent_speech :: nat
  id_nudge :: nat
  id_completed_nudges :: nat
  id_last_completed_nudge :: "nat option"
  id_review :: nat
  id_interjection :: nat
  id_test_reaction :: nat
  id_reviewed_revision :: nat
  id_behavioral_nudged :: bool

record parked_packet =
  pk_payload :: json
  pk_received :: bool
  pk_deadline :: nat

record calls_state =
  ca_last_interim :: nat
  ca_max_interim :: nat
  ca_interim :: nat
  ca_last_judge :: "nat option"
  ca_judges :: nat
  ca_editor_judges :: nat
  ca_judge_running :: bool
  ca_parked :: "parked_packet option"

record unsent_watch =
  un_revision :: "nat option"
  un_code_shown :: string
  un_evidence_shown :: "string list option"

record shown_state =
  sh_evidence :: "string list option"
  sh_unsent :: "unsent_watch option"
  sh_silent_editor :: "(nat \<times> string) option"

record rotation_watch =
  ro_started :: nat
  ro_connected :: nat
  ro_resumed :: bool
  ro_spoke_at :: "nat option"

record activity =
  ac_voice :: voice_state
  ac_prompt :: prompt_state
  ac_gen :: generation_state
  ac_socket :: socket_work
  ac_idle :: idle_state
  ac_calls :: calls_state
  ac_shown :: shown_state
  ac_tokens :: token_watch
  ac_awaiting :: "nat option"
  ac_ack_owed :: bool
  ac_floor :: floor_holder
  ac_rotation :: "rotation_watch option"
  ac_handoff :: "nat option"
  ac_reply_timeout :: nat
  ac_first_output :: nat

definition socket_work_default :: socket_work where
  "socket_work_default = \<lparr>so_discarding = False, so_ignore_until = None, so_reply_after_discard = False,
     so_fallback = None, so_interrupted_pending = False, so_stale_pending = False, so_tool_outstanding = False\<rparr>"

definition activity_new :: "nat \<Rightarrow> nat \<Rightarrow> activity" where
  "activity_new now max_interim_reviews =
     \<lparr>ac_voice = \<lparr>vo_active = False, vo_at = None, vo_ended_at = None, vo_pcm_at = None, vo_rebased_pcm_at = None,
        vo_speech_owed = False, vo_transcribed = False\<rparr>,
      ac_prompt = \<lparr>pr_at = None, pr_recovery = False, pr_unvoiced_at = None, pr_allows_silence = False,
        pr_behind_turn = False, pr_text = None, pr_sequence = 0\<rparr>,
      ac_gen = \<lparr>ge_generating = False, ge_last_output_at = None, ge_tool_response_at = None, ge_completed_at = None\<rparr>,
      ac_socket = socket_work_default,
      ac_idle = \<lparr>id_code_change = now, id_user_speech = now, id_agent_speech = now, id_nudge = now,
        id_completed_nudges = 0, id_last_completed_nudge = None, id_review = now, id_interjection = now,
        id_test_reaction = (if TEST_REACTION_COOLDOWN_MS * nanos_per_ms \<le> now
                            then now - TEST_REACTION_COOLDOWN_MS * nanos_per_ms else now),
        id_reviewed_revision = 0, id_behavioral_nudged = False\<rparr>,
      ac_calls = \<lparr>ca_last_interim = now, ca_max_interim = max_interim_reviews, ca_interim = 0, ca_last_judge = None,
        ca_judges = 0, ca_editor_judges = 0, ca_judge_running = False, ca_parked = None\<rparr>,
      ac_shown = \<lparr>sh_evidence = None, sh_unsent = None, sh_silent_editor = None\<rparr>,
      ac_tokens = token_watch_default, ac_awaiting = None, ac_ack_owed = False, ac_floor = Listening,
      ac_rotation = None, ac_handoff = None, ac_reply_timeout = REPLY_TIMEOUT,
      ac_first_output = FIRST_OUTPUT_DEADLINE\<rparr>"

definition with_reply_timeout :: "nat \<Rightarrow> activity \<Rightarrow> activity" where
  "with_reply_timeout reply_timeout a = a\<lparr>ac_reply_timeout := reply_timeout\<rparr>"

definition with_first_output_deadline :: "nat \<Rightarrow> activity \<Rightarrow> activity" where
  "with_first_output_deadline deadline a = a\<lparr>ac_first_output := deadline\<rparr>"

section \<open>Who holds the floor, and what was prompted\<close>

definition mark_speaking :: "activity \<Rightarrow> activity" where
  "mark_speaking a = a\<lparr>ac_floor := Speaking\<rparr>"

definition mark_listening :: "nat \<Rightarrow> activity \<Rightarrow> activity" where
  "mark_listening clk a = a\<lparr>ac_floor := Listening, ac_idle := (ac_idle a)\<lparr>id_agent_speech := clk\<rparr>\<rparr>"

definition drop_rotation_watch :: "activity \<Rightarrow> activity" where
  "drop_rotation_watch a = a\<lparr>ac_rotation := None\<rparr>"

definition drop_handoff_reply :: "activity \<Rightarrow> activity" where
  "drop_handoff_reply a = a\<lparr>ac_handoff := None\<rparr>"

definition arm_handoff_reply :: "nat \<Rightarrow> activity \<Rightarrow> activity" where
  "arm_handoff_reply now a = a\<lparr>ac_handoff := Some now\<rparr>"

definition begin_rotation_watch :: "bool \<Rightarrow> rotation_watch \<Rightarrow> activity \<Rightarrow> activity" where
  "begin_rotation_watch asked_for_reply watch a = a\<lparr>ac_rotation := (if asked_for_reply then Some watch else None)\<rparr>"

definition take_rotation_watch :: "activity \<Rightarrow> rotation_watch option \<times> activity" where
  "take_rotation_watch a = (ac_rotation a, a\<lparr>ac_rotation := None\<rparr>)"

definition note_rotation_spoken_over :: "nat \<Rightarrow> activity \<Rightarrow> activity" where
  "note_rotation_spoken_over now a =
     a\<lparr>ac_rotation := map_option
         (\<lambda>watch. if ro_spoke_at watch = None then watch\<lparr>ro_spoke_at := Some now\<rparr> else watch) (ac_rotation a)\<rparr>"

definition mark_prompted_state :: "nat \<Rightarrow> string option \<Rightarrow> bool \<Rightarrow> bool \<Rightarrow> activity \<Rightarrow> activity" where
  "mark_prompted_state now said allows_silence recovery a =
     (let a = mark_speaking a
      in a\<lparr>ac_prompt := \<lparr>pr_at = Some now, pr_recovery = recovery,
             pr_unvoiced_at = (if allows_silence then None else Some now), pr_allows_silence = allows_silence,
             pr_behind_turn = ge_generating (ac_gen a), pr_text = said,
             pr_sequence = Suc (pr_sequence (ac_prompt a))\<rparr>\<rparr>)"

definition mark_prompted :: "nat \<Rightarrow> string option \<Rightarrow> bool \<Rightarrow> activity \<Rightarrow> activity" where
  "mark_prompted now said allows_silence a =
     mark_prompted_state now said allows_silence False (drop_handoff_reply (drop_rotation_watch a))"

definition mark_recovery_prompted :: "nat \<Rightarrow> string option \<Rightarrow> activity \<Rightarrow> activity" where
  "mark_recovery_prompted now said a = mark_prompted_state now said False True a"

definition owe_prompt :: "nat \<Rightarrow> string option \<Rightarrow> activity \<Rightarrow> activity" where
  "owe_prompt now said a =
     a\<lparr>ac_prompt := (ac_prompt a)\<lparr>pr_recovery := False, pr_text := said, pr_at := Some now, pr_unvoiced_at := Some now,
         pr_allows_silence := False, pr_behind_turn := False\<rparr>\<rparr>"

definition clear_prompt_wait :: "activity \<Rightarrow> activity" where
  "clear_prompt_wait a = a\<lparr>ac_prompt := (ac_prompt a)\<lparr>pr_at := None, pr_unvoiced_at := None\<rparr>\<rparr>"

definition clear_candidate_reply_wait :: "activity \<Rightarrow> activity" where
  "clear_candidate_reply_wait a = a\<lparr>ac_awaiting := None, ac_ack_owed := False\<rparr>"

section \<open>What is owed\<close>

definition reply_in_flight :: "activity \<Rightarrow> bool" where
  "reply_in_flight a \<longleftrightarrow> ac_awaiting a \<noteq> None"

definition owes_prompt :: "activity \<Rightarrow> bool" where
  "owes_prompt a \<longleftrightarrow> pr_at (ac_prompt a) \<noteq> None \<and> \<not> pr_allows_silence (ac_prompt a)"

definition owes_reply :: "activity \<Rightarrow> bool" where
  "owes_reply a \<longleftrightarrow> reply_in_flight a \<or> owes_prompt a \<or> so_tool_outstanding (ac_socket a)
     \<or> so_reply_after_discard (ac_socket a)"

definition reply_unfinished :: "activity \<Rightarrow> bool" where
  "reply_unfinished a \<longleftrightarrow> owes_reply a \<or> ge_generating (ac_gen a)"

datatype silence_debt = CandidateTurn | RequiredPrompt | ToolContinuation | OptionalPrompt

definition debt_silence_answers :: "activity \<Rightarrow> silence_debt option" where
  "debt_silence_answers a =
     (if so_reply_after_discard (ac_socket a) then None
      else if reply_in_flight a then Some CandidateTurn
      else if owes_prompt a then Some RequiredPrompt
      else if so_tool_outstanding (ac_socket a) then Some ToolContinuation
      else if pr_at (ac_prompt a) \<noteq> None then Some OptionalPrompt
      else None)"

definition answered_without_speaking :: "activity \<Rightarrow> bool" where
  "answered_without_speaking a \<longleftrightarrow> ge_generating (ac_gen a) \<and> reply_in_flight a
     \<and> \<not> pr_behind_turn (ac_prompt a) \<and> \<not> so_discarding (ac_socket a)"

section \<open>Deadlines\<close>

definition resume_reply_wait :: "nat \<Rightarrow> activity \<Rightarrow> activity" where
  "resume_reply_wait now a =
     (let generating = ge_generating (ac_gen a)
      in a\<lparr>ac_awaiting := map_option (max now) (ac_awaiting a),
           ac_prompt := (ac_prompt a)\<lparr>pr_at := map_option (max now) (pr_at (ac_prompt a))\<rparr>,
           ac_gen := (ac_gen a)
             \<lparr>ge_tool_response_at := (if so_tool_outstanding (ac_socket a) \<or> generating
                then map_option (max now) (ge_tool_response_at (ac_gen a)) else None),
              ge_last_output_at := (if generating
                then map_option (max now) (ge_last_output_at (ac_gen a)) else None)\<rparr>\<rparr>)"

definition note_tool_response :: "nat \<Rightarrow> activity \<Rightarrow> activity" where
  "note_tool_response now a =
     (if so_discarding (ac_socket a) then a
      else a\<lparr>ac_socket := (ac_socket a)\<lparr>so_tool_outstanding := True\<rparr>,
             ac_tokens := mark_tool_usage (ac_tokens a),
             ac_gen := (ac_gen a)\<lparr>ge_tool_response_at := Some now,
               ge_last_output_at := (if ge_generating (ac_gen a) then Some now else ge_last_output_at (ac_gen a))\<rparr>\<rparr>)"

definition note_output :: "nat \<Rightarrow> activity \<Rightarrow> activity" where
  "note_output now a =
     (let a = drop_handoff_reply a
      in a\<lparr>ac_gen := (ac_gen a)\<lparr>ge_generating := True, ge_last_output_at := Some now, ge_tool_response_at := None\<rparr>,
           ac_socket := (ac_socket a)\<lparr>so_fallback := None\<rparr>,
           ac_prompt := (if pr_behind_turn (ac_prompt a) then ac_prompt a
                         else (ac_prompt a)\<lparr>pr_at := None\<rparr>)\<rparr>)"

definition note_turn_boundary :: "nat \<Rightarrow> activity \<Rightarrow> activity" where
  "note_turn_boundary now a =
     (let behind = pr_behind_turn (ac_prompt a);
          a = a\<lparr>ac_gen := (ac_gen a)\<lparr>ge_generating := False, ge_last_output_at := None, ge_tool_response_at := None\<rparr>,
                ac_prompt := (ac_prompt a)\<lparr>pr_behind_turn := False\<rparr>\<rparr>
      in if behind
         then (let a = clear_candidate_reply_wait a
               in a\<lparr>ac_prompt := (ac_prompt a)\<lparr>pr_at := map_option (\<lambda>_. now) (pr_at (ac_prompt a))\<rparr>\<rparr>)
         else clear_candidate_reply_wait (clear_prompt_wait a))"

definition note_reply_audible :: "activity \<Rightarrow> activity" where
  "note_reply_audible a =
     (let a = (if pr_behind_turn (ac_prompt a) then a
               else a\<lparr>ac_prompt := (ac_prompt a)\<lparr>pr_unvoiced_at := None\<rparr>\<rparr>)
      in mark_speaking (clear_candidate_reply_wait a))"

definition settle_completed_turn :: "nat \<Rightarrow> bool \<Rightarrow> activity \<Rightarrow> activity" where
  "settle_completed_turn clk audio_playing a =
     (let a = drop_handoff_reply (drop_rotation_watch a);
          a = a\<lparr>ac_socket := (ac_socket a)\<lparr>so_tool_outstanding := False\<rparr>, ac_floor := AwaitingPlayout\<rparr>
      in if audio_playing then a else mark_listening clk a)"

section \<open>The microphone\<close>

definition recent_voiced_pcm :: "nat \<Rightarrow> activity \<Rightarrow> bool" where
  "recent_voiced_pcm now a = within now CHECKPOINT_VOICE_QUIET (vo_pcm_at (ac_voice a))"

definition incoming_speech_active :: "nat \<Rightarrow> activity \<Rightarrow> bool" where
  "incoming_speech_active now a \<longleftrightarrow>
     (vo_active (ac_voice a) \<or> vo_speech_owed (ac_voice a)) \<and> recent_voiced_pcm now a"

definition candidate_interrupting :: "nat \<Rightarrow> activity \<Rightarrow> bool" where
  "candidate_interrupting now a \<longleftrightarrow> vo_active (ac_voice a)
     \<or> (recent_voiced_pcm now a \<and> vo_pcm_at (ac_voice a) > vo_ended_at (ac_voice a))"

definition candidate_voice_ended :: "activity \<Rightarrow> bool" where
  "candidate_voice_ended a \<longleftrightarrow> vo_ended_at (ac_voice a) \<noteq> None"

definition candidate_transcription_pending :: "nat \<Rightarrow> activity \<Rightarrow> bool" where
  "candidate_transcription_pending now a \<longleftrightarrow>
     within now CHECKPOINT_VOICE_QUIET (vo_ended_at (ac_voice a))
     \<or> (vo_active (ac_voice a) \<and> waited now (500 * nanos_per_ms) (vo_at (ac_voice a)))"

definition reset_completed_coding_idle :: "activity \<Rightarrow> activity" where
  "reset_completed_coding_idle a =
     a\<lparr>ac_idle := (ac_idle a)\<lparr>id_completed_nudges := 0, id_last_completed_nudge := None\<rparr>\<rparr>"

definition note_candidate_voice_activity :: "bool \<Rightarrow> nat \<Rightarrow> activity \<Rightarrow> activity" where
  "note_candidate_voice_activity active now a =
     (let a = (if active \<or> vo_active (ac_voice a) then reset_completed_coding_idle a else a);
          a = (if active then note_rotation_spoken_over now a else a);
          a = a\<lparr>ac_voice := (ac_voice a)\<lparr>vo_active := active, vo_ended_at := (if active then None else Some now),
                  vo_at := Some now\<rparr>,
                ac_idle := (ac_idle a)\<lparr>id_user_speech := now\<rparr>\<rparr>
      in if active \<and> recent_voiced_pcm now a \<and> vo_pcm_at (ac_voice a) \<noteq> vo_rebased_pcm_at (ac_voice a)
         then a\<lparr>ac_voice := (ac_voice a)\<lparr>vo_speech_owed := vo_speech_owed (ac_voice a) \<or> reply_unfinished a\<rparr>\<rparr>
         else if \<not> active \<and> vo_speech_owed (ac_voice a)
         then resume_reply_wait now
                (a\<lparr>ac_voice := (ac_voice a)\<lparr>vo_speech_owed := False, vo_rebased_pcm_at := vo_pcm_at (ac_voice a)\<rparr>\<rparr>)
         else a)"

definition expire_stale_voice_activity :: "nat \<Rightarrow> activity \<Rightarrow> activity" where
  "expire_stale_voice_activity now a =
     (if vo_active (ac_voice a) \<and> \<not> within now STALE_VOICE_ACTIVITY (vo_at (ac_voice a))
      then a\<lparr>ac_voice := (ac_voice a)\<lparr>vo_active := False, vo_ended_at := Some now\<rparr>\<rparr>
      else a)"

definition clear_candidate_voice_activity :: "activity \<Rightarrow> activity" where
  "clear_candidate_voice_activity a =
     a\<lparr>ac_voice := (ac_voice a)\<lparr>vo_active := False, vo_ended_at := None, vo_pcm_at := None,
         vo_rebased_pcm_at := None, vo_speech_owed := False\<rparr>\<rparr>"

definition settle_incoming_speech :: "nat \<Rightarrow> activity \<Rightarrow> activity" where
  "settle_incoming_speech now a =
     (if vo_speech_owed (ac_voice a) \<and> \<not> incoming_speech_active now a
      then (let a = a\<lparr>ac_voice := (ac_voice a)\<lparr>vo_speech_owed := False, vo_rebased_pcm_at := vo_pcm_at (ac_voice a)\<rparr>\<rparr>
            in case vo_pcm_at (ac_voice a) of None \<Rightarrow> a
               | Some at \<Rightarrow> resume_reply_wait (at + CHECKPOINT_VOICE_QUIET) a)
      else a)"

definition note_candidate_voice :: "nat \<Rightarrow> activity \<Rightarrow> activity" where
  "note_candidate_voice now a =
     (let a = note_rotation_spoken_over now a;
          a = a\<lparr>ac_voice := (ac_voice a)\<lparr>vo_pcm_at := Some now,
                  vo_speech_owed := vo_speech_owed (ac_voice a) \<or> (vo_active (ac_voice a) \<and> reply_unfinished a),
                  vo_at := Some now\<rparr>\<rparr>
      in if vo_transcribed (ac_voice a) then a
         else (let a = reset_completed_coding_idle a
               in a\<lparr>ac_idle := (ac_idle a)\<lparr>id_user_speech := now\<rparr>\<rparr>))"

text \<open>A voiced frame reaches the timers only where no transcript tells of the candidate, or a watch needs it.\<close>

definition note_candidate_audio_frame :: "bool \<Rightarrow> bool \<Rightarrow> nat \<Rightarrow> activity \<Rightarrow> activity" where
  "note_candidate_audio_frame compressed voiced now a =
     (if voiced \<and> (compressed \<or> \<not> vo_transcribed (ac_voice a) \<or> vo_active (ac_voice a))
      then note_candidate_voice now a else a)"

section \<open>Stalls and expired waits\<close>

definition generation_stalled :: "nat \<Rightarrow> activity \<Rightarrow> bool" where
  "generation_stalled now a \<longleftrightarrow> \<not> incoming_speech_active now a \<and> ge_generating (ac_gen a)
     \<and> waited now PROMPT_STALL (ge_last_output_at (ac_gen a))"

definition hold_leaves_output_in_flight :: "nat \<Rightarrow> activity \<Rightarrow> bool" where
  "hold_leaves_output_in_flight now a \<longleftrightarrow>
     ((ac_floor a = Speaking \<or> ge_generating (ac_gen a)) \<and> \<not> generation_stalled now a)
     \<or> (so_tool_outstanding (ac_socket a) \<and> within now PROMPT_STALL (ge_tool_response_at (ac_gen a)))"

record stalls =
  st_prompt_released :: bool
  st_spend_restart :: bool

text \<open>What keeps the floor for a prompt: the prompt, or a candidate turn nothing is generated for.\<close>

definition floor_owed_at :: "activity \<Rightarrow> nat option" where
  "floor_owed_at a =
     (case pr_at (ac_prompt a) of Some at \<Rightarrow> Some at
      | None \<Rightarrow> if ge_generating (ac_gen a) then None else ac_awaiting a)"

definition release_tool :: "activity \<Rightarrow> activity" where
  "release_tool a =
     (let a = a\<lparr>ac_socket := (ac_socket a)\<lparr>so_tool_outstanding := False\<rparr>\<rparr>
      in case ge_tool_response_at (ac_gen a) of None \<Rightarrow> a
         | Some at \<Rightarrow>
             if owes_prompt a then a
             else (let unvoiced = pr_unvoiced_at (ac_prompt a);
                       said = (if unvoiced = None then None else pr_text (ac_prompt a));
                       a = owe_prompt at said a
                   in a\<lparr>ac_prompt := (ac_prompt a)\<lparr>pr_unvoiced_at := unvoiced\<rparr>\<rparr>))"

definition settle_stalls :: "nat \<Rightarrow> nat \<Rightarrow> bool \<Rightarrow> activity \<Rightarrow> stalls \<times> activity" where
  "settle_stalls clk now audio_playing a =
     (let a = settle_incoming_speech now (expire_stale_voice_activity now a)
      in if incoming_speech_active now a
         then (\<lparr>st_prompt_released = False, st_spend_restart = False\<rparr>, a)
         else (let prompt_released = (ac_floor a = Speaking \<and> \<not> audio_playing
                     \<and> waited now PROMPT_STALL (floor_owed_at a));
                   a = (if prompt_released then mark_listening clk a else a);
                   started_and_stalled = (\<not> audio_playing \<and> generation_stalled now a);
                   tool_released = (so_tool_outstanding (ac_socket a)
                     \<and> (waited now PROMPT_STALL (ge_tool_response_at (ac_gen a)) \<or> started_and_stalled));
                   a = (if tool_released then release_tool a else a)
               in (\<lparr>st_prompt_released = prompt_released,
                    st_spend_restart = (prompt_released \<or> tool_released
                      \<or> waited now PROMPT_STALL (ac_awaiting a))\<rparr>, a)))"

text \<open>When each reply still owed with no output toward it was asked for.\<close>

definition unstarted_requests :: "activity \<Rightarrow> nat list" where
  "unstarted_requests a = List.map_filter id
     [ac_awaiting a,
      if pr_allows_silence (ac_prompt a) then None else pr_at (ac_prompt a),
      if so_tool_outstanding (ac_socket a) then ge_tool_response_at (ac_gen a) else None]"

definition first_output_owed :: "activity \<Rightarrow> bool" where
  "first_output_owed a \<longleftrightarrow> \<not> vo_active (ac_voice a)
     \<and> (\<not> ge_generating (ac_gen a) \<or> ge_tool_response_at (ac_gen a) \<noteq> None)"

definition first_output_wait :: "activity \<Rightarrow> nat" where
  "first_output_wait a =
     (let first_output = min (ac_first_output a) (ac_reply_timeout a);
          newest = latest (unstarted_requests a)
      in if pr_recovery (ac_prompt a) \<and> pr_at (ac_prompt a) \<noteq> None \<and> newest = pr_at (ac_prompt a)
         then min (max first_output FIRST_OUTPUT_DEADLINE) (ac_reply_timeout a)
         else first_output)"

definition expired :: "nat \<Rightarrow> nat option \<Rightarrow> nat \<Rightarrow> nat option" where
  "expired now since wait = (if waited now wait since then Some wait else None)"

definition expired_reply_wait :: "nat \<Rightarrow> bool \<Rightarrow> activity \<Rightarrow> nat option" where
  "expired_reply_wait now audio_playing a =
     (if audio_playing \<or> incoming_speech_active now a then None
      else case (if first_output_owed a
                 then expired now (latest (unstarted_requests a)) (first_output_wait a) else None) of
        Some wait \<Rightarrow> Some wait
      | None \<Rightarrow>
          if ge_generating (ac_gen a)
          then expired now (latest (List.map_filter id
                 [ge_last_output_at (ac_gen a), ge_tool_response_at (ac_gen a)])) (ac_reply_timeout a)
          else expired now (earliest (unstarted_requests a)) (ac_reply_timeout a))"

definition reply_timed_out :: "nat \<Rightarrow> bool \<Rightarrow> activity \<Rightarrow> bool" where
  "reply_timed_out now audio_playing a \<longleftrightarrow> expired_reply_wait now audio_playing a \<noteq> None"

definition reply_visibly_late :: "nat \<Rightarrow> bool \<Rightarrow> activity \<Rightarrow> bool" where
  "reply_visibly_late now audio_playing a \<longleftrightarrow> \<not> audio_playing \<and> \<not> incoming_speech_active now a
     \<and> waited now REPLY_WAIT_SHOWN
         (if ge_generating (ac_gen a) then ge_last_output_at (ac_gen a) else earliest (unstarted_requests a))"

definition take_tool_ack :: "nat \<Rightarrow> activity \<Rightarrow> bool \<times> activity" where
  "take_tool_ack now a =
     (let due = (ac_ack_owed a \<and> \<not> so_discarding (ac_socket a) \<and> \<not> candidate_interrupting now a
            \<and> \<not> incoming_speech_active now a)
      in (due, if due then a\<lparr>ac_ack_owed := False\<rparr> else a))"

definition handoff_reply_due :: "nat \<Rightarrow> nat \<Rightarrow> bool \<Rightarrow> activity \<Rightarrow> bool" where
  "handoff_reply_due now silence audio_playing a =
     (case ac_handoff a of None \<Rightarrow> False
      | Some armed \<Rightarrow>
          if audio_playing \<or> vo_active (ac_voice a) \<or> incoming_speech_active now a then False
          else (let quiet_since = (case latest (List.map_filter id
                        [Some armed, vo_ended_at (ac_voice a), vo_pcm_at (ac_voice a)]) of
                      None \<Rightarrow> armed | Some since \<Rightarrow> since)
                in now - quiet_since \<ge> silence + HANDOFF_REPLY_MARGIN))"

definition renew_handoff_prompt :: "nat \<Rightarrow> activity \<Rightarrow> activity" where
  "renew_handoff_prompt now a = mark_recovery_prompted now (pr_text (ac_prompt a)) a"

section \<open>A cut and what survives it\<close>

record reply_debt =
  de_awaiting_since :: "nat option"
  de_speech_owed :: bool
  de_prompted_at :: "nat option"
  de_unvoiced_at :: "nat option"
  de_recovery :: bool
  de_ack_owed :: bool

definition debt_past_interruption :: "nat \<Rightarrow> activity \<Rightarrow> reply_debt" where
  "debt_past_interruption now a =
     (let generating = ge_generating (ac_gen a)
      in \<lparr>de_awaiting_since = map_option (\<lambda>at. if generating then now else at) (ac_awaiting a),
          de_speech_owed = (vo_speech_owed (ac_voice a) \<or> (candidate_interrupting now a \<and> reply_unfinished a)),
          de_prompted_at = map_option
            (\<lambda>at. if generating then now
                  else max (case pr_at (ac_prompt a) of None \<Rightarrow> at | Some prompted \<Rightarrow> prompted) at)
            (pr_unvoiced_at (ac_prompt a)),
          de_unvoiced_at = pr_unvoiced_at (ac_prompt a),
          de_recovery = pr_recovery (ac_prompt a),
          de_ack_owed = ac_ack_owed a\<rparr>)"

definition keep_reply_debt :: "reply_debt \<Rightarrow> activity \<Rightarrow> activity" where
  "keep_reply_debt debt a =
     a\<lparr>ac_awaiting := de_awaiting_since debt,
       ac_voice := (ac_voice a)\<lparr>vo_speech_owed := vo_speech_owed (ac_voice a) \<or> de_speech_owed debt\<rparr>,
       ac_prompt := (ac_prompt a)\<lparr>pr_at := de_prompted_at debt, pr_unvoiced_at := de_unvoiced_at debt,
         pr_recovery := de_recovery debt\<rparr>,
       ac_ack_owed := (ac_ack_owed a \<or> de_ack_owed debt)\<rparr>"

section \<open>What the candidate said\<close>

definition is_late_transcript :: "nat \<Rightarrow> activity \<Rightarrow> bool" where
  "is_late_transcript now a = within now LATE_TRANSCRIPT_GRACE (ge_completed_at (ac_gen a))"

definition is_trailing_transcript :: "nat \<Rightarrow> activity \<Rightarrow> bool" where
  "is_trailing_transcript now a \<longleftrightarrow> \<not> ge_generating (ac_gen a) \<and> \<not> owes_reply a \<and> is_late_transcript now a
     \<and> (case ge_completed_at (ac_gen a) of None \<Rightarrow> False
        | Some completed \<Rightarrow> id_user_speech (ac_idle a) \<le> completed)"

definition note_trailing_transcript :: "activity \<Rightarrow> activity" where
  "note_trailing_transcript a =
     (let a = drop_handoff_reply a
      in a\<lparr>ac_socket := (ac_socket a)\<lparr>so_fallback := None\<rparr>,
           ac_gen := (ac_gen a)\<lparr>ge_tool_response_at := None\<rparr>\<rparr>)"

definition note_candidate_finished :: "nat \<Rightarrow> nat \<Rightarrow> bool \<Rightarrow> activity \<Rightarrow> activity" where
  "note_candidate_finished clk now audio_playing a =
     (let a = reset_completed_coding_idle a;
          a = a\<lparr>ac_idle := (ac_idle a)\<lparr>id_user_speech := now\<rparr>, ac_voice := (ac_voice a)\<lparr>vo_transcribed := True\<rparr>,
                ac_socket := (ac_socket a)\<lparr>so_fallback := None\<rparr>\<rparr>;
          a = (if ac_floor a = AwaitingPlayout \<and> \<not> audio_playing then mark_listening clk a else a)
      in if \<not> ge_generating (ac_gen a) \<and> \<not> is_late_transcript now a
            \<and> \<not> (ac_floor a = AwaitingPlayout \<and> audio_playing)
         then clear_prompt_wait (a\<lparr>ac_awaiting := Some now, ac_ack_owed := True\<rparr>)
         else a)"

section \<open>Thinking\<close>

definition predates_hold :: "nat \<Rightarrow> activity \<Rightarrow> bool" where
  "predates_hold at a = (case so_ignore_until (ac_socket a) of None \<Rightarrow> False | Some until \<Rightarrow> at < until)"

definition ignore_input_before_hold :: "nat \<Rightarrow> nat \<Rightarrow> activity \<Rightarrow> activity" where
  "ignore_input_before_hold at window a = a\<lparr>ac_socket := (ac_socket a)\<lparr>so_ignore_until := Some (at + window)\<rparr>\<rparr>"

text \<open>A discard under way when a tentative hold ends leaves a reply owed.\<close>

definition owe_discarded_reply :: "activity \<Rightarrow> activity" where
  "owe_discarded_reply a =
     a\<lparr>ac_socket := (ac_socket a)\<lparr>so_reply_after_discard :=
         so_reply_after_discard (ac_socket a) \<or> so_discarding (ac_socket a)\<rparr>\<rparr>"

definition drop_discarded_reply :: "activity \<Rightarrow> activity" where
  "drop_discarded_reply a = a\<lparr>ac_socket := (ac_socket a)\<lparr>so_reply_after_discard := False\<rparr>\<rparr>"

definition observe_thinking_fragment ::
  "(string \<Rightarrow> bool) \<Rightarrow> nat \<Rightarrow> string \<Rightarrow> nat \<Rightarrow> nat \<Rightarrow> runtime_state \<Rightarrow> activity \<Rightarrow> runtime_state \<times> activity" where
  "observe_thinking_fragment alnum clk said at receipt s a =
     (if rs_ended s \<or> predates_hold at a then (s, a)
      else case thinking_change alnum (th_hold (rs_thinking s)) said of
        None \<Rightarrow> (s, a)
      | Some True \<Rightarrow> (request_thinking clk s, a)
      | Some False \<Rightarrow>
          (let (withdrawn, t) = withdraw_thinking_request s
           in (if withdrawn then t else snd (end_thinking receipt t), owe_discarded_reply a)))"

definition declared_request :: "nat \<Rightarrow> nat \<Rightarrow> runtime_state \<Rightarrow> activity \<Rightarrow> runtime_state \<times> activity" where
  "declared_request now receipt s a = (snd (declare_thinking now receipt s), drop_discarded_reply a)"

definition confirm_thinking_request :: "nat \<Rightarrow> nat \<Rightarrow> runtime_state \<Rightarrow> activity \<Rightarrow> runtime_state \<times> activity" where
  "confirm_thinking_request now receipt s a =
     (if \<not> hold_is_requested (th_hold (rs_thinking s)) \<or> rs_ended s then (s, a) else declared_request now receipt s a)"

definition settle_stale_hold :: "nat \<Rightarrow> nat \<Rightarrow> runtime_state \<Rightarrow> activity \<Rightarrow> runtime_state \<times> activity" where
  "settle_stale_hold now receipt s a =
     (let (settled, s) = settle_stale_request now receipt s
      in (s, if settled then drop_discarded_reply a else a))"

definition settle_thinking_request :: "bool \<Rightarrow> runtime_state \<Rightarrow> event_result \<Rightarrow> activity \<Rightarrow> activity" where
  "settle_thinking_request was_requested s result a =
     (if \<not> was_requested then a
      else if hold_is_declared (th_hold (rs_thinking s)) then drop_discarded_reply a
      else if er_yield_turn result \<or> er_finish result \<noteq> None then owe_discarded_reply a
      else a)"

definition defer_thinking_reply :: "nat \<Rightarrow> string \<Rightarrow> activity \<Rightarrow> activity" where
  "defer_thinking_reply clk prompt a =
     (if so_discarding (ac_socket a)
      then owe_prompt clk (Some prompt) (a\<lparr>ac_socket := (ac_socket a)\<lparr>so_reply_after_discard := True\<rparr>\<rparr>)
      else a)"

definition arm_thinking_reply_fallback :: "nat \<Rightarrow> string \<Rightarrow> activity \<Rightarrow> activity" where
  "arm_thinking_reply_fallback now prompt a =
     a\<lparr>ac_socket := (ac_socket a)\<lparr>so_fallback := Some (now + THINKING_REPLY_FALLBACK, prompt)\<rparr>\<rparr>"

definition claim_thinking_reply_fallback ::
  "runtime_state \<Rightarrow> nat \<Rightarrow> activity \<Rightarrow> string option \<times> activity" where
  "claim_thinking_reply_fallback s now a =
     (case so_fallback (ac_socket a) of None \<Rightarrow> (None, a)
      | Some (due, prompt) \<Rightarrow>
          if now < due \<or> interviewer_silenced s \<or> rs_ended s \<or> ac_floor a \<noteq> Listening \<or> ge_generating (ac_gen a)
          then (None, a)
          else (Some prompt, a\<lparr>ac_socket := (ac_socket a)\<lparr>so_fallback := None\<rparr>\<rparr>))"

definition end_discard :: "bool \<Rightarrow> activity \<Rightarrow> activity" where
  "end_discard interrupted a =
     a\<lparr>ac_socket := (ac_socket a)\<lparr>so_discarding := False,
         so_reply_after_discard := so_reply_after_discard (ac_socket a) \<and> \<not> interrupted\<rparr>\<rparr>"

definition claim_thinking_reply :: "runtime_state \<Rightarrow> activity \<Rightarrow> bool \<times> activity" where
  "claim_thinking_reply s a =
     (if so_discarding (ac_socket a) \<or> interviewer_silenced s \<or> rs_ended s then (False, a)
      else (so_reply_after_discard (ac_socket a), drop_discarded_reply a))"

section \<open>Calls a pause may spend\<close>

definition interim_review_due :: "nat \<Rightarrow> runtime_state \<Rightarrow> nat \<Rightarrow> activity \<Rightarrow> bool" where
  "interim_review_due reviewed s now a \<longleftrightarrow>
     \<not> vo_active (ac_voice a) \<and> \<not> rs_end_requested s
     \<and> now + INTERIM_ATTEMPT_TIMEOUT
         < (pl_coding_minutes (rs_plan s) + pl_behavioral_minutes (rs_plan s)) * 60 * nanos_per_s
     \<and> ac_floor a = Listening \<and> \<not> reply_in_flight a \<and> \<not> so_tool_outstanding (ac_socket a)
     \<and> now - id_user_speech (ac_idle a) \<ge> INTERIM_IDLE
     \<and> now - ca_last_interim (ac_calls a) \<ge> INTERIM_COOLDOWN
     \<and> candidate_lines (drop (min reviewed (length (rs_transcript s))) (rs_transcript s)) \<ge> INTERIM_MIN_NEW_TURNS"

definition claim_interim_review :: "nat \<Rightarrow> runtime_state \<Rightarrow> nat \<Rightarrow> activity \<Rightarrow> bool \<times> activity" where
  "claim_interim_review reviewed s now a =
     (if ca_interim (ac_calls a) \<ge> ca_max_interim (ac_calls a) then (False, a)
      else let due = interim_review_due reviewed s now a
           in (due, if due then a\<lparr>ac_calls := (ac_calls a)\<lparr>ca_last_interim := now, ca_interim := Suc (ca_interim (ac_calls a))\<rparr>\<rparr>
                    else a))"

definition reserves_for_behavioral :: "runtime_state \<Rightarrow> bool" where
  "reserves_for_behavioral s \<longleftrightarrow> \<not> evidence_tool_declared (pl_mode (rs_plan s))
     \<and> pl_loop (rs_plan s) = CodingBehavioral \<and> \<not> rd_started (rs_round s) \<and> \<not> rd_transition_seen (rs_round s)"

definition reserve_phase_judge :: "nat \<Rightarrow> activity \<Rightarrow> bool \<times> activity" where
  "reserve_phase_judge now a =
     (if ca_judges (ac_calls a) \<ge> MAX_PHASE_JUDGES then (False, a)
      else (True, a\<lparr>ac_calls := (ac_calls a)\<lparr>ca_last_judge := Some now, ca_judges := Suc (ca_judges (ac_calls a))\<rparr>\<rparr>))"

definition claim_phase_judge_as :: "nat \<Rightarrow> bool \<Rightarrow> runtime_state \<Rightarrow> nat \<Rightarrow> activity \<Rightarrow> bool \<times> activity" where
  "claim_phase_judge_as cooldown editor_only s now a =
     (if within now cooldown (ca_last_judge (ac_calls a))
         \<or> (editor_only \<and> ca_editor_judges (ac_calls a) \<ge> MAX_EDITOR_PHASE_JUDGES)
         \<or> (reserves_for_behavioral s \<and> ca_judges (ac_calls a) \<ge> MAX_PHASE_JUDGES - BEHAVIORAL_PHASE_JUDGES)
      then (False, a)
      else case reserve_phase_judge now a of
        (False, a) \<Rightarrow> (False, a)
      | (True, a) \<Rightarrow>
          (True, if editor_only
                 then a\<lparr>ac_calls := (ac_calls a)\<lparr>ca_editor_judges := Suc (ca_editor_judges (ac_calls a))\<rparr>\<rparr> else a))"

definition claim_phase_judge :: "runtime_state \<Rightarrow> nat \<Rightarrow> activity \<Rightarrow> bool \<times> activity" where
  "claim_phase_judge s now a =
     (if vo_active (ac_voice a) \<or> rs_end_requested s
         \<or> now - id_user_speech (ac_idle a) < PHASE_JUDGE_IDLE \<or> now - id_code_change (ac_idle a) < PHASE_JUDGE_IDLE
      then (False, a)
      else case phase_judge_need s of
        NotDue \<Rightarrow> (False, a)
      | SpokenDue \<Rightarrow> claim_phase_judge_as PHASE_JUDGE_COOLDOWN False s now a
      | EditorOnlyDue \<Rightarrow> claim_phase_judge_as PHASE_JUDGE_EDITOR_COOLDOWN True s now a)"

definition parked_transition_ready :: "runtime_state \<Rightarrow> nat \<Rightarrow> activity \<Rightarrow> bool" where
  "parked_transition_ready s now a =
     (case ca_parked (ac_calls a) of None \<Rightarrow> False
      | Some parked \<Rightarrow> now \<ge> pk_deadline parked \<or> (\<not> ca_judge_running (ac_calls a) \<and> \<not> phase_judge_due s))"

definition held_transition_needs_judgment :: "runtime_state \<Rightarrow> nat \<Rightarrow> activity \<Rightarrow> bool" where
  "held_transition_needs_judgment s now a =
     (case ca_parked (ac_calls a) of None \<Rightarrow> False
      | Some parked \<Rightarrow> \<not> ca_judge_running (ac_calls a) \<and> now < pk_deadline parked \<and> phase_judge_due s)"

section \<open>A checkpoint of the context\<close>

definition output_settled :: "floor_holder \<Rightarrow> bool \<Rightarrow> bool" where
  "output_settled floor_now audio_playing \<longleftrightarrow> floor_now \<noteq> Speaking \<and> \<not> audio_playing"

definition can_refresh_context :: "bool \<Rightarrow> bool \<Rightarrow> nat \<Rightarrow> activity \<Rightarrow> bool" where
  "can_refresh_context audio_playing candidate_open now a \<longleftrightarrow>
     tw_refresh_pending (ac_tokens a) \<and> \<not> candidate_open \<and> \<not> vo_active (ac_voice a)
     \<and> \<not> within now CHECKPOINT_VOICE_QUIET (vo_at (ac_voice a))
     \<and> \<not> ge_generating (ac_gen a) \<and> \<not> owes_reply a \<and> output_settled (ac_floor a) audio_playing"

definition checkpoint_due :: "runtime_state \<Rightarrow> bool \<Rightarrow> bool \<Rightarrow> nat \<Rightarrow> activity \<Rightarrow> bool" where
  "checkpoint_due s audio_playing candidate_open now a \<longleftrightarrow>
     \<not> rs_ended s \<and> \<not> rs_end_requested s \<and> can_refresh_context audio_playing candidate_open now a"

definition reset_context_observations :: "bool \<Rightarrow> activity \<Rightarrow> activity" where
  "reset_context_observations resumed a =
     (let a = a\<lparr>ac_tokens := reset_watch resumed (ac_tokens a), ac_voice := (ac_voice a)\<lparr>vo_transcribed := False\<rparr>\<rparr>
      in clear_candidate_voice_activity (drop_handoff_reply (drop_rotation_watch a)))"

section \<open>The watch prompts\<close>

definition SILENCE_THRESHOLD :: nat where "SILENCE_THRESHOLD = 25 * nanos_per_s"
definition SILENCE_COOLDOWN :: nat where "SILENCE_COOLDOWN = 30 * nanos_per_s"
definition REVIEW_INTERVAL :: nat where "REVIEW_INTERVAL = 30 * nanos_per_s"
definition INTERJECTION_COOLDOWN :: nat where "INTERJECTION_COOLDOWN = 45 * nanos_per_s"
definition SPEECH_SETTLE :: nat where "SPEECH_SETTLE = 4 * nanos_per_s"

record timing_input =
  ti_agent_busy :: bool
  ti_user_talking :: bool
  ti_idle :: nat
  ti_since_nudge :: nat
  ti_since_review :: nat
  ti_since_interjection :: nat
  ti_speech_gap :: nat
  ti_significant_change :: bool

text \<open>The flags of the code's \<open>TimingDecision\<close> follow from which of the three decisions it is.\<close>

datatype timing_decision = NoPrompt | SilenceNudge | ProactiveReview

definition timing_decision_of :: "timing_input \<Rightarrow> timing_decision" where
  "timing_decision_of t =
     (if ti_agent_busy t \<or> ti_user_talking t then NoPrompt
      else if ti_idle t \<ge> SILENCE_THRESHOLD \<and> ti_since_nudge t \<ge> SILENCE_COOLDOWN then SilenceNudge
      else if ti_since_review t \<ge> REVIEW_INTERVAL \<and> ti_since_interjection t \<ge> INTERJECTION_COOLDOWN
          \<and> ti_speech_gap t \<ge> SPEECH_SETTLE \<and> ti_significant_change t then ProactiveReview
      else NoPrompt)"

datatype watch_text =
    BehavioralNudgeText
  | BoardNudgeText string
  | SilenceNudgeText string "string option"
  | ReviewText string "string option"

record watch_prompt =
  wp_text :: watch_text
  wp_minutes :: int
  wp_behavioral_nudge :: bool
  wp_completed_coding_nudge :: bool
  wp_allows_silence :: bool

definition state_prompt_evidence :: "runtime_state \<Rightarrow> view_for \<Rightarrow> string list" where
  "state_prompt_evidence s purpose = prompt_view (rs_ledger s) purpose
     @ (if pl_code_execution_disabled (rs_plan s)
        then [''Code execution: disabled by the candidate for this interview; testing evidence comes from hand traces, not executed cases.'']
        else [])"

definition evidence_key :: "string \<Rightarrow> string" where
  "evidence_key line = takeWhile (\<lambda>c. c \<noteq> CHR '':'') line"

definition evidence_delta_lines :: "string list option \<Rightarrow> string list \<Rightarrow> string list" where
  "evidence_delta_lines shown lines =
     (let shown_lines = (case shown of None \<Rightarrow> [] | Some ls \<Rightarrow> ls);
          current = map evidence_key lines
      in filter (\<lambda>line. line \<notin> set shown_lines) lines
         @ map (\<lambda>gone. gone @ '': none'') (filter (\<lambda>gone. gone \<notin> set current) (map evidence_key shown_lines)))"

definition evidence_delta :: "string list option \<Rightarrow> string list \<Rightarrow> string" where
  "evidence_delta shown lines = join newline (evidence_delta_lines shown lines)"

definition completed_coding :: "runtime_state \<Rightarrow> bool" where
  "completed_coding s \<longleftrightarrow> \<not> rd_started (rs_round s) \<and> \<not> rs_ended s \<and> \<not> rs_end_requested s
     \<and> phases_evidenced s [RepeatPhase, ExamplePhase, AlgorithmPhase, CodingPhase, TestPhase, OptimizationsPhase]"

definition nudge_cooldown :: "runtime_state \<Rightarrow> activity \<Rightarrow> nat" where
  "nudge_cooldown s a =
     (if completed_coding s then SILENCE_COOLDOWN * 2 ^ min (id_completed_nudges (ac_idle a)) 4 else SILENCE_COOLDOWN)"

definition watch_timing :: "runtime_state \<Rightarrow> nat \<Rightarrow> activity \<Rightarrow> timing_input" where
  "watch_timing s now a =
     (let i = ac_idle a;
          cadence_ready = (\<not> completed_coding s \<or> \<not> within now (nudge_cooldown s a) (id_last_completed_nudge i))
      in \<lparr>ti_agent_busy = (ac_floor a \<noteq> Listening),
          ti_user_talking = (vo_active (ac_voice a) \<or> now - id_code_change i < CODE_SETTLE),
          ti_idle = now - max (max (id_user_speech i) (id_code_change i)) (id_agent_speech i),
          ti_since_nudge = (if cadence_ready then now - id_nudge i else 0),
          ti_since_review = now - id_review i,
          ti_since_interjection = now - id_interjection i,
          ti_speech_gap = now - max (id_user_speech i) (id_agent_speech i),
          ti_significant_change = (\<not> rd_started (rs_round s)
            \<and> co_substantive_revision (lg_code (rs_ledger s)) > id_reviewed_revision i
            \<and> co_parser_observation (lg_code (rs_ledger s)) = Some Parsed)\<rparr>)"

definition stamp_decision :: "timing_decision \<Rightarrow> nat \<Rightarrow> activity \<Rightarrow> activity" where
  "stamp_decision decision now a =
     (let i = ac_idle a;
          i = (if decision = SilenceNudge then i\<lparr>id_nudge := now\<rparr> else i);
          i = (if decision = ProactiveReview then i\<lparr>id_review := now\<rparr> else i);
          i = (if decision \<noteq> NoPrompt then i\<lparr>id_interjection := now\<rparr> else i)
      in a\<lparr>ac_idle := i\<rparr>)"

text \<open>A prompt that shows code and evidence moves what the model has been shown, and keeps what it was.\<close>

definition show_watch :: "timing_decision \<Rightarrow> string list \<Rightarrow> runtime_state \<Rightarrow> activity \<Rightarrow> runtime_state \<times> activity" where
  "show_watch decision lines s a =
     (let review = (decision = ProactiveReview);
          unsent = \<lparr>un_revision = (if review then Some (id_reviewed_revision (ac_idle a)) else None),
                    un_code_shown = ed_shown (rs_editor s), un_evidence_shown = sh_evidence (ac_shown a)\<rparr>
      in (s\<lparr>rs_editor := (rs_editor s)\<lparr>ed_shown := ed_code (rs_editor s)\<rparr>\<rparr>,
          a\<lparr>ac_shown := (ac_shown a)\<lparr>sh_evidence := Some lines, sh_unsent := Some unsent\<rparr>,
            ac_idle := (if review
              then (ac_idle a)\<lparr>id_reviewed_revision := co_substantive_revision (lg_code (rs_ledger s))\<rparr>
              else ac_idle a)\<rparr>))"

definition watch_prompt_of ::
  "nat \<Rightarrow> runtime_state \<Rightarrow> nat \<Rightarrow> activity \<Rightarrow> watch_prompt option \<times> runtime_state \<times> activity" where
  "watch_prompt_of clk s now a =
     (let behavioral = rd_started (rs_round s)
      in if interviewer_silenced s \<or> (behavioral \<and> id_behavioral_nudged (ac_idle a)) then (None, s, a)
         else (let decision = timing_decision_of (watch_timing s now a);
                   a = stamp_decision decision now a
               in if decision = NoPrompt then (None, s, a)
                  else if decision = SilenceNudge \<and> behavioral
                  then (Some \<lparr>wp_text = BehavioralNudgeText, wp_minutes = time_left clk s, wp_behavioral_nudge = True,
                           wp_completed_coding_nudge = False, wp_allows_silence = False\<rparr>,
                        s, a\<lparr>ac_shown := (ac_shown a)\<lparr>sh_unsent := None\<rparr>\<rparr>)
                  else (let excerpt = shown_excerpt s;
                            lines = state_prompt_evidence s ViewWatch;
                            evidence = evidence_delta (sh_evidence (ac_shown a)) lines;
                            (t, a) = show_watch decision lines s a
                        in (Some \<lparr>wp_text =
                                   (if decision = SilenceNudge
                                    then (if is_whiteboard (pl_mode (rs_plan s)) then BoardNudgeText evidence
                                          else SilenceNudgeText evidence excerpt)
                                    else ReviewText evidence excerpt),
                                 wp_minutes = time_left clk s, wp_behavioral_nudge = False,
                                 wp_completed_coding_nudge = (decision = SilenceNudge \<and> completed_coding s),
                                 wp_allows_silence = (decision \<noteq> SilenceNudge)\<rparr>, t, a))))"

definition unsend_watch_prompt :: "runtime_state \<Rightarrow> activity \<Rightarrow> runtime_state \<times> activity" where
  "unsend_watch_prompt s a =
     (case sh_unsent (ac_shown a) of None \<Rightarrow> (s, a)
      | Some unsent \<Rightarrow>
          (s\<lparr>rs_editor := (rs_editor s)\<lparr>ed_shown := un_code_shown unsent\<rparr>\<rparr>,
           a\<lparr>ac_shown := (ac_shown a)\<lparr>sh_unsent := None, sh_evidence := un_evidence_shown unsent\<rparr>,
             ac_idle := (case un_revision unsent of None \<Rightarrow> ac_idle a
               | Some revision \<Rightarrow> (ac_idle a)\<lparr>id_reviewed_revision := revision\<rparr>)\<rparr>))"

definition sat_add8 :: "nat \<Rightarrow> nat" where "sat_add8 n = min (Suc n) 255"

definition commit_watch_prompt :: "watch_prompt \<Rightarrow> nat \<Rightarrow> activity \<Rightarrow> activity" where
  "commit_watch_prompt prompt now a =
     (if wp_completed_coding_nudge prompt
      then a\<lparr>ac_idle := (ac_idle a)\<lparr>id_completed_nudges := sat_add8 (id_completed_nudges (ac_idle a)),
               id_last_completed_nudge := Some now\<rparr>\<rparr>
      else a)"

definition settle_tool_editor_review :: "nat option \<Rightarrow> bool \<Rightarrow> nat \<Rightarrow> activity \<Rightarrow> activity" where
  "settle_tool_editor_review revision sent now a =
     (case revision of None \<Rightarrow> a
      | Some revision \<Rightarrow>
          if sent \<and> revision > id_reviewed_revision (ac_idle a)
          then a\<lparr>ac_idle := (ac_idle a)\<lparr>id_reviewed_revision := revision, id_review := now, id_interjection := now\<rparr>\<rparr>
          else a)"

definition observe_candidate_work :: "runtime_state \<Rightarrow> nat \<Rightarrow> nat \<Rightarrow> activity \<Rightarrow> activity" where
  "observe_candidate_work s previous_code_revision previous_test_runs a =
     (if co_revision (lg_code (rs_ledger s)) \<noteq> previous_code_revision \<or> ru_count (rs_runs s) \<noteq> previous_test_runs
      then reset_completed_coding_idle a else a)"

definition editor_review_allowed :: "runtime_state \<Rightarrow> bool" where
  "editor_review_allowed s \<longleftrightarrow> \<not> rs_ended s \<and> \<not> rs_end_requested s \<and> \<not> interviewer_silenced s
     \<and> \<not> rd_started (rs_round s) \<and> \<not> is_whiteboard (pl_mode (rs_plan s))
     \<and> co_parser_observation (lg_code (rs_ledger s)) = Some Parsed"

definition SILENT_EDITOR_PREFIX :: string where
  "SILENT_EDITOR_PREFIX = ''[SYSTEM EVENT] Silent editor state update; keep listening to the candidate. This requests no reply. Use this current code when answering their latest question.''"

definition pending_silent_editor :: "runtime_state \<Rightarrow> nat \<Rightarrow> activity \<Rightarrow> string option" where
  "pending_silent_editor s now a =
     (let revision = co_substantive_revision (lg_code (rs_ledger s))
      in if \<not> editor_review_allowed s \<or> \<not> incoming_speech_active now a
            \<or> now - id_code_change (ac_idle a) < CODE_SETTLE \<or> revision = 0 then None
         else if sh_silent_editor (ac_shown a) = Some (revision, ed_language (rs_editor s))
            \<or> ed_code (rs_editor s) = ed_shown (rs_editor s) then None
         else map_option (\<lambda>body. SILENT_EDITOR_PREFIX @ newline @ body) (editor_update_body s))"

definition commit_silent_editor :: "runtime_state \<Rightarrow> activity \<Rightarrow> activity" where
  "commit_silent_editor s a =
     a\<lparr>ac_shown := (ac_shown a)\<lparr>sh_silent_editor :=
         Some (co_substantive_revision (lg_code (rs_ledger s)), ed_language (rs_editor s))\<rparr>\<rparr>"

section \<open>Closing the two turns\<close>

datatype speaker = InterviewerTurn | CandidatesTurn

definition closing_order :: "nat option \<Rightarrow> nat option \<Rightarrow> speaker list" where
  "closing_order interviewer_line candidate_line =
     (case (interviewer_line, candidate_line) of
        (Some i, Some c) \<Rightarrow> if c < i then [CandidatesTurn, InterviewerTurn] else [InterviewerTurn, CandidatesTurn]
      | (None, Some c) \<Rightarrow> [CandidatesTurn, InterviewerTurn]
      | _ \<Rightarrow> [InterviewerTurn, CandidatesTurn])"

definition INTERVIEWER_UNAVAILABLE :: string where "INTERVIEWER_UNAVAILABLE = ''interviewer_unavailable''"

definition should_send_wrap_up :: "string \<Rightarrow> bool" where
  "should_send_wrap_up reason \<longleftrightarrow> reason \<noteq> ''candidate_ended'' \<and> reason \<noteq> INTERVIEWER_UNAVAILABLE"

end
