(* ===== verification/Turn_Events.thy ===== *)
theory Turn_Events
  imports Turn
begin

text \<open>
  What the room does to the activity: the delivery of one event of the speech model
  (\<open>handle_gemini_event\<close> of \<open>src/src/livekit/session.rs\<close>), a cut of the interviewer's turn, the hand-over to
  a replacement socket (\<open>livekit/replacement.rs\<close>), the rules of a restart (\<open>livekit/restart.rs\<close>) and the
  reply watch of the tick (\<open>src/src/livekit.rs\<close>).  Sockets and audio are not modelled: whether a chunk was
  captured, whether audio plays, whether a write went through and what the tools did to the interview are
  given with the event.
\<close>

section \<open>Events of the speech model\<close>

datatype gemini_event =
    UsageRecorded
  | AudioChunk "nat list"
  | ModelText string
  | InputTranscript string
  | CandidateVoice bool
  | OutputTranscript string
  | TurnComplete
  | Interrupted
  | GoAway
  | ToolCalls "string list"

definition ends_turn :: "gemini_event \<Rightarrow> bool" where
  "ends_turn event \<longleftrightarrow> event = TurnComplete \<or> event = Interrupted"

fun answers_prompt :: "gemini_event \<Rightarrow> bool" where
  "answers_prompt (AudioChunk bytes) = (bytes \<noteq> [])"
| "answers_prompt (ToolCalls calls) = True"
| "answers_prompt (ModelText said) = (str_trim said \<noteq> [])"
| "answers_prompt (OutputTranscript said) = (str_trim said \<noteq> [])"
| "answers_prompt event = False"

fun is_output :: "gemini_event \<Rightarrow> bool" where
  "is_output (AudioChunk bytes) = True"
| "is_output (OutputTranscript said) = True"
| "is_output (ModelText said) = True"
| "is_output event = False"

fun is_output_transcript :: "gemini_event \<Rightarrow> bool" where
  "is_output_transcript (OutputTranscript said) = True"
| "is_output_transcript event = False"

datatype output_disposition = Deliver | Drop | EndsTheDiscard

definition output_disposition_of :: "gemini_event \<Rightarrow> bool \<Rightarrow> bool \<Rightarrow> output_disposition" where
  "output_disposition_of event discarding held =
     (if discarding \<and> is_output event then Drop
      else if discarding \<and> ends_turn event then EndsTheDiscard
      else if held \<and> is_output event then Drop
      else Deliver)"

text \<open>The guards against the endings of turns cut off before, and against output of a newer one.\<close>

definition mind_old_turns :: "gemini_event \<Rightarrow> bool \<Rightarrow> activity \<Rightarrow> activity" where
  "mind_old_turns event held a =
     (if event = Interrupted
      then a\<lparr>ac_socket := (ac_socket a)\<lparr>so_interrupted_pending := True\<rparr>, ac_gen := (ac_gen a)\<lparr>ge_completed_at := None\<rparr>\<rparr>
      else if answers_prompt event \<and> \<not> so_discarding (ac_socket a) \<and> \<not> held
      then a\<lparr>ac_socket := (ac_socket a)\<lparr>so_interrupted_pending := False, so_stale_pending := False\<rparr>\<rparr>
      else a)"

definition note_delivered :: "gemini_event \<Rightarrow> nat \<Rightarrow> activity \<Rightarrow> activity" where
  "note_delivered event now a =
     (if is_output_transcript event \<and> answers_prompt event \<and> is_trailing_transcript now a
      then note_trailing_transcript a
      else if answers_prompt event then note_output now a
      else if ends_turn event
      then (let said_something = ge_generating (ac_gen a); a = note_turn_boundary now a
            in if said_something \<and> event = TurnComplete
               then a\<lparr>ac_gen := (ac_gen a)\<lparr>ge_completed_at := Some now\<rparr>\<rparr> else a)
      else a)"

definition accept_gemini_event :: "gemini_event \<Rightarrow> bool \<Rightarrow> nat \<Rightarrow> activity \<Rightarrow> bool \<times> activity" where
  "accept_gemini_event event held now a =
     (if so_stale_pending (ac_socket a) \<and> ends_turn event
      then (False, a\<lparr>ac_socket := (ac_socket a)\<lparr>so_stale_pending := (event = Interrupted)\<rparr>\<rparr>)
      else (let a = mind_old_turns event held a
            in if event = TurnComplete \<and> so_interrupted_pending (ac_socket a)
               then (False, end_discard False (a\<lparr>ac_socket := (ac_socket a)\<lparr>so_interrupted_pending := False\<rparr>\<rparr>))
               else case output_disposition_of event (so_discarding (ac_socket a)) held of
                 Drop \<Rightarrow> (False, a)
               | EndsTheDiscard \<Rightarrow> (False, end_discard (event = Interrupted \<and> candidate_interrupting now a) a)
               | Deliver \<Rightarrow> (True, if so_discarding (ac_socket a) then a else note_delivered event now a)))"

definition accept_event_with_reply_debt ::
  "gemini_event \<Rightarrow> bool \<Rightarrow> nat \<Rightarrow> activity \<Rightarrow> bool \<times> reply_debt option \<times> activity" where
  "accept_event_with_reply_debt event held now a =
     (let (accepted, b) = accept_gemini_event event held now a
      in (accepted, if event = Interrupted \<and> accepted then Some (debt_past_interruption now a) else None, b))"

definition silent_completion_kind :: "gemini_event \<Rightarrow> activity \<Rightarrow> silence_debt option" where
  "silent_completion_kind event a =
     (if event = TurnComplete \<and> \<not> ge_generating (ac_gen a) then debt_silence_answers a else None)"

section \<open>A turn that will not finish\<close>

datatype interruptible = Interruptible | Uninterruptible

text \<open>Emptying the queue is the audio's part of a cut; \<open>playing\<close> is false after it.\<close>

definition cut_turn :: "nat \<Rightarrow> activity \<Rightarrow> activity" where
  "cut_turn clk a =
     (let a = clear_prompt_wait (clear_candidate_reply_wait (mark_listening clk a))
      in a\<lparr>ac_prompt := (ac_prompt a)\<lparr>pr_behind_turn := False\<rparr>,
           ac_gen := (ac_gen a)\<lparr>ge_generating := False, ge_last_output_at := None\<rparr>,
           ac_socket := (ac_socket a)\<lparr>so_tool_outstanding := False\<rparr>\<rparr>)"

definition cut_off_for_hold :: "nat \<Rightarrow> nat \<Rightarrow> activity \<Rightarrow> activity" where
  "cut_off_for_hold clk now a =
     (let discarding = (so_discarding (ac_socket a) \<or> hold_leaves_output_in_flight now a);
          stale = (so_stale_pending (ac_socket a) \<or> (ge_generating (ac_gen a) \<and> \<not> discarding));
          a = a\<lparr>ac_socket := (ac_socket a)\<lparr>so_discarding := discarding, so_stale_pending := stale\<rparr>\<rparr>
      in drop_handoff_reply (drop_rotation_watch (cut_turn clk a)))"

definition takes_stale_playout :: "interruptible \<Rightarrow> bool \<Rightarrow> activity \<Rightarrow> bool" where
  "takes_stale_playout interruptible playing a \<longleftrightarrow>
     interruptible = Interruptible \<and> ac_floor a = AwaitingPlayout \<and> playing"

definition drop_stale_playout :: "nat \<Rightarrow> interruptible \<Rightarrow> bool \<Rightarrow> activity \<Rightarrow> bool \<times> activity" where
  "drop_stale_playout clk interruptible playing a =
     (if takes_stale_playout interruptible playing a then (False, cut_turn clk a) else (playing, a))"

definition cuts_unprotected :: "interruptible \<Rightarrow> runtime_state \<Rightarrow> bool" where
  "cuts_unprotected interruptible s \<longleftrightarrow> interruptible = Interruptible \<and> candidate_lines (rs_transcript s) > 0"

definition settle_close_interruption ::
  "nat \<Rightarrow> reply_debt option \<Rightarrow> activity \<Rightarrow> runtime_state \<Rightarrow> reply_debt option \<times> runtime_state" where
  "settle_close_interruption now owed a s =
     (let s = (if candidate_interrupting now a then s\<lparr>rs_end_requested := False\<rparr> else s)
      in (if rs_end_requested s then None else owed, s))"

definition settle_interruption_debt ::
  "nat \<Rightarrow> interruptible \<Rightarrow> reply_debt option \<Rightarrow> runtime_state \<Rightarrow> activity \<Rightarrow> activity" where
  "settle_interruption_debt clk interruptible owed s a =
     (let a = (if cuts_unprotected interruptible s then cut_turn clk a else a)
      in case owed of None \<Rightarrow> a | Some debt \<Rightarrow> keep_reply_debt debt a)"

section \<open>One event delivered\<close>

text \<open>
  What the room knows with an event: its clock when the event is accepted and later, the receipt time,
  whether audio plays, whether a chunk (and the padding of the last one) was captured and until when the
  queue then plays, whether the candidate is known, what a transcript makes of their turn, what the tools
  answer, and whether the writes went through.
\<close>

record room_view =
  rv_now :: nat
  rv_clk :: nat
  rv_receipt :: nat
  rv_has_audio :: bool
  rv_playing :: bool
  rv_prepared :: bool
  rv_captured :: bool
  rv_padded :: bool
  rv_deadline :: nat
  rv_candidate_known :: bool
  rv_heard :: "runtime_state \<Rightarrow> string \<times> runtime_state"
  rv_ack_fits :: bool
  rv_tools :: "runtime_state \<Rightarrow> bool \<times> runtime_state"
  rv_sent :: bool
  rv_briefing :: string
  rv_reply_prompt :: string
  rv_usage :: "(bool \<times> nat) option"
  rv_compression :: "compression option"

definition settle_hold_at_turn_end :: "nat \<Rightarrow> nat \<Rightarrow> runtime_state \<Rightarrow> activity \<Rightarrow> runtime_state \<times> activity" where
  "settle_hold_at_turn_end clk receipt s a =
     (let (s, a) = confirm_thinking_request clk receipt s a
      in (s, if hold_is_active (th_hold (rs_thinking s)) then clear_candidate_reply_wait a else a))"

definition drop_output :: "runtime_state \<Rightarrow> activity \<Rightarrow> runtime_state \<times> activity" where
  "drop_output s a =
     (if hold_is_active (th_hold (rs_thinking s))
      then (s\<lparr>rs_thinking := (rs_thinking s)\<lparr>th_unheard_reply := True\<rparr>\<rparr>,
            a\<lparr>ac_socket := (ac_socket a)\<lparr>so_discarding := True\<rparr>\<rparr>)
      else (s, a))"

definition note_captured :: "bool \<Rightarrow> nat \<Rightarrow> activity \<Rightarrow> activity" where
  "note_captured captured deadline a =
     (if captured
      then (let a = snd (take_rotation_watch (note_reply_audible a))
            in a\<lparr>ac_idle := (ac_idle a)\<lparr>id_agent_speech := deadline\<rparr>\<rparr>)
      else a)"

definition on_generated_audio :: "interruptible \<Rightarrow> room_view \<Rightarrow> activity \<Rightarrow> activity" where
  "on_generated_audio interruptible rv a =
     (let a = (if rv_prepared rv then snd (drop_stale_playout (rv_clk rv) interruptible (rv_playing rv) a) else a)
      in note_captured (rv_captured rv) (rv_deadline rv) a)"

definition pad_reply_tail :: "room_view \<Rightarrow> activity \<Rightarrow> activity" where
  "pad_reply_tail rv a = note_captured (rv_padded rv) (rv_deadline rv) a"

definition on_turn_complete :: "room_view \<Rightarrow> runtime_state \<Rightarrow> activity \<Rightarrow> runtime_state \<times> activity" where
  "on_turn_complete rv s a =
     (let (s, a) = settle_hold_at_turn_end (rv_clk rv) (rv_receipt rv) s a
      in (s, settle_completed_turn (rv_clk rv) (rv_playing rv) a))"

definition on_interruption ::
  "interruptible \<Rightarrow> reply_debt option \<Rightarrow> room_view \<Rightarrow> runtime_state \<Rightarrow> activity \<Rightarrow> runtime_state \<times> activity" where
  "on_interruption interruptible owed rv s a =
     (let (owed, s) = settle_close_interruption (rv_clk rv) owed a s;
          cut = cuts_unprotected interruptible s;
          a = settle_interruption_debt (rv_clk rv) interruptible owed s a
      in if cut then (s, a) else on_turn_complete rv s (pad_reply_tail rv a))"

definition on_tool_calls :: "string list \<Rightarrow> room_view \<Rightarrow> runtime_state \<Rightarrow> activity \<Rightarrow> runtime_state \<times> activity" where
  "on_tool_calls calls rv s a =
     (if calls = [] then (s, a)
      else (let a = (if rv_ack_fits rv \<and> \<not> interviewer_silenced s \<and> ''end_interview'' \<notin> set calls
                     then snd (take_tool_ack (rv_clk rv) a) else a);
                (reviewed, s) = rv_tools rv s;
                revision = (if reviewed then Some (co_substantive_revision (lg_code (rs_ledger s))) else None);
                a = settle_tool_editor_review revision (rv_sent rv) (rv_clk rv) a;
                s = settle_earlier_steps (rv_sent rv) s
            in (s, if rv_sent rv then note_tool_response (rv_clk rv) a else a)))"

definition prepare_input_transcript ::
  "(string \<Rightarrow> bool) \<Rightarrow> interruptible \<Rightarrow> room_view \<Rightarrow> runtime_state \<Rightarrow> activity \<Rightarrow> bool \<times> runtime_state \<times> activity" where
  "prepare_input_transcript alnum interruptible rv s a =
     (let (playing, a) = drop_stale_playout (rv_clk rv) interruptible (rv_playing rv) a;
          a = note_candidate_finished (rv_clk rv) (rv_clk rv) playing a;
          (whole, s) = rv_heard rv s;
          was_thinking = hold_is_active (th_hold (rs_thinking s));
          (s, a) = (if interruptible = Interruptible
                    then observe_thinking_fragment alnum (rv_clk rv) whole (rv_clk rv) (rv_receipt rv) s a else (s, a));
          thinking = hold_is_active (th_hold (rs_thinking s))
      in if \<not> was_thinking \<and> thinking
         then (False,
               s\<lparr>rs_thinking := (rs_thinking s)\<lparr>th_unheard_reply :=
                   th_unheard_reply (rs_thinking s) \<or> ac_floor a \<noteq> Listening\<rparr>\<rparr>,
               cut_off_for_hold (rv_clk rv) (rv_clk rv) a)
         else (was_thinking \<and> \<not> thinking \<and> thinking_owes_context s, s, a))"

definition on_input_transcript ::
  "(string \<Rightarrow> bool) \<Rightarrow> string \<Rightarrow> interruptible \<Rightarrow> room_view \<Rightarrow> runtime_state \<Rightarrow> activity \<Rightarrow> runtime_state \<times> activity" where
  "on_input_transcript alnum said interruptible rv s a =
     (if str_trim said = [] \<or> \<not> rv_candidate_known rv then (s, a)
      else (let (release, s, a) = prepare_input_transcript alnum interruptible rv s a
            in if \<not> release then (s, a)
               else if rv_sent rv then (clear_thinking_debt s, a)
               else (s, mark_recovery_prompted (rv_clk rv) (Some (rv_briefing rv)) a)))"

definition record_live_usage :: "room_view \<Rightarrow> activity \<Rightarrow> activity" where
  "record_live_usage rv a =
     (case rv_usage rv of None \<Rightarrow> a
      | Some (by_tool, prompt) \<Rightarrow>
          a\<lparr>ac_tokens := observe_prompt_tokens (rv_compression rv) prompt
              (if by_tool then mark_tool_usage (ac_tokens a) else ac_tokens a)\<rparr>)"

definition deliver_event ::
  "(string \<Rightarrow> bool) \<Rightarrow> gemini_event \<Rightarrow> interruptible \<Rightarrow> reply_debt option \<Rightarrow> room_view \<Rightarrow> runtime_state \<Rightarrow> activity
     \<Rightarrow> runtime_state \<times> activity" where
  "deliver_event alnum event interruptible owed rv s a =
     (case event of
        ToolCalls calls \<Rightarrow> on_tool_calls calls rv s a
      | InputTranscript said \<Rightarrow> on_input_transcript alnum said interruptible rv s a
      | AudioChunk bytes \<Rightarrow> (s, on_generated_audio interruptible rv a)
      | UsageRecorded \<Rightarrow> (s, record_live_usage rv a)
      | TurnComplete \<Rightarrow> on_turn_complete rv s (pad_reply_tail rv a)
      | Interrupted \<Rightarrow> on_interruption interruptible owed rv s a
      | _ \<Rightarrow> (s, a))"

text \<open>An event that was not accepted: dropped output, or the end of a turn cut off before.\<close>

definition refuse_event ::
  "gemini_event \<Rightarrow> bool \<Rightarrow> bool \<Rightarrow> room_view \<Rightarrow> runtime_state \<Rightarrow> activity \<Rightarrow> runtime_state \<times> activity" where
  "refuse_event event discarding held rv s a =
     (if is_output event \<and> (discarding \<or> held) then drop_output s a
      else if event = TurnComplete then settle_hold_at_turn_end (rv_clk rv) (rv_receipt rv) s a
      else (s, a))"

definition ask_what_is_due :: "bool \<Rightarrow> room_view \<Rightarrow> runtime_state \<Rightarrow> activity \<Rightarrow> activity" where
  "ask_what_is_due unvoiced rv s a =
     (let (due, a) = claim_thinking_reply s a;
          a = (if due then mark_prompted (rv_clk rv) (Some (rv_reply_prompt rv)) False a else a)
      in if unvoiced \<and> \<not> due \<and> \<not> rs_end_requested s \<and> \<not> rs_ended s \<and> \<not> interviewer_silenced s
            \<and> \<not> incoming_speech_active (rv_clk rv) a
         then mark_recovery_prompted (rv_clk rv) (Some (rv_reply_prompt rv)) a else a)"

definition handle_gemini_event ::
  "(string \<Rightarrow> bool) \<Rightarrow> gemini_event \<Rightarrow> interruptible \<Rightarrow> room_view \<Rightarrow> runtime_state \<Rightarrow> activity \<Rightarrow> runtime_state \<times> activity" where
  "handle_gemini_event alnum event interruptible rv s a =
     (case event of
        CandidateVoice active \<Rightarrow>
          (s, if rv_has_audio rv then note_candidate_voice_activity active (rv_now rv) a else a)
      | _ \<Rightarrow>
          (let unvoiced = (event = TurnComplete \<and> answered_without_speaking a);
               a = (if event = TurnComplete
                    then a\<lparr>ac_tokens := observe_turn_complete (rv_compression rv) (ac_tokens a)\<rparr> else a);
               held = interviewer_silenced s;
               discarding = so_discarding (ac_socket a);
               (accepted, owed, a) = accept_event_with_reply_debt event held (rv_now rv) a;
               (s, a) = (if accepted then deliver_event alnum event interruptible owed rv s a
                         else refuse_event event discarding held rv s a)
           in (s, ask_what_is_due unvoiced rv s a)))"

end
