(* ===== verification/Turn_Run.thy ===== *)
theory Turn_Run
  imports Turn_Events
begin

text \<open>
  The turns of a whole room: a packet's hold (\<open>settle_hold\<close> of \<open>src/src/livekit/packets.rs\<close>), the rules of a
  restart (\<open>livekit/restart.rs\<close>), the hand-over to another socket (\<open>livekit/replacement.rs\<close>,
  \<open>livekit/recovery.rs\<close>), the watch tick (\<open>src/src/livekit.rs\<close>), and sequences of them.
\<close>

section \<open>A hold\<close>

record hold_view =
  ho_at :: nat
  ho_clk :: nat
  ho_receipt :: nat
  ho_grace :: nat
  ho_turn_open :: bool
  ho_flushed :: bool
  ho_context_sent :: bool
  ho_stream_ended :: bool
  ho_held_sent :: bool
  ho_reply_sent :: bool
  ho_words :: "utterance list \<Rightarrow> string"

text \<open>
  Finalizing the candidate's turn: the buffered audio goes, an open turn takes the prompt as context, and
  the stream ends.  Any of the writes can fail, and then the reply is owed.
\<close>

definition finalize_turn ::
  "hold_view \<Rightarrow> string option \<Rightarrow> runtime_state \<Rightarrow> activity \<Rightarrow> string option \<times> runtime_state \<times> activity" where
  "finalize_turn h reply s a =
     (let failed = (\<lambda>s a. (None, s, mark_recovery_prompted (ho_at h) reply a));
          finish = (\<lambda>r s a. if ho_stream_ended h then (r, s, a) else failed s a)
      in if \<not> ho_flushed h then failed s a
         else case (ho_turn_open h, reply) of
           (True, Some prompt) \<Rightarrow>
             if \<not> ho_context_sent h then failed s a
             else (let a = defer_thinking_reply (ho_clk h) prompt a;
                       a = (if so_discarding (ac_socket a) then a else arm_thinking_reply_fallback (ho_at h) prompt a)
                   in finish None (clear_thinking_debt s) a)
         | _ \<Rightarrow> finish reply s a)"

definition begin_hold :: "hold_view \<Rightarrow> runtime_state \<Rightarrow> activity \<Rightarrow> runtime_state \<times> activity" where
  "begin_hold h s a =
     (let a = ignore_input_before_hold (ho_at h) (ho_grace h) (clear_candidate_voice_activity a);
          had_floor = (ac_floor a \<noteq> Listening)
      in (if had_floor then s\<lparr>rs_thinking := (rs_thinking s)\<lparr>th_unheard_reply := True\<rparr>\<rparr> else s,
          cut_off_for_hold (ho_clk h) (ho_clk h) a))"

definition settle_hold ::
  "hold_view \<Rightarrow> event_result \<Rightarrow> string option \<Rightarrow> runtime_state \<Rightarrow> activity \<Rightarrow> string option \<times> runtime_state \<times> activity" where
  "settle_hold h result reply s a =
     (let (s, a) = (if er_thinking_changed result = Some True then begin_hold h s a else (s, a));
          a = (if er_thinking_changed result = Some False then resume_reply_wait (ho_at h) a else a)
      in if \<not> (er_yield_turn result \<or> (er_thinking_changed result = Some False \<and> reply \<noteq> None)) then (reply, s, a)
         else finalize_turn h reply s (clear_candidate_voice_activity a))"

section \<open>Restarts\<close>

definition GEMINI_RESTART_LIMIT :: nat where "GEMINI_RESTART_LIMIT = 8"
definition HEALTHY_GEMINI_SOCKET :: nat where "HEALTHY_GEMINI_SOCKET = 60 * nanos_per_s"

definition take_restart_attempt :: "nat \<Rightarrow> nat \<Rightarrow> bool \<times> nat" where
  "take_restart_attempt socket_age restarts =
     (let restarts = (if socket_age \<ge> HEALTHY_GEMINI_SOCKET then 0 else restarts)
      in if restarts \<ge> GEMINI_RESTART_LIMIT then (False, restarts) else (True, Suc restarts))"

record resume_recovery =
  re_resumed :: bool
  re_suppressed :: bool

definition allow_resume :: "nat \<Rightarrow> resume_recovery \<Rightarrow> bool \<times> resume_recovery" where
  "allow_resume age r =
     (let r = (if age \<ge> HEALTHY_GEMINI_SOCKET then r\<lparr>re_suppressed := False\<rparr>
               else if re_resumed r then r\<lparr>re_suppressed := True\<rparr> else r)
      in (\<not> re_suppressed r, r))"

definition resume_connected :: "bool \<Rightarrow> resume_recovery \<Rightarrow> resume_recovery" where
  "resume_connected resumed r = r\<lparr>re_resumed := resumed\<rparr>"

definition completed_live_reply :: "activity \<Rightarrow> gemini_event \<Rightarrow> bool" where
  "completed_live_reply a event \<longleftrightarrow> event = TurnComplete \<and> ge_generating (ac_gen a) \<and> \<not> so_discarding (ac_socket a)"

definition note_recovery_event ::
  "activity \<Rightarrow> gemini_event \<Rightarrow> runtime_state \<Rightarrow> nat \<Rightarrow> resume_recovery \<Rightarrow> runtime_state \<times> nat \<times> resume_recovery" where
  "note_recovery_event a event s restarts r =
     (if ends_turn event \<and> th_recovery_reply_pending (rs_thinking s)
      then (s\<lparr>rs_thinking := (rs_thinking s)\<lparr>th_recovery_reply_pending := False\<rparr>\<rparr>, restarts, r)
      else if completed_live_reply a event then (s, 0, r\<lparr>re_suppressed := False\<rparr>)
      else (s, restarts, r))"

text \<open>The held half of a \<open>GoAway\<close> is a flag.\<close>

definition can_spend :: "activity \<Rightarrow> nat \<Rightarrow> bool \<Rightarrow> bool" where
  "can_spend a now armed \<longleftrightarrow> armed \<and> \<not> incoming_speech_active now a"

definition handoff_due :: "activity \<Rightarrow> nat \<Rightarrow> bool \<Rightarrow> bool" where
  "handoff_due a now armed \<longleftrightarrow> armed \<and> vo_active (ac_voice a) \<and> \<not> candidate_transcription_pending now a"

definition watch_due :: "activity \<Rightarrow> bool \<Rightarrow> nat \<Rightarrow> bool \<Rightarrow> bool" where
  "watch_due a stalled now armed \<longleftrightarrow> handoff_due a now armed
     \<or> (can_spend a now armed \<and> (stalled \<or> vo_active (ac_voice a) \<or> candidate_voice_ended a))"

definition take_if_due :: "floor_holder \<Rightarrow> bool \<Rightarrow> bool \<Rightarrow> bool \<Rightarrow> bool \<times> bool" where
  "take_if_due floor_now audio_playing tool_owed armed =
     (if \<not> armed \<or> tool_owed \<or> \<not> output_settled floor_now audio_playing then (False, armed) else (True, False))"

definition request_restart :: "floor_holder \<Rightarrow> bool \<Rightarrow> bool \<Rightarrow> bool \<Rightarrow> bool \<Rightarrow> bool \<times> bool" where
  "request_restart floor_now audio_playing reply_pending tool_owed armed =
     (if reply_pending then (False, True) else take_if_due floor_now audio_playing tool_owed True)"

definition take_if_settled :: "activity \<Rightarrow> bool \<Rightarrow> nat \<Rightarrow> bool \<Rightarrow> bool \<times> bool" where
  "take_if_settled a audio_playing now armed =
     (if candidate_transcription_pending now a then (False, armed)
      else take_if_due (ac_floor a) audio_playing (so_tool_outstanding (ac_socket a)) armed)"

definition replaced_socket_age :: "nat \<Rightarrow> bool \<Rightarrow> activity \<Rightarrow> nat" where
  "replaced_socket_age age reply_timed a = (if reply_timed \<or> reply_unfinished a then 0 else age)"

text \<open>What spending a held advisory does: a speech hand-off, an ordinary replacement, or nothing yet.\<close>

datatype spend = SpeechHandoff | OrdinaryReplacement | NotYet

definition spend_deferred_restart :: "activity \<Rightarrow> bool \<Rightarrow> nat \<Rightarrow> bool \<Rightarrow> spend \<times> bool" where
  "spend_deferred_restart a audio_playing now armed =
     (if handoff_due a now armed \<and> output_settled (ac_floor a) audio_playing \<and> \<not> so_tool_outstanding (ac_socket a)
      then (SpeechHandoff, armed)
      else if \<not> can_spend a now armed then (NotYet, armed)
      else (let (taken, armed) = take_if_settled a audio_playing now armed
            in (if taken then OrdinaryReplacement else NotYet, armed)))"

section \<open>Another socket\<close>

definition clear_abandoned_socket_work :: "runtime_state \<Rightarrow> activity \<Rightarrow> runtime_state \<times> activity" where
  "clear_abandoned_socket_work s a =
     (let s = s\<lparr>rs_thinking := (rs_thinking s)\<lparr>th_recovery_reply_pending := False\<rparr>\<rparr>;
          s = snd (withdraw_thinking_request s)
      in (s\<lparr>rs_end_requested := False\<rparr>, a\<lparr>ac_socket := socket_work_default\<rparr>))"

definition hand_over ::
  "nat \<Rightarrow> runtime_state \<Rightarrow> activity \<Rightarrow> bool \<times> string option \<times> runtime_state \<times> activity" where
  "hand_over clk s a =
     (let owed_prompt = (if owes_prompt a then pr_text (ac_prompt a) else None);
          owed = reply_unfinished a;
          a = cut_turn clk (a\<lparr>ac_prompt := (ac_prompt a)\<lparr>pr_text := None\<rparr>\<rparr>);
          (s, a) = clear_abandoned_socket_work s a
      in (owed, owed_prompt, s, a\<lparr>ac_shown := (ac_shown a)\<lparr>sh_evidence := None, sh_silent_editor := None\<rparr>\<rparr>))"

text \<open>The first half of a replacement, before anything is awaited.\<close>

definition retire_socket :: "nat \<Rightarrow> runtime_state \<Rightarrow> activity \<Rightarrow> runtime_state \<times> activity" where
  "retire_socket clk s a =
     (let (owed, original_prompt, s, a) = hand_over clk s a
      in (s, if owed then owe_prompt clk original_prompt a else a))"

text \<open>
  The second half: the replacement is connected and briefed.  A briefing that asks for the reply is a
  recovery prompt, one that hands speech over leaves the reply owed and armed, and one that failed leaves
  it owed.
\<close>

datatype briefing = AskedForReply | KeepsListening | ToldOnly | BriefingFailed

record connect_view =
  cv_clk :: nat
  cv_resumed :: bool
  cv_briefing :: briefing

definition brief_socket :: "connect_view \<Rightarrow> runtime_state \<Rightarrow> activity \<Rightarrow> runtime_state \<times> activity" where
  "brief_socket c s a =
     (let a = reset_context_observations (cv_resumed c) a;
          owed = reply_unfinished a;
          prompt = pr_text (ac_prompt a)
      in case cv_briefing c of
           AskedForReply \<Rightarrow>
             if interviewer_silenced s then (s, a)
             else (s\<lparr>rs_thinking := (rs_thinking s)\<lparr>th_recovery_reply_pending := True\<rparr>\<rparr>,
                   mark_recovery_prompted (cv_clk c) prompt a)
         | KeepsListening \<Rightarrow> (s, if owed then arm_handoff_reply (cv_clk c) (owe_prompt (cv_clk c) prompt a) else a)
         | ToldOnly \<Rightarrow> (s, a)
         | BriefingFailed \<Rightarrow> (s, if owed then owe_prompt (cv_clk c) prompt a else a))"

section \<open>The watch tick\<close>

datatype reply_watch = WatchSettled | WatchOwed bool | WatchRecover

definition reply_watch_of :: "runtime_state \<Rightarrow> nat \<Rightarrow> bool \<Rightarrow> activity \<Rightarrow> reply_watch" where
  "reply_watch_of s now audio_playing a =
     (if \<not> reply_unfinished a then WatchSettled
      else (let watched = (\<not> interviewer_silenced s \<and> \<not> rs_end_requested s)
            in if watched \<and> reply_timed_out now audio_playing a then WatchRecover
               else WatchOwed (watched \<and> reply_visibly_late now audio_playing a)))"

definition ready_to_close :: "runtime_state \<Rightarrow> activity \<Rightarrow> bool" where
  "ready_to_close s a \<longleftrightarrow> rs_end_requested s \<and> \<not> rs_ended s \<and> \<not> interviewer_silenced s
     \<and> \<not> so_tool_outstanding (ac_socket a)"

record tick_view =
  tv_at :: nat
  tv_clk :: nat
  tv_receipt :: nat
  tv_playing :: bool
  tv_silence :: nat
  tv_sent :: bool
  tv_prompt :: string
  tv_reviewed :: nat
  tv_review_running :: bool
  tv_judgment :: "(runtime_state \<Rightarrow> runtime_state) option"
  tv_candidate_open :: bool

datatype tick_outcome = ClosesRoom | ReplacesSocket | TicksOn

text \<open>A hand-off's reply is asked for outright once the candidate has gone quiet.\<close>

definition tick_handoff :: "tick_view \<Rightarrow> runtime_state \<Rightarrow> activity \<Rightarrow> activity" where
  "tick_handoff t s a =
     (if \<not> interviewer_silenced s \<and> \<not> rs_end_requested s
         \<and> handoff_reply_due (tv_at t) (tv_silence t) (tv_playing t) a
      then (let a = drop_handoff_reply a in if tv_sent t then renew_handoff_prompt (tv_at t) a else a)
      else a)"

text \<open>
  The judgments and reviews a tick may start, after one that returned was recorded.  A parked packet that is
  ready leaves its slot here; it is then applied like any other packet.
\<close>

definition start_judgment :: "bool \<times> activity \<Rightarrow> activity" where
  "start_judgment r = (if fst r then (snd r)\<lparr>ac_calls := (ac_calls (snd r))\<lparr>ca_judge_running := True\<rparr>\<rparr> else snd r)"

definition collect_judgment :: "tick_view \<Rightarrow> runtime_state \<Rightarrow> activity \<Rightarrow> runtime_state \<times> activity" where
  "collect_judgment t s a =
     (case tv_judgment t of None \<Rightarrow> (s, a)
      | Some record_answer \<Rightarrow> (record_answer s, a\<lparr>ac_calls := (ac_calls a)\<lparr>ca_judge_running := False\<rparr>\<rparr>))"

definition tick_calls :: "tick_view \<Rightarrow> runtime_state \<Rightarrow> activity \<Rightarrow> activity" where
  "tick_calls t s a =
     (let a = (if held_transition_needs_judgment s (tv_at t) a then start_judgment (reserve_phase_judge (tv_at t) a) else a);
          a = (if parked_transition_ready s (tv_at t) a then a\<lparr>ac_calls := (ac_calls a)\<lparr>ca_parked := None\<rparr>\<rparr> else a);
          a = (if ca_judge_running (ac_calls a) then a else start_judgment (claim_phase_judge s (tv_at t) a))
      in if tv_review_running t then a else snd (claim_interim_review (tv_reviewed t) s (tv_at t) a))"

definition maybe_refresh_context :: "tick_view \<Rightarrow> runtime_state \<Rightarrow> activity \<Rightarrow> activity" where
  "maybe_refresh_context t s a =
     (if tw_refresh_pending (ac_tokens a) \<and> checkpoint_due s (tv_playing t) (tv_candidate_open t) (tv_clk t) a \<and> tv_sent t
      then a\<lparr>ac_tokens := (ac_tokens a)\<lparr>tw_refresh_pending := False\<rparr>\<rparr> else a)"

text \<open>The prompts a hold leaves due.\<close>

definition tick_fallback :: "tick_view \<Rightarrow> runtime_state \<Rightarrow> activity \<Rightarrow> activity" where
  "tick_fallback t s a =
     (case claim_thinking_reply_fallback s (tv_at t) a of
        (None, a) \<Rightarrow> a | (Some prompt, a) \<Rightarrow> mark_prompted (tv_at t) (Some prompt) False a)"

definition tick_check_in :: "tick_view \<Rightarrow> runtime_state \<Rightarrow> activity \<Rightarrow> bool \<times> runtime_state \<times> activity" where
  "tick_check_in t s a =
     (let (due, s) = claim_thinking_check_in (tv_at t) (tv_receipt t) s
      in if due then (True, if tv_sent t then clear_thinking_debt s else s,
                      mark_prompted (tv_at t) (Some (tv_prompt t)) False a)
         else (False, s, a))"

definition tick_silent_editor :: "tick_view \<Rightarrow> runtime_state \<Rightarrow> activity \<Rightarrow> runtime_state \<times> activity" where
  "tick_silent_editor t s a =
     (if pending_silent_editor s (tv_at t) a \<noteq> None \<and> tv_sent t
      then (s\<lparr>rs_editor := (rs_editor s)\<lparr>ed_shown := ed_code (rs_editor s)\<rparr>\<rparr>, commit_silent_editor s a)
      else (s, a))"

definition send_watched_prompt :: "tick_view \<Rightarrow> watch_prompt \<Rightarrow> activity \<Rightarrow> activity" where
  "send_watched_prompt t prompt a =
     (let a = commit_watch_prompt prompt (tv_clk t) a;
          a = (if wp_behavioral_nudge prompt then a\<lparr>ac_idle := (ac_idle a)\<lparr>id_behavioral_nudged := True\<rparr>\<rparr> else a)
      in mark_prompted (tv_clk t) (Some (tv_prompt t)) (wp_allows_silence prompt) a)"

definition tick_watch_prompt :: "tick_view \<Rightarrow> runtime_state \<Rightarrow> activity \<Rightarrow> runtime_state \<times> activity" where
  "tick_watch_prompt t s a =
     (case watch_prompt_of (tv_clk t) s (tv_at t) a of
        (None, s, a) \<Rightarrow> (s, a)
      | (Some prompt, s, a) \<Rightarrow>
          if tv_sent t then (s, send_watched_prompt t prompt a) else unsend_watch_prompt s a)"

definition on_watch_tick :: "tick_view \<Rightarrow> bool \<Rightarrow> runtime_state \<Rightarrow> activity \<Rightarrow> tick_outcome \<times> bool \<times> runtime_state \<times> activity" where
  "on_watch_tick t armed s a =
     (let (stall, a) = settle_stalls (tv_clk t) (tv_at t) (tv_playing t) a
      in if ready_to_close s a then (ClosesRoom, armed, s, a)
         else (let a = tick_handoff t s a
               in if reply_watch_of s (tv_at t) (tv_playing t) a = WatchRecover then (ReplacesSocket, False, s, a)
                  else (let (spent, armed) = (if watch_due a (st_spend_restart stall) (tv_at t) armed
                              then spend_deferred_restart a (tv_playing t) (tv_clk t) armed else (NotYet, armed))
                        in if spent \<noteq> NotYet then (ReplacesSocket, armed, s, a)
                           else (let watch = reply_watch_of s (tv_at t) (tv_playing t) a;
                                     (s, a) = collect_judgment t s a;
                                     a = tick_calls t s a;
                                     (s, a) = settle_stale_hold (tv_at t) (tv_receipt t) s a;
                                     a = tick_fallback t s a;
                                     (checked_in, s, a) = tick_check_in t s a
                                 in if checked_in then (TicksOn, armed, s, a)
                                    else (let (s, a) = tick_silent_editor t s (maybe_refresh_context t s a)
                                          in if watch \<noteq> WatchSettled then (TicksOn, armed, s, a)
                                             else (case tick_watch_prompt t s a of
                                                     (s, a) \<Rightarrow> (TicksOn, armed, s, a)))))))"

section \<open>A room\<close>

text \<open>
  The room owns the interview, the activity, the restarts spent, the held advisory and the recovery of
  resumptions.  What reaches it: an event of the model, a voiced frame, a drained queue, a packet of the page
  or the server, a prompt of the room itself, an edit, a parked packet, a judgment a transition asked for, a
  tick, an advisory of the server, and the two halves of a replacement.
\<close>

record room =
  rm_state :: runtime_state
  rm_activity :: activity
  rm_restarts :: nat
  rm_armed :: bool
  rm_recovery :: resume_recovery

datatype room_event =
    RoomHears gemini_event interruptible room_view
  | RoomVoiced bool bool nat
  | RoomDrained nat bool
  | RoomPacket topic json bool hold_view
  | RoomPrompts nat "string option" bool
  | RoomEdited nat
  | RoomParks parked_packet
  | RoomReserves nat
  | RoomTicks tick_view
  | RoomAdvised nat bool
  | RoomRetires nat nat bool
  | RoomConnects connect_view

definition with_turns :: "runtime_state \<times> activity \<Rightarrow> room \<Rightarrow> room" where
  "with_turns r rm = rm\<lparr>rm_state := fst r, rm_activity := snd r\<rparr>"

definition stamp_result :: "nat \<Rightarrow> event_result \<Rightarrow> activity \<Rightarrow> activity" where
  "stamp_result clk result a =
     (let i = ac_idle a;
          i = (if er_code_change result then i\<lparr>id_code_change := clk\<rparr> else i);
          i = (if er_test_reaction result then i\<lparr>id_test_reaction := clk\<rparr> else i);
          i = (if er_interjection result then i\<lparr>id_interjection := clk\<rparr> else i)
      in a\<lparr>ac_idle := i\<rparr>)"

text \<open>The reply of a packet, when it goes out: one that carried a hold's debt is owed even when it does not.\<close>

definition send_reply ::
  "hold_view \<Rightarrow> event_result \<Rightarrow> bool \<Rightarrow> string \<Rightarrow> runtime_state \<Rightarrow> activity \<Rightarrow> bool \<times> runtime_state \<times> activity" where
  "send_reply h result delivered prompt s a =
     (if ho_reply_sent h
      then (True, if er_carries_debt result then clear_thinking_debt s else s,
            mark_prompted (ho_clk h) (Some prompt) False a)
      else (delivered, s,
            if er_carries_debt result then mark_prompted (ho_clk h) (Some prompt) False a else a))"

definition room_packet ::
  "outside \<Rightarrow> topic \<Rightarrow> json \<Rightarrow> bool \<Rightarrow> hold_view \<Rightarrow> runtime_state \<Rightarrow> activity \<Rightarrow> runtime_state \<times> activity" where
  "room_packet ou topic payload received h s a =
     (let was_requested = hold_is_requested (th_hold (rs_thinking s));
          (result, t) = apply_event ou (ho_at h) (ho_receipt h)
             ((ho_at h - id_test_reaction (ac_idle a)) div nanos_per_ms) received topic payload s;
          a = observe_candidate_work t (co_revision (lg_code (rs_ledger s))) (ru_count (rs_runs s)) a;
          a = settle_thinking_request was_requested t result (stamp_result (ho_clk h) result a);
          (reply, t, a) = settle_hold h result (map_option (ho_words h) (er_reply result)) t a;
          delivered = (er_held_context result \<noteq> None \<and> ho_held_sent h);
          (delivered, t, a) = (case reply of None \<Rightarrow> (delivered, t, a)
                               | Some prompt \<Rightarrow> send_reply h result delivered prompt t a)
      in (settle_earlier_steps delivered t, a))"

fun room_step :: "outside \<Rightarrow> room_event \<Rightarrow> room \<Rightarrow> room" where
  "room_step ou (RoomHears event interruptible rv) rm =
     (let (s, restarts, recovery) =
            note_recovery_event (rm_activity rm) event (rm_state rm) (rm_restarts rm) (rm_recovery rm)
      in with_turns (handle_gemini_event (ou_alphanumeric ou) event interruptible rv s (rm_activity rm))
           (rm\<lparr>rm_restarts := restarts, rm_recovery := recovery\<rparr>))"
| "room_step ou (RoomVoiced compressed voiced now) rm =
     rm\<lparr>rm_activity := note_candidate_audio_frame compressed voiced now (rm_activity rm)\<rparr>"
| "room_step ou (RoomDrained clk playing) rm =
     (if playing then rm else rm\<lparr>rm_activity := mark_listening clk (rm_activity rm)\<rparr>)"
| "room_step ou (RoomPacket topic payload received h) rm =
     with_turns (room_packet ou topic payload received h (rm_state rm) (rm_activity rm)) rm"
| "room_step ou (RoomPrompts now said allows_silence) rm =
     rm\<lparr>rm_activity := mark_prompted now said allows_silence (rm_activity rm)\<rparr>"
| "room_step ou (RoomEdited now) rm =
     rm\<lparr>rm_activity := (rm_activity rm)\<lparr>ac_idle := (ac_idle (rm_activity rm))\<lparr>id_code_change := now\<rparr>\<rparr>\<rparr>"
| "room_step ou (RoomParks packet) rm =
     rm\<lparr>rm_activity := (rm_activity rm)\<lparr>ac_calls := (ac_calls (rm_activity rm))\<lparr>ca_parked := Some packet\<rparr>\<rparr>\<rparr>"
| "room_step ou (RoomReserves now) rm =
     rm\<lparr>rm_activity := start_judgment (reserve_phase_judge now (rm_activity rm))\<rparr>"
| "room_step ou (RoomTicks t) rm =
     (let (outcome, armed, s, a) = on_watch_tick t (rm_armed rm) (rm_state rm) (rm_activity rm)
      in with_turns (s, a) (rm\<lparr>rm_armed := armed\<rparr>))"
| "room_step ou (RoomAdvised now playing) rm =
     (let a = rm_activity rm
      in rm\<lparr>rm_armed := snd (request_restart (ac_floor a) playing
            (reply_in_flight a \<or> vo_active (ac_voice a) \<or> candidate_transcription_pending now a)
            (so_tool_outstanding (ac_socket a)) (rm_armed rm))\<rparr>)"
| "room_step ou (RoomRetires clk age reply_timed) rm =
     (let (s, a) = retire_socket clk (rm_state rm) (rm_activity rm);
          (taken, restarts) = take_restart_attempt
            (replaced_socket_age age (reply_timed \<or> reply_unfinished (rm_activity rm)) a) (rm_restarts rm)
      in with_turns (s, a) (rm\<lparr>rm_restarts := restarts, rm_armed := False,
           rm_recovery := (if taken then snd (allow_resume age (rm_recovery rm)) else rm_recovery rm)\<rparr>))"
| "room_step ou (RoomConnects c) rm =
     with_turns (brief_socket c (rm_state rm) (rm_activity rm))
       (rm\<lparr>rm_recovery := resume_connected (cv_resumed c) (rm_recovery rm)\<rparr>)"

definition room_new :: "nat \<Rightarrow> nat \<Rightarrow> nat \<Rightarrow> nat \<Rightarrow> runtime_state \<Rightarrow> room" where
  "room_new now max_interim_reviews reply_timeout first_output s =
     \<lparr>rm_state = s,
      rm_activity = with_first_output_deadline first_output (with_reply_timeout reply_timeout
        (activity_new now max_interim_reviews)),
      rm_restarts = 0, rm_armed = False, rm_recovery = \<lparr>re_resumed = False, re_suppressed = False\<rparr>\<rparr>"

definition room_run :: "outside \<Rightarrow> room_event list \<Rightarrow> room \<Rightarrow> room" where
  "room_run ou events rm = fold (room_step ou) events rm"

end
