(* ===== verification/Spec2Isabelle.thy ===== *)
theory Spec2Isabelle
  imports Transcript Calendar Task_Access_Examples Task_Report_Correct Report_Properties Report_Text
    Report_Salvage Report_Schema Floor Ledger_Properties Code_Change_Correct Timer
    Integrity_Correct Material Interview_Properties Turn_Run
begin

text \<open>
  A verification library for codetrial, a server that holds spoken coding interviews and guided
  exercises (the Rust crate under \<open>src/src\<close>).  A browser page and a speech model take part over a
  LiveKit room; the server owns what was said, written and run, decides when an attempt ends, and
  asks a model for a report it then validates.  The library models that server-owned logic and
  proves what it promises.

  \<^bold>\<open>Theories, and the code they model\<close>

  \<^item> \<open>Prelude\<close>: what all theories share: \<open>BTreeMap\<close> as an ordered association list behind the locale
    \<open>ordered_map\<close>, saturating 64-bit arithmetic, decimal numbers, and three locales for machines:
    \<open>guarded_system\<close> (an invariant), \<open>history_system\<close> (what is never undone) and \<open>emitting_system\<close>
    (what every report of a machine satisfies).
  \<^item> \<open>Text\<close>, \<open>Json\<close>: the part of \<open>str\<close>, \<open>char\<close> and \<open>serde_json::Value\<close> that the code uses.
  \<^item> \<open>Transcript\<close>: \<open>agent/transcript.rs\<close> and \<open>agent/value.rs\<close>.  \<open>Calendar\<close>: \<open>rfc3339\<close> of \<open>delivery.rs\<close>.
  \<^item> \<open>Task_Exercise\<close>: \<open>tasks/mod.rs\<close> and \<open>tasks/exercise.rs\<close>, the task given to a learner and its
    prompt.  \<open>Task_Session\<close>: \<open>tasks/session.rs\<close>, one attempt at it, every method of \<open>Session\<close> a
    function on the record \<open>task_session\<close>.  \<open>Task_Session_Store\<close>, \<open>Task_Session_Moves\<close> and
    \<open>Task_Session_Correct\<close> prove that each operation keeps \<open>session_ok\<close> and the relation \<open>past\<close>;
    \<open>Task_Session_Properties\<close> states the properties of all runs \<open>session_run_of\<close>.
  \<^item> \<open>Task_Report\<close>, \<open>Task_Report_Correct\<close>: \<open>tasks/report.rs\<close>, the learning review, read against the
    session it reviews.
  \<^item> \<open>Task_Access\<close>, \<open>Task_Access_Correct\<close>: \<open>tasks/access.rs\<close> with the set rules of \<open>tasks/package.rs\<close>:
    which learner may start what, and which results are kept for how long.
  \<^item> \<open>Judgments\<close>: \<open>refused_judgments\<close> and its rules in \<open>agent/report.rs\<close>, which both kinds of report
    use.  \<open>Report\<close>: the rest of \<open>agent/report.rs\<close> and the salvage of \<open>gemini/report_calls.rs\<close>.
    \<open>Report_Checks\<close> gives each validator as a condition (the collection \<open>accepts\<close>);
    \<open>Report_Correct\<close>, \<open>Report_Properties\<close>, \<open>Report_Text\<close>, \<open>Report_Salvage\<close> and \<open>Report_Schema\<close> prove
    what holds of an accepted report, of the texts in it, of a salvaged one, and of the schema.
  \<^item> \<open>Floor\<close>: \<open>livekit/floor.rs\<close>, the observations of who holds the floor.
  \<^item> \<open>Task_Example\<close>, \<open>Task_Access_Examples\<close>, \<open>Report_Example\<close>: concrete data for the witnesses.

  \<^bold>\<open>How the model corresponds to the code\<close>

  A struct is a \<open>record\<close> with its fields in order, an enum a \<open>datatype\<close>, a method with \<open>&mut self\<close> a
  function that returns the new record beside its result, \<open>Result\<close> a sum and \<open>Option\<close> an option.
  Early returns are branches.  A \<open>str\<close> is its list of bytes, so that lengths are the code's.  Counters
  that the code saturates are saturated; others count in \<open>nat\<close>, since they grow by one per event.

  \<^bold>\<open>Parameters\<close>, for what is not under \<open>src\<close> or is a table of Unicode data: \<open>alphabetic\<close>, \<open>alphanumeric\<close>
  and \<open>lower\<close> (\<open>char\<close> methods), \<open>sha\<close> (the hash of a text), \<open>codec\<close> (the JSON decoding serde derives),
  \<open>chrono\<close> (parsing of timestamps), \<open>fmt\<close> (printing of numbers) and the task of the built-in set.  No
  property assumes more of them than its statement shows.

  \<^bold>\<open>Bounds and fuel\<close>.  Loops are structural recursions over the list they walk.  \<open>conforms\<close> walks the
  response schema to depth 6, and the schema is 5 deep.  Nothing else has fuel.

  \<^bold>\<open>Not modelled\<close>

  \<^item> The room (\<open>livekit.rs\<close>, \<open>livekit/session.rs\<close>, \<open>turn.rs\<close>, \<open>recovery.rs\<close> and their neighbours): tasks
    that await sockets and timers.  Of these only the pure observers are modelled so far.
  \<^item> The interview runtime (\<open>agent.rs\<close>, \<open>agent/evidence.rs\<close>, \<open>framework.rs\<close>, \<open>events.rs\<close>, \<open>integrity.rs\<close>,
    \<open>phase_judge.rs\<close>, \<open>code_work.rs\<close>) and its prompts: pure, and next in the plan.
  \<^item> Provider calls, the web server, SQLite accounts, recording storage, LiveKit tokens: I/O around
    libraries.  Problem tables are generated data.
\<close>

end
